(* ===== verification/Prelude.thy ===== *)
theory Prelude
  imports Main "HOL-Library.Sublist"
begin

text \<open>
  Shared vocabulary of the development: results with errors as values, the
  64-bit integers of the code, tables as lists of rows with the SQL statements
  that act on them, and the generic facts the component theories reuse.
\<close>

section \<open>Collections of facts\<close>

named_theorems go_text \<open>facts on the strings of the code\<close>
named_theorems row_keys \<open>which key columns an update of a row keeps\<close>
named_theorems frames \<open>which tables or fields an operation leaves alone\<close>

section \<open>64-bit integers\<close>

text \<open>
  Terms, log indices and ranks are Go \<open>int64\<close> / \<open>int\<close> values. They are
  integers here; the one arithmetic operation the code applies to them without
  a guard is \<open>+ 1\<close>, which wraps at the top of the range.
\<close>

definition max64 :: int where
  "max64 = 9223372036854775807"

definition min64 :: int where
  "min64 = - 9223372036854775808"

definition is_int64 :: "int \<Rightarrow> bool" where
  "is_int64 x \<longleftrightarrow> min64 \<le> x \<and> x \<le> max64"

definition inc64 :: "int \<Rightarrow> int" where
  "inc64 x = (if x = max64 then min64 else x + 1)"

lemma inc64_below: "x < max64 \<Longrightarrow> inc64 x = x + 1"
  by (simp add: inc64_def)

lemma is_int64_inc64: "is_int64 x \<Longrightarrow> is_int64 (inc64 x)"
  by (auto simp: is_int64_def inc64_def max64_def min64_def)

lemma inc64_cases: "x \<le> max64 \<Longrightarrow> inc64 x = x + 1 \<or> inc64 x < 0"
  by (auto simp: inc64_def max64_def min64_def)

section \<open>Tables\<close>

text \<open>
  A SQL table is the list of its rows in insertion order. \<open>SELECT \<dots> LIMIT 1\<close>
  is \<^const>\<open>find\<close>, \<open>DELETE\<close> is \<^const>\<open>filter\<close>, and \<open>UPDATE\<close> maps the rows
  that match.
\<close>

definition update_where :: "('r \<Rightarrow> bool) \<Rightarrow> ('r \<Rightarrow> 'r) \<Rightarrow> 'r list \<Rightarrow> 'r list" where
  "update_where P f rows = map (\<lambda>r. if P r then f r else r) rows"

definition delete_where :: "('r \<Rightarrow> bool) \<Rightarrow> 'r list \<Rightarrow> 'r list" where
  "delete_where P rows = filter (\<lambda>r. \<not> P r) rows"

definition unique_on :: "('r \<Rightarrow> 'k) \<Rightarrow> 'r list \<Rightarrow> bool" where
  "unique_on key rows \<longleftrightarrow> distinct (map key rows)"

text \<open>\<open>taken key k rows\<close>: an \<open>INSERT\<close> with key \<open>k\<close> violates the constraint.\<close>

definition taken :: "('r \<Rightarrow> 'k) \<Rightarrow> 'k \<Rightarrow> 'r list \<Rightarrow> bool" where
  "taken key k rows \<longleftrightarrow> k \<in> key ` set rows"

lemma taken_code [code]: "taken key k rows = list_ex (\<lambda>r. key r = k) rows"
  by (auto simp: taken_def list_ex_iff)

lemma taken_Nil [simp]: "\<not> taken key k []"
  by (simp add: taken_def)

lemma taken_Cons [simp]: "taken key k (r # rows) \<longleftrightarrow> key r = k \<or> taken key k rows"
  by (auto simp: taken_def)

lemma taken_append [simp]: "taken key k (xs @ ys) \<longleftrightarrow> taken key k xs \<or> taken key k ys"
  by (auto simp: taken_def)

lemma unique_on_Nil [simp]: "unique_on key []"
  by (simp add: unique_on_def)

lemma unique_on_snoc [simp]:
  "unique_on key (rows @ [r]) \<longleftrightarrow> unique_on key rows \<and> \<not> taken key (key r) rows"
  by (auto simp: unique_on_def taken_def)

lemma unique_on_filter: "unique_on key rows \<Longrightarrow> unique_on key (filter P rows)"
  by (simp add: unique_on_def distinct_map_filter)

lemma unique_on_delete: "unique_on key rows \<Longrightarrow> unique_on key (delete_where P rows)"
  by (simp add: delete_where_def unique_on_filter)

lemma update_where_Nil [simp]: "update_where P f [] = []"
  by (simp add: update_where_def)

lemma update_where_Cons [simp]:
  "update_where P f (r # rows) = (if P r then f r else r) # update_where P f rows"
  by (simp add: update_where_def)

lemma delete_where_Nil [simp]: "delete_where P [] = []"
  by (simp add: delete_where_def)

lemma delete_where_Cons [simp]:
  "delete_where P (r # rows) = (if P r then delete_where P rows else r # delete_where P rows)"
  by (simp add: delete_where_def)

lemma set_delete_where [simp]: "set (delete_where P rows) = {r \<in> set rows. \<not> P r}"
  by (auto simp: delete_where_def)

lemma set_update_where:
  "set (update_where P f rows) = f ` {r \<in> set rows. P r} \<union> {r \<in> set rows. \<not> P r}"
  by (auto simp: update_where_def)

lemma map_update_where:
  assumes "\<And>r. r \<in> set rows \<Longrightarrow> P r \<Longrightarrow> key (f r) = key r"
  shows "map key (update_where P f rows) = map key rows"
  using assms by (auto simp: update_where_def)

lemma unique_on_update:
  assumes "\<And>r. key (f r) = key r"
  shows "unique_on key (update_where P f rows) = unique_on key rows"
  by (simp add: unique_on_def map_update_where assms)

lemma taken_update:
  assumes "\<And>r. key (f r) = key r"
  shows "taken key k (update_where P f rows) = taken key k rows"
  by (simp add: taken_def map_update_where assms flip: set_map)

lemma update_where_none: "\<forall>r \<in> set rows. \<not> P r \<Longrightarrow> update_where P f rows = rows"
  by (induction rows) auto

lemma delete_where_none: "\<forall>r \<in> set rows. \<not> P r \<Longrightarrow> delete_where P rows = rows"
  by (induction rows) auto

text \<open>On a column with a uniqueness constraint \<open>SELECT\<close> finds the one row there is.\<close>

lemma find_Some_in: "find P xs = Some x \<Longrightarrow> x \<in> set xs \<and> P x"
  by (induction xs) (auto split: if_splits)

lemma find_None_iff_all: "find P xs = None \<longleftrightarrow> (\<forall>x \<in> set xs. \<not> P x)"
  by (induction xs) auto

lemma find_unique:
  assumes "unique_on key rows" and "r \<in> set rows" and "key r = k"
  shows "find (\<lambda>r. key r = k) rows = Some r"
  using assms
proof (induction rows)
  case Nil
  then show ?case by simp
next
  case (Cons s rows)
  show ?case
  proof (cases "key s = k")
    case True
    with Cons.prems have "s = r" by (auto simp: unique_on_def rev_image_eqI)
    with True show ?thesis by simp
  next
    case False
    with Cons show ?thesis by (auto simp: unique_on_def)
  qed
qed

lemma find_none_not_taken: "find (\<lambda>r. key r = k) rows = None \<longleftrightarrow> \<not> taken key k rows"
  by (auto simp: find_None_iff_all taken_def)

lemma find_append:
  "find P (xs @ ys) = (case find P xs of None \<Rightarrow> find P ys | Some x \<Rightarrow> Some x)"
  by (induction xs) auto

section \<open>Actions that keep an invariant\<close>

text \<open>
  An operation on a state, indexed by its input, that keeps an invariant: so
  does every sequence of such operations. Components interpret this on their
  own operations.
\<close>

locale preserved =
  fixes act :: "'i \<Rightarrow> 's \<Rightarrow> 's"
    and inv :: "'s \<Rightarrow> bool"
  assumes act_inv: "inv s \<Longrightarrow> inv (act i s)"
begin

lemma run_inv: "inv s \<Longrightarrow> inv (fold act is s)"
  by (induction "is" arbitrary: s) (auto intro: act_inv)

lemma run_prefix_inv: "inv s \<Longrightarrow> prefix js is \<Longrightarrow> inv (fold act js s)"
  by (rule run_inv)

end

end
