(* ===== verification/GoText.thy ===== *)
theory GoText
  imports Prelude
begin

text \<open>
  The strings of the code and the functions of Go's \<open>strings\<close>, \<open>strconv\<close> and
  \<open>fmt\<close> packages it calls. A string is its list of bytes. White space and letter
  case are those of ASCII; a byte from 128 up is part of a multi-byte character,
  which these functions copy.
\<close>

section \<open>Package strings\<close>

definition byte_of :: "char \<Rightarrow> nat" where
  "byte_of c = of_char c"

definition is_space :: "char \<Rightarrow> bool" where
  "is_space c \<longleftrightarrow> byte_of c \<in> {9, 10, 11, 12, 13, 32}"

definition TrimSpace :: "string \<Rightarrow> string" where
  "TrimSpace s = rev (dropWhile is_space (rev (dropWhile is_space s)))"

definition lower_char :: "char \<Rightarrow> char" where
  "lower_char c = (if 65 \<le> byte_of c \<and> byte_of c \<le> 90 then char_of (byte_of c + 32) else c)"

definition ToLower :: "string \<Rightarrow> string" where
  "ToLower s = map lower_char s"

fun HasPrefix :: "string \<Rightarrow> string \<Rightarrow> bool" where
  "HasPrefix s [] = True"
| "HasPrefix [] (p # ps) = False"
| "HasPrefix (c # cs) (p # ps) = (c = p \<and> HasPrefix cs ps)"

fun Contains :: "string \<Rightarrow> string \<Rightarrow> bool" where
  "Contains [] sub = (sub = [])"
| "Contains (c # cs) sub = (HasPrefix (c # cs) sub \<or> Contains cs sub)"

definition TrimPrefix :: "string \<Rightarrow> string \<Rightarrow> string" where
  "TrimPrefix s p = (if HasPrefix s p then drop (length p) s else s)"

fun SplitOn :: "char \<Rightarrow> string \<Rightarrow> string list" where
  "SplitOn d [] = [[]]"
| "SplitOn d (c # cs) =
     (if c = d then [] # SplitOn d cs
      else (case SplitOn d cs of [] \<Rightarrow> [[c]] | w # ws \<Rightarrow> (c # w) # ws))"

definition blank :: "string \<Rightarrow> bool" where
  "blank s \<longleftrightarrow> TrimSpace s = []"

lemma TrimSpace_Nil [simp, go_text]: "TrimSpace [] = []"
  by (simp add: TrimSpace_def)

lemma ToLower_Nil [simp, go_text]: "ToLower [] = []"
  by (simp add: ToLower_def)

lemma blank_Nil [simp, go_text]: "blank []"
  by (simp add: blank_def)

lemma blank_iff_spaces: "blank s \<longleftrightarrow> (\<forall>c \<in> set s. is_space c)"
proof -
  have "blank s \<longleftrightarrow> dropWhile is_space (rev (dropWhile is_space s)) = []"
    by (simp add: blank_def TrimSpace_def)
  also have "\<dots> \<longleftrightarrow> (\<forall>c \<in> set (dropWhile is_space s). is_space c)"
    by (simp only: dropWhile_eq_Nil_conv set_rev)
  also have "\<dots> \<longleftrightarrow> (\<forall>c \<in> set s. is_space c)"
    by (induction s) auto
  finally show ?thesis .
qed

lemma HasPrefix_append [simp]: "HasPrefix (p @ s) p"
  by (induction p) auto

lemma HasPrefix_iff: "HasPrefix s p \<longleftrightarrow> (\<exists>r. s = p @ r)"
  by (induction s p rule: HasPrefix.induct) auto

lemma Contains_iff: "Contains s sub \<longleftrightarrow> (\<exists>u v. s = u @ sub @ v)"
proof (induction s)
  case Nil
  then show ?case by auto
next
  case (Cons c cs)
  have "(\<exists>u v. c # cs = u @ sub @ v) \<longleftrightarrow> (\<exists>v. c # cs = sub @ v) \<or> (\<exists>u v. cs = u @ sub @ v)"
    by (metis append_Cons append_Nil list.exhaust list.inject)
  with Cons show ?case by (simp add: HasPrefix_iff)
qed

lemma Contains_appendI: "Contains (u @ sub @ v) sub"
  by (auto simp: Contains_iff)

section \<open>Package strconv: decimal numbers\<close>

definition digit_char :: "nat \<Rightarrow> char" where
  "digit_char n = char_of (48 + n)"

definition is_digit :: "char \<Rightarrow> bool" where
  "is_digit c \<longleftrightarrow> 48 \<le> byte_of c \<and> byte_of c \<le> 57"

definition digit_val :: "char \<Rightarrow> int" where
  "digit_val c = int (byte_of c) - 48"

lemma digit_char [simp, go_text]:
  "n < 10 \<Longrightarrow> is_digit (digit_char n)"
  "n < 10 \<Longrightarrow> digit_val (digit_char n) = int n"
  by (simp_all add: is_digit_def digit_char_def digit_val_def byte_of_def)

lemma digit_val_bounds: "is_digit c \<Longrightarrow> 0 \<le> digit_val c \<and> digit_val c \<le> 9"
  by (auto simp: is_digit_def digit_val_def)

function dec :: "int \<Rightarrow> string" where
  "dec n = (if n < 10 then [digit_char (nat n)] else dec (n div 10) @ [digit_char (nat (n mod 10))])"
  by pat_completeness auto
termination
  by (relation "measure nat") auto

declare dec.simps [simp del]

fun undec :: "int \<Rightarrow> string \<Rightarrow> int option" where
  "undec acc [] = Some acc"
| "undec acc (c # cs) = (if is_digit c then undec (10 * acc + digit_val c) cs else None)"

lemma dec_not_Nil [simp]: "dec n \<noteq> []"
  by (subst dec.simps) simp

lemma dec_digits: "c \<in> set (dec n) \<Longrightarrow> is_digit c"
proof (induction n rule: dec.induct)
  case (1 n)
  then show ?case by (cases "n < 10") (auto simp: dec.simps [of n])
qed

lemma undec_append:
  "undec a (xs @ ys) = (case undec a xs of None \<Rightarrow> None | Some b \<Rightarrow> undec b ys)"
  by (induction xs arbitrary: a) auto

lemma undec_dec: "0 \<le> n \<Longrightarrow> undec 0 (dec n) = Some n"
proof (induction n rule: dec.induct)
  case (1 n)
  show ?case
  proof (cases "n < 10")
    case True
    with "1.prems" show ?thesis by (simp add: dec.simps [of n])
  next
    case False
    with "1" have "undec 0 (dec (n div 10)) = Some (n div 10)" by simp
    with False show ?thesis
      by (simp add: dec.simps [of n] undec_append)
  qed
qed

text \<open>\<open>strconv.FormatInt(v, 10)\<close>\<close>

definition fmtInt :: "int \<Rightarrow> string" where
  "fmtInt v = (if v < 0 then CHR ''-'' # dec (- v) else dec v)"

text \<open>\<open>strconv.ParseInt(s, 10, 64)\<close>: an optional sign, digits, in range.\<close>

definition unsigned_part :: "string \<Rightarrow> int option" where
  "unsigned_part s = (if s = [] then None else undec 0 s)"

definition parseInt64 :: "string \<Rightarrow> int option" where
  "parseInt64 s =
     (case (case s of
              [] \<Rightarrow> None
            | c # cs \<Rightarrow>
                if c = CHR ''-'' then map_option uminus (unsigned_part cs)
                else if c = CHR ''+'' then unsigned_part cs
                else unsigned_part s) of
        None \<Rightarrow> None
      | Some v \<Rightarrow> if is_int64 v then Some v else None)"

definition parseInt64Default :: "string \<Rightarrow> int \<Rightarrow> int" where
  "parseInt64Default s d =
     (if s = [] then d else (case parseInt64 s of Some v \<Rightarrow> v | None \<Rightarrow> d))"

lemma unsigned_dec: "0 \<le> n \<Longrightarrow> unsigned_part (dec n) = Some n"
  by (simp add: unsigned_part_def undec_dec)

lemma dec_first: "dec n = c # cs \<Longrightarrow> c \<noteq> CHR ''-'' \<and> c \<noteq> CHR ''+''"
  using dec_digits [of c n] by (auto simp: is_digit_def byte_of_def)

lemma parseInt64_fmtInt: "is_int64 v \<Longrightarrow> parseInt64 (fmtInt v) = Some v"
proof (cases "v < 0")
  case True
  assume "is_int64 v"
  with True show ?thesis by (simp add: parseInt64_def fmtInt_def unsigned_dec)
next
  case False
  assume v: "is_int64 v"
  obtain c cs where d: "dec v = c # cs" by (cases "dec v") auto
  have "unsigned_part (c # cs) = Some v"
    using unsigned_dec [of v] False by (simp add: d)
  with v False dec_first [OF d] d show ?thesis
    by (simp add: parseInt64_def fmtInt_def)
qed

lemma fmtInt_not_Nil [simp]: "fmtInt v \<noteq> []"
  by (simp add: fmtInt_def)

lemma parseInt64Default_fmtInt: "is_int64 v \<Longrightarrow> parseInt64Default (fmtInt v) d = v"
  by (simp add: parseInt64Default_def parseInt64_fmtInt)

section \<open>Package fmt: the verbs the code uses\<close>

definition hex_char :: "nat \<Rightarrow> char" where
  "hex_char n = (if n < 10 then char_of (48 + n) else char_of (87 + n))"

definition hex2 :: "nat \<Rightarrow> string" where
  "hex2 n = [hex_char (n div 16), hex_char (n mod 16)]"

text \<open>\<open>%q\<close>: a double-quoted Go string literal.\<close>

definition quote_char :: "char \<Rightarrow> string" where
  "quote_char c =
     (let b = byte_of c in
      if b = 34 then [CHR 0x5C, CHR 0x22]
      else if b = 92 then [CHR 0x5C, CHR 0x5C]
      else if b = 7 then [CHR 0x5C, CHR ''a'']
      else if b = 8 then [CHR 0x5C, CHR ''b'']
      else if b = 12 then [CHR 0x5C, CHR ''f'']
      else if b = 10 then [CHR 0x5C, CHR ''n'']
      else if b = 13 then [CHR 0x5C, CHR ''r'']
      else if b = 9 then [CHR 0x5C, CHR ''t'']
      else if b = 11 then [CHR 0x5C, CHR ''v'']
      else if b < 32 \<or> b = 127 then [CHR 0x5C, CHR ''x''] @ hex2 b
      else [c])"

definition quoteGo :: "string \<Rightarrow> string" where
  "quoteGo s = CHR 0x22 # concat (map quote_char s) @ [CHR 0x22]"

end
