(* ===== verification/GoTime.thy ===== *)
theory GoTime
  imports GoText
begin

text \<open>
  Go's \<open>time.Time\<close>, as far as the code uses it: an instant in nanoseconds
  since the Unix epoch together with the offset (in minutes) of the zone it is
  shown in, the comparisons, \<open>Unix\<close>, and the RFC 3339 layouts in both
  directions. The process's local zone is UTC. The calendar is the proleptic
  Gregorian one; \<open>parse_fmt_nano\<close> is the round trip the JSON encoding of
  times rests on.
\<close>

record GoTime =
  t_ns :: int
  t_off :: int

definition second :: int where
  "second = 1000000000"

definition unixTime :: "int \<Rightarrow> GoTime" where
  "unixTime s = \<lparr>t_ns = s * second, t_off = 0\<rparr>"

definition Unix :: "GoTime \<Rightarrow> int" where
  "Unix t = t_ns t div second"

definition After :: "GoTime \<Rightarrow> GoTime \<Rightarrow> bool" where
  "After a b \<longleftrightarrow> t_ns b < t_ns a"

definition EqualTime :: "GoTime \<Rightarrow> GoTime \<Rightarrow> bool" where
  "EqualTime a b \<longleftrightarrow> t_ns a = t_ns b"

definition AddTime :: "GoTime \<Rightarrow> int \<Rightarrow> GoTime" where
  "AddTime t d = t\<lparr>t_ns := t_ns t + d\<rparr>"

definition UTC :: "GoTime \<Rightarrow> GoTime" where
  "UTC t = t\<lparr>t_off := 0\<rparr>"

text \<open>The zero value of \<open>time.Time\<close> is January 1, year 1, 00:00:00 UTC.\<close>

definition zeroTime :: GoTime where
  "zeroTime = unixTime (- 62135596800)"

definition IsZero :: "GoTime \<Rightarrow> bool" where
  "IsZero t \<longleftrightarrow> EqualTime t zeroTime"

lemma Unix_unixTime [simp]: "Unix (unixTime s) = s"
  by (simp add: Unix_def unixTime_def second_def)

lemma After_irrefl [simp]: "\<not> After t t"
  by (simp add: After_def)

section \<open>The calendar\<close>

text \<open>
  \<open>split_by ls r\<close> finds the period of a list of period lengths in which day
  \<open>r\<close> falls, and the day within that period.
\<close>

fun split_by :: "int list \<Rightarrow> int \<Rightarrow> nat \<times> int" where
  "split_by [] r = (0, r)"
| "split_by (l # ls) r =
     (if r < l then (0, r) else (let (i, q) = split_by ls (r - l) in (Suc i, q)))"

lemma split_by_join:
  assumes "0 \<le> r" and "r < sum_list ls" and "split_by ls r = (i, q)"
  shows "i < length ls \<and> 0 \<le> q \<and> q < ls ! i \<and> sum_list (take i ls) + q = r"
  using assms
proof (induction ls arbitrary: r i)
  case Nil
  then show ?case by simp
next
  case (Cons l ls)
  show ?case
  proof (cases "r < l")
    case True
    with Cons.prems show ?thesis by auto
  next
    case False
    obtain j p where s: "split_by ls (r - l) = (j, p)" by fastforce
    from False s Cons.prems have "i = Suc j" "q = p" by auto
    moreover have "j < length ls \<and> 0 \<le> p \<and> p < ls ! j \<and> sum_list (take j ls) + p = r - l"
      using Cons.IH [of "r - l" j] False s \<open>q = p\<close> Cons.prems by auto
    ultimately show ?thesis by auto
  qed
qed

definition leap :: "int \<Rightarrow> bool" where
  "leap y \<longleftrightarrow> y mod 4 = 0 \<and> (y mod 100 \<noteq> 0 \<or> y mod 400 = 0)"

definition year_len :: "int \<Rightarrow> int" where
  "year_len y = (if leap y then 366 else 365)"

definition month_lens :: "int \<Rightarrow> int list" where
  "month_lens y = [31, if leap y then 29 else 28, 31, 30, 31, 30, 31, 31, 30, 31, 30, 31]"

definition years_upto :: "nat \<Rightarrow> int list" where
  "years_upto n = map (\<lambda>i. year_len (int i)) [0..<n]"

abbreviation cycle_years :: "int list" where
  "cycle_years \<equiv> years_upto 400"

text \<open>Day 0 is January 1, year 0; the Unix epoch is day 719528.\<close>

definition civil_of_days :: "int \<Rightarrow> int \<times> int \<times> int" where
  "civil_of_days d =
     (let (i, q) = split_by cycle_years (d mod 146097);
          y = 400 * (d div 146097) + int i;
          (m, r) = split_by (month_lens y) q
      in (y, int m + 1, r + 1))"

definition days_of_civil :: "int \<Rightarrow> int \<Rightarrow> int \<Rightarrow> int" where
  "days_of_civil y m d =
     146097 * (y div 400) + sum_list (take (nat (y mod 400)) cycle_years)
       + sum_list (take (nat (m - 1)) (month_lens y)) + d - 1"

definition valid_date :: "int \<Rightarrow> int \<Rightarrow> int \<Rightarrow> bool" where
  "valid_date y m d \<longleftrightarrow>
     1 \<le> m \<and> m \<le> 12 \<and> 1 \<le> d \<and> d \<le> month_lens y ! nat (m - 1)"

lemma div_step:
  fixes x k :: int
  assumes "0 < k"
  shows "(x + k) div k - (x + (k - 1)) div k = (if x mod k = 0 then 1 else 0)"
proof -
  have x: "x = k * (x div k) + x mod k" by simp
  have r: "0 \<le> x mod k" "x mod k < k" using assms by simp_all
  show ?thesis
  proof (cases "x mod k = 0")
    case True
    have "(x + (k - 1)) div k = x div k"
      using assms x True by (intro int_div_pos_eq [of _ _ _ "k - 1"]) auto
    with True assms show ?thesis by (simp add: div_add_self2)
  next
    case False
    have "(x + (k - 1)) div k = x div k + 1"
      using assms x r False
      by (intro int_div_pos_eq [of _ _ _ "x mod k - 1"]) (auto simp: algebra_simps)
    with False assms show ?thesis by (simp add: div_add_self2)
  qed
qed

lemma div_steps:
  fixes x :: int
  shows "(x + 4) div 4 - (x + 3) div 4 = (if x mod 4 = 0 then 1 else 0)"
    and "(x + 100) div 100 - (x + 99) div 100 = (if x mod 100 = 0 then 1 else 0)"
    and "(x + 400) div 400 - (x + 399) div 400 = (if x mod 400 = 0 then 1 else 0)"
proof -
  have n: "(4::int) - 1 = 3" "(100::int) - 1 = 99" "(400::int) - 1 = 399"
    "(0::int) < 4" "(0::int) < 100" "(0::int) < 400" by simp_all
  show "(x + 4) div 4 - (x + 3) div 4 = (if x mod 4 = 0 then 1 else 0)"
    using div_step [OF n(4), of x] by (simp only: n)
  show "(x + 100) div 100 - (x + 99) div 100 = (if x mod 100 = 0 then 1 else 0)"
    using div_step [OF n(5), of x] by (simp only: n)
  show "(x + 400) div 400 - (x + 399) div 400 = (if x mod 400 = 0 then 1 else 0)"
    using div_step [OF n(6), of x] by (simp only: n)
qed

lemma year_len_mod:
  "year_len x = 365 + (if x mod 4 = 0 then 1 else 0) - (if x mod 100 = 0 then 1 else 0)
     + (if x mod 400 = 0 then 1 else 0)"
proof -
  have "4 dvd x" if "100 dvd x" using dvd_trans [of 4 100 x] that by simp
  moreover have "100 dvd x" if "400 dvd x" using dvd_trans [of 100 400 x] that by simp
  ultimately show ?thesis
    unfolding year_len_def leap_def dvd_eq_mod_eq_0 [symmetric]
    by (cases "4 dvd x"; cases "100 dvd x"; cases "400 dvd x") simp_all
qed

lemma sum_years_upto:
  "sum_list (years_upto n) =
     365 * int n + (int n + 3) div 4 - (int n + 99) div 100 + (int n + 399) div 400"
proof (induction n)
  case 0
  then show ?case by (simp add: years_upto_def)
next
  case (Suc n)
  have "sum_list (years_upto (Suc n)) = sum_list (years_upto n) + year_len (int n)"
    by (simp add: years_upto_def)
  also have "\<dots> = sum_list (years_upto n)
      + (365 + ((int n + 4) div 4 - (int n + 3) div 4)
             - ((int n + 100) div 100 - (int n + 99) div 100)
             + ((int n + 400) div 400 - (int n + 399) div 400))"
    by (simp only: year_len_mod div_steps)
  also have "\<dots> = 365 * (int n + 1) + (int n + 4) div 4 - (int n + 100) div 100 + (int n + 400) div 400"
    unfolding Suc by (simp only: distrib_left)
  finally have s: "sum_list (years_upto (Suc n)) =
      365 * (int n + 1) + (int n + 4) div 4 - (int n + 100) div 100 + (int n + 400) div 400" .
  have "int n + 1 = int (Suc n)" "int n + 4 = int (Suc n) + 3"
    "int n + 100 = int (Suc n) + 99" "int n + 400 = int (Suc n) + 399"
    by simp_all
  with s show ?case by metis
qed

lemma cycle_days: "sum_list cycle_years = 146097"
  by (simp add: sum_years_upto)

lemma length_years_upto [simp]: "length (years_upto n) = n"
  by (simp add: years_upto_def)

lemma nth_years_upto: "i < n \<Longrightarrow> years_upto n ! i = year_len (int i)"
  by (simp add: years_upto_def)

lemma leap_mod: "leap (400 * k + i) = leap i"
proof -
  have "400 * k + i = i + 4 * (100 * k)" "400 * k + i = i + 100 * (4 * k)" by simp_all
  then have "(400 * k + i) mod 4 = i mod 4" "(400 * k + i) mod 100 = i mod 100"
    "(400 * k + i) mod 400 = i mod 400"
    by (metis mod_mult_self2, metis mod_mult_self2, metis mod_mult_self4)
  then show ?thesis by (simp add: leap_def)
qed

lemma sum_month_lens: "sum_list (month_lens y) = year_len y"
  by (simp add: month_lens_def year_len_def)

lemma length_month_lens [simp]: "length (month_lens y) = 12"
  by (simp add: month_lens_def)

lemma month_lens_bound: "i < 12 \<Longrightarrow> month_lens y ! i \<le> 31"
proof -
  have "\<forall>l \<in> set (month_lens y). l \<le> 31" by (simp add: month_lens_def)
  then show "i < 12 \<Longrightarrow> month_lens y ! i \<le> 31" by simp
qed

lemma civil_of_days:
  assumes "civil_of_days d = (y, m, e)"
  shows "valid_date y m e \<and> days_of_civil y m e = d"
proof -
  obtain i q where s: "split_by cycle_years (d mod 146097) = (i, q)" by fastforce
  define k where "k = d div 146097"
  have y: "y = 400 * k + int i"
    using assms s by (auto simp: civil_of_days_def k_def Let_def split: prod.splits)
  obtain n r where t: "split_by (month_lens y) q = (n, r)" by fastforce
  have me: "m = int n + 1" "e = r + 1"
    using assms s t y by (auto simp: civil_of_days_def k_def Let_def)
  have a: "i < 400" "0 \<le> q" "q < cycle_years ! i" "sum_list (take i cycle_years) + q = d mod 146097"
    using split_by_join [OF _ _ s] by (auto simp: cycle_days)
  have "year_len y = year_len (int i)" by (simp add: y year_len_def leap_mod)
  with a have "q < sum_list (month_lens y)" by (simp add: sum_month_lens nth_years_upto)
  with a(2) have b: "n < 12" "0 \<le> r" "r < month_lens y ! n" "sum_list (take n (month_lens y)) + r = q"
    using split_by_join [OF _ _ t] by auto
  have "y div 400 = k" "nat (y mod 400) = i" using a(1) by (auto simp: y)
  then have "days_of_civil y m e = 146097 * k + d mod 146097"
    using a b by (simp add: days_of_civil_def me)
  then show ?thesis using b by (simp add: me k_def valid_date_def)
qed

section \<open>RFC 3339\<close>

definition two :: "int \<Rightarrow> string" where
  "two n = [digit_char (nat (n div 10)), digit_char (nat (n mod 10))]"

definition pad4 :: "int \<Rightarrow> string" where
  "pad4 y = (if y < 0 then CHR ''-'' # dec (- y)
             else if y \<le> 9999 then two (y div 100) @ two (y mod 100)
             else dec y)"

definition zone_text :: "int \<Rightarrow> string" where
  "zone_text z =
     (if z = 0 then ''Z''
      else (if z < 0 then CHR ''-'' else CHR ''+'')
             # two (\<bar>z\<bar> div 60) @ CHR '':'' # two (\<bar>z\<bar> mod 60))"

definition date_text :: "int \<Rightarrow> string" where
  "date_text secs =
     (let (y, m, d) = civil_of_days (secs div 86400 + 719528);
          s = secs mod 86400
      in pad4 y @ CHR ''-'' # two m @ CHR ''-'' # two d @ CHR ''T'' #
         two (s div 3600) @ CHR '':'' # two (s mod 3600 div 60) @ CHR '':'' # two (s mod 60))"

definition local_ns :: "GoTime \<Rightarrow> int" where
  "local_ns t = t_ns t + t_off t * 60 * second"

definition year_of :: "GoTime \<Rightarrow> int" where
  "year_of t = fst (civil_of_days (local_ns t div second div 86400 + 719528))"

text \<open>\<open>t.Format(time.RFC3339)\<close>\<close>

definition fmtRFC3339 :: "GoTime \<Rightarrow> string" where
  "fmtRFC3339 t = date_text (local_ns t div second) @ zone_text (t_off t)"

fun fixed :: "nat \<Rightarrow> int \<Rightarrow> string" where
  "fixed 0 n = []"
| "fixed (Suc k) n = fixed k (n div 10) @ [digit_char (nat (n mod 10))]"

definition frac_text :: "int \<Rightarrow> string" where
  "frac_text n = (if n = 0 then []
     else CHR ''.'' # rev (dropWhile (\<lambda>c. c = CHR ''0'') (rev (fixed 9 n))))"

text \<open>\<open>t.Format(time.RFC3339Nano)\<close>, the text of a time in JSON\<close>

definition fmtNano :: "GoTime \<Rightarrow> string" where
  "fmtNano t = date_text (local_ns t div second)
     @ frac_text (local_ns t mod second) @ zone_text (t_off t)"

fun take_num :: "nat \<Rightarrow> int \<Rightarrow> string \<Rightarrow> (int \<times> string) option" where
  "take_num 0 acc s = Some (acc, s)"
| "take_num (Suc n) acc [] = None"
| "take_num (Suc n) acc (c # cs) =
     (if is_digit c then take_num n (10 * acc + digit_val c) cs else None)"

definition number :: "nat \<Rightarrow> string \<Rightarrow> (int \<times> string) option" where
  "number n s = take_num n 0 s"

definition literal :: "char \<Rightarrow> string \<Rightarrow> string option" where
  "literal c s = (case s of [] \<Rightarrow> None | d # r \<Rightarrow> if c = d then Some r else None)"

definition take_frac :: "string \<Rightarrow> (int \<times> string) option" where
  "take_frac s = (case s of
     [] \<Rightarrow> Some (0, s)
   | c # r \<Rightarrow>
       if c = CHR ''.'' then
         (let ds = takeWhile is_digit r in
          if ds = [] then None
          else map_option (\<lambda>n. (n, dropWhile is_digit r))
                 (undec 0 (take 9 (ds @ replicate 9 CHR ''0''))))
       else Some (0, s))"

definition take_zone :: "string \<Rightarrow> int option" where
  "take_zone s = (case s of
     [] \<Rightarrow> None
   | c # r \<Rightarrow>
       if c = CHR ''Z'' then (if r = [] then Some 0 else None)
       else if c = CHR ''+'' \<or> c = CHR ''-'' then
         Option.bind (number 2 r) (\<lambda>(h, r1).
         Option.bind (literal CHR '':'' r1) (\<lambda>r2.
         Option.bind (number 2 r2) (\<lambda>(m, r3).
           if h \<le> 23 \<and> m \<le> 59 \<and> r3 = []
           then Some ((if c = CHR ''-'' then -1 else 1) * (60 * h + m)) else None)))
       else None)"

text \<open>\<open>time.Parse(time.RFC3339, s)\<close>\<close>

definition parseRFC3339 :: "string \<Rightarrow> GoTime option" where
  "parseRFC3339 s0 =
     Option.bind (number 4 s0) (\<lambda>(y, s1). Option.bind (literal CHR ''-'' s1) (\<lambda>s2.
     Option.bind (number 2 s2) (\<lambda>(mo, s3). Option.bind (literal CHR ''-'' s3) (\<lambda>s4.
     Option.bind (number 2 s4) (\<lambda>(d, s5). Option.bind (literal CHR ''T'' s5) (\<lambda>s6.
     Option.bind (number 2 s6) (\<lambda>(h, s7). Option.bind (literal CHR '':'' s7) (\<lambda>s8.
     Option.bind (number 2 s8) (\<lambda>(mi, s9). Option.bind (literal CHR '':'' s9) (\<lambda>s10.
     Option.bind (number 2 s10) (\<lambda>(se, s11). Option.bind (take_frac s11) (\<lambda>(ns, s12).
     Option.bind (take_zone s12) (\<lambda>z.
       if valid_date y mo d \<and> h \<le> 23 \<and> mi \<le> 59 \<and> se \<le> 59
       then Some \<lparr>t_ns = ((days_of_civil y mo d - 719528) * 86400
                   + (3600 * h + 60 * mi + se) - z * 60) * second + ns,
                  t_off = z\<rparr>
       else None)))))))))))))"

section \<open>Parsing what was formatted\<close>

lemma number_two [go_text]:
  assumes "0 \<le> n" and "n < 100"
  shows "number 2 (two n @ r) = Some (n, r)"
proof -
  have "nat (n div 10) < 10" "nat (n mod 10) < 10"
    "int (nat (n div 10)) = n div 10" "int (nat (n mod 10)) = n mod 10"
    using assms by (auto simp: pos_imp_zdiv_nonneg_iff)
  then show ?thesis
    using assms by (simp add: number_def two_def numeral_2_eq_2)
qed

lemma take_num_append:
  "take_num n a s = Some (v, []) \<Longrightarrow> take_num (n + k) a (s @ r) = take_num k v r"
  by (induction n a s rule: take_num.induct) (auto split: if_splits)

lemma take_num_two:
  assumes "0 \<le> n" and "n < 100"
  shows "take_num 2 a (two n) = Some (100 * a + n, [])"
proof -
  have "nat (n div 10) < 10" "nat (n mod 10) < 10"
    "int (nat (n div 10)) = n div 10" "int (nat (n mod 10)) = n mod 10"
    using assms by (auto simp: pos_imp_zdiv_nonneg_iff)
  then show ?thesis
    using assms by (simp add: two_def numeral_2_eq_2)
qed

lemma take_num_two_append:
  assumes "0 \<le> n" and "n < 100"
  shows "take_num (2 + k) a (two n @ r) = take_num k (100 * a + n) r"
  by (rule take_num_append [OF take_num_two [OF assms]])

lemma number_pad4 [go_text]:
  assumes "0 \<le> y" and "y \<le> 9999"
  shows "number 4 (pad4 y @ r) = Some (y, r)"
proof -
  have b: "0 \<le> y div 100" "y div 100 < 100" "0 \<le> y mod 100" "y mod 100 < 100"
    using assms by auto
  have "number 4 (pad4 y @ r) = take_num (2 + (2 + 0)) 0 (two (y div 100) @ two (y mod 100) @ r)"
    using assms by (simp add: number_def pad4_def)
  also have "\<dots> = Some (100 * (y div 100) + y mod 100, r)"
    by (simp only: take_num_two_append b) simp
  finally show ?thesis by simp
qed

lemma literal_Cons [simp, go_text]: "literal c (d # r) = (if c = d then Some r else None)"
  by (simp add: literal_def)

lemma length_fixed [simp]: "length (fixed k n) = k"
  by (induction k n rule: fixed.induct) auto

lemma fixed_digits: "c \<in> set (fixed k n) \<Longrightarrow> is_digit c"
proof (induction k n rule: fixed.induct)
  case (2 k n)
  have "nat (n mod 10) < 10" by simp
  with 2 show ?case by auto
qed simp

lemma undec_fixed: "0 \<le> n \<Longrightarrow> n < 10 ^ k \<Longrightarrow> undec 0 (fixed k n) = Some n"
proof (induction k n rule: fixed.induct)
  case (2 k n)
  then have "undec 0 (fixed k (n div 10)) = Some (n div 10)" by simp
  moreover have "nat (n mod 10) < 10" by simp
  ultimately show ?case by (simp add: undec_append)
qed simp

lemma strip_zeros:
  fixes xs :: string
  defines "ys \<equiv> rev (dropWhile (\<lambda>c. c = CHR ''0'') (rev xs))"
  shows "length ys \<le> length xs \<and> xs = ys @ replicate (length xs - length ys) CHR ''0''"
proof -
  let ?P = "\<lambda>c. c = CHR ''0''"
  have zeros: "takeWhile ?P zs = replicate (length (takeWhile ?P zs)) CHR ''0''" for zs :: string
    by (induction zs) auto
  have "rev xs = takeWhile ?P (rev xs) @ dropWhile ?P (rev xs)" by simp
  then have "xs = ys @ rev (takeWhile ?P (rev xs))"
    by (metis rev_append rev_rev_ident ys_def)
  then have split: "xs = ys @ replicate (length (takeWhile ?P (rev xs))) CHR ''0''"
    by (subst (asm) zeros) simp
  then have "length xs = length ys + length (takeWhile ?P (rev xs))"
    by (metis length_append length_replicate)
  with split show ?thesis by simp
qed

lemma take_frac_frac_text [go_text]:
  assumes "0 \<le> n" and "n < second" and "z \<noteq> []" and "\<not> is_digit (hd z)" and "hd z \<noteq> CHR ''.''"
  shows "take_frac (frac_text n @ z) = Some (n, z)"
proof (cases "n = 0")
  case True
  with assms show ?thesis
    by (cases z) (auto simp: frac_text_def take_frac_def)
next
  case False
  define ds where "ds = rev (dropWhile (\<lambda>c. c = CHR ''0'') (rev (fixed 9 n)))"
  have undec: "undec 0 (fixed 9 n) = Some n"
    using assms by (intro undec_fixed) (simp_all add: second_def)
  have pad: "length ds \<le> 9" "fixed 9 n = ds @ replicate (9 - length ds) CHR ''0''"
    using strip_zeros [of "fixed 9 n"] by (simp_all add: ds_def)
  have digits: "\<forall>c \<in> set ds. is_digit c"
    using pad(2) fixed_digits [of _ 9 n] by (metis Un_iff set_append)
  have "ds \<noteq> []"
  proof
    assume "ds = []"
    with pad(2) undec have "undec 0 (replicate 9 CHR ''0'') = Some n" by simp
    then show False
      using False by (simp add: is_digit_def digit_val_def byte_of_def numeral_eq_Suc)
  qed
  moreover have "takeWhile is_digit (ds @ z) = ds" "dropWhile is_digit (ds @ z) = z"
    using digits assms(3,4) by (cases z; simp add: takeWhile_append2 dropWhile_append2)+
  moreover have "take 9 (ds @ replicate 9 CHR ''0'') = fixed 9 n"
    using pad by (simp add: take_replicate min_def)
  ultimately show ?thesis
    using False undec by (simp add: frac_text_def take_frac_def flip: ds_def)
qed

lemma take_zone_zone_text [go_text]:
  assumes "\<bar>z\<bar> < 1440"
  shows "take_zone (zone_text z) = Some z"
proof -
  have b: "0 \<le> \<bar>z\<bar> div 60" "\<bar>z\<bar> div 60 < 24" "0 \<le> \<bar>z\<bar> mod 60" "\<bar>z\<bar> mod 60 < 60"
    using assms by auto
  have n: "number 2 (two (\<bar>z\<bar> div 60) @ r) = Some (\<bar>z\<bar> div 60, r)"
    "number 2 (two (\<bar>z\<bar> mod 60)) = Some (\<bar>z\<bar> mod 60, [])" for r
    using b number_two [of "\<bar>z\<bar> mod 60" "[]"] by (simp_all add: number_two)
  have s: "\<bar>z\<bar> div 60 \<le> 23" "\<bar>z\<bar> mod 60 \<le> 59" "60 * (\<bar>z\<bar> div 60) + \<bar>z\<bar> mod 60 = \<bar>z\<bar>"
    using b by simp_all
  consider "z = 0" | "z < 0" | "0 < z" by linarith
  then show ?thesis
  proof cases
    case 1
    then show ?thesis by (simp add: zone_text_def take_zone_def)
  next
    case 2
    then show ?thesis using s n by (simp add: zone_text_def take_zone_def)
  next
    case 3
    then show ?thesis using s n by (simp add: zone_text_def take_zone_def)
  qed
qed

lemma zone_text_head: "zone_text z \<noteq> [] \<and> \<not> is_digit (hd (zone_text z)) \<and> hd (zone_text z) \<noteq> CHR ''.''"
  by (simp add: zone_text_def is_digit_def byte_of_def)

lemma valid_date_bounds: "valid_date y m d \<Longrightarrow> 0 \<le> m \<and> m < 100 \<and> 0 \<le> d \<and> d < 100"
  using month_lens_bound [of "nat (m - 1)" y] by (auto simp: valid_date_def nat_less_iff)

lemma parse_fields:
  assumes "0 \<le> y" "y \<le> 9999" and "valid_date y m d"
    and "0 \<le> h" "h \<le> 23" and "0 \<le> mi" "mi \<le> 59" and "0 \<le> se" "se \<le> 59"
    and "take_frac f = Some (n, zt)" and "take_zone zt = Some z"
  shows "parseRFC3339 (pad4 y @ CHR ''-'' # two m @ CHR ''-'' # two d @ CHR ''T'' #
      two h @ CHR '':'' # two mi @ CHR '':'' # two se @ f) =
    Some \<lparr>t_ns = ((days_of_civil y m d - 719528) * 86400
      + (3600 * h + 60 * mi + se) - z * 60) * second + n, t_off = z\<rparr>"
proof -
  have num: "number 2 (two m @ r) = Some (m, r)" "number 2 (two d @ r) = Some (d, r)"
    "number 2 (two h @ r) = Some (h, r)" "number 2 (two mi @ r) = Some (mi, r)"
    "number 2 (two se @ r) = Some (se, r)" "number 4 (pad4 y @ r) = Some (y, r)" for r
    using assms valid_date_bounds [OF assms(3)] by (simp_all add: number_two number_pad4)
  show ?thesis
    by (simp add: parseRFC3339_def num assms)
qed

lemma parse_date_text:
  assumes "civil_of_days (secs div 86400 + 719528) = (y, m, d)" and "0 \<le> y" and "y \<le> 9999"
    and "0 \<le> n" and "n < second" and "\<bar>z\<bar> < 1440"
  shows "parseRFC3339 (date_text secs @ frac_text n @ zone_text z) =
    Some \<lparr>t_ns = (secs - z * 60) * second + n, t_off = z\<rparr>"
proof -
  define s where "s = secs mod 86400"
  have v: "valid_date y m d" "days_of_civil y m d = secs div 86400 + 719528"
    using civil_of_days [OF assms(1)] by auto
  have b: "0 \<le> s div 3600" "s div 3600 \<le> 23" "0 \<le> s mod 3600 div 60" "s mod 3600 div 60 \<le> 59"
    "0 \<le> s mod 60" "s mod 60 \<le> 59"
    by (auto simp: s_def)
  have "s mod 3600 mod 60 = s mod 60" by (simp add: mod_mod_cancel)
  then have e1: "3600 * (s div 3600) + 60 * (s mod 3600 div 60) + s mod 60 = s"
    by (metis (no_types) add.assoc mult_div_mod_eq)
  have e2: "secs div 86400 * 86400 + s = secs" by (simp only: s_def div_mult_mod_eq)
  have d: "days_of_civil y m d - 719528 = secs div 86400"
    by (simp only: v(2) add_diff_cancel_right')
  have t: "(days_of_civil y m d - 719528) * 86400
      + (3600 * (s div 3600) + 60 * (s mod 3600 div 60) + s mod 60) - z * 60 = secs - z * 60"
    by (simp only: d e1 e2)
  have f: "take_frac (frac_text n @ zone_text z) = Some (n, zone_text z)"
    using take_frac_frac_text assms(4,5) zone_text_head by blast
  have "parseRFC3339 (date_text secs @ frac_text n @ zone_text z) =
    Some \<lparr>t_ns = ((days_of_civil y m d - 719528) * 86400
      + (3600 * (s div 3600) + 60 * (s mod 3600 div 60) + s mod 60) - z * 60) * second + n, t_off = z\<rparr>"
    using parse_fields [OF assms(2,3) v(1) b f take_zone_zone_text [OF assms(6)]]
    by (simp only: date_text_def assms(1) Let_def prod.case s_def append.assoc append_Cons)
  then show ?thesis by (simp only: t)
qed

text \<open>A time in years 0 to 9999 reads back from its RFC 3339 text.\<close>

lemma parse_fmt_nano:
  assumes "0 \<le> year_of t" and "year_of t \<le> 9999" and "\<bar>t_off t\<bar> < 1440"
  shows "parseRFC3339 (fmtNano t) = Some t"
proof -
  obtain y m d where c: "civil_of_days (local_ns t div second div 86400 + 719528) = (y, m, d)"
    by (metis prod_cases3)
  then have "y = year_of t" by (simp add: year_of_def)
  then have "parseRFC3339 (fmtNano t) = Some
      \<lparr>t_ns = (local_ns t div second - t_off t * 60) * second + local_ns t mod second, t_off = t_off t\<rparr>"
    using assms unfolding fmtNano_def
    by (intro parse_date_text [OF c]) (simp_all add: second_def)
  also have "(local_ns t div second - t_off t * 60) * second + local_ns t mod second = t_ns t"
  proof -
    have "(local_ns t div second - t_off t * 60) * second + local_ns t mod second
        = local_ns t - t_off t * 60 * second"
      using div_mult_mod_eq [of "local_ns t" second] by (simp add: left_diff_distrib)
    then show ?thesis by (simp add: local_ns_def)
  qed
  finally show ?thesis by simp
qed

lemma parse_fmt_seconds:
  assumes "0 \<le> year_of t" and "year_of t \<le> 9999" and "\<bar>t_off t\<bar> < 1440"
  shows "parseRFC3339 (fmtRFC3339 t) = Some \<lparr>t_ns = Unix t * second, t_off = t_off t\<rparr>"
proof -
  obtain y m d where c: "civil_of_days (local_ns t div second div 86400 + 719528) = (y, m, d)"
    by (metis prod_cases3)
  then have "y = year_of t" by (simp add: year_of_def)
  then have "parseRFC3339 (date_text (local_ns t div second) @ frac_text 0 @ zone_text (t_off t)) = Some
      \<lparr>t_ns = (local_ns t div second - t_off t * 60) * second + 0, t_off = t_off t\<rparr>"
    using assms by (intro parse_date_text [OF c]) (simp_all add: second_def)
  moreover have "local_ns t div second - t_off t * 60 = Unix t"
    by (simp add: local_ns_def Unix_def second_def)
  ultimately show ?thesis by (simp add: fmtRFC3339_def frac_text_def)
qed

end
