(* ===== verification/Ids.thy ===== *)
theory Ids
  imports GoTime "HOL-Library.Word"
begin

text \<open>
  The deterministic identifiers of \<open>utils.go\<close>: \<open>stableID\<close> is the first half of
  a SHA-1 digest of a normalised key, in lower-case hexadecimal. SHA-1 is that
  of Go's \<open>crypto/sha1\<close> (FIPS 180-4), executable.
\<close>

unbundle bit_operations_syntax

type_synonym w32 = "32 word"

section \<open>SHA-1\<close>

definition rol :: "nat \<Rightarrow> w32 \<Rightarrow> w32" where
  "rol n x = push_bit n x OR drop_bit (32 - n) x"

definition be_bytes :: "nat \<Rightarrow> int \<Rightarrow> int list" where
  "be_bytes k n = rev (map (\<lambda>i. n div 256 ^ i mod 256) [0..<k])"

definition sha1_pad :: "int list \<Rightarrow> int list" where
  "sha1_pad bs = bs @ [128] @ replicate ((119 - length bs mod 64) mod 64) 0
     @ be_bytes 8 (8 * int (length bs))"

fun be_words :: "int list \<Rightarrow> w32 list" where
  "be_words (a # b # c # d # bs) =
     of_int (16777216 * a + 65536 * b + 256 * c + d) # be_words bs"
| "be_words bs = []"

text \<open>The message schedule, newest word first.\<close>

fun sha1_extend :: "nat \<Rightarrow> w32 list \<Rightarrow> w32 list" where
  "sha1_extend 0 ws = ws"
| "sha1_extend (Suc k) ws =
     sha1_extend k (rol 1 (ws ! 2 XOR ws ! 7 XOR ws ! 13 XOR ws ! 15) # ws)"

type_synonym sha1_state = "w32 \<times> w32 \<times> w32 \<times> w32 \<times> w32"

definition sha1_fk :: "nat \<Rightarrow> w32 \<Rightarrow> w32 \<Rightarrow> w32 \<Rightarrow> w32 \<times> w32" where
  "sha1_fk t b c d =
     (if t < 20 then ((b AND c) OR (NOT b AND d), 0x5A827999)
      else if t < 40 then (b XOR c XOR d, 0x6ED9EBA1)
      else if t < 60 then ((b AND c) OR (b AND d) OR (c AND d), 0x8F1BBCDC)
      else (b XOR c XOR d, 0xCA62C1D6))"

fun sha1_rounds :: "nat \<Rightarrow> w32 list \<Rightarrow> sha1_state \<Rightarrow> sha1_state" where
  "sha1_rounds t [] s = s"
| "sha1_rounds t (w # ws) (a, b, c, d, e) =
     (let (f, k) = sha1_fk t b c d
      in sha1_rounds (Suc t) ws (rol 5 a + f + e + k + w, a, rol 30 b, c, d))"

definition sha1_block :: "w32 list \<Rightarrow> sha1_state \<Rightarrow> sha1_state" where
  "sha1_block ws s =
     (case s of (h0, h1, h2, h3, h4) \<Rightarrow>
        (case sha1_rounds 0 (rev (sha1_extend 64 (rev ws))) s of (a, b, c, d, e) \<Rightarrow>
           (h0 + a, h1 + b, h2 + c, h3 + d, h4 + e)))"

function sha1_blocks :: "w32 list \<Rightarrow> sha1_state \<Rightarrow> sha1_state" where
  "sha1_blocks ws s =
     (if length ws < 16 then s else sha1_blocks (drop 16 ws) (sha1_block (take 16 ws) s))"
  by pat_completeness auto
termination
  by (relation "measure (\<lambda>(ws, s). length ws)") auto

declare sha1_blocks.simps [simp del]

definition sha1_init :: sha1_state where
  "sha1_init = (0x67452301, 0xEFCDAB89, 0x98BADCFE, 0x10325476, 0xC3D2E1F0)"

definition sha1_sum :: "string \<Rightarrow> int list" where
  "sha1_sum s =
     (case sha1_blocks (be_words (sha1_pad (map (\<lambda>c. int (byte_of c)) s))) sha1_init of
        (a, b, c, d, e) \<Rightarrow> concat (map (\<lambda>w. be_bytes 4 (uint w)) [a, b, c, d, e]))"

definition hex_byte :: "int \<Rightarrow> string" where
  "hex_byte b = [hex_char (nat (b div 16)), hex_char (nat (b mod 16))]"

definition hex_encode :: "int list \<Rightarrow> string" where
  "hex_encode bs = concat (map hex_byte bs)"

section \<open>stableID and its uses\<close>

definition stableID :: "string \<Rightarrow> string \<Rightarrow> string" where
  "stableID kind key =
     (let base = ToLower (TrimSpace key)
      in hex_encode (take 16 (sha1_sum (kind @ '':'' @ base))))"

definition UserIDFromUsername :: "string \<Rightarrow> string" where
  "UserIDFromUsername username = stableID ''user'' username"

definition GroupIDFromSignature :: "string \<Rightarrow> string \<Rightarrow> string \<Rightarrow> string" where
  "GroupIDFromSignature groupType creatorUsername groupName =
     stableID ''group'' (groupType @ '':'' @ creatorUsername @ '':'' @ groupName)"

definition AppointmentIDFromSignature ::
    "string \<Rightarrow> string \<Rightarrow> GoTime \<Rightarrow> GoTime \<Rightarrow> string \<Rightarrow> string" where
  "AppointmentIDFromSignature ownerUsername groupSignature start end title =
     stableID ''appointment''
       (ownerUsername @ '':'' @ groupSignature @ '':'' @ fmtRFC3339 (UTC start) @ '':''
        @ fmtRFC3339 (UTC end) @ '':'' @ title)"

definition parseID :: "string \<Rightarrow> string" where
  "parseID s = TrimSpace s"

section \<open>What the rest of the development needs of an identifier\<close>

lemma length_be_bytes [simp]: "length (be_bytes k n) = k"
  by (simp add: be_bytes_def)

lemma length_sha1_sum [simp]: "length (sha1_sum s) = 20"
  by (simp add: sha1_sum_def split: prod.splits)

lemma length_hex_encode [simp]: "length (hex_encode bs) = 2 * length bs"
  by (induction bs) (simp_all add: hex_encode_def hex_byte_def)

lemma length_stableID [simp]: "length (stableID kind key) = 32"
  by (simp add: stableID_def Let_def)

lemma stableID_not_Nil [simp]: "stableID kind key \<noteq> []"
  using length_stableID [of kind key] by fastforce

lemma be_bytes_bound: "b \<in> set (be_bytes k n) \<Longrightarrow> 0 \<le> b \<and> b < 256"
proof -
  assume "b \<in> set (be_bytes k n)"
  then obtain x where "b = x mod 256" by (auto simp only: be_bytes_def set_rev set_map)
  then show ?thesis by simp
qed

lemma sha1_sum_bound: "b \<in> set (sha1_sum s) \<Longrightarrow> 0 \<le> b \<and> b < 256"
  by (auto simp: sha1_sum_def dest: be_bytes_bound split: prod.splits)

lemma hex_char_not_space: "n < 16 \<Longrightarrow> \<not> is_space (hex_char n)"
  by (auto simp: hex_char_def is_space_def byte_of_def)

lemma stableID_not_space: "c \<in> set (stableID kind key) \<Longrightarrow> \<not> is_space c"
proof -
  assume "c \<in> set (stableID kind key)"
  then obtain b where "b \<in> set (sha1_sum (kind @ '':'' @ ToLower (TrimSpace key)))"
    and c: "c \<in> set (hex_byte b)"
    by (auto simp: stableID_def hex_encode_def Let_def dest: in_set_takeD)
  then have "0 \<le> b" "b < 256" using sha1_sum_bound by blast+
  then have "nat (b div 16) < 16" "nat (b mod 16) < 16" by auto
  with c show ?thesis by (auto simp: hex_byte_def hex_char_not_space)
qed

lemma stableID_not_blank [simp]: "\<not> blank (stableID kind key)"
  using stableID_not_space [of "hd (stableID kind key)" kind key]
  by (auto simp: blank_iff_spaces)

text \<open>Keys that differ only in letter case or surrounding space get the same identifier.\<close>

lemma stableID_cong:
  "ToLower (TrimSpace a) = ToLower (TrimSpace b) \<Longrightarrow> stableID kind a = stableID kind b"
  by (simp add: stableID_def)

lemma UserIDFromUsername_cong:
  "ToLower (TrimSpace a) = ToLower (TrimSpace b) \<Longrightarrow> UserIDFromUsername a = UserIDFromUsername b"
  unfolding UserIDFromUsername_def by (rule stableID_cong)

lemma ids_not_blank [simp]:
  "\<not> blank (UserIDFromUsername u)"
  "\<not> blank (GroupIDFromSignature g c n)"
  "\<not> blank (AppointmentIDFromSignature u g s e t)"
  by (simp_all add: UserIDFromUsername_def GroupIDFromSignature_def AppointmentIDFromSignature_def)

end
