(* ===== verification/Json.thy ===== *)
theory Json
  imports GoTime
begin

text \<open>
  The JSON text of log entries and events: printing as \<open>json.Marshal\<close> does,
  parsing as \<open>json.Unmarshal\<close> does, and the decoding of an object's members
  into the fields of a Go struct. \<open>jparse_jprint\<close> is the round trip. Strings
  are UTF-8 without U+2028 and U+2029, the two characters Go escapes beyond
  ASCII.
\<close>

section \<open>Values and their text\<close>

datatype json =
    JNull
  | JBool bool
  | JNum string
  | JStr string
  | JArr "json list"
  | JObj "(string \<times> json) list"

type_synonym members = "(string \<times> json) list"

definition json_char :: "char \<Rightarrow> string" where
  "json_char c =
     (let b = byte_of c in
      if b = 34 then [CHR 0x5C, CHR 0x22]
      else if b = 92 then [CHR 0x5C, CHR 0x5C]
      else if b = 8 then [CHR 0x5C, CHR ''b'']
      else if b = 12 then [CHR 0x5C, CHR ''f'']
      else if b = 10 then [CHR 0x5C, CHR ''n'']
      else if b = 13 then [CHR 0x5C, CHR ''r'']
      else if b = 9 then [CHR 0x5C, CHR ''t'']
      else if b < 32 \<or> b = 38 \<or> b = 60 \<or> b = 62
      then [CHR 0x5C, CHR ''u'', CHR ''0'', CHR ''0''] @ hex2 b
      else [c])"

text \<open>Letters need no test of their code.\<close>

lemma json_char_code [code]:
  "json_char (Char b0 b1 b2 b3 b4 b5 b6 b7) =
     (let c = Char b0 b1 b2 b3 b4 b5 b6 b7; b = byte_of c in
      if b6 \<and> (b5 \<or> b0) then [c]
      else if b = 34 then [CHR 0x5C, CHR 0x22]
      else if b = 92 then [CHR 0x5C, CHR 0x5C]
      else if b = 8 then [CHR 0x5C, CHR ''b'']
      else if b = 12 then [CHR 0x5C, CHR ''f'']
      else if b = 10 then [CHR 0x5C, CHR ''n'']
      else if b = 13 then [CHR 0x5C, CHR ''r'']
      else if b = 9 then [CHR 0x5C, CHR ''t'']
      else if b < 32 \<or> b = 38 \<or> b = 60 \<or> b = 62
      then [CHR 0x5C, CHR ''u'', CHR ''0'', CHR ''0''] @ hex2 b
      else [c])"
  by (simp add: json_char_def byte_of_def Let_def of_char_Char)

definition json_quote :: "string \<Rightarrow> string" where
  "json_quote s = CHR 0x22 # concat (map json_char s) @ [CHR 0x22]"

fun commas :: "string list \<Rightarrow> string" where
  "commas [] = []"
| "commas [x] = x"
| "commas (x # y # ys) = x @ CHR '','' # commas (y # ys)"

fun jprint :: "json \<Rightarrow> string" where
  "jprint JNull = ''null''"
| "jprint (JBool b) = (if b then ''true'' else ''false'')"
| "jprint (JNum s) = s"
| "jprint (JStr s) = json_quote s"
| "jprint (JArr xs) = CHR ''['' # commas (map jprint xs) @ '']''"
| "jprint (JObj ms) =
     CHR ''{'' # commas (map (\<lambda>(k, v). json_quote k @ CHR '':'' # jprint v) ms) @ ''}''"

section \<open>Parsing\<close>

definition is_ws :: "char \<Rightarrow> bool" where
  "is_ws c \<longleftrightarrow> byte_of c \<in> {9, 10, 13, 32}"

definition skip_ws :: "string \<Rightarrow> string" where
  "skip_ws s = dropWhile is_ws s"

definition hex_val :: "char \<Rightarrow> nat option" where
  "hex_val c =
     (let b = byte_of c in
      if 48 \<le> b \<and> b \<le> 57 then Some (b - 48)
      else if 97 \<le> b \<and> b \<le> 102 then Some (b - 87)
      else if 65 \<le> b \<and> b \<le> 70 then Some (b - 55)
      else None)"

fun hex4 :: "string \<Rightarrow> (nat \<times> string) option" where
  "hex4 (a # b # c # d # r) =
     (case (hex_val a, hex_val b, hex_val c, hex_val d) of
        (Some h3, Some h2, Some h1, Some h0) \<Rightarrow>
          Some (((h3 * 16 + h2) * 16 + h1) * 16 + h0, r)
      | _ \<Rightarrow> None)"
| "hex4 s = None"

text \<open>The UTF-8 bytes of a code point.\<close>

definition utf8 :: "nat \<Rightarrow> string" where
  "utf8 u =
     (if u < 128 then [char_of u]
      else if u < 2048 then [char_of (192 + u div 64), char_of (128 + u mod 64)]
      else if u < 65536 then
        [char_of (224 + u div 4096), char_of (128 + u div 64 mod 64), char_of (128 + u mod 64)]
      else [char_of (240 + u div 262144), char_of (128 + u div 4096 mod 64),
            char_of (128 + u div 64 mod 64), char_of (128 + u mod 64)])"

text \<open>A surrogate pair is one character; a lone surrogate becomes U+FFFD.\<close>

definition unicode_escape :: "string \<Rightarrow> (string \<times> string) option" where
  "unicode_escape s =
     (case hex4 s of
        None \<Rightarrow> None
      | Some (u, r) \<Rightarrow>
          if u < 55296 \<or> 57344 \<le> u then Some (utf8 u, r)
          else (case (if u < 56320 \<and> HasPrefix r [CHR 0x5C, CHR ''u''] then hex4 (drop 2 r) else None) of
                  Some (v, r') \<Rightarrow>
                    if 56320 \<le> v \<and> v < 57344
                    then Some (utf8 (65536 + (u - 55296) * 1024 + (v - 56320)), r')
                    else Some (utf8 65533, r)
                | None \<Rightarrow> Some (utf8 65533, r)))"

definition escape :: "string \<Rightarrow> (string \<times> string) option" where
  "escape s =
     (case s of
        [] \<Rightarrow> None
      | e # r \<Rightarrow>
          if e = CHR 0x22 \<or> e = CHR 0x5C \<or> e = CHR ''/'' then Some ([e], r)
          else if e = CHR ''b'' then Some ([char_of (8::nat)], r)
          else if e = CHR ''f'' then Some ([char_of (12::nat)], r)
          else if e = CHR ''n'' then Some ([char_of (10::nat)], r)
          else if e = CHR ''r'' then Some ([char_of (13::nat)], r)
          else if e = CHR ''t'' then Some ([char_of (9::nat)], r)
          else if e = CHR ''u'' then unicode_escape r
          else None)"

lemma hex4_shorter: "hex4 s = Some (u, r) \<Longrightarrow> length r < length s"
  by (induction s rule: hex4.induct) (auto split: option.splits)

lemma unicode_escape_shorter: "unicode_escape s = Some (x, r) \<Longrightarrow> length r < length s"
proof (cases "hex4 s")
  case None
  then show "unicode_escape s = Some (x, r) \<Longrightarrow> ?thesis" by (simp add: unicode_escape_def)
next
  case (Some p)
  assume u: "unicode_escape s = Some (x, r)"
  obtain v q where p: "p = (v, q)" by fastforce
  have "length q < length s" using Some p by (auto dest: hex4_shorter)
  moreover have "length r \<le> length q"
    using u Some p
    by (auto simp: unicode_escape_def split: if_splits option.splits dest: hex4_shorter)
  ultimately show ?thesis by simp
qed

lemma escape_shorter: "escape s = Some (x, r) \<Longrightarrow> length r < length s"
  by (auto simp: escape_def split: list.splits if_splits dest: unicode_escape_shorter)

text \<open>The characters of a string literal after its opening quote.\<close>

function p_chars :: "string \<Rightarrow> (string \<times> string) option" where
  "p_chars s =
     (case s of
        [] \<Rightarrow> None
      | c # r \<Rightarrow>
          if c = CHR 0x22 then Some ([], r)
          else if c = CHR 0x5C then
            (case escape r of
               None \<Rightarrow> None
             | Some (x, r') \<Rightarrow> map_option (\<lambda>(t, q). (x @ t, q)) (p_chars r'))
          else if byte_of c < 32 then None
          else map_option (\<lambda>(t, q). (c # t, q)) (p_chars r))"
  by pat_completeness auto
termination
  by (relation "measure length") (auto dest: escape_shorter)

declare p_chars.simps [simp del]

definition is_num_char :: "char \<Rightarrow> bool" where
  "is_num_char c \<longleftrightarrow> is_digit c \<or> c \<in> set ''+-.eE''"

definition valid_exp :: "string \<Rightarrow> bool" where
  "valid_exp s =
     (case s of
        [] \<Rightarrow> True
      | c # r \<Rightarrow> (c = CHR ''e'' \<or> c = CHR ''E'') \<and>
          (let ds = (if r \<noteq> [] \<and> (hd r = CHR ''+'' \<or> hd r = CHR ''-'') then tl r else r)
           in ds \<noteq> [] \<and> list_all is_digit ds))"

definition valid_frac :: "string \<Rightarrow> bool" where
  "valid_frac s =
     (if HasPrefix s ''.'' then
        takeWhile is_digit (tl s) \<noteq> [] \<and> valid_exp (dropWhile is_digit (tl s))
      else valid_exp s)"

definition valid_num :: "string \<Rightarrow> bool" where
  "valid_num s =
     (let t = (if HasPrefix s ''-'' then tl s else s); i = takeWhile is_digit t
      in i \<noteq> [] \<and> (hd i = CHR ''0'' \<longrightarrow> length i = 1) \<and> valid_frac (dropWhile is_digit t))"

definition p_num :: "string \<Rightarrow> (json \<times> string) option" where
  "p_num s =
     (let n = takeWhile is_num_char s
      in if valid_num n then Some (JNum n, dropWhile is_num_char s) else None)"

text \<open>The fuel bounds nesting and the number of members; the length of the text is enough.\<close>

fun p_val :: "nat \<Rightarrow> string \<Rightarrow> (json \<times> string) option"
  and p_elems :: "nat \<Rightarrow> string \<Rightarrow> (json list \<times> string) option"
  and p_members :: "nat \<Rightarrow> string \<Rightarrow> (members \<times> string) option"
where
  "p_val 0 s = None"
| "p_val (Suc n) s =
     (case s of
        [] \<Rightarrow> None
      | c # r \<Rightarrow>
          if c = CHR 0x22 then map_option (\<lambda>(t, q). (JStr t, q)) (p_chars r)
          else if c = CHR ''{'' then
            (if HasPrefix (skip_ws r) ''}'' then Some (JObj [], tl (skip_ws r))
             else map_option (\<lambda>(ms, q). (JObj ms, q)) (p_members n (skip_ws r)))
          else if c = CHR ''['' then
            (if HasPrefix (skip_ws r) '']'' then Some (JArr [], tl (skip_ws r))
             else map_option (\<lambda>(xs, q). (JArr xs, q)) (p_elems n (skip_ws r)))
          else if HasPrefix s ''null'' then Some (JNull, drop 4 s)
          else if HasPrefix s ''true'' then Some (JBool True, drop 4 s)
          else if HasPrefix s ''false'' then Some (JBool False, drop 5 s)
          else p_num s)"
| "p_elems 0 s = None"
| "p_elems (Suc n) s =
     (case p_val n s of
        None \<Rightarrow> None
      | Some (v, r) \<Rightarrow>
          (case skip_ws r of
             [] \<Rightarrow> None
           | c # q \<Rightarrow>
               if c = CHR '','' then map_option (\<lambda>(xs, q'). (v # xs, q')) (p_elems n (skip_ws q))
               else if c = CHR '']'' then Some ([v], q)
               else None))"
| "p_members 0 s = None"
| "p_members (Suc n) s =
     (if \<not> HasPrefix s [CHR 0x22] then None
      else (case p_chars (tl s) of
        None \<Rightarrow> None
      | Some (k, r) \<Rightarrow>
          (case literal CHR '':'' (skip_ws r) of
             None \<Rightarrow> None
           | Some r1 \<Rightarrow>
               (case p_val n (skip_ws r1) of
                  None \<Rightarrow> None
                | Some (v, r2) \<Rightarrow>
                    (case skip_ws r2 of
                       [] \<Rightarrow> None
                     | c # q \<Rightarrow>
                         if c = CHR '','' then
                           map_option (\<lambda>(ms, q'). ((k, v) # ms, q')) (p_members n (skip_ws q))
                         else if c = CHR ''}'' then Some ([(k, v)], q)
                         else None)))))"

definition jparse :: "string \<Rightarrow> json option" where
  "jparse s =
     (case p_val (Suc (length s)) (skip_ws s) of
        Some (j, r) \<Rightarrow> if skip_ws r = [] then Some j else None
      | None \<Rightarrow> None)"

section \<open>Parsing what was printed\<close>

fun jwf :: "json \<Rightarrow> bool" where
  "jwf (JNum s) \<longleftrightarrow> valid_num s \<and> list_all is_num_char s"
| "jwf (JArr xs) \<longleftrightarrow> list_all jwf xs"
| "jwf (JObj ms) \<longleftrightarrow> list_all (\<lambda>(k, v). jwf v) ms"
| "jwf _ \<longleftrightarrow> True"

lemma byte_of_char_of: "n < 256 \<Longrightarrow> byte_of (char_of n) = n"
  by (simp add: byte_of_def)

lemma char_of_byte_of: "char_of (byte_of c) = c"
  by (simp add: byte_of_def)

lemma byte_of_eq: "byte_of c = byte_of d \<longleftrightarrow> c = d"
  by (simp add: byte_of_def)

lemma hex_val_hex_char: "d < 16 \<Longrightarrow> hex_val (hex_char d) = Some d"
  by (auto simp: hex_val_def hex_char_def byte_of_char_of)

lemma hex4_hex2:
  assumes "b < 256"
  shows "hex4 (CHR ''0'' # CHR ''0'' # hex2 b @ r) = Some (b, r)"
proof -
  have z: "hex_val (CHR ''0'') = Some 0"
    by (simp add: hex_val_def byte_of_def)
  have "b div 16 < 16" "b mod 16 < 16" using assms by (simp_all add: less_mult_imp_div_less)
  then show ?thesis
    by (simp add: hex2_def z hex_val_hex_char)
qed

lemma p_chars_quote [simp]: "p_chars (CHR 0x22 # r) = Some ([], r)"
  by (simp add: p_chars.simps)

lemma p_chars_escape:
  assumes "escape s = Some (x, r)"
  shows "p_chars (CHR 0x5C # s) = map_option (\<lambda>(t, q). (x @ t, q)) (p_chars r)"
  using assms by (subst p_chars.simps) simp

lemma p_chars_plain:
  assumes "c \<noteq> CHR 0x22" "c \<noteq> CHR 0x5C" "\<not> byte_of c < 32"
  shows "p_chars (c # r) = map_option (\<lambda>(t, q). (c # t, q)) (p_chars r)"
  using assms by (subst p_chars.simps) simp

lemma p_chars_char:
  "p_chars (json_char c @ r) = map_option (\<lambda>(t, q). (c # t, q)) (p_chars r)"
proof -
  have short: "p_chars (CHR 0x5C # e # r) = map_option (\<lambda>(t, q). (c # t, q)) (p_chars r)"
    if "escape (e # r) = Some ([c], r)" for e
    using p_chars_escape [OF that] by simp
  have u: "escape (CHR ''u'' # CHR ''0'' # CHR ''0'' # hex2 (byte_of c) @ r) = Some ([c], r)"
    if "byte_of c < 128"
    using that
    by (simp add: escape_def unicode_escape_def hex4_hex2 utf8_def char_of_byte_of)
  have long: "p_chars ([CHR 0x5C, CHR ''u'', CHR ''0'', CHR ''0''] @ hex2 (byte_of c) @ r)
      = map_option (\<lambda>(t, q). (c # t, q)) (p_chars r)" if "byte_of c < 128"
    using p_chars_escape [OF u [OF that]] by simp
  have is_c: "c = char_of n" if "byte_of c = n" for n
    using that char_of_byte_of by metis
  consider "byte_of c = 34" | "byte_of c = 92" | "byte_of c = 8" | "byte_of c = 12"
    | "byte_of c = 10" | "byte_of c = 13" | "byte_of c = 9"
    | "byte_of c \<notin> {34, 92, 8, 12, 10, 13, 9}" "byte_of c < 32 \<or> byte_of c \<in> {38, 60, 62}"
    | "byte_of c \<notin> {34, 92, 8, 12, 10, 13, 9}" "\<not> byte_of c < 32" "byte_of c \<notin> {38, 60, 62}"
    by auto
  then show ?thesis
  proof cases
    case 8
    then have "json_char c = [CHR 0x5C, CHR ''u'', CHR ''0'', CHR ''0''] @ hex2 (byte_of c)"
      by (auto simp: json_char_def Let_def)
    with 8 long show ?thesis by auto
  next
    case 1
    then have "c = CHR 0x22" by (simp add: byte_of_def flip: byte_of_eq)
    with 1 show ?thesis by (simp add: json_char_def short escape_def)
  next
    case 2
    then have "c = CHR 0x5C" by (simp add: byte_of_def flip: byte_of_eq)
    with 2 show ?thesis by (simp add: json_char_def short escape_def)
  next
    case 9
    then have "json_char c = [c]"
      by (auto simp: json_char_def Let_def)
    moreover have "c \<noteq> CHR 0x22" "c \<noteq> CHR 0x5C"
      using 9 by (auto simp: byte_of_def)
    ultimately show ?thesis using 9 by (simp add: p_chars_plain)
  qed (auto dest!: is_c simp: json_char_def Let_def byte_of_char_of escape_def
       intro!: short)
qed

lemma p_chars_json_quote:
  "p_chars (concat (map json_char s) @ CHR 0x22 # r) = Some (s, r)"
  by (induction s) (simp_all add: p_chars_char)

text \<open>The fuel a value needs, and that its text is long enough to give it.\<close>

fun fuel :: "json \<Rightarrow> nat"
  and elems_fuel :: "json list \<Rightarrow> nat"
  and members_fuel :: "members \<Rightarrow> nat"
where
  "fuel JNull = 1"
| "fuel (JBool b) = 1"
| "fuel (JNum s) = 1"
| "fuel (JStr s) = 1"
| "fuel (JArr xs) = Suc (elems_fuel xs)"
| "fuel (JObj ms) = Suc (members_fuel ms)"
| "elems_fuel [] = 0"
| "elems_fuel (x # xs) = Suc (max (fuel x) (elems_fuel xs))"
| "members_fuel [] = 0"
| "members_fuel ((k, v) # ms) = Suc (max (fuel v) (members_fuel ms))"

lemma valid_num_first:
  assumes "valid_num s"
  obtains c r where "s = c # r" "is_digit c \<or> c = CHR ''-''"
proof (cases s)
  case Nil
  with assms show thesis by (simp add: valid_num_def)
next
  case (Cons c r)
  with assms have "is_digit c \<or> c = CHR ''-''"
    by (auto simp: valid_num_def Let_def split: if_splits)
  with Cons that show thesis by blast
qed

lemma json_quote_length: "2 \<le> length (json_quote s)"
  by (simp add: json_quote_def)

lemma length_jprint_pos: "jwf j \<Longrightarrow> 0 < length (jprint j)"
  by (cases j) (auto simp: json_quote_def elim: valid_num_first)

lemma commas_Cons: "xs \<noteq> [] \<Longrightarrow> commas (x # xs) = x @ CHR '','' # commas xs"
  by (cases xs) auto

definition member_text :: "string \<times> json \<Rightarrow> string" where
  "member_text m = (case m of (k, v) \<Rightarrow> json_quote k @ CHR '':'' # jprint v)"

lemma member_text_pair:
  "member_text (k, v) = CHR 0x22 # concat (map json_char k) @ CHR 0x22 # CHR '':'' # jprint v"
  by (simp add: member_text_def json_quote_def)

lemma jprint_JObj:
  "jprint (JObj ms) = CHR ''{'' # commas (map member_text ms) @ ''}''"
  by (auto simp: member_text_def intro!: arg_cong [of _ _ commas])

lemma fuel_bounds:
  "jwf j \<Longrightarrow> fuel j \<le> length (jprint j)"
  "list_all jwf xs \<Longrightarrow> elems_fuel xs \<le> length (commas (map jprint xs)) + 1"
  "list_all (\<lambda>(k, v). jwf v) ms \<Longrightarrow> members_fuel ms \<le> length (commas (map member_text ms)) + 1"
proof (induction j and xs and ms rule: fuel_elems_fuel_members_fuel.induct)
  case (6 ms)
  then show ?case by (simp only: jprint_JObj) simp
next
  case (8 x xs)
  then show ?case
    by (cases xs) auto
next
  case (10 k v ms)
  then show ?case
    by (cases ms) (auto simp: member_text_def)
qed (auto intro: length_jprint_pos simp: json_quote_def Suc_leI elim: valid_num_first)

definition stops :: "string \<Rightarrow> bool" where
  "stops r \<longleftrightarrow> r = [] \<or> \<not> is_num_char (hd r)"

lemma stops_simps [simp]:
  "stops []" "stops (CHR '','' # r)" "stops (CHR '']'' # r)" "stops (CHR ''}'' # r)"
  by (simp_all add: stops_def is_num_char_def is_digit_def byte_of_def)

lemma jprint_first:
  assumes "jwf j"
  obtains c r where "jprint j = c # r" "\<not> is_ws c" "c \<noteq> CHR '']''" "c \<noteq> CHR ''}''"
proof -
  have "\<exists>c r. jprint j = c # r \<and> \<not> is_ws c \<and> c \<noteq> CHR '']'' \<and> c \<noteq> CHR ''}''"
  proof (cases j)
    case (JNum s)
    with assms obtain c r where "s = c # r" "is_digit c \<or> c = CHR ''-''"
      by (auto elim: valid_num_first)
    with JNum show ?thesis by (auto simp: is_digit_def is_ws_def byte_of_def)
  qed (auto simp: is_ws_def byte_of_def json_quote_def)
  with that show thesis by blast
qed

lemma skip_ws_jprint: "jwf j \<Longrightarrow> skip_ws (jprint j @ r) = jprint j @ r"
  by (erule jprint_first) (simp add: skip_ws_def)

lemma skip_ws_no [simp]:
  "skip_ws (CHR 0x22 # r) = CHR 0x22 # r" "skip_ws (CHR '','' # r) = CHR '','' # r"
  "skip_ws (CHR '':'' # r) = CHR '':'' # r"
  "skip_ws (CHR '']'' # r) = CHR '']'' # r" "skip_ws (CHR ''}'' # r) = CHR ''}'' # r"
  "skip_ws [] = []"
  by (simp_all add: skip_ws_def is_ws_def byte_of_def)

lemma commas_ws:
  assumes "list_all jwf xs" "xs \<noteq> []"
  shows "skip_ws (commas (map jprint xs) @ r) = commas (map jprint xs) @ r"
    and "\<not> HasPrefix (commas (map jprint xs) @ r) '']''"
proof -
  obtain x ys where xs: "xs = x # ys" using assms by (cases xs) auto
  then have "jwf x" using assms by simp
  then obtain c q where j: "jprint x = c # q" "\<not> is_ws c" "c \<noteq> CHR '']''"
    by (rule jprint_first)
  obtain t where t: "commas (map jprint xs) = c # t"
    using xs j by (cases ys) auto
  from j t show "skip_ws (commas (map jprint xs) @ r) = commas (map jprint xs) @ r"
    and "\<not> HasPrefix (commas (map jprint xs) @ r) '']''"
    by (simp_all add: skip_ws_def)
qed

lemma members_first:
  assumes "ms \<noteq> []"
  obtains t where "commas (map member_text ms) = CHR 0x22 # t"
  using assms by (cases ms; cases "tl ms") (auto simp: member_text_def json_quote_def)

lemma takeWhile_stops:
  assumes "list_all is_num_char s" "stops r"
  shows "takeWhile is_num_char (s @ r) = s" and "dropWhile is_num_char (s @ r) = r"
proof -
  have r: "takeWhile is_num_char r = []" "dropWhile is_num_char r = r"
    using assms(2) by (cases r; simp add: stops_def)+
  show "takeWhile is_num_char (s @ r) = s" "dropWhile is_num_char (s @ r) = r"
    using assms(1) by (induction s) (simp_all add: r)
qed

lemma p_val_num:
  assumes "valid_num s" "list_all is_num_char s" "stops r"
  shows "p_val (Suc n) (s @ r) = Some (JNum s, r)"
proof -
  obtain c q where s: "s = c # q" and c: "is_digit c \<or> c = CHR ''-''"
    using assms(1) by (rule valid_num_first)
  have "c \<noteq> CHR 0x22" "c \<noteq> CHR ''{''" "c \<noteq> CHR ''[''" "c \<noteq> CHR ''n''" "c \<noteq> CHR ''t''" "c \<noteq> CHR ''f''"
    using c by (auto simp: is_digit_def byte_of_def)
  moreover have "p_num (s @ r) = Some (JNum s, r)"
    using assms by (simp add: p_num_def takeWhile_stops)
  ultimately show ?thesis by (simp add: s)
qed

lemma p_val_jprint:
  "jwf j \<Longrightarrow> fuel j \<le> n \<Longrightarrow> stops r \<Longrightarrow> p_val n (jprint j @ r) = Some (j, r)"
  "list_all jwf xs \<Longrightarrow> xs \<noteq> [] \<Longrightarrow> elems_fuel xs \<le> n
    \<Longrightarrow> p_elems n (commas (map jprint xs) @ CHR '']'' # r) = Some (xs, r)"
  "list_all (\<lambda>(k, v). jwf v) ms \<Longrightarrow> ms \<noteq> [] \<Longrightarrow> members_fuel ms \<le> n
    \<Longrightarrow> p_members n (commas (map member_text ms) @ CHR ''}'' # r) = Some (ms, r)"
proof (induction j and xs and ms arbitrary: n r and n r and n r
    rule: fuel_elems_fuel_members_fuel.induct)
  case (5 xs)
  then obtain m where n: "n = Suc m" "elems_fuel xs \<le> m" by (cases n) auto
  show ?case
  proof (cases "xs = []")
    case True
    then show ?thesis by (simp add: n)
  next
    case False
    with 5 n show ?thesis by (simp add: commas_ws)
  qed
next
  case (6 ms)
  then obtain m where n: "n = Suc m" "members_fuel ms \<le> m" by (cases n) auto
  show ?case
  proof (cases "ms = []")
    case True
    then show ?thesis by (simp add: n)
  next
    case False
    then obtain t where t: "commas (map member_text ms) = CHR 0x22 # t" by (rule members_first)
    have "p_members m (commas (map member_text ms) @ CHR ''}'' # r) = Some (ms, r)"
      using 6 n False by simp
    with t n show ?thesis by (simp only: jprint_JObj) simp
  qed
next
  case (1 n r)
  then show ?case by (cases n) auto
next
  case (2 b n r)
  then show ?case by (cases n) auto
next
  case (3 s n r)
  then show ?case by (cases n) (auto simp: p_val_num simp del: p_val.simps)
next
  case (4 s n r)
  then show ?case by (cases n) (auto simp: json_quote_def p_chars_json_quote)
next
  case 7
  then show ?case by simp
next
  case (8 x xs)
  then obtain m where n: "n = Suc m" "fuel x \<le> m" "elems_fuel xs \<le> m" by (cases n) auto
  show ?case
  proof (cases "xs = []")
    case True
    with 8 n show ?thesis by simp
  next
    case False
    with 8 n show ?thesis by (simp add: commas_Cons commas_ws)
  qed
next
  case 9
  then show ?case by simp
next
  case (10 k v ms)
  then obtain m where n: "n = Suc m" "fuel v \<le> m" "members_fuel ms \<le> m" by (cases n) auto
  have v: "jwf v" using 10 by simp
  show ?case
  proof (cases "ms = []")
    case True
    with 10 n v show ?thesis
      by (simp add: member_text_pair p_chars_json_quote literal_def skip_ws_jprint)
  next
    case False
    then obtain t where t: "commas (map member_text ms) = CHR 0x22 # t" by (rule members_first)
    with False have "skip_ws (commas (map member_text ms) @ u) = commas (map member_text ms) @ u" for u
      by simp
    with 10 n v False show ?thesis
      by (simp add: commas_Cons member_text_pair p_chars_json_quote literal_def skip_ws_jprint)
  qed
qed

text \<open>\<open>json.NewDecoder(...).Decode\<close> takes the first value of the stream and leaves the rest.\<close>

definition first_json :: "string \<Rightarrow> json option" where
  "first_json s = map_option fst (p_val (Suc (length s)) (skip_ws s))"

lemma p_val_text:
  assumes "jwf j" "stops r"
  shows "p_val (Suc (length (jprint j @ r))) (skip_ws (jprint j @ r)) = Some (j, r)"
proof -
  have "fuel j \<le> Suc (length (jprint j @ r))"
    using fuel_bounds(1) [OF assms(1)] by simp
  with assms show ?thesis
    by (simp only: skip_ws_jprint p_val_jprint(1))
qed

lemma first_json_jprint: "jwf j \<Longrightarrow> stops r \<Longrightarrow> first_json (jprint j @ r) = Some j"
  by (simp only: first_json_def p_val_text option.map fst_conv)

lemma jparse_jprint_ws: "jwf j \<Longrightarrow> stops r \<Longrightarrow> skip_ws r = [] \<Longrightarrow> jparse (jprint j @ r) = Some j"
  by (simp only: jparse_def p_val_text option.case prod.case) simp

theorem jparse_jprint:
  assumes "jwf j"
  shows "jparse (jprint j) = Some j"
  using jparse_jprint_ws [OF assms, of "[]"] by (simp add: skip_ws_def)

section \<open>Decoding into a struct\<close>

text \<open>
  \<open>json.Unmarshal\<close> into a struct walks the members of the object in order. A
  member whose name is a field's, up to letter case, sets the field; a value of
  another type makes the call fail; \<open>null\<close> leaves a plain field as it is and
  sets a pointer to nil. The converters take the value the field has so far.
  The second argument of \<open>field\<close> is the JSON name in lower case.
\<close>

definition as_string :: "json \<Rightarrow> string \<Rightarrow> string option" where
  "as_string v old = (case v of JStr s \<Rightarrow> Some s | JNull \<Rightarrow> Some old | _ \<Rightarrow> None)"

definition as_int :: "json \<Rightarrow> int \<Rightarrow> int option" where
  "as_int v old = (case v of JNum s \<Rightarrow> parseInt64 s | JNull \<Rightarrow> Some old | _ \<Rightarrow> None)"

definition as_bool :: "json \<Rightarrow> bool \<Rightarrow> bool option" where
  "as_bool v old = (case v of JBool b \<Rightarrow> Some b | JNull \<Rightarrow> Some old | _ \<Rightarrow> None)"

definition as_time :: "json \<Rightarrow> GoTime \<Rightarrow> GoTime option" where
  "as_time v old = (case v of JStr s \<Rightarrow> parseRFC3339 s | JNull \<Rightarrow> Some old | _ \<Rightarrow> None)"

definition as_pointer :: "(json \<Rightarrow> 'a \<Rightarrow> 'a option) \<Rightarrow> 'a \<Rightarrow> json \<Rightarrow> 'a option \<Rightarrow> 'a option option" where
  "as_pointer conv zero v old =
     (if v = JNull then Some None
      else map_option Some (conv v (case old of None \<Rightarrow> zero | Some x \<Rightarrow> x)))"

fun field :: "(json \<Rightarrow> 'a \<Rightarrow> 'a option) \<Rightarrow> string \<Rightarrow> 'a \<Rightarrow> members \<Rightarrow> 'a option" where
  "field conv k old [] = Some old"
| "field conv k old ((k', v) # ms) =
     (if ToLower k' = k then (case conv v old of None \<Rightarrow> None | Some x \<Rightarrow> field conv k x ms)
      else field conv k old ms)"

definition str_field :: "string \<Rightarrow> members \<Rightarrow> string option" where
  "str_field k ms = field as_string k [] ms"

definition int_field :: "string \<Rightarrow> members \<Rightarrow> int option" where
  "int_field k ms = field as_int k 0 ms"

definition bool_field :: "string \<Rightarrow> members \<Rightarrow> bool option" where
  "bool_field k ms = field as_bool k False ms"

definition time_field :: "string \<Rightarrow> members \<Rightarrow> GoTime option" where
  "time_field k ms = field as_time k zeroTime ms"

definition str_pointer :: "string \<Rightarrow> members \<Rightarrow> string option option" where
  "str_pointer k ms = field (as_pointer as_string []) k None ms"

definition time_pointer :: "string \<Rightarrow> members \<Rightarrow> GoTime option option" where
  "time_pointer k ms = field (as_pointer as_time zeroTime) k None ms"

text \<open>The members of the object in a text; \<open>null\<close> decodes into the zero struct.\<close>

definition struct_of :: "json \<Rightarrow> members option" where
  "struct_of j = (case j of JObj ms \<Rightarrow> Some ms | JNull \<Rightarrow> Some [] | _ \<Rightarrow> None)"

definition unmarshal :: "string \<Rightarrow> members option" where
  "unmarshal s = Option.bind (jparse s) struct_of"

text \<open>
  Decoding into a \<open>map[string]any\<close> keeps the last member of a name, and the
  type assertion \<open>.(string)\<close> yields the empty string on any other type.
\<close>

definition any_string :: "string \<Rightarrow> members \<Rightarrow> string" where
  "any_string k ms =
     (case map_of (rev ms) k of Some (JStr s) \<Rightarrow> s | _ \<Rightarrow> [])"

text \<open>Encoding of the field types. A time outside the years 0 to 9999 does not encode.\<close>

definition json_int :: "int \<Rightarrow> json" where
  "json_int v = JNum (fmtInt v)"

definition json_time_ok :: "GoTime \<Rightarrow> bool" where
  "json_time_ok t \<longleftrightarrow> 0 \<le> year_of t \<and> year_of t \<le> 9999 \<and> \<bar>t_off t\<bar> < 1440"

definition json_time :: "GoTime \<Rightarrow> json" where
  "json_time t = JStr (fmtNano t)"

lemma as_string_simps [simp]:
  "as_string (JStr s) old = Some s" "as_string JNull old = Some old"
  by (simp_all add: as_string_def)

lemma as_bool_simps [simp]: "as_bool (JBool b) old = Some b"
  by (simp add: as_bool_def)

lemma as_int_json_int [simp]: "is_int64 v \<Longrightarrow> as_int (json_int v) old = Some v"
  by (simp add: as_int_def json_int_def parseInt64_fmtInt)

lemma as_time_json_time [simp]: "json_time_ok t \<Longrightarrow> as_time (json_time t) old = Some t"
  by (simp add: as_time_def json_time_def json_time_ok_def parse_fmt_nano)

lemma as_pointer_simps [simp]:
  "as_pointer conv zero JNull old = Some None"
  "as_pointer as_string zero' (JStr s) old' = Some (Some s)"
  "json_time_ok t \<Longrightarrow> as_pointer as_time zero'' (json_time t) old'' = Some (Some t)"
proof -
  have "json_time t \<noteq> JNull" by (simp add: json_time_def)
  then show "json_time_ok t \<Longrightarrow> as_pointer as_time zero'' (json_time t) old'' = Some (Some t)"
    by (simp add: as_pointer_def)
qed (simp_all add: as_pointer_def)

lemma dec_small: "n < 10 \<Longrightarrow> dec n = [digit_char (nat n)]"
  by (simp add: dec.simps [of n])

lemma hd_dec: "10 \<le> n \<Longrightarrow> hd (dec n) = hd (dec (n div 10))"
  by (simp add: dec.simps [of n])

lemma hd_dec_pos: "0 < n \<Longrightarrow> hd (dec n) \<noteq> CHR ''0''"
proof (induction n rule: dec.induct)
  case (1 n)
  show ?case
  proof (cases "n < 10")
    case True
    then have "digit_val (hd (dec n)) = n" using "1.prems" by (simp add: dec_small)
    with "1.prems" show ?thesis by (auto simp: digit_val_def byte_of_def)
  next
    case False
    with 1 show ?thesis by (simp add: hd_dec)
  qed
qed

lemma valid_num_dec:
  assumes "0 \<le> n"
  shows "valid_num (dec n)" and "valid_num (CHR ''-'' # dec n)"
proof -
  have tw: "takeWhile is_digit (dec n) = dec n" "dropWhile is_digit (dec n) = []"
    using dec_digits [of _ n] by (auto simp: takeWhile_eq_all_conv dropWhile_eq_Nil_conv)
  have "\<not> HasPrefix (dec n) ''-''"
    using dec_first [of n] by (cases "dec n") auto
  moreover have "hd (dec n) = CHR ''0'' \<longrightarrow> length (dec n) = 1"
    using assms hd_dec_pos [of n] by (cases "n = 0") (auto simp: dec_small)
  ultimately show "valid_num (dec n)" "valid_num (CHR ''-'' # dec n)"
    by (simp_all add: valid_num_def tw valid_frac_def valid_exp_def)
qed

lemma jwf_leaves [simp]: "jwf (json_time t)" "jwf (json_int v)"
proof -
  show "jwf (json_time t)" by (simp add: json_time_def)
  have "list_all is_num_char (dec n)" for n
    by (auto simp: list_all_iff is_num_char_def dest: dec_digits)
  moreover have "is_num_char (CHR ''-'')" by (simp add: is_num_char_def)
  ultimately show "jwf (json_int v)"
    by (simp add: json_int_def fmtInt_def valid_num_dec)
qed

lemma unmarshal_jprint: "list_all (\<lambda>(k, v). jwf v) ms \<Longrightarrow> unmarshal (jprint (JObj ms)) = Some ms"
  by (simp add: unmarshal_def jparse_jprint struct_of_def del: jprint.simps)

end
