(* ===== verification/Models.thy ===== *)
theory Models
  imports Ids Json
begin

text \<open>
  The data model: the structs of \<open>models.go\<close> as records (field names prefixed
  by the struct they belong to), its string enumerations, the errors of the
  code as values, and the database as one record of tables. A row of a table
  differs from the struct it is scanned into only where a column may be NULL
  (the e-mail of a user) or has another type (the start and end of an
  appointment are Unix seconds); those fields have a type parameter.
\<close>

section \<open>Enumerations\<close>

abbreviation PrivacyFull :: string where "PrivacyFull \<equiv> ''full''"
abbreviation PrivacyFreeBusy :: string where "PrivacyFreeBusy \<equiv> ''freebusy''"
abbreviation StatusPending :: string where "StatusPending \<equiv> ''pending''"
abbreviation StatusAccepted :: string where "StatusAccepted \<equiv> ''accepted''"
abbreviation StatusDeclined :: string where "StatusDeclined \<equiv> ''declined''"
abbreviation StatusAuto :: string where "StatusAuto \<equiv> ''auto''"
abbreviation GroupTypeHierarchical :: string where "GroupTypeHierarchical \<equiv> ''hierarchical''"
abbreviation GroupTypeNonHierarchical :: string where "GroupTypeNonHierarchical \<equiv> ''non_hierarchical''"

section \<open>Structs and rows\<close>

record 'email user =
  u_id :: string
  u_username :: string
  u_email :: 'email
  u_password_hash :: string
  u_display_name :: string
  u_created_at :: GoTime
  u_updated_at :: GoTime

type_synonym User = "string user"
type_synonym UserRow = "string option user"

record Group =
  g_id :: string
  g_name :: string
  g_description :: string
  g_created_at :: GoTime
  g_updated_at :: GoTime
  g_creator_id :: string
  g_creator_username :: string
  g_group_type :: string

record GroupMember =
  m_group_id :: string
  m_user_id :: string
  m_rank :: int
  m_added_by :: "string option"
  m_created_at :: GoTime
  m_username :: string

record 'ts appointment =
  a_id :: string
  a_title :: string
  a_description :: string
  a_owner_id :: string
  a_group_id :: "string option"
  a_start :: 'ts
  a_end :: 'ts
  a_privacy :: string
  a_status :: string
  a_created_at :: GoTime
  a_updated_at :: GoTime
  a_version :: int
  a_origin_node :: string
  a_deleted :: bool

type_synonym Appointment = "GoTime appointment"
type_synonym ApptRow = "int appointment"

record Participant =
  p_id :: string
  p_appointment_id :: string
  p_user_id :: string
  p_status :: string
  p_is_optional :: bool
  p_created_at :: GoTime
  p_updated_at :: GoTime

record Notification =
  n_id :: string
  n_user_id :: string
  n_type :: string
  n_payload :: string
  n_read_at :: "GoTime option"
  n_created_at :: GoTime

record Event =
  e_id :: int
  e_entity :: string
  e_entity_id :: string
  e_action :: string
  e_payload :: string
  e_created_at :: GoTime
  e_origin_node :: string
  e_version :: int

record EventFilter =
  ef_entity :: string
  ef_action :: string
  ef_since :: GoTime
  ef_limit :: int

record ParticipantDetails = Participant +
  pd_username :: string
  pd_display_name :: string

record ClusterNode =
  cn_node_id :: string
  cn_address :: string
  cn_source :: string
  cn_last_seen :: GoTime

record AuditLog =
  al_id :: int
  al_component :: string
  al_action :: string
  al_level :: string
  al_message :: string
  al_actor_id :: "string option"
  al_request_id :: string
  al_node_id :: string
  al_payload :: string
  al_occurred_at :: GoTime

record AuditFilter =
  af_component :: string
  af_action :: string
  af_level :: string
  af_request_id :: string
  af_since :: GoTime
  af_limit :: int

text \<open>Consensus: \<open>LogEntry\<close> and \<open>RaftState\<close>\<close>

record LogEntry =
  le_term :: int
  le_index :: int
  le_event_id :: string
  le_aggregate :: string
  le_aggregate_id :: string
  le_op :: string
  le_payload :: string
  le_ts :: GoTime

record RaftState =
  rs_current_term :: int
  rs_voted_for :: string
  rs_commit_index :: int
  rs_last_applied :: int

section \<open>Names of the replicated operations\<close>

text \<open>The constants of \<open>raft_apply.go\<close>\<close>

abbreviation OpApptCreatePersonal :: string where "OpApptCreatePersonal \<equiv> ''appointment.create_personal''"
abbreviation OpApptCreateGroup :: string where "OpApptCreateGroup \<equiv> ''appointment.create_group''"
abbreviation OpApptUpdate :: string where "OpApptUpdate \<equiv> ''appointment.update''"
abbreviation OpApptDelete :: string where "OpApptDelete \<equiv> ''appointment.delete''"
abbreviation OpUserCreate :: string where "OpUserCreate \<equiv> ''user.create''"
abbreviation OpUserUpdateProfile :: string where "OpUserUpdateProfile \<equiv> ''user.update_profile''"
abbreviation OpUserUpdatePassword :: string where "OpUserUpdatePassword \<equiv> ''user.update_password''"
abbreviation OpGroupCreate :: string where "OpGroupCreate \<equiv> ''group.create''"
abbreviation OpGroupUpdate :: string where "OpGroupUpdate \<equiv> ''group.update''"
abbreviation OpGroupDelete :: string where "OpGroupDelete \<equiv> ''group.delete''"
abbreviation OpGroupMemberAdd :: string where "OpGroupMemberAdd \<equiv> ''group.member_add''"
abbreviation OpGroupMemberUpdate :: string where "OpGroupMemberUpdate \<equiv> ''group.member_update''"
abbreviation OpGroupMemberRemove :: string where "OpGroupMemberRemove \<equiv> ''group.member_remove''"
abbreviation OpInvitationAccept :: string where "OpInvitationAccept \<equiv> ''invitation.accept''"
abbreviation OpInvitationReject :: string where "OpInvitationReject \<equiv> ''invitation.reject''"
abbreviation OpRepairUserClearEmailIfMatches :: string where "OpRepairUserClearEmailIfMatches \<equiv> ''repair.user.clear_email_if_matches''"
abbreviation OpRepairEnsureUser :: string where "OpRepairEnsureUser \<equiv> ''repair.user.ensure''"
abbreviation OpRepairEnsureGroupMember :: string where "OpRepairEnsureGroupMember \<equiv> ''repair.group.ensure_member''"
abbreviation OpRepairEnsureParticipant :: string where "OpRepairEnsureParticipant \<equiv> ''repair.appointment.ensure_participant''"
abbreviation OpRepairEnsureNotification :: string where "OpRepairEnsureNotification \<equiv> ''repair.notification.ensure''"

section \<open>Errors\<close>

text \<open>
  The code tells errors apart by identity (\<open>sql.ErrNoRows\<close>, the values of
  \<open>errors.go\<close>) and by substrings of their text, so an error has both.
\<close>

datatype gerr =
    ErrNoRows
  | ErrScanNull
  | ErrUnique string
  | ErrUnauthorized
  | ErrInvalidInput
  | ErrJson
  | ErrMsg string

fun err_text :: "gerr \<Rightarrow> string" where
  "err_text ErrNoRows = ''sql: no rows in result set''"
| "err_text ErrScanNull = ''sql: Scan error on column index 2: converting NULL to string is unsupported''"
| "err_text (ErrUnique col) = ''UNIQUE constraint failed: '' @ col"
| "err_text ErrUnauthorized = ''unauthorized''"
| "err_text ErrInvalidInput = ''invalid input''"
| "err_text ErrJson = ''invalid JSON''"
| "err_text (ErrMsg m) = m"

definition is_unique_error :: "gerr \<Rightarrow> bool" where
  "is_unique_error e \<longleftrightarrow> Contains (err_text e) ''UNIQUE constraint failed''"

lemma ErrUnique_is_unique [simp]: "is_unique_error (ErrUnique col)"
proof -
  have "err_text (ErrUnique col) = [] @ ''UNIQUE constraint failed'' @ ('': '' @ col)"
    by simp
  then show ?thesis unfolding is_unique_error_def by (metis Contains_appendI)
qed

lemma other_not_unique [simp]:
  "\<not> is_unique_error ErrNoRows" "\<not> is_unique_error ErrScanNull"
  "\<not> is_unique_error ErrUnauthorized" "\<not> is_unique_error ErrInvalidInput"
  "\<not> is_unique_error ErrJson"
  by (simp_all add: is_unique_error_def)

text \<open>Results: a value, or the error returned instead. The ok test of \<open>err == nil\<close>.\<close>

type_synonym 'a result = "gerr + 'a"

definition ok :: "'a result \<Rightarrow> bool" where
  "ok r \<longleftrightarrow> (case r of Inr _ \<Rightarrow> True | Inl _ \<Rightarrow> False)"

definition value_of :: "'a result \<Rightarrow> 'a option" where
  "value_of r = (case r of Inr x \<Rightarrow> Some x | Inl _ \<Rightarrow> None)"

lemma ok_simps [simp]: "ok (Inr x)" "\<not> ok (Inl e)"
  by (simp_all add: ok_def)

lemma value_of_simps [simp]: "value_of (Inr x) = Some x" "value_of (Inl e) = None"
  by (simp_all add: value_of_def)

section \<open>The database\<close>

record Store =
  tb_users :: "UserRow list"
  tb_groups :: "Group list"
  tb_members :: "GroupMember list"
  tb_appts :: "ApptRow list"
  tb_parts :: "Participant list"
  tb_notes :: "Notification list"
  tb_events :: "Event list"
  seq_events :: int
  tb_nodes :: "ClusterNode list"
  tb_audit :: "AuditLog list"
  seq_audit :: int
  tb_log :: "LogEntry list"
  tb_meta :: "(string \<times> string) list"
  tb_applied :: "(string \<times> int) list"

text \<open>
  \<open>NewStorage\<close> runs \<open>migrate\<close>, which drops every table before it creates it
  again, so a store starts from this value whatever the database file held.
\<close>

definition migrate :: Store where
  "migrate =
     \<lparr>tb_users = [], tb_groups = [], tb_members = [], tb_appts = [], tb_parts = [],
      tb_notes = [], tb_events = [], seq_events = 0, tb_nodes = [], tb_audit = [],
      seq_audit = 0, tb_log = [],
      tb_meta = [(''currentTerm'', ''0''), (''votedFor'', []), (''commitIndex'', ''0''),
                 (''lastApplied'', ''0'')],
      tb_applied = []\<rparr>"

end
