(* ===== verification/Store.thy ===== *)
theory Store
  imports Models "HOL-Library.List_Lexorder" "HOL-Library.Char_ord"
begin

text \<open>
  \<open>storage.go\<close>, first part: users, groups and their members. Every method of
  \<open>Storage\<close> is a function of the database; a query yields a result, a
  statement a result and the new database. \<open>now\<close> is the clock reading of the
  method. Of the errors a database may report, constraint violations, missing
  rows and NULLs scanned into Go strings are modelled.
\<close>

section \<open>Events\<close>

definition AppendEvent :: "GoTime \<Rightarrow> Event \<Rightarrow> Store \<Rightarrow> Store" where
  "AppendEvent now e s =
     s\<lparr>tb_events := tb_events s @ [e\<lparr>e_id := seq_events s + 1, e_created_at := now\<rparr>],
       seq_events := seq_events s + 1\<rparr>"

definition event :: "string \<Rightarrow> string \<Rightarrow> string \<Rightarrow> string \<Rightarrow> string \<Rightarrow> int \<Rightarrow> Event" where
  "event entity eid action payload origin version =
     \<lparr>e_id = 0, e_entity = entity, e_entity_id = eid, e_action = action, e_payload = payload,
      e_created_at = zeroTime, e_origin_node = origin, e_version = version\<rparr>"

text \<open>The text of a JSON object with the given member texts, as the format strings write it.\<close>

definition obj_text :: "(string \<times> string) list \<Rightarrow> string" where
  "obj_text ms = CHR ''{'' # commas (map (\<lambda>(k, t). CHR 0x22 # k @ [CHR 0x22, CHR '':''] @ t) ms) @ ''}''"

section \<open>Users\<close>

definition scan_user :: "UserRow \<Rightarrow> User result" where
  "scan_user r =
     (case u_email r of
        None \<Rightarrow> Inl ErrScanNull
      | Some e \<Rightarrow> Inr \<lparr>u_id = u_id r, u_username = u_username r, u_email = e,
          u_password_hash = u_password_hash r, u_display_name = u_display_name r,
          u_created_at = u_created_at r, u_updated_at = u_updated_at r\<rparr>)"

definition user_row :: "User \<Rightarrow> UserRow" where
  "user_row u = \<lparr>u_id = u_id u, u_username = u_username u, u_email = Some (u_email u),
     u_password_hash = u_password_hash u, u_display_name = u_display_name u,
     u_created_at = u_created_at u, u_updated_at = u_updated_at u\<rparr>"

definition query_user :: "(UserRow \<Rightarrow> bool) \<Rightarrow> Store \<Rightarrow> User result" where
  "query_user P s = (case find P (tb_users s) of None \<Rightarrow> Inl ErrNoRows | Some r \<Rightarrow> scan_user r)"

definition GetUserByUsername :: "string \<Rightarrow> Store \<Rightarrow> User result" where
  "GetUserByUsername name s = query_user (\<lambda>r. u_username r = name) s"

definition GetUserByEmail :: "string \<Rightarrow> Store \<Rightarrow> User result" where
  "GetUserByEmail email s = query_user (\<lambda>r. u_email r = Some email) s"

definition GetUserByID :: "string \<Rightarrow> Store \<Rightarrow> User result" where
  "GetUserByID uid s = query_user (\<lambda>r. u_id r = uid) s"

text \<open>The constraints an inserted or updated user row meets, checked against \<open>rows\<close>.\<close>

definition user_conflict :: "UserRow \<Rightarrow> UserRow list \<Rightarrow> gerr option" where
  "user_conflict r rows =
     (if taken u_id (u_id r) rows then Some (ErrUnique ''users.id'')
      else if taken u_username (u_username r) rows then Some (ErrUnique ''users.username'')
      else if u_email r \<noteq> None \<and> taken u_email (u_email r) rows then Some (ErrUnique ''users.email'')
      else None)"

definition CreateUser :: "GoTime \<Rightarrow> User \<Rightarrow> Store \<Rightarrow> User result \<times> Store" where
  "CreateUser now u s =
     (let uid = (if blank (u_id u) then UserIDFromUsername (u_username u) else u_id u);
          u' = u\<lparr>u_id := uid, u_created_at := now, u_updated_at := now\<rparr>
      in case user_conflict (user_row u') (tb_users s) of
           Some e \<Rightarrow> (Inl e, s)
         | None \<Rightarrow> (Inr u', s\<lparr>tb_users := tb_users s @ [user_row u']\<rparr>))"

definition UpdateUser :: "GoTime \<Rightarrow> User \<Rightarrow> Store \<Rightarrow> unit result \<times> Store" where
  "UpdateUser now u s =
     (let others = filter (\<lambda>r. u_id r \<noteq> u_id u) (tb_users s)
      in if \<not> taken u_id (u_id u) (tb_users s) then (Inr (), s)
         else case user_conflict (user_row u) others of
           Some e \<Rightarrow> (Inl e, s)
         | None \<Rightarrow> (Inr (), s\<lparr>tb_users := update_where (\<lambda>r. u_id r = u_id u)
             (\<lambda>r. r\<lparr>u_username := u_username u, u_email := Some (u_email u),
                u_display_name := u_display_name u, u_updated_at := now\<rparr>) (tb_users s)\<rparr>))"

definition UpdatePassword :: "GoTime \<Rightarrow> string \<Rightarrow> string \<Rightarrow> Store \<Rightarrow> Store" where
  "UpdatePassword now uid hash s =
     s\<lparr>tb_users := update_where (\<lambda>r. u_id r = uid)
        (\<lambda>r. r\<lparr>u_password_hash := hash, u_updated_at := now\<rparr>) (tb_users s)\<rparr>"

definition ClearUserEmailIfMatches :: "GoTime \<Rightarrow> string \<Rightarrow> string \<Rightarrow> Store \<Rightarrow> Store" where
  "ClearUserEmailIfMatches now uid email s =
     s\<lparr>tb_users := update_where (\<lambda>r. u_id r = uid \<and> u_email r = Some email)
        (\<lambda>r. r\<lparr>u_email := None, u_updated_at := now\<rparr>) (tb_users s)\<rparr>"

definition same_data :: "User \<Rightarrow> User \<Rightarrow> bool" where
  "same_data a b \<longleftrightarrow> u_username a = u_username b \<and> u_email a = u_email b
     \<and> u_display_name a = u_display_name b \<and> u_password_hash a = u_password_hash b"

text \<open>
  The two look-ups of \<open>EnsureUser\<close>, made before the insertion and again after a
  UNIQUE error: \<open>None\<close> when neither finds a user, otherwise what to return.
\<close>

definition ensure_user_checks :: "string \<Rightarrow> User \<Rightarrow> Store \<Rightarrow> User result option" where
  "ensure_user_checks lead u s =
     (let adopt = (\<lambda>x. u\<lparr>u_id := u_id x, u_created_at := u_created_at x, u_updated_at := u_updated_at x\<rparr>);
          conflict = (\<lambda>what v. Inl (ErrMsg (lead @ what @ v)));
          by_name = (if u_username u \<noteq> [] then value_of (GetUserByUsername (u_username u) s) else None)
      in case by_name of
           Some x \<Rightarrow> Some (if same_data x u then Inr (adopt x) else conflict ''username '' (u_username u))
         | None \<Rightarrow>
             (case (if u_email u \<noteq> [] then value_of (GetUserByEmail (u_email u) s) else None) of
                Some x \<Rightarrow> Some (if same_data x u then Inr (adopt x) else conflict ''email '' (u_email u))
              | None \<Rightarrow> None))"

definition EnsureUser :: "GoTime \<Rightarrow> User \<Rightarrow> Store \<Rightarrow> User result \<times> Store" where
  "EnsureUser now u s =
     (if blank (u_username u) \<and> blank (u_email u)
      then (Inl (ErrMsg ''ensure_user: missing username and email''), s)
      else case ensure_user_checks ''ensure_user conflict: '' u s of
        Some r \<Rightarrow> (r, s)
      | None \<Rightarrow>
          (let (r, s') = CreateUser now (u\<lparr>u_id := [], u_created_at := zeroTime, u_updated_at := zeroTime\<rparr>) s
           in case r of
                Inr nu \<Rightarrow> (Inr (u\<lparr>u_id := u_id nu, u_created_at := u_created_at nu,
                                   u_updated_at := u_updated_at nu\<rparr>), s')
              | Inl e \<Rightarrow>
                  (if is_unique_error e
                   then (case ensure_user_checks ''ensure_user conflict after insert race: '' u s' of
                           Some r' \<Rightarrow> (r', s')
                         | None \<Rightarrow> (Inl e, s'))
                   else (Inl e, s'))))"

section \<open>Groups and members\<close>

definition CreateGroup :: "GoTime \<Rightarrow> Group \<Rightarrow> Store \<Rightarrow> Group result \<times> Store" where
  "CreateGroup now g s =
     (let gid = (if blank (g_id g)
                 then GroupIDFromSignature (g_group_type g) (g_creator_username g) (g_name g)
                 else g_id g);
          g' = g\<lparr>g_id := gid, g_created_at := now, g_updated_at := now\<rparr>;
          payload = obj_text [(''id'', quoteGo gid), (''name'', quoteGo (g_name g)),
            (''description'', quoteGo (g_description g)), (''creator_id'', quoteGo (g_creator_id g)),
            (''creator_username'', quoteGo (g_creator_username g)),
            (''group_type'', quoteGo (g_group_type g))]
      in if taken g_id gid (tb_groups s) then (Inl (ErrUnique ''groups.id''), s)
         else (Inr g', AppendEvent now (event ''group'' gid ''create'' payload (g_creator_username g) 1)
                         (s\<lparr>tb_groups := tb_groups s @ [g']\<rparr>)))"

definition member_key :: "GroupMember \<Rightarrow> string \<times> string" where
  "member_key m = (m_group_id m, m_user_id m)"

definition username_of :: "string \<Rightarrow> Store \<Rightarrow> string" where
  "username_of uid s = (case GetUserByID uid s of Inr u \<Rightarrow> u_username u | Inl _ \<Rightarrow> [])"

definition AddGroupMember :: "GoTime \<Rightarrow> string \<Rightarrow> string \<Rightarrow> int \<Rightarrow> string option \<Rightarrow> Store \<Rightarrow> Store" where
  "AddGroupMember now gid uid rank addedBy s =
     (let m = \<lparr>m_group_id = gid, m_user_id = uid, m_rank = rank, m_added_by = addedBy,
               m_created_at = now, m_username = []\<rparr>;
          payload = obj_text [(''group_id'', quoteGo gid), (''user_id'', quoteGo uid),
            (''username'', quoteGo (username_of uid s)), (''rank'', fmtInt rank)]
      in AppendEvent now (event ''group_member'' gid ''add'' payload [] 1)
           (s\<lparr>tb_members := delete_where (\<lambda>r. member_key r = (gid, uid)) (tb_members s) @ [m]\<rparr>))"

definition EnsureGroupMember :: "GoTime \<Rightarrow> string \<Rightarrow> string \<Rightarrow> int \<Rightarrow> string option \<Rightarrow> Store \<Rightarrow> Store" where
  "EnsureGroupMember now gid uid rank addedBy s = AddGroupMember now gid uid rank addedBy s"

definition GetMemberRank :: "string \<Rightarrow> string \<Rightarrow> Store \<Rightarrow> int result" where
  "GetMemberRank gid uid s =
     (case find (\<lambda>m. member_key m = (gid, uid)) (tb_members s) of
        None \<Rightarrow> Inl ErrNoRows | Some m \<Rightarrow> Inr (m_rank m))"

definition IsSuperior :: "string \<Rightarrow> string \<Rightarrow> string \<Rightarrow> Store \<Rightarrow> bool result" where
  "IsSuperior gid userA userB s =
     (case GetMemberRank gid userA s of
        Inl e \<Rightarrow> Inl e
      | Inr ra \<Rightarrow> (case GetMemberRank gid userB s of Inl e \<Rightarrow> Inl e | Inr rb \<Rightarrow> Inr (ra > rb)))"

text \<open>The left join with \<open>users\<close> fills in the name of a member that is a user.\<close>

definition GetGroupMembers :: "string \<Rightarrow> Store \<Rightarrow> GroupMember list" where
  "GetGroupMembers gid s =
     map (\<lambda>m. m\<lparr>m_username := (case find (\<lambda>r. u_id r = m_user_id m) (tb_users s) of
                               None \<Rightarrow> [] | Some r \<Rightarrow> u_username r)\<rparr>)
       (filter (\<lambda>m. m_group_id m = gid) (tb_members s))"

definition GetGroupByID :: "string \<Rightarrow> Store \<Rightarrow> Group result" where
  "GetGroupByID gid s =
     (case find (\<lambda>g. g_id g = gid) (tb_groups s) of None \<Rightarrow> Inl ErrNoRows | Some g \<Rightarrow> Inr g)"

definition FindGroupBySignature :: "string \<Rightarrow> string \<Rightarrow> string \<Rightarrow> Store \<Rightarrow> string" where
  "FindGroupBySignature name creator gtype s =
     (case find (\<lambda>g. g_name g = name \<and> g_creator_id g = creator \<and> g_group_type g = gtype) (tb_groups s) of
        None \<Rightarrow> [] | Some g \<Rightarrow> g_id g)"

definition GetGroupsForUser :: "string \<Rightarrow> Store \<Rightarrow> Group list" where
  "GetGroupsForUser uid s =
     sort_key g_name
       (concat (map (\<lambda>g. map (\<lambda>m. g)
           (filter (\<lambda>m. m_group_id m = g_id g \<and> m_user_id m = uid) (tb_members s))) (tb_groups s)))"

definition UpdateGroup :: "GoTime \<Rightarrow> Group \<Rightarrow> Store \<Rightarrow> Store" where
  "UpdateGroup now g s =
     s\<lparr>tb_groups := update_where (\<lambda>r. g_id r = g_id g)
        (\<lambda>r. r\<lparr>g_name := g_name g, g_description := g_description g, g_updated_at := now\<rparr>) (tb_groups s)\<rparr>"

definition group_appts :: "string \<Rightarrow> Store \<Rightarrow> string list" where
  "group_appts gid s = map a_id (filter (\<lambda>a. a_group_id a = Some gid) (tb_appts s))"

definition DeleteGroup :: "string \<Rightarrow> Store \<Rightarrow> Store" where
  "DeleteGroup gid s =
     s\<lparr>tb_members := delete_where (\<lambda>m. m_group_id m = gid) (tb_members s),
       tb_parts := delete_where (\<lambda>p. p_appointment_id p \<in> set (group_appts gid s)) (tb_parts s),
       tb_appts := delete_where (\<lambda>a. a_group_id a = Some gid) (tb_appts s),
       tb_groups := delete_where (\<lambda>g. g_id g = gid) (tb_groups s)\<rparr>"

definition UpdateGroupMember :: "string \<Rightarrow> string \<Rightarrow> int \<Rightarrow> Store \<Rightarrow> Store" where
  "UpdateGroupMember gid uid rank s =
     s\<lparr>tb_members := update_where (\<lambda>m. member_key m = (gid, uid)) (\<lambda>m. m\<lparr>m_rank := rank\<rparr>) (tb_members s)\<rparr>"

definition RemoveGroupMember :: "string \<Rightarrow> string \<Rightarrow> Store \<Rightarrow> unit result \<times> Store" where
  "RemoveGroupMember gid uid s =
     (if \<not> taken member_key (gid, uid) (tb_members s)
      then (Inl (ErrMsg ''member not found in group''), s)
      else (Inr (), s\<lparr>tb_members := delete_where (\<lambda>m. member_key m = (gid, uid)) (tb_members s),
                      tb_parts := delete_where (\<lambda>p. p_user_id p = uid
                          \<and> p_appointment_id p \<in> set (group_appts gid s)) (tb_parts s)\<rparr>))"

end
