(* ===== verification/StoreAppts.thy ===== *)
theory StoreAppts
  imports Store "HOL-Library.Product_Lexorder"
begin

text \<open>
  \<open>storage.go\<close>, second part: appointments and their participants,
  notifications, agendas, events, audit records, the record of applied log
  entries and the cluster nodes. A query without \<open>ORDER BY\<close> returns its rows
  in table order; \<open>DATETIME\<close> columns compare as instants.
\<close>

section \<open>Participants\<close>

definition part_key :: "Participant \<Rightarrow> string \<times> string" where
  "part_key p = (p_appointment_id p, p_user_id p)"

definition GetParticipantByAppointmentAndUser :: "string \<Rightarrow> string \<Rightarrow> Store \<Rightarrow> Participant result" where
  "GetParticipantByAppointmentAndUser aid uid s =
     (case find (\<lambda>p. part_key p = (aid, uid)) (tb_parts s) of
        None \<Rightarrow> Inl ErrNoRows | Some p \<Rightarrow> Inr p)"

definition participant_id :: "string \<Rightarrow> string \<Rightarrow> string" where
  "participant_id aid uid = stableID ''participant'' (aid @ CHR '':'' # uid)"

definition insert_participant :: "Participant \<Rightarrow> Store \<Rightarrow> unit result \<times> Store" where
  "insert_participant p s =
     (if taken p_id (p_id p) (tb_parts s) then (Inl (ErrUnique ''participants.id''), s)
      else if taken part_key (part_key p) (tb_parts s)
      then (Inl (ErrUnique ''participants.appointment_id, participants.user_id''), s)
      else (Inr (), s\<lparr>tb_parts := tb_parts s @ [p]\<rparr>))"

definition AddParticipant :: "GoTime \<Rightarrow> Participant \<Rightarrow> Store \<Rightarrow> unit result \<times> Store" where
  "AddParticipant now p s =
     (let pid = (if blank (p_id p) then participant_id (p_appointment_id p) (p_user_id p) else p_id p)
      in insert_participant (p\<lparr>p_id := pid, p_created_at := now, p_updated_at := now\<rparr>) s)"

definition participant :: "string \<Rightarrow> string \<Rightarrow> string \<Rightarrow> bool \<Rightarrow> Participant" where
  "participant aid uid status optional =
     \<lparr>p_id = [], p_appointment_id = aid, p_user_id = uid, p_status = status,
      p_is_optional = optional, p_created_at = zeroTime, p_updated_at = zeroTime\<rparr>"

section \<open>Appointments\<close>

definition scan_appt :: "ApptRow \<Rightarrow> Appointment" where
  "scan_appt r = \<lparr>a_id = a_id r, a_title = a_title r, a_description = a_description r,
     a_owner_id = a_owner_id r, a_group_id = a_group_id r,
     a_start = unixTime (a_start r), a_end = unixTime (a_end r),
     a_privacy = a_privacy r, a_status = a_status r, a_created_at = a_created_at r,
     a_updated_at = a_updated_at r, a_version = a_version r, a_origin_node = a_origin_node r,
     a_deleted = a_deleted r\<rparr>"

text \<open>The row an \<open>INSERT\<close> of an appointment writes: version 1, not deleted.\<close>

definition appt_row :: "GoTime \<Rightarrow> Appointment \<Rightarrow> ApptRow" where
  "appt_row now a = \<lparr>a_id = a_id a, a_title = a_title a, a_description = a_description a,
     a_owner_id = a_owner_id a, a_group_id = a_group_id a,
     a_start = Unix (a_start a), a_end = Unix (a_end a),
     a_privacy = a_privacy a, a_status = a_status a, a_created_at = now,
     a_updated_at = now, a_version = 1, a_origin_node = a_origin_node a, a_deleted = False\<rparr>"

definition GetAppointmentByID :: "string \<Rightarrow> Store \<Rightarrow> Appointment result" where
  "GetAppointmentByID aid s =
     (case find (\<lambda>a. a_id a = aid \<and> \<not> a_deleted a) (tb_appts s) of
        None \<Rightarrow> Inl ErrNoRows | Some r \<Rightarrow> Inr (scan_appt r))"

text \<open>\<open>ORDER BY created_at DESC LIMIT 1\<close> over the rows that match.\<close>

definition FindAppointmentBySignature ::
    "string \<Rightarrow> string option \<Rightarrow> GoTime \<Rightarrow> GoTime \<Rightarrow> string \<Rightarrow> Store \<Rightarrow> string" where
  "FindAppointmentBySignature owner gid start fin title s =
     (case sort_key (\<lambda>a. - t_ns (a_created_at a))
             (filter (\<lambda>a. a_owner_id a = owner \<and> a_group_id a = gid \<and> a_start a = Unix start
                        \<and> a_end a = Unix fin \<and> a_title a = title \<and> \<not> a_deleted a) (tb_appts s)) of
        [] \<Rightarrow> [] | a # _ \<Rightarrow> a_id a)"

definition appointment_id :: "Appointment \<Rightarrow> Store \<Rightarrow> string" where
  "appointment_id a s =
     (let owner = (case GetUserByID (a_owner_id a) s of
                     Inr u \<Rightarrow> if blank (u_username u) then a_owner_id a else u_username u
                   | Inl _ \<Rightarrow> a_owner_id a);
          sig = (case a_group_id a of None \<Rightarrow> [] | Some g \<Rightarrow> g)
      in if blank (a_id a) then AppointmentIDFromSignature owner sig (a_start a) (a_end a) (a_title a)
         else a_id a)"

definition group_name_of :: "string \<Rightarrow> Store \<Rightarrow> string" where
  "group_name_of gid s = (case GetGroupByID gid s of Inr g \<Rightarrow> g_name g | Inl _ \<Rightarrow> [])"

definition group_creator_of :: "string \<Rightarrow> Store \<Rightarrow> string" where
  "group_creator_of gid s = (case GetGroupByID gid s of Inr g \<Rightarrow> g_creator_username g | Inl _ \<Rightarrow> [])"

definition group_type_text :: "string \<Rightarrow> Store \<Rightarrow> string" where
  "group_type_text gid s = (case GetGroupByID gid s of Inr g \<Rightarrow> quoteGo (g_group_type g) | Inl _ \<Rightarrow> ''null'')"

definition of_group :: "'a \<Rightarrow> (string \<Rightarrow> 'a) \<Rightarrow> string option \<Rightarrow> 'a" where
  "of_group d f gid = (case gid of None \<Rightarrow> d | Some g \<Rightarrow> f g)"

definition create_payload :: "Appointment \<Rightarrow> Store \<Rightarrow> string" where
  "create_payload a s = obj_text [
     (''owner_id'', quoteGo (a_owner_id a)),
     (''owner_username'', quoteGo (username_of (a_owner_id a) s)),
     (''group_id'', of_group ''null'' quoteGo (a_group_id a)),
     (''group_name'', quoteGo (of_group [] (\<lambda>g. group_name_of g s) (a_group_id a))),
     (''group_creator_username'', quoteGo (of_group [] (\<lambda>g. group_creator_of g s) (a_group_id a))),
     (''group_type'', of_group ''null'' (\<lambda>g. group_type_text g s) (a_group_id a)),
     (''title'', quoteGo (a_title a)), (''description'', quoteGo (a_description a)),
     (''start'', quoteGo (fmtRFC3339 (a_start a))), (''end'', quoteGo (fmtRFC3339 (a_end a))),
     (''privacy'', quoteGo (a_privacy a))]"

definition CreateAppointment :: "GoTime \<Rightarrow> Appointment \<Rightarrow> Store \<Rightarrow> Appointment result \<times> Store" where
  "CreateAppointment now a s =
     (let a' = a\<lparr>a_id := appointment_id a s, a_created_at := now, a_updated_at := now\<rparr>;
          s' = s\<lparr>tb_appts := tb_appts s @ [appt_row now a']\<rparr>
      in if taken a_id (a_id a') (tb_appts s) then (Inl (ErrUnique ''appointments.id''), s)
         else (Inr a', AppendEvent now (event ''appointment'' (a_id a') ''create'' (create_payload a' s')
                          (a_origin_node a) (a_version a)) s'))"

definition UpdateAppointment :: "GoTime \<Rightarrow> Appointment \<Rightarrow> Store \<Rightarrow> Store" where
  "UpdateAppointment now a s =
     s\<lparr>tb_appts := update_where (\<lambda>r. a_id r = a_id a \<and> \<not> a_deleted r)
        (\<lambda>r. r\<lparr>a_title := a_title a, a_description := a_description a, a_start := Unix (a_start a),
               a_end := Unix (a_end a), a_privacy := a_privacy a, a_updated_at := now,
               a_version := a_version r + 1\<rparr>) (tb_appts s)\<rparr>"

definition DeleteAppointment :: "GoTime \<Rightarrow> string \<Rightarrow> Store \<Rightarrow> Store" where
  "DeleteAppointment now aid s =
     s\<lparr>tb_appts := update_where (\<lambda>r. a_id r = aid)
        (\<lambda>r. r\<lparr>a_deleted := True, a_updated_at := now, a_version := a_version r + 1\<rparr>) (tb_appts s)\<rparr>"

definition status_payload :: "string \<Rightarrow> string \<Rightarrow> string \<Rightarrow> Store \<Rightarrow> string" where
  "status_payload aid uid status s =
     (let r = GetAppointmentByID aid s;
          appt = (\<lambda>f. case r of Inr a \<Rightarrow> f a | Inl _ \<Rightarrow> []);
          gid = (case r of Inr a \<Rightarrow> a_group_id a | Inl _ \<Rightarrow> None)
      in obj_text [
     (''appointment_id'', quoteGo aid), (''user_id'', quoteGo uid),
     (''username'', quoteGo (username_of uid s)), (''status'', quoteGo status),
     (''appt_owner_username'', quoteGo (appt (\<lambda>a. username_of (a_owner_id a) s))),
     (''appt_group_id'', of_group ''null'' quoteGo gid),
     (''appt_group_name'', quoteGo (of_group [] (\<lambda>g. group_name_of g s) gid)),
     (''appt_group_creator_username'', quoteGo (of_group [] (\<lambda>g. group_creator_of g s) gid)),
     (''appt_group_type'', of_group ''null'' (\<lambda>g. group_type_text g s) gid),
     (''appt_title'', quoteGo (appt a_title)),
     (''appt_start'', quoteGo (appt (\<lambda>a. fmtRFC3339 (a_start a)))),
     (''appt_end'', quoteGo (appt (\<lambda>a. fmtRFC3339 (a_end a))))])"

definition UpdateParticipantStatus :: "GoTime \<Rightarrow> string \<Rightarrow> string \<Rightarrow> string \<Rightarrow> Store \<Rightarrow> Store" where
  "UpdateParticipantStatus now aid uid status s =
     AppendEvent now (event ''invitation'' aid ''status_change'' (status_payload aid uid status s) [] 1)
       (s\<lparr>tb_parts := update_where (\<lambda>p. part_key p = (aid, uid))
            (\<lambda>p. p\<lparr>p_status := status, p_updated_at := now\<rparr>) (tb_parts s)\<rparr>)"

definition EnsureParticipant ::
    "GoTime \<Rightarrow> string \<Rightarrow> string \<Rightarrow> string \<Rightarrow> bool \<Rightarrow> Store \<Rightarrow> unit result \<times> Store" where
  "EnsureParticipant now aid uid status optional s =
     (case GetParticipantByAppointmentAndUser aid uid s of
        Inr p \<Rightarrow> if p_status p \<noteq> status then (Inr (), UpdateParticipantStatus now aid uid status s)
                 else (Inr (), s)
      | Inl _ \<Rightarrow> AddParticipant now (participant aid uid status optional) s)"

section \<open>Conflicts and agendas\<close>

text \<open>\<open>NOT (end_ts <= start OR start_ts >= end)\<close>\<close>

definition overlaps :: "ApptRow \<Rightarrow> GoTime \<Rightarrow> GoTime \<Rightarrow> bool" where
  "overlaps a start fin \<longleftrightarrow> \<not> (a_end a \<le> Unix start \<or> a_start a \<ge> Unix fin)"

text \<open>The join of the appointments that satisfy \<open>P\<close> with the participations that satisfy \<open>Q\<close>.\<close>

definition join_parts :: "(ApptRow \<Rightarrow> bool) \<Rightarrow> (Participant \<Rightarrow> bool) \<Rightarrow> Store \<Rightarrow> ApptRow list" where
  "join_parts P Q s =
     concat (map (\<lambda>a. map (\<lambda>p. a) (filter (\<lambda>p. p_appointment_id p = a_id a \<and> Q p) (tb_parts s)))
       (filter P (tb_appts s)))"

definition busy :: "string \<Rightarrow> Participant \<Rightarrow> bool" where
  "busy uid p \<longleftrightarrow> p_user_id p = uid \<and> (p_status p = StatusAccepted \<or> p_status p = StatusAuto)"

definition HasConflict :: "string \<Rightarrow> GoTime \<Rightarrow> GoTime \<Rightarrow> Store \<Rightarrow> bool" where
  "HasConflict uid start fin s \<longleftrightarrow>
     length (join_parts (\<lambda>a. \<not> a_deleted a \<and> overlaps a start fin) (busy uid) s) > 0"

definition HasConflictExcluding :: "string \<Rightarrow> GoTime \<Rightarrow> GoTime \<Rightarrow> string \<Rightarrow> Store \<Rightarrow> bool" where
  "HasConflictExcluding uid start fin excluded s \<longleftrightarrow>
     length (join_parts (\<lambda>a. \<not> a_deleted a \<and> a_id a \<noteq> excluded \<and> overlaps a start fin) (busy uid) s) > 0"

definition GetUserAgenda :: "string \<Rightarrow> GoTime \<Rightarrow> GoTime \<Rightarrow> Store \<Rightarrow> Appointment list" where
  "GetUserAgenda uid start fin s =
     map scan_appt (sort_key a_start
       (join_parts (\<lambda>a. \<not> a_deleted a \<and> overlaps a start fin) (\<lambda>p. p_user_id p = uid) s))"

definition GetGroupAgenda :: "string \<Rightarrow> GoTime \<Rightarrow> GoTime \<Rightarrow> Store \<Rightarrow> Appointment list" where
  "GetGroupAgenda gid start fin s =
     map scan_appt (sort_key a_start
       (filter (\<lambda>a. a_group_id a = Some gid \<and> \<not> a_deleted a \<and> overlaps a start fin) (tb_appts s)))"

definition details :: "Participant \<Rightarrow> UserRow \<Rightarrow> ParticipantDetails" where
  "details p u = \<lparr>p_id = p_id p, p_appointment_id = p_appointment_id p, p_user_id = p_user_id p,
     p_status = p_status p, p_is_optional = p_is_optional p, p_created_at = p_created_at p,
     p_updated_at = p_updated_at p, pd_username = u_username u, pd_display_name = u_display_name u\<rparr>"

definition GetAppointmentParticipants :: "string \<Rightarrow> Store \<Rightarrow> ParticipantDetails list" where
  "GetAppointmentParticipants aid s =
     sort_key pd_username
       (concat (map (\<lambda>p. map (details p) (filter (\<lambda>u. u_id u = p_user_id p) (tb_users s)))
          (filter (\<lambda>p. p_appointment_id p = aid) (tb_parts s))))"

end
