(* ===== verification/StoreEvents.thy ===== *)
theory StoreEvents
  imports StoreAppts
begin

text \<open>
  \<open>storage.go\<close>, last part: notifications, the creation of a group appointment
  with its participants and invitations, the event and audit queries, the
  record of applied log entries and the cluster nodes.
\<close>

section \<open>Notifications\<close>

definition notification :: "string \<Rightarrow> string \<Rightarrow> string \<Rightarrow> Notification" where
  "notification uid typ payload =
     \<lparr>n_id = [], n_user_id = uid, n_type = typ, n_payload = payload, n_read_at = None,
      n_created_at = zeroTime\<rparr>"

definition insert_notification :: "Notification \<Rightarrow> Store \<Rightarrow> unit result \<times> Store" where
  "insert_notification n s =
     (if taken n_id (n_id n) (tb_notes s) then (Inl (ErrUnique ''notifications.id''), s)
      else (Inr (), s\<lparr>tb_notes := tb_notes s @ [n]\<rparr>))"

definition AddNotification :: "GoTime \<Rightarrow> Notification \<Rightarrow> Store \<Rightarrow> unit result \<times> Store" where
  "AddNotification now n s =
     (let nid = (if blank (n_id n)
                 then stableID ''notification'' (n_user_id n @ CHR '':'' # n_type n @ CHR '':'' # n_payload n)
                 else n_id n);
          payload = obj_text [(''user_id'', quoteGo (n_user_id n)),
            (''username'', quoteGo (username_of (n_user_id n) s)),
            (''type'', quoteGo (n_type n)), (''payload'', quoteGo (n_payload n))]
      in case insert_notification (n\<lparr>n_id := nid, n_created_at := now\<rparr>) s of
           (Inl e, s') \<Rightarrow> (Inl e, s')
         | (Inr u, s') \<Rightarrow> (Inr u, AppendEvent now (event ''notification'' nid ''create'' payload [] 1) s'))"

definition FindNotificationBySignature :: "string \<Rightarrow> string \<Rightarrow> string \<Rightarrow> Store \<Rightarrow> string" where
  "FindNotificationBySignature uid typ payload s =
     (case find (\<lambda>n. n_user_id n = uid \<and> n_type n = typ \<and> n_payload n = payload) (tb_notes s) of
        None \<Rightarrow> [] | Some n \<Rightarrow> n_id n)"

definition EnsureNotification :: "GoTime \<Rightarrow> Notification \<Rightarrow> Store \<Rightarrow> unit result \<times> Store" where
  "EnsureNotification now n s =
     (if FindNotificationBySignature (n_user_id n) (n_type n) (n_payload n) s \<noteq> [] then (Inr (), s)
      else AddNotification now n s)"

definition GetUserNotifications :: "string \<Rightarrow> Store \<Rightarrow> Notification list" where
  "GetUserNotifications uid s = filter (\<lambda>n. n_user_id n = uid) (tb_notes s)"

definition MarkNotificationRead :: "GoTime \<Rightarrow> string \<Rightarrow> Store \<Rightarrow> Store" where
  "MarkNotificationRead now nid s =
     s\<lparr>tb_notes := update_where (\<lambda>n. n_id n = nid) (\<lambda>n. n\<lparr>n_read_at := Some now\<rparr>) (tb_notes s)\<rparr>"

definition GetUnreadNotifications :: "string \<Rightarrow> Store \<Rightarrow> Notification list" where
  "GetUnreadNotifications uid s = filter (\<lambda>n. n_user_id n = uid \<and> n_read_at n = None) (tb_notes s)"

section \<open>Group appointments\<close>

text \<open>
  The status a member's participation starts with: in a group without hierarchy
  only the owner's is automatic; in a hierarchy it is automatic unless the
  member outranks the owner, who must be a member.
\<close>

definition invite_status :: "Group \<Rightarrow> Appointment \<Rightarrow> GroupMember \<Rightarrow> Store \<Rightarrow> string result" where
  "invite_status g a m s =
     (if g_group_type g = GroupTypeNonHierarchical
      then Inr (if m_user_id m = a_owner_id a then StatusAuto else StatusPending)
      else (case GetMemberRank (of_group [] id (a_group_id a)) (a_owner_id a) s of
              Inl e \<Rightarrow> Inl e
            | Inr rank \<Rightarrow> Inr (if m_rank m > rank then StatusPending else StatusAuto)))"

definition invite_payload :: "Appointment \<Rightarrow> string \<Rightarrow> Store \<Rightarrow> string" where
  "invite_payload a status s =
     (let creator = GetUserByID (a_owner_id a) s; gid = of_group [] id (a_group_id a)
      in obj_text [
     (''appointment_id'', quoteGo (a_id a)), (''title'', quoteGo (a_title a)),
     (''description'', quoteGo (a_description a)),
     (''start'', quoteGo (fmtRFC3339 (a_start a))), (''end'', quoteGo (fmtRFC3339 (a_end a))),
     (''group_id'', quoteGo gid), (''group_name'', quoteGo (group_name_of gid s)),
     (''created_by_id'', quoteGo (a_owner_id a)),
     (''created_by_username'', quoteGo (case creator of Inr u \<Rightarrow> u_username u | Inl _ \<Rightarrow> [])),
     (''created_by_display_name'', quoteGo (case creator of Inr u \<Rightarrow> u_display_name u | Inl _ \<Rightarrow> [])),
     (''status'', quoteGo status), (''privacy'', quoteGo (a_privacy a))])"

text \<open>
  One round of the loop over the members, on the tables of the transaction
  \<open>tx\<close>; what the loop reads outside the transaction comes from \<open>s\<close>.
\<close>

definition invite_member ::
    "GoTime \<Rightarrow> Group \<Rightarrow> Appointment \<Rightarrow> GroupMember \<Rightarrow> Store \<Rightarrow> Store \<Rightarrow> (Participant \<times> Store) result" where
  "invite_member now g a m s tx =
     (case invite_status g a m s of
        Inl e \<Rightarrow> Inl e
      | Inr status \<Rightarrow>
          (let p = \<lparr>p_id = participant_id (a_id a) (m_user_id m), p_appointment_id = a_id a,
                    p_user_id = m_user_id m, p_status = status, p_is_optional = False,
                    p_created_at = now, p_updated_at = now\<rparr>;
               n = \<lparr>n_id = stableID ''notification'' (m_user_id m @ '':invite:'' @ a_id a),
                    n_user_id = m_user_id m, n_type = ''invite'',
                    n_payload = invite_payload a status s, n_read_at = None, n_created_at = now\<rparr>
           in case insert_participant p tx of
                (Inl e, _) \<Rightarrow> Inl e
              | (Inr _, tx1) \<Rightarrow>
                  (case insert_notification n tx1 of
                     (Inl e, _) \<Rightarrow> Inl e
                   | (Inr _, tx2) \<Rightarrow> Inr (p, tx2))))"

fun invite_members ::
    "GoTime \<Rightarrow> Group \<Rightarrow> Appointment \<Rightarrow> GroupMember list \<Rightarrow> Store \<Rightarrow> Store
     \<Rightarrow> (Participant list \<times> Store) result" where
  "invite_members now g a [] s tx = Inr ([], tx)"
| "invite_members now g a (m # ms) s tx =
     (case invite_member now g a m s tx of
        Inl e \<Rightarrow> Inl e
      | Inr (p, tx1) \<Rightarrow>
          (case invite_members now g a ms s tx1 of
             Inl e \<Rightarrow> Inl e
           | Inr (ps, tx2) \<Rightarrow> Inr (p # ps, tx2)))"

definition group_create_payload :: "Appointment \<Rightarrow> string \<Rightarrow> Store \<Rightarrow> string" where
  "group_create_payload a gid s = obj_text [
     (''owner_id'', quoteGo (a_owner_id a)),
     (''owner_username'', quoteGo (username_of (a_owner_id a) s)),
     (''group_id'', quoteGo gid), (''group_name'', quoteGo (group_name_of gid s)),
     (''group_creator_username'', quoteGo (group_creator_of gid s)),
     (''title'', quoteGo (a_title a)), (''description'', quoteGo (a_description a)),
     (''start'', quoteGo (fmtRFC3339 (a_start a))), (''end'', quoteGo (fmtRFC3339 (a_end a))),
     (''privacy'', quoteGo (a_privacy a))]"

text \<open>An error before the commit rolls the transaction back: the database is the old one.\<close>

definition CreateGroupAppointment ::
    "GoTime \<Rightarrow> Appointment \<Rightarrow> Store \<Rightarrow> (Appointment \<times> Participant list) result \<times> Store" where
  "CreateGroupAppointment now a s =
     (case a_group_id a of
        None \<Rightarrow> (Inl (ErrMsg ''group appointment requires GroupID''), s)
      | Some gid \<Rightarrow>
          (let a' = a\<lparr>a_id := appointment_id a s, a_created_at := now, a_updated_at := now\<rparr>
           in if taken a_id (a_id a') (tb_appts s) then (Inl (ErrUnique ''appointments.id''), s)
              else case GetGroupByID gid s of
                Inl e \<Rightarrow> (Inl e, s)
              | Inr g \<Rightarrow>
                  (case invite_members now g a' (GetGroupMembers gid s) s
                          (s\<lparr>tb_appts := tb_appts s @ [appt_row now a']\<rparr>) of
                     Inl e \<Rightarrow> (Inl e, s)
                   | Inr (ps, s') \<Rightarrow>
                       (Inr (a', ps),
                        AppendEvent now (event ''appointment'' (a_id a') ''create''
                          (group_create_payload a' gid s') (a_origin_node a) (a_version a)) s'))))"

section \<open>Events and audit records\<close>

definition ListEvents :: "EventFilter \<Rightarrow> Store \<Rightarrow> Event list" where
  "ListEvents f s =
     (let rows = sort_key (\<lambda>e. (t_ns (e_created_at e), e_id e))
        (filter (\<lambda>e. (ef_entity f \<noteq> [] \<longrightarrow> e_entity e = ef_entity f)
                   \<and> (ef_action f \<noteq> [] \<longrightarrow> e_action e = ef_action f)
                   \<and> (\<not> IsZero (ef_since f) \<longrightarrow> t_ns (e_created_at e) \<ge> t_ns (ef_since f)))
           (tb_events s))
      in if ef_limit f > 0 then take (nat (ef_limit f)) rows else rows)"

definition AppendAudit :: "GoTime \<Rightarrow> AuditLog \<Rightarrow> Store \<Rightarrow> Store" where
  "AppendAudit now entry s =
     s\<lparr>tb_audit := tb_audit s @ [entry\<lparr>al_id := seq_audit s + 1,
         al_occurred_at := (if IsZero (al_occurred_at entry) then now else al_occurred_at entry)\<rparr>],
       seq_audit := seq_audit s + 1\<rparr>"

definition ListAuditLogs :: "AuditFilter \<Rightarrow> Store \<Rightarrow> AuditLog list" where
  "ListAuditLogs f s =
     (let limit = (if af_limit f \<le> 0 then 100 else if af_limit f > 1000 then 1000 else af_limit f)
      in take (nat limit) (sort_key (\<lambda>a. - t_ns (al_occurred_at a))
        (filter (\<lambda>a. (af_component f \<noteq> [] \<longrightarrow> al_component a = af_component f)
                   \<and> (af_action f \<noteq> [] \<longrightarrow> al_action a = af_action f)
                   \<and> (af_level f \<noteq> [] \<longrightarrow> al_level a = af_level f)
                   \<and> (af_request_id f \<noteq> [] \<longrightarrow> al_request_id a = af_request_id f)
                   \<and> (\<not> IsZero (af_since f) \<longrightarrow> t_ns (al_occurred_at a) \<ge> t_ns (af_since f)))
           (tb_audit s))))"

section \<open>The record of applied log entries\<close>

definition HasAppliedEvent :: "string \<Rightarrow> Store \<Rightarrow> bool result" where
  "HasAppliedEvent eid s =
     (if blank eid then Inl (ErrMsg ''empty event id'')
      else Inr (taken fst eid (tb_applied s)))"

definition RecordAppliedEvent :: "string \<Rightarrow> int \<Rightarrow> Store \<Rightarrow> unit result \<times> Store" where
  "RecordAppliedEvent eid idx s =
     (if blank eid then (Inl (ErrMsg ''empty event id''), s)
      else if taken fst eid (tb_applied s) then (Inr (), s)
      else (Inr (), s\<lparr>tb_applied := tb_applied s @ [(eid, if idx < 0 then 0 else idx)]\<rparr>))"

section \<open>Cluster nodes\<close>

definition UpsertClusterNode :: "GoTime \<Rightarrow> ClusterNode \<Rightarrow> Store \<Rightarrow> unit result \<times> Store" where
  "UpsertClusterNode now n s =
     (if cn_node_id n = [] then (Inl (ErrMsg ''empty node id''), s)
      else (let n' = n\<lparr>cn_address := (if cn_address n = [] then cn_node_id n else cn_address n),
                       cn_last_seen := (if IsZero (cn_last_seen n) then now else cn_last_seen n)\<rparr>
            in (Inr (), s\<lparr>tb_nodes :=
                 (if taken cn_node_id (cn_node_id n) (tb_nodes s)
                  then update_where (\<lambda>r. cn_node_id r = cn_node_id n)
                         (\<lambda>r. r\<lparr>cn_address := cn_address n', cn_source := cn_source n',
                                cn_last_seen := cn_last_seen n'\<rparr>) (tb_nodes s)
                  else tb_nodes s @ [n'])\<rparr>)))"

definition RemoveClusterNode :: "string \<Rightarrow> Store \<Rightarrow> unit result \<times> Store" where
  "RemoveClusterNode nid s =
     (if nid = [] then (Inl (ErrMsg ''empty node id''), s)
      else (Inr (), s\<lparr>tb_nodes := delete_where (\<lambda>r. cn_node_id r = nid) (tb_nodes s)\<rparr>))"

definition ListClusterNodes :: "Store \<Rightarrow> ClusterNode list" where
  "ListClusterNodes s = tb_nodes s"

end
