(* ===== verification/RaftLog.thy ===== *)
theory RaftLog
  imports StoreEvents
begin

text \<open>
  The persistence helpers of \<open>consensus.go\<close>: the replicated log in table
  \<open>raft_log\<close> and the metadata in \<open>raft_meta\<close>. The locale \<open>replicated_log\<close>
  states what the consensus code needs of the log, and proves what the loop of
  \<open>HandleAppendEntries\<close> over the received entries leaves in it; the model's log
  is its interpretation.
\<close>

section \<open>The log table\<close>

definition entry_key :: "LogEntry \<Rightarrow> int \<times> int" where
  "entry_key e = (le_term e, le_index e)"

text \<open>
  \<open>INSERT OR REPLACE\<close>: rows with the same (term, idx) or the same event id go.
\<close>

definition appendLog :: "LogEntry \<Rightarrow> LogEntry list \<Rightarrow> LogEntry list" where
  "appendLog e log =
     delete_where (\<lambda>r. entry_key r = entry_key e \<or> le_event_id r = le_event_id e) log @ [e]"

definition truncateLogFrom :: "int \<Rightarrow> LogEntry list \<Rightarrow> LogEntry list" where
  "truncateLogFrom i log = (if i \<le> 0 then log else delete_where (\<lambda>r. le_index r \<ge> i) log)"

definition entry_at :: "LogEntry list \<Rightarrow> int \<Rightarrow> LogEntry option" where
  "entry_at log i = find (\<lambda>e. le_index e = i) log"

definition logTermAt :: "int \<Rightarrow> LogEntry list \<Rightarrow> int" where
  "logTermAt i log =
     (if i \<le> 0 then 0 else case entry_at log i of None \<Rightarrow> 0 | Some e \<Rightarrow> le_term e)"

text \<open>\<open>ORDER BY idx DESC LIMIT 1\<close>\<close>

definition lastIndexTerm :: "LogEntry list \<Rightarrow> int \<times> int" where
  "lastIndexTerm log =
     (if log = [] then (0, 0)
      else let e = last (sort_key le_index log) in (le_index e, le_term e))"

definition max_index :: "LogEntry list \<Rightarrow> int" where
  "max_index log = (if log = [] then 0 else Max (set (map le_index log)))"

definition nextIndex :: "LogEntry list \<Rightarrow> int" where
  "nextIndex log = inc64 (max_index log)"

definition loadLogEntriesFrom :: "int \<Rightarrow> LogEntry list \<Rightarrow> LogEntry list" where
  "loadLogEntriesFrom start log = sort_key le_index (filter (\<lambda>e. le_index e \<ge> start) log)"

text \<open>The entries \<open>applyCommitted\<close> selects: \<open>idx > ? AND idx <= ? ORDER BY idx ASC\<close>\<close>

definition entries_between :: "int \<Rightarrow> int \<Rightarrow> LogEntry list \<Rightarrow> LogEntry list" where
  "entries_between lo hi log = sort_key le_index (filter (\<lambda>e. lo < le_index e \<and> le_index e \<le> hi) log)"

text \<open>
  The log is well formed when an index and an event id occur once and indices
  are positive 64-bit integers.
\<close>

definition index_ok :: "int \<Rightarrow> bool" where
  "index_ok i \<longleftrightarrow> 0 < i \<and> i \<le> max64"

definition wf_log :: "LogEntry list \<Rightarrow> bool" where
  "wf_log log \<longleftrightarrow> unique_on le_index log \<and> unique_on le_event_id log \<and> (\<forall>e \<in> set log. index_ok (le_index e))"

lemma wf_log_Nil [simp]: "wf_log []"
  by (simp add: wf_log_def)

lemma wf_log_delete: "wf_log log \<Longrightarrow> wf_log (delete_where P log)"
  by (auto simp: wf_log_def unique_on_delete)

lemma wf_log_truncate: "wf_log log \<Longrightarrow> wf_log (truncateLogFrom i log)"
  by (simp add: truncateLogFrom_def wf_log_delete)

lemma wf_log_append:
  assumes "wf_log log" "index_ok (le_index e)" "\<not> taken le_index (le_index e) log"
  shows "wf_log (appendLog e log)"
  using assms by (auto simp: wf_log_def appendLog_def unique_on_delete taken_def)

lemma taken_truncate: "0 < i \<Longrightarrow> i \<le> j \<Longrightarrow> \<not> taken le_index j (truncateLogFrom i log)"
  by (auto simp: truncateLogFrom_def taken_def)

lemma entry_at_Some: "entry_at log i = Some e \<Longrightarrow> e \<in> set log \<and> le_index e = i"
  unfolding entry_at_def by (rule find_Some_in)

lemma entry_at_in: "wf_log log \<Longrightarrow> e \<in> set log \<Longrightarrow> entry_at log (le_index e) = Some e"
  unfolding entry_at_def wf_log_def by (rule find_unique) auto

lemma entry_at_None: "entry_at log i = None \<longleftrightarrow> \<not> taken le_index i log"
  unfolding entry_at_def by (rule find_none_not_taken)

lemma find_filter_sub:
  "(\<And>x. P x \<Longrightarrow> Q x) \<Longrightarrow> find P (filter Q xs) = find P xs"
  by (induction xs) auto

lemma entry_at_truncate:
  assumes "0 < i"
  shows "entry_at (truncateLogFrom i log) j = (if j < i then entry_at log j else None)"
proof (cases "j < i")
  case True
  with assms show ?thesis
    by (auto simp: entry_at_def truncateLogFrom_def delete_where_def intro: find_filter_sub)
next
  case False
  with assms show ?thesis
    using taken_truncate [of i j log] by (simp add: entry_at_None)
qed

lemma entry_at_append:
  assumes "\<not> taken le_index (le_index e) log" "\<not> taken le_event_id (le_event_id e) log"
  shows "entry_at (appendLog e log) j = (if j = le_index e then Some e else entry_at log j)"
proof -
  have "delete_where (\<lambda>r. entry_key r = entry_key e \<or> le_event_id r = le_event_id e) log = log"
    using assms by (intro delete_where_none) (metis entry_key_def image_eqI prod.inject taken_def)
  then have "appendLog e log = log @ [e]" by (simp add: appendLog_def)
  moreover have "find (\<lambda>r. le_index r = le_index e) log = None"
    using assms(1) by (simp add: find_none_not_taken)
  ultimately show ?thesis
    by (auto simp: entry_at_def find_append split: option.splits)
qed

section \<open>Installing entries\<close>

text \<open>
  The client's view of a log: what is found at an index, and which event ids it
  holds. \<open>install\<close> is the loop of \<open>HandleAppendEntries\<close>: for every entry
  received, truncate the log from its index and append it.
\<close>

locale replicated_log =
  fixes good :: "'l \<Rightarrow> bool" and look :: "'l \<Rightarrow> int \<Rightarrow> 'e option"
    and trunc :: "int \<Rightarrow> 'l \<Rightarrow> 'l" and app :: "'e \<Rightarrow> 'l \<Rightarrow> 'l"
    and idx :: "'e \<Rightarrow> int" and eid :: "'e \<Rightarrow> 'i" and proper :: "int \<Rightarrow> bool"
  assumes look_trunc: "0 < i \<Longrightarrow> look (trunc i l) j = (if j < i then look l j else None)"
    and look_app: "good l \<Longrightarrow> look l (idx e) = None \<Longrightarrow> (\<And>j d. look l j = Some d \<Longrightarrow> eid d \<noteq> eid e)
      \<Longrightarrow> look (app e l) j = (if j = idx e then Some e else look l j)"
    and good_trunc: "good l \<Longrightarrow> good (trunc i l)"
    and proper_pos: "proper i \<Longrightarrow> 0 < i"
    and good_app: "good l \<Longrightarrow> proper (idx e) \<Longrightarrow> look l (idx e) = None \<Longrightarrow> good (app e l)"
begin

definition install :: "'e list \<Rightarrow> 'l \<Rightarrow> 'l" where
  "install es l = fold (\<lambda>e l. app e (trunc (idx e) l)) es l"

lemma install_good:
  "good l \<Longrightarrow> \<forall>e \<in> set es. proper (idx e) \<Longrightarrow> good (install es l)"
proof (induction es arbitrary: l)
  case Nil
  then show ?case by (simp add: install_def)
next
  case (Cons e es)
  have "good (app e (trunc (idx e) l))"
    using Cons.prems by (intro good_app good_trunc) (simp_all add: look_trunc proper_pos)
  with Cons show ?case by (simp add: install_def)
qed

text \<open>
  Entries with consecutive indices after \<open>p\<close> and fresh ids: the log keeps what it
  had up to \<open>p\<close>, then holds the entries, and nothing after them.
\<close>

theorem install_look:
  assumes "good l" and "0 \<le> p" and "\<forall>e \<in> set es. proper (idx e)"
    and "map idx es = map (\<lambda>k. p + 1 + int k) [0..<length es]"
    and "distinct (map eid es)"
    and "\<And>j d. j \<le> p \<Longrightarrow> look l j = Some d \<Longrightarrow> eid d \<notin> eid ` set es"
    and "es \<noteq> []"
  shows "look (install es l) j =
     (if j \<le> p then look l j
      else if j \<le> p + int (length es) then Some (es ! nat (j - p - 1)) else None)"
  using assms
proof (induction es arbitrary: l p)
  case Nil
  then show ?case by simp
next
  case (Cons e es)
  have e: "idx e = p + 1" using Cons.prems(4) by (simp add: upt_conv_Cons del: upt_Suc)
  have es: "map idx es = map (\<lambda>k. p + 1 + 1 + int k) [0..<length es]"
  proof -
    have "map idx (e # es) = map (\<lambda>k. p + 1 + int k) (0 # map Suc [0..<length es])"
      using Cons.prems(4) by (simp add: upt_conv_Cons map_Suc_upt del: upt_Suc)
    then show ?thesis by (simp add: add.assoc)
  qed
  let ?l1 = "trunc (p + 1) l" and ?l2 = "app e (trunc (p + 1) l)"
  have l1: "look ?l1 j = (if j \<le> p then look l j else None)" for j
    using look_trunc [of "p + 1" l j] Cons.prems(2) by auto
  have l2: "look ?l2 j = (if j = p + 1 then Some e else if j \<le> p then look l j else None)" for j
  proof -
    have "eid d \<noteq> eid e" if "look ?l1 i = Some d" for i d
      using that Cons.prems(6) [of i d] by (auto simp: l1 split: if_splits)
    then show ?thesis
      using look_app [of ?l1 e j] good_trunc Cons.prems(1) by (simp add: e l1)
  qed
  have g2: "good ?l2"
    using Cons.prems(1,3) good_app [of ?l1 e] good_trunc by (simp add: e l1)
  show ?case
  proof (cases "es = []")
    case True
    then show ?thesis by (auto simp: install_def e l2)
  next
    case False
    have fresh: "eid d \<notin> eid ` set es" if "i \<le> p + 1" "look ?l2 i = Some d" for i d
      using that Cons.prems(5) Cons.prems(6) [of i d] by (auto simp: l2 split: if_splits)
    have "look (install es ?l2) j =
       (if j \<le> p + 1 then look ?l2 j
        else if j \<le> p + 1 + int (length es) then Some (es ! nat (j - (p + 1) - 1)) else None)"
      using Cons.IH [OF g2 _ _ es _ fresh False] Cons.prems(2,3,5) by simp
    moreover have "install (e # es) l = install es ?l2" by (simp add: install_def e)
    moreover have "es ! nat (j - (p + 1) - 1) = (e # es) ! nat (j - p - 1)" if "p + 1 < j"
    proof -
      have "nat (j - p - 1) = Suc (nat (j - (p + 1) - 1))" using that by linarith
      then show ?thesis by simp
    qed
    ultimately show ?thesis by (auto simp: l2)
  qed
qed

end

interpretation raft_log: replicated_log
  "wf_log :: LogEntry list \<Rightarrow> bool" entry_at truncateLogFrom appendLog
  "le_index :: LogEntry \<Rightarrow> int" "le_event_id :: LogEntry \<Rightarrow> string" index_ok
proof
  fix i j and l :: "LogEntry list"
  show "0 < i \<Longrightarrow> entry_at (truncateLogFrom i l) j = (if j < i then entry_at l j else None)"
    by (rule entry_at_truncate)
next
  fix j and l :: "LogEntry list" and e :: LogEntry
  assume "wf_log l" "entry_at l (le_index e) = None"
    "\<And>j d. entry_at l j = Some d \<Longrightarrow> le_event_id d \<noteq> le_event_id e"
  moreover from this have "\<not> taken le_event_id (le_event_id e) l"
    unfolding taken_def by (metis entry_at_in imageE)
  ultimately show "entry_at (appendLog e l) j = (if j = le_index e then Some e else entry_at l j)"
    by (simp add: entry_at_append entry_at_None)
next
  fix i and l :: "LogEntry list"
  show "wf_log l \<Longrightarrow> wf_log (truncateLogFrom i l)" by (rule wf_log_truncate)
next
  fix l :: "LogEntry list" and e :: LogEntry
  show "wf_log l \<Longrightarrow> index_ok (le_index e) \<Longrightarrow> entry_at l (le_index e) = None \<Longrightarrow> wf_log (appendLog e l)"
    by (simp add: wf_log_append entry_at_None)
next
  fix i
  show "index_ok i \<Longrightarrow> 0 < i" by (simp add: index_ok_def)
qed

section \<open>Metadata\<close>

definition put_meta :: "string \<Rightarrow> string \<Rightarrow> (string \<times> string) list \<Rightarrow> (string \<times> string) list" where
  "put_meta k v meta =
     (if taken fst k meta then update_where (\<lambda>r. fst r = k) (\<lambda>r. (k, v)) meta else meta @ [(k, v)])"

definition persistMeta :: "string \<Rightarrow> int \<Rightarrow> Store \<Rightarrow> Store" where
  "persistMeta k v s = s\<lparr>tb_meta := put_meta k (fmtInt v) (tb_meta s)\<rparr>"

definition persistMetaString :: "string \<Rightarrow> string \<Rightarrow> Store \<Rightarrow> Store" where
  "persistMetaString k v s = s\<lparr>tb_meta := put_meta k v (tb_meta s)\<rparr>"

definition load_row :: "string \<times> string \<Rightarrow> RaftState \<Rightarrow> RaftState" where
  "load_row row st =
     (case row of (k, v) \<Rightarrow>
        if k = ''currentTerm'' then st\<lparr>rs_current_term := parseInt64Default v 0\<rparr>
        else if k = ''votedFor'' then st\<lparr>rs_voted_for := v\<rparr>
        else if k = ''commitIndex'' then st\<lparr>rs_commit_index := parseInt64Default v 0\<rparr>
        else if k = ''lastApplied'' then st\<lparr>rs_last_applied := parseInt64Default v 0\<rparr>
        else st)"

definition zero_state :: RaftState where
  "zero_state = \<lparr>rs_current_term = 0, rs_voted_for = [], rs_commit_index = 0, rs_last_applied = 0\<rparr>"

definition loadState :: "Store \<Rightarrow> RaftState" where
  "loadState s = fold load_row (tb_meta s) zero_state"

lemma map_of_update_where:
  "map_of (update_where (\<lambda>r. fst r = k) (\<lambda>r. (k, v)) meta) x
     = (if x = k then map_option (\<lambda>_. v) (map_of meta k) else map_of meta x)"
  by (induction meta) auto

lemma map_of_put_meta: "map_of (put_meta k v meta) = (map_of meta)(k \<mapsto> v)"
proof
  fix x
  show "map_of (put_meta k v meta) x = ((map_of meta)(k \<mapsto> v)) x"
  proof (cases "taken fst k meta")
    case True
    then obtain w where "map_of meta k = Some w"
      by (metis map_of_eq_None_iff not_None_eq taken_def)
    with True show ?thesis by (simp add: put_meta_def map_of_update_where)
  next
    case False
    then have "map_of meta k = None" by (simp add: taken_def map_of_eq_None_iff)
    with False show ?thesis by (simp add: put_meta_def map_add_def split: option.splits)
  qed
qed

lemma unique_put_meta: "unique_on fst meta \<Longrightarrow> unique_on fst (put_meta k v meta)"
  by (auto simp: put_meta_def unique_on_def map_update_where [where key = fst] taken_def simp flip: set_map)

text \<open>Loading reads each key once.\<close>

definition meta_int :: "string \<Rightarrow> int \<Rightarrow> (string \<rightharpoonup> string) \<Rightarrow> int" where
  "meta_int k d m = (case m k of None \<Rightarrow> d | Some v \<Rightarrow> parseInt64Default v 0)"

definition state_of_meta :: "(string \<rightharpoonup> string) \<Rightarrow> RaftState \<Rightarrow> RaftState" where
  "state_of_meta m st =
     \<lparr>rs_current_term = meta_int ''currentTerm'' (rs_current_term st) m,
      rs_voted_for = (case m ''votedFor'' of None \<Rightarrow> rs_voted_for st | Some v \<Rightarrow> v),
      rs_commit_index = meta_int ''commitIndex'' (rs_commit_index st) m,
      rs_last_applied = meta_int ''lastApplied'' (rs_last_applied st) m\<rparr>"

lemma fold_load_row:
  "unique_on fst meta \<Longrightarrow> fold load_row meta st = state_of_meta (map_of meta) st"
proof (induction meta arbitrary: st)
  case Nil
  then show ?case by (simp add: state_of_meta_def meta_int_def)
next
  case (Cons row meta)
  obtain k v where row: "row = (k, v)" by fastforce
  have "unique_on fst meta" and "map_of meta k = None"
    using Cons.prems by (auto simp: unique_on_def row map_of_eq_None_iff)
  moreover have "state_of_meta (map_of meta) (load_row row st) = state_of_meta (map_of (row # meta)) st"
    if "map_of meta k = None"
    using that
    by (cases "k = ''currentTerm''"; cases "k = ''votedFor''"; cases "k = ''commitIndex''";
        cases "k = ''lastApplied''"; simp add: row load_row_def state_of_meta_def meta_int_def cong: option.case_cong)
  ultimately show ?case using Cons.IH [of "load_row row st"] by (simp add: fun_upd_def)
qed

lemma loadState_meta: "unique_on fst (tb_meta s) \<Longrightarrow> loadState s = state_of_meta (map_of (tb_meta s)) zero_state"
  by (simp add: loadState_def fold_load_row)

end
