(* ===== verification/Peers.thy ===== *)
theory Peers
  imports StoreEvents "HOL-Library.AList"
begin

text \<open>
  \<open>peers.go\<close>, \<open>discovery.go\<close> and \<open>heartbeat.go\<close>: the peers a node knows and the
  leader it believes in, the loops that keep the peers in step with the
  \<open>cluster_nodes\<close> table, and the locale \<open>peer_store\<close> of the \<open>PeerStore\<close>
  interface the consensus module is written against.
\<close>

section \<open>EnvPeerStore\<close>

record PeerStore =
  ps_local :: string
  ps_peers :: "(string \<times> string) list"
  ps_leader :: string

definition LocalID :: "PeerStore \<Rightarrow> string" where
  "LocalID p = ps_local p"

definition ListPeers :: "PeerStore \<Rightarrow> string list" where
  "ListPeers p = map fst (ps_peers p)"

definition SetLeader :: "string \<Rightarrow> PeerStore \<Rightarrow> PeerStore" where
  "SetLeader nid p = p\<lparr>ps_leader := nid\<rparr>"

definition GetLeader :: "PeerStore \<Rightarrow> string" where
  "GetLeader p = ps_leader p"

definition ResolveAddr :: "string \<Rightarrow> PeerStore \<Rightarrow> string" where
  "ResolveAddr nid p =
     (case map_of (ps_peers p) nid of Some v \<Rightarrow> if v \<noteq> [] then v else nid | None \<Rightarrow> nid)"

definition store_peer :: "string \<Rightarrow> string \<times> string \<Rightarrow> (string \<times> string) list \<Rightarrow> (string \<times> string) list" where
  "store_peer self entry peers =
     (case entry of (nid, addr) \<Rightarrow>
        if nid = [] \<or> nid = self then peers
        else AList.update nid (if addr = [] then nid else addr) peers)"

definition SetSnapshot :: "(string \<times> string) list \<Rightarrow> PeerStore \<Rightarrow> PeerStore" where
  "SetSnapshot entries p = p\<lparr>ps_peers := fold (store_peer (ps_local p)) entries []\<rparr>"

definition SetPeers :: "string list \<Rightarrow> PeerStore \<Rightarrow> PeerStore" where
  "SetPeers ids p =
     SetSnapshot (fold (\<lambda>nid snap. if nid = [] \<or> nid = ps_local p then snap else AList.update nid nid snap)
                    ids []) p"

definition UpsertPeer :: "string \<Rightarrow> string \<Rightarrow> PeerStore \<Rightarrow> PeerStore" where
  "UpsertPeer nid addr p = p\<lparr>ps_peers := store_peer (ps_local p) (nid, addr) (ps_peers p)\<rparr>"

definition RemovePeer :: "string \<Rightarrow> PeerStore \<Rightarrow> PeerStore" where
  "RemovePeer nid p = (if nid = [] then p else p\<lparr>ps_peers := AList.delete nid (ps_peers p)\<rparr>)"

definition NewEnvPeerStore :: "string \<Rightarrow> string list \<Rightarrow> PeerStore" where
  "NewEnvPeerStore self ids = SetPeers ids \<lparr>ps_local = self, ps_peers = [], ps_leader = []\<rparr>"

text \<open>What holds of every peer store: each peer once, never the node itself, with an address.\<close>

definition peers_ok :: "PeerStore \<Rightarrow> bool" where
  "peers_ok p \<longleftrightarrow> distinct (map fst (ps_peers p))
     \<and> (\<forall>(nid, addr) \<in> set (ps_peers p). nid \<noteq> [] \<and> nid \<noteq> ps_local p \<and> addr \<noteq> [])"

lemma in_update: "x \<in> set (AList.update k v al) \<Longrightarrow> x \<in> set al \<or> x = (k, v)"
  by (induction al) (auto split: if_splits)

lemma store_peer_ok:
  assumes "distinct (map fst ps)"
    and "\<forall>(nid, addr) \<in> set ps. nid \<noteq> [] \<and> nid \<noteq> self \<and> addr \<noteq> []"
  shows "distinct (map fst (store_peer self e ps))"
    and "\<forall>(nid, addr) \<in> set (store_peer self e ps). nid \<noteq> [] \<and> nid \<noteq> self \<and> addr \<noteq> []"
  using assms
  by (auto simp: store_peer_def distinct_update split: prod.splits if_splits dest!: in_update)

lemma fold_store_peer_ok:
  assumes "distinct (map fst ps)"
    and "\<forall>(nid, addr) \<in> set ps. nid \<noteq> [] \<and> nid \<noteq> self \<and> addr \<noteq> []"
  shows "distinct (map fst (fold (store_peer self) es ps))
     \<and> (\<forall>(nid, addr) \<in> set (fold (store_peer self) es ps). nid \<noteq> [] \<and> nid \<noteq> self \<and> addr \<noteq> [])"
  using assms
proof (induction es arbitrary: ps)
  case Nil
  then show ?case by simp
next
  case (Cons e es)
  show ?case
    using Cons.IH [OF store_peer_ok [OF Cons.prems, of e]] by simp
qed

lemma ps_local_ops [simp]:
  "ps_local (SetLeader nid p) = ps_local p"
  "ps_local (SetSnapshot es p) = ps_local p"
  "ps_local (SetPeers ids p) = ps_local p"
  "ps_local (UpsertPeer nid addr p) = ps_local p"
  "ps_local (RemovePeer nid p) = ps_local p"
  by (simp_all add: SetLeader_def SetSnapshot_def SetPeers_def UpsertPeer_def RemovePeer_def)

lemma ps_leader_ops [simp]:
  "ps_leader (SetLeader nid p) = nid"
  "ps_leader (SetSnapshot es p) = ps_leader p"
  "ps_leader (UpsertPeer nid addr p) = ps_leader p"
  "ps_leader (RemovePeer nid p) = ps_leader p"
  by (simp_all add: SetLeader_def SetSnapshot_def UpsertPeer_def RemovePeer_def)

lemma ps_peers_SetLeader [simp]: "ps_peers (SetLeader nid p) = ps_peers p"
  by (simp add: SetLeader_def)

lemma peers_ok_ops:
  "peers_ok (SetSnapshot es p)"
  "peers_ok (SetPeers ids p)"
  "peers_ok p \<Longrightarrow> peers_ok (UpsertPeer nid addr p)"
  "peers_ok p \<Longrightarrow> peers_ok (RemovePeer nid p)"
  "peers_ok p \<Longrightarrow> peers_ok (SetLeader nid p)"
proof -
  show snap: "peers_ok (SetSnapshot es p)" for es
    using fold_store_peer_ok [of "[]" "ps_local p" es] by (simp add: peers_ok_def SetSnapshot_def)
  show "peers_ok (SetPeers ids p)" by (simp add: SetPeers_def snap)
  show "peers_ok p \<Longrightarrow> peers_ok (UpsertPeer nid addr p)"
    using store_peer_ok [of "ps_peers p" "ps_local p" "(nid, addr)"]
    by (simp add: peers_ok_def UpsertPeer_def)
  show "peers_ok p \<Longrightarrow> peers_ok (RemovePeer nid p)"
    using distinct_delete [of "ps_peers p" nid]
    by (auto simp: peers_ok_def RemovePeer_def AList.delete_eq)
  show "peers_ok p \<Longrightarrow> peers_ok (SetLeader nid p)"
    by (simp add: peers_ok_def SetLeader_def)
qed

section \<open>The interface\<close>

text \<open>
  What a client of the \<open>PeerStore\<close> interface may rely on: the list holds each
  peer once and neither the empty name nor the node itself, and moving the
  leader changes the leader only.
\<close>

locale peer_store =
  fixes good :: "'p \<Rightarrow> bool" and local_id :: "'p \<Rightarrow> string" and list_peers :: "'p \<Rightarrow> string list"
    and set_leader :: "string \<Rightarrow> 'p \<Rightarrow> 'p" and get_leader :: "'p \<Rightarrow> string"
  assumes list_distinct: "good p \<Longrightarrow> distinct (list_peers p)"
    and list_proper: "good p \<Longrightarrow> nid \<in> set (list_peers p) \<Longrightarrow> nid \<noteq> [] \<and> nid \<noteq> local_id p"
    and get_set: "get_leader (set_leader nid p) = nid"
    and list_set: "list_peers (set_leader nid p) = list_peers p"
    and local_set: "local_id (set_leader nid p) = local_id p"
    and good_set: "good p \<Longrightarrow> good (set_leader nid p)"
begin

text \<open>Leaving out the empty name and the node itself, as every loop over the peers does, drops nothing.\<close>

lemma loop_filter:
  "good p \<Longrightarrow> filter (\<lambda>nid. nid \<noteq> [] \<and> nid \<noteq> local_id p) (list_peers p) = list_peers p"
  by (rule filter_True) (auto dest: list_proper)

lemma members_distinct: "good p \<Longrightarrow> distinct (local_id p # list_peers p)"
  by (auto simp: list_distinct dest: list_proper)

text \<open>Two sets of more than half of the members of the same list meet.\<close>

lemma majorities_meet:
  assumes p: "good p" and A: "A \<subseteq> set (local_id p # list_peers p)" and B: "B \<subseteq> set (local_id p # list_peers p)"
    and cA: "card A \<ge> (length (list_peers p) + 1) div 2 + 1"
    and cB: "card B \<ge> (length (list_peers p) + 1) div 2 + 1"
  shows "A \<inter> B \<noteq> {}"
proof
  assume disjoint: "A \<inter> B = {}"
  have fin: "finite A" "finite B" using A B by (meson List.finite_set finite_subset)+
  have "card A + card B = card (A \<union> B)"
    using disjoint fin by (simp add: card_Un_disjoint)
  also have "\<dots> \<le> card (set (local_id p # list_peers p))"
    using A B by (intro card_mono) auto
  also have "\<dots> = length (list_peers p) + 1"
    using members_distinct [OF p] by (simp add: distinct_card)
  finally show False using cA cB by linarith
qed

end

interpretation env_peers: peer_store peers_ok LocalID ListPeers SetLeader GetLeader
  by unfold_locales
    (auto simp: peers_ok_def LocalID_def ListPeers_def GetLeader_def SetLeader_def)

section \<open>Discovery\<close>

record DiscoveryManager =
  d_local :: string
  d_advertise :: string
  d_dns_name :: string
  d_dns_port :: string
  d_swarm_service :: string
  d_swarm_port :: string
  d_seeds :: "string list"
  d_max_peer_age :: int

definition fallback :: "string \<Rightarrow> string \<Rightarrow> string" where
  "fallback val d = (if blank val then d else val)"

definition parseCSV :: "string \<Rightarrow> string list" where
  "parseCSV raw =
     (if raw = [] then [] else filter (\<lambda>c. c \<noteq> []) (map TrimSpace (SplitOn CHR '','' raw)))"

definition ensureHTTP :: "string \<Rightarrow> string" where
  "ensureHTTP addr =
     (if HasPrefix addr ''http://'' \<or> HasPrefix addr ''https://'' then addr else ''http://'' @ addr)"

definition upsert_node :: "GoTime \<Rightarrow> string \<Rightarrow> string \<Rightarrow> string \<Rightarrow> GoTime \<Rightarrow> Store \<Rightarrow> Store" where
  "upsert_node now nid addr source seen s =
     snd (UpsertClusterNode now \<lparr>cn_node_id = nid, cn_address = addr, cn_source = source, cn_last_seen = seen\<rparr> s)"

definition register_local :: "DiscoveryManager \<Rightarrow> GoTime \<Rightarrow> Store \<Rightarrow> Store" where
  "register_local d now s = upsert_node now (d_local d) (d_advertise d) ''local'' now s"

text \<open>
  A round of \<open>dnsLoop\<close> and of \<open>dockerDNSLoop\<close>; the look-up of a name yields the hosts or fails.
\<close>

definition JoinHostPort :: "string \<Rightarrow> string \<Rightarrow> string" where
  "JoinHostPort host port =
     (if CHR '':'' \<in> set host then CHR ''['' # host @ '']:'' @ port else host @ CHR '':'' # port)"

definition dns_round ::
    "DiscoveryManager \<Rightarrow> string \<Rightarrow> string \<Rightarrow> string \<Rightarrow> GoTime \<Rightarrow> string list \<Rightarrow> Store \<Rightarrow> Store" where
  "dns_round d port kind source now hosts s =
     fold (\<lambda>host s. let addr = JoinHostPort host port
                   in if addr = d_advertise d then s
                      else upsert_node now (kind @ addr) addr source now s) hosts s"

definition dnsLoop_round ::
    "DiscoveryManager \<Rightarrow> (string \<Rightarrow> string list option) \<Rightarrow> GoTime \<Rightarrow> Store \<Rightarrow> Store" where
  "dnsLoop_round d lookup now s =
     (case lookup (d_dns_name d) of
        None \<Rightarrow> s | Some hosts \<Rightarrow> dns_round d (d_dns_port d) ''dns:'' ''dns'' now hosts s)"

definition dockerDNSLoop_round ::
    "DiscoveryManager \<Rightarrow> (string \<Rightarrow> string list option) \<Rightarrow> GoTime \<Rightarrow> Store \<Rightarrow> Store" where
  "dockerDNSLoop_round d lookup now s =
     (case lookup (''tasks.'' @ d_swarm_service d) of
        None \<Rightarrow> s | Some ips \<Rightarrow> dns_round d (d_swarm_port d) ''docker:'' ''docker-dns'' now ips s)"

text \<open>
  \<open>announceToSeeds\<close>: the answer of a seed is \<open>None\<close> when it was not reached,
  \<open>Some None\<close> when its body did not decode, and else the nodes it knows.
\<close>

definition merge_node :: "GoTime \<Rightarrow> ClusterNode list \<Rightarrow> ClusterNode \<Rightarrow> Store \<Rightarrow> Store" where
  "merge_node now existing n s =
     (let seen = (case map_of (rev (map (\<lambda>e. (cn_node_id e, cn_last_seen e)) existing)) (cn_node_id n) of
                    Some t \<Rightarrow> t
                  | None \<Rightarrow> if IsZero (cn_last_seen n) then AddTime now (- 120 * second) else cn_last_seen n)
      in upsert_node now (cn_node_id n) (cn_address n) ''gossip'' seen s)"

definition announce_seed ::
    "GoTime \<Rightarrow> (string \<Rightarrow> ClusterNode list option option) \<Rightarrow> string \<Rightarrow> Store \<Rightarrow> Store" where
  "announce_seed now answer seed s =
     (if seed = [] then s
      else case answer (ensureHTTP seed @ ''/cluster/join'') of
        None \<Rightarrow> s
      | Some body \<Rightarrow>
          (let addr = TrimPrefix (TrimPrefix seed ''http://'') ''https://'';
               s1 = upsert_node now addr addr ''seed'' now s
           in case body of
                None \<Rightarrow> s1
              | Some nodes \<Rightarrow> fold (merge_node now (ListClusterNodes s1)) nodes s1))"

definition announceToSeeds ::
    "DiscoveryManager \<Rightarrow> GoTime \<Rightarrow> (string \<Rightarrow> ClusterNode list option option) \<Rightarrow> Store \<Rightarrow> Store" where
  "announceToSeeds d now answer s = fold (announce_seed now answer) (d_seeds d) s"

definition consensus_max_age :: "DiscoveryManager \<Rightarrow> int" where
  "consensus_max_age d = (if 30 * second > d_max_peer_age d then d_max_peer_age d else 30 * second)"

definition recent_peers :: "DiscoveryManager \<Rightarrow> GoTime \<Rightarrow> ClusterNode list \<Rightarrow> (string \<times> string) list" where
  "recent_peers d now nodes =
     fold (\<lambda>n snap. AList.update (cn_node_id n) (if cn_address n = [] then cn_node_id n else cn_address n) snap)
       (filter (\<lambda>n. \<not> (cn_node_id n = d_local d \<or> cn_address n = d_advertise d)
                  \<and> \<not> (t_ns now - t_ns (cn_last_seen n) > consensus_max_age d)) nodes) []"

definition updatePeersFromStorage :: "DiscoveryManager \<Rightarrow> GoTime \<Rightarrow> Store \<Rightarrow> PeerStore \<Rightarrow> PeerStore" where
  "updatePeersFromStorage d now s p = SetSnapshot (recent_peers d now (ListClusterNodes s)) p"

section \<open>Heartbeats\<close>

text \<open>
  A tick of \<open>StartHeartbeats\<close>: the peers are asked in turn until one says it
  leads. \<open>None\<close> is a peer that did not answer; an answer that does not decode
  reads as \<open>False\<close>.
\<close>

fun heartbeat_peers ::
    "GoTime \<Rightarrow> (string \<Rightarrow> bool option) \<Rightarrow> string list \<Rightarrow> PeerStore \<times> Store \<Rightarrow> PeerStore \<times> Store" where
  "heartbeat_peers now health [] (p, s) = (p, s)"
| "heartbeat_peers now health (nid # ids) (p, s) =
     (case health (ResolveAddr nid p) of
        None \<Rightarrow> heartbeat_peers now health ids (p, s)
      | Some leads \<Rightarrow>
          (let s1 = (if nid \<noteq> [] \<and> nid \<noteq> LocalID p
                     then upsert_node now nid (ResolveAddr nid p) ''heartbeat'' now s else s)
           in if leads then (SetLeader nid p, s1) else heartbeat_peers now health ids (p, s1)))"

definition heartbeat_tick ::
    "GoTime \<Rightarrow> (string \<Rightarrow> bool option) \<Rightarrow> PeerStore \<times> Store \<Rightarrow> PeerStore \<times> Store" where
  "heartbeat_tick now health ps = heartbeat_peers now health (ListPeers (fst ps)) ps"

end
