(* ===== verification/Payloads.thy ===== *)
theory Payloads
  imports Models "HOL-Library.Monad_Syntax"
begin

text \<open>
  The payload structs of \<open>raft_apply.go\<close>, each with its JSON encoding (what
  \<open>json.Marshal\<close> writes) and its decoding (what \<open>json.Unmarshal\<close> reads). The
  locale \<open>codec\<close> is the contract between the two sides of the log, and every
  pair is an interpretation of it: what one node encodes another one decodes to
  the same value, and a value that cannot be encoded is refused.
\<close>

section \<open>Codecs\<close>

locale codec =
  fixes enc :: "'a \<Rightarrow> string option" and decode :: "string \<Rightarrow> 'a option" and fine :: "'a \<Rightarrow> bool"
  assumes enc_fine: "fine x \<Longrightarrow> enc x \<noteq> None"
    and enc_not_fine: "\<not> fine x \<Longrightarrow> enc x = None"
    and decode_enc: "enc x = Some t \<Longrightarrow> decode t = Some x"
begin

lemma enc_iff: "(\<exists>t. enc x = Some t) \<longleftrightarrow> fine x"
  using enc_fine enc_not_fine by (cases "fine x") auto

lemma enc_inj: "enc x = Some t \<Longrightarrow> enc y = Some t \<Longrightarrow> x = y"
  by (metis decode_enc option.inject)

end

text \<open>
  A struct encodes to the object of its members when its times are in range; a
  nil pointer with \<open>omitempty\<close> has no member.
\<close>

definition marshal :: "bool \<Rightarrow> members \<Rightarrow> string option" where
  "marshal fine ms = (if fine then Some (jprint (JObj ms)) else None)"

definition str_member :: "string \<Rightarrow> string option \<Rightarrow> members" where
  "str_member k v = (case v of None \<Rightarrow> [] | Some s \<Rightarrow> [(k, JStr s)])"

definition time_member :: "string \<Rightarrow> GoTime option \<Rightarrow> members" where
  "time_member k v = (case v of None \<Rightarrow> [] | Some t \<Rightarrow> [(k, json_time t)])"

definition opt_time_ok :: "GoTime option \<Rightarrow> bool" where
  "opt_time_ok v = (case v of None \<Rightarrow> True | Some t \<Rightarrow> json_time_ok t)"

lemma lower_keys [simp]:
  "ToLower ''appointment_id'' = ''appointment_id''"
  "ToLower ''creator_id'' = ''creator_id''"
  "ToLower ''creator_username'' = ''creator_username''"
  "ToLower ''description'' = ''description''"
  "ToLower ''display_name'' = ''display_name''"
  "ToLower ''email'' = ''email''"
  "ToLower ''end'' = ''end''"
  "ToLower ''group_id'' = ''group_id''"
  "ToLower ''group_type'' = ''group_type''"
  "ToLower ''id'' = ''id''"
  "ToLower ''is_optional'' = ''is_optional''"
  "ToLower ''name'' = ''name''"
  "ToLower ''owner_id'' = ''owner_id''"
  "ToLower ''password_hash'' = ''password_hash''"
  "ToLower ''payload'' = ''payload''"
  "ToLower ''privacy'' = ''privacy''"
  "ToLower ''rank'' = ''rank''"
  "ToLower ''start'' = ''start''"
  "ToLower ''status'' = ''status''"
  "ToLower ''title'' = ''title''"
  "ToLower ''type'' = ''type''"
  "ToLower ''user_id'' = ''user_id''"
  "ToLower ''username'' = ''username''"
  by code_simp+

lemma field_append:
  "field conv k old (xs @ ys) = Option.bind (field conv k old xs) (\<lambda>x. field conv k x ys)"
  by (induction conv k old xs rule: field.induct) (auto split: option.splits)

lemma field_member:
  "field conv k old (str_member k' v) =
     (case v of None \<Rightarrow> Some old | Some s \<Rightarrow> if ToLower k' = k then conv (JStr s) old else Some old)"
  "field conv k old (time_member k' w) =
     (case w of None \<Rightarrow> Some old | Some t \<Rightarrow> if ToLower k' = k then conv (json_time t) old else Some old)"
  by (auto simp: str_member_def time_member_def split: option.splits)

lemma jwf_member [simp]:
  "list_all (\<lambda>(k, v). jwf v) (str_member k' v)" "list_all (\<lambda>(k, v). jwf v) (time_member k' w)"
  by (auto simp: str_member_def time_member_def split: option.splits)

lemmas fields = str_field_def int_field_def bool_field_def time_field_def str_pointer_def
  time_pointer_def field_append field_member

lemma unmarshal_marshal:
  "marshal fine ms = Some t \<Longrightarrow> list_all (\<lambda>(k, v). jwf v) ms \<Longrightarrow> fine \<and> unmarshal t = Some ms"
  by (auto simp: marshal_def unmarshal_jprint simp del: jprint.simps split: if_splits)

section \<open>The payloads\<close>

record repairUserClearEmailPayload =
  ruce_user_id :: string
  ruce_email :: string

definition enc_repairUserClearEmailPayload :: "repairUserClearEmailPayload \<Rightarrow> string option" where
  "enc_repairUserClearEmailPayload p = marshal (True)
      ([(''user_id'', JStr (ruce_user_id p)),
        (''email'', JStr (ruce_email p))])"

definition dec_repairUserClearEmailPayload :: "string \<Rightarrow> repairUserClearEmailPayload option" where
  "dec_repairUserClearEmailPayload s = do {
     ms \<leftarrow> unmarshal s;
     x_user_id \<leftarrow> str_field ''user_id'' ms;
     x_email \<leftarrow> str_field ''email'' ms;
     Some \<lparr>ruce_user_id = x_user_id, ruce_email = x_email\<rparr>}"

interpretation repairUserClearEmailPayload_codec: codec enc_repairUserClearEmailPayload dec_repairUserClearEmailPayload "\<lambda>p :: repairUserClearEmailPayload. True"
proof
  fix p :: repairUserClearEmailPayload and t
  assume "enc_repairUserClearEmailPayload p = Some t"
  from this [unfolded enc_repairUserClearEmailPayload_def, THEN unmarshal_marshal]
  show "dec_repairUserClearEmailPayload t = Some p"
    by (cases p) (auto simp: dec_repairUserClearEmailPayload_def fields opt_time_ok_def split: option.splits)
qed (simp_all add: enc_repairUserClearEmailPayload_def marshal_def)

record repairEnsureUserPayload =
  reu_id :: string
  reu_username :: string
  reu_email :: string
  reu_password_hash :: string
  reu_display_name :: string

definition enc_repairEnsureUserPayload :: "repairEnsureUserPayload \<Rightarrow> string option" where
  "enc_repairEnsureUserPayload p = marshal (True)
      ([(''id'', JStr (reu_id p)),
        (''username'', JStr (reu_username p)),
        (''email'', JStr (reu_email p)),
        (''password_hash'', JStr (reu_password_hash p)),
        (''display_name'', JStr (reu_display_name p))])"

definition dec_repairEnsureUserPayload :: "string \<Rightarrow> repairEnsureUserPayload option" where
  "dec_repairEnsureUserPayload s = do {
     ms \<leftarrow> unmarshal s;
     x_id \<leftarrow> str_field ''id'' ms;
     x_username \<leftarrow> str_field ''username'' ms;
     x_email \<leftarrow> str_field ''email'' ms;
     x_password_hash \<leftarrow> str_field ''password_hash'' ms;
     x_display_name \<leftarrow> str_field ''display_name'' ms;
     Some \<lparr>reu_id = x_id, reu_username = x_username, reu_email = x_email, reu_password_hash = x_password_hash, reu_display_name = x_display_name\<rparr>}"

interpretation repairEnsureUserPayload_codec: codec enc_repairEnsureUserPayload dec_repairEnsureUserPayload "\<lambda>p :: repairEnsureUserPayload. True"
proof
  fix p :: repairEnsureUserPayload and t
  assume "enc_repairEnsureUserPayload p = Some t"
  from this [unfolded enc_repairEnsureUserPayload_def, THEN unmarshal_marshal]
  show "dec_repairEnsureUserPayload t = Some p"
    by (cases p) (auto simp: dec_repairEnsureUserPayload_def fields opt_time_ok_def split: option.splits)
qed (simp_all add: enc_repairEnsureUserPayload_def marshal_def)

record repairEnsureGroupMemberPayload =
  rgm_group_id :: string
  rgm_user_id :: string
  rgm_rank :: int

definition enc_repairEnsureGroupMemberPayload :: "repairEnsureGroupMemberPayload \<Rightarrow> string option" where
  "enc_repairEnsureGroupMemberPayload p = marshal (is_int64 (rgm_rank p))
      ([(''group_id'', JStr (rgm_group_id p)),
        (''user_id'', JStr (rgm_user_id p)),
        (''rank'', json_int (rgm_rank p))])"

definition dec_repairEnsureGroupMemberPayload :: "string \<Rightarrow> repairEnsureGroupMemberPayload option" where
  "dec_repairEnsureGroupMemberPayload s = do {
     ms \<leftarrow> unmarshal s;
     x_group_id \<leftarrow> str_field ''group_id'' ms;
     x_user_id \<leftarrow> str_field ''user_id'' ms;
     x_rank \<leftarrow> int_field ''rank'' ms;
     Some \<lparr>rgm_group_id = x_group_id, rgm_user_id = x_user_id, rgm_rank = x_rank\<rparr>}"

interpretation repairEnsureGroupMemberPayload_codec: codec enc_repairEnsureGroupMemberPayload dec_repairEnsureGroupMemberPayload "\<lambda>p :: repairEnsureGroupMemberPayload. is_int64 (rgm_rank p)"
proof
  fix p :: repairEnsureGroupMemberPayload and t
  assume "enc_repairEnsureGroupMemberPayload p = Some t"
  from this [unfolded enc_repairEnsureGroupMemberPayload_def, THEN unmarshal_marshal]
  show "dec_repairEnsureGroupMemberPayload t = Some p"
    by (cases p) (auto simp: dec_repairEnsureGroupMemberPayload_def fields opt_time_ok_def split: option.splits)
qed (simp_all add: enc_repairEnsureGroupMemberPayload_def marshal_def)

record repairEnsureParticipantPayload =
  rep_appointment_id :: string
  rep_user_id :: string
  rep_status :: string
  rep_is_optional :: bool

definition enc_repairEnsureParticipantPayload :: "repairEnsureParticipantPayload \<Rightarrow> string option" where
  "enc_repairEnsureParticipantPayload p = marshal (True)
      ([(''appointment_id'', JStr (rep_appointment_id p)),
        (''user_id'', JStr (rep_user_id p)),
        (''status'', JStr (rep_status p)),
        (''is_optional'', JBool (rep_is_optional p))])"

definition dec_repairEnsureParticipantPayload :: "string \<Rightarrow> repairEnsureParticipantPayload option" where
  "dec_repairEnsureParticipantPayload s = do {
     ms \<leftarrow> unmarshal s;
     x_appointment_id \<leftarrow> str_field ''appointment_id'' ms;
     x_user_id \<leftarrow> str_field ''user_id'' ms;
     x_status \<leftarrow> str_field ''status'' ms;
     x_is_optional \<leftarrow> bool_field ''is_optional'' ms;
     Some \<lparr>rep_appointment_id = x_appointment_id, rep_user_id = x_user_id, rep_status = x_status, rep_is_optional = x_is_optional\<rparr>}"

interpretation repairEnsureParticipantPayload_codec: codec enc_repairEnsureParticipantPayload dec_repairEnsureParticipantPayload "\<lambda>p :: repairEnsureParticipantPayload. True"
proof
  fix p :: repairEnsureParticipantPayload and t
  assume "enc_repairEnsureParticipantPayload p = Some t"
  from this [unfolded enc_repairEnsureParticipantPayload_def, THEN unmarshal_marshal]
  show "dec_repairEnsureParticipantPayload t = Some p"
    by (cases p) (auto simp: dec_repairEnsureParticipantPayload_def fields opt_time_ok_def split: option.splits)
qed (simp_all add: enc_repairEnsureParticipantPayload_def marshal_def)

record repairEnsureNotificationPayload =
  ren_user_id :: string
  ren_type :: string
  ren_payload :: string

definition enc_repairEnsureNotificationPayload :: "repairEnsureNotificationPayload \<Rightarrow> string option" where
  "enc_repairEnsureNotificationPayload p = marshal (True)
      ([(''user_id'', JStr (ren_user_id p)),
        (''type'', JStr (ren_type p)),
        (''payload'', JStr (ren_payload p))])"

definition dec_repairEnsureNotificationPayload :: "string \<Rightarrow> repairEnsureNotificationPayload option" where
  "dec_repairEnsureNotificationPayload s = do {
     ms \<leftarrow> unmarshal s;
     x_user_id \<leftarrow> str_field ''user_id'' ms;
     x_type \<leftarrow> str_field ''type'' ms;
     x_payload \<leftarrow> str_field ''payload'' ms;
     Some \<lparr>ren_user_id = x_user_id, ren_type = x_type, ren_payload = x_payload\<rparr>}"

interpretation repairEnsureNotificationPayload_codec: codec enc_repairEnsureNotificationPayload dec_repairEnsureNotificationPayload "\<lambda>p :: repairEnsureNotificationPayload. True"
proof
  fix p :: repairEnsureNotificationPayload and t
  assume "enc_repairEnsureNotificationPayload p = Some t"
  from this [unfolded enc_repairEnsureNotificationPayload_def, THEN unmarshal_marshal]
  show "dec_repairEnsureNotificationPayload t = Some p"
    by (cases p) (auto simp: dec_repairEnsureNotificationPayload_def fields opt_time_ok_def split: option.splits)
qed (simp_all add: enc_repairEnsureNotificationPayload_def marshal_def)

record userCreatePayload =
  uc_username :: string
  uc_email :: string
  uc_password_hash :: string
  uc_id :: string
  uc_display_name :: string

definition enc_userCreatePayload :: "userCreatePayload \<Rightarrow> string option" where
  "enc_userCreatePayload p = marshal (True)
      ([(''username'', JStr (uc_username p)),
        (''email'', JStr (uc_email p)),
        (''password_hash'', JStr (uc_password_hash p)),
        (''id'', JStr (uc_id p)),
        (''display_name'', JStr (uc_display_name p))])"

definition dec_userCreatePayload :: "string \<Rightarrow> userCreatePayload option" where
  "dec_userCreatePayload s = do {
     ms \<leftarrow> unmarshal s;
     x_username \<leftarrow> str_field ''username'' ms;
     x_email \<leftarrow> str_field ''email'' ms;
     x_password_hash \<leftarrow> str_field ''password_hash'' ms;
     x_id \<leftarrow> str_field ''id'' ms;
     x_display_name \<leftarrow> str_field ''display_name'' ms;
     Some \<lparr>uc_username = x_username, uc_email = x_email, uc_password_hash = x_password_hash, uc_id = x_id, uc_display_name = x_display_name\<rparr>}"

interpretation userCreatePayload_codec: codec enc_userCreatePayload dec_userCreatePayload "\<lambda>p :: userCreatePayload. True"
proof
  fix p :: userCreatePayload and t
  assume "enc_userCreatePayload p = Some t"
  from this [unfolded enc_userCreatePayload_def, THEN unmarshal_marshal]
  show "dec_userCreatePayload t = Some p"
    by (cases p) (auto simp: dec_userCreatePayload_def fields opt_time_ok_def split: option.splits)
qed (simp_all add: enc_userCreatePayload_def marshal_def)

record apptCreatePayload =
  ac_title :: string
  ac_description :: string
  ac_owner_id :: string
  ac_start :: GoTime
  ac_end :: GoTime
  ac_privacy :: string

definition enc_apptCreatePayload :: "apptCreatePayload \<Rightarrow> string option" where
  "enc_apptCreatePayload p = marshal (json_time_ok (ac_start p) \<and> json_time_ok (ac_end p))
      ([(''title'', JStr (ac_title p)),
        (''description'', JStr (ac_description p)),
        (''owner_id'', JStr (ac_owner_id p)),
        (''start'', json_time (ac_start p)),
        (''end'', json_time (ac_end p)),
        (''privacy'', JStr (ac_privacy p))])"

definition dec_apptCreatePayload :: "string \<Rightarrow> apptCreatePayload option" where
  "dec_apptCreatePayload s = do {
     ms \<leftarrow> unmarshal s;
     x_title \<leftarrow> str_field ''title'' ms;
     x_description \<leftarrow> str_field ''description'' ms;
     x_owner_id \<leftarrow> str_field ''owner_id'' ms;
     x_start \<leftarrow> time_field ''start'' ms;
     x_end \<leftarrow> time_field ''end'' ms;
     x_privacy \<leftarrow> str_field ''privacy'' ms;
     Some \<lparr>ac_title = x_title, ac_description = x_description, ac_owner_id = x_owner_id, ac_start = x_start, ac_end = x_end, ac_privacy = x_privacy\<rparr>}"

interpretation apptCreatePayload_codec: codec enc_apptCreatePayload dec_apptCreatePayload "\<lambda>p :: apptCreatePayload. json_time_ok (ac_start p) \<and> json_time_ok (ac_end p)"
proof
  fix p :: apptCreatePayload and t
  assume "enc_apptCreatePayload p = Some t"
  from this [unfolded enc_apptCreatePayload_def, THEN unmarshal_marshal]
  show "dec_apptCreatePayload t = Some p"
    by (cases p) (auto simp: dec_apptCreatePayload_def fields opt_time_ok_def split: option.splits)
qed (simp_all add: enc_apptCreatePayload_def marshal_def)

record apptCreateGroupPayload =
  acg_title :: string
  acg_description :: string
  acg_owner_id :: string
  acg_group_id :: string
  acg_start :: GoTime
  acg_end :: GoTime
  acg_privacy :: string

definition enc_apptCreateGroupPayload :: "apptCreateGroupPayload \<Rightarrow> string option" where
  "enc_apptCreateGroupPayload p = marshal (json_time_ok (acg_start p) \<and> json_time_ok (acg_end p))
      ([(''title'', JStr (acg_title p)),
        (''description'', JStr (acg_description p)),
        (''owner_id'', JStr (acg_owner_id p)),
        (''group_id'', JStr (acg_group_id p)),
        (''start'', json_time (acg_start p)),
        (''end'', json_time (acg_end p)),
        (''privacy'', JStr (acg_privacy p))])"

definition dec_apptCreateGroupPayload :: "string \<Rightarrow> apptCreateGroupPayload option" where
  "dec_apptCreateGroupPayload s = do {
     ms \<leftarrow> unmarshal s;
     x_title \<leftarrow> str_field ''title'' ms;
     x_description \<leftarrow> str_field ''description'' ms;
     x_owner_id \<leftarrow> str_field ''owner_id'' ms;
     x_group_id \<leftarrow> str_field ''group_id'' ms;
     x_start \<leftarrow> time_field ''start'' ms;
     x_end \<leftarrow> time_field ''end'' ms;
     x_privacy \<leftarrow> str_field ''privacy'' ms;
     Some \<lparr>acg_title = x_title, acg_description = x_description, acg_owner_id = x_owner_id, acg_group_id = x_group_id, acg_start = x_start, acg_end = x_end, acg_privacy = x_privacy\<rparr>}"

interpretation apptCreateGroupPayload_codec: codec enc_apptCreateGroupPayload dec_apptCreateGroupPayload "\<lambda>p :: apptCreateGroupPayload. json_time_ok (acg_start p) \<and> json_time_ok (acg_end p)"
proof
  fix p :: apptCreateGroupPayload and t
  assume "enc_apptCreateGroupPayload p = Some t"
  from this [unfolded enc_apptCreateGroupPayload_def, THEN unmarshal_marshal]
  show "dec_apptCreateGroupPayload t = Some p"
    by (cases p) (auto simp: dec_apptCreateGroupPayload_def fields opt_time_ok_def split: option.splits)
qed (simp_all add: enc_apptCreateGroupPayload_def marshal_def)

record apptUpdatePayload =
  au_appointment_id :: string
  au_title :: "string option"
  au_description :: "string option"
  au_start :: "GoTime option"
  au_end :: "GoTime option"
  au_privacy :: "string option"

definition enc_apptUpdatePayload :: "apptUpdatePayload \<Rightarrow> string option" where
  "enc_apptUpdatePayload p = marshal (opt_time_ok (au_start p) \<and> opt_time_ok (au_end p))
      ([(''appointment_id'', JStr (au_appointment_id p))]
       @ str_member ''title'' (au_title p)
       @ str_member ''description'' (au_description p)
       @ time_member ''start'' (au_start p)
       @ time_member ''end'' (au_end p)
       @ str_member ''privacy'' (au_privacy p))"

definition dec_apptUpdatePayload :: "string \<Rightarrow> apptUpdatePayload option" where
  "dec_apptUpdatePayload s = do {
     ms \<leftarrow> unmarshal s;
     x_appointment_id \<leftarrow> str_field ''appointment_id'' ms;
     x_title \<leftarrow> str_pointer ''title'' ms;
     x_description \<leftarrow> str_pointer ''description'' ms;
     x_start \<leftarrow> time_pointer ''start'' ms;
     x_end \<leftarrow> time_pointer ''end'' ms;
     x_privacy \<leftarrow> str_pointer ''privacy'' ms;
     Some \<lparr>au_appointment_id = x_appointment_id, au_title = x_title, au_description = x_description, au_start = x_start, au_end = x_end, au_privacy = x_privacy\<rparr>}"

interpretation apptUpdatePayload_codec: codec enc_apptUpdatePayload dec_apptUpdatePayload "\<lambda>p :: apptUpdatePayload. opt_time_ok (au_start p) \<and> opt_time_ok (au_end p)"
proof
  fix p :: apptUpdatePayload and t
  assume "enc_apptUpdatePayload p = Some t"
  from this [unfolded enc_apptUpdatePayload_def, THEN unmarshal_marshal]
  show "dec_apptUpdatePayload t = Some p"
    by (cases p) (auto simp: dec_apptUpdatePayload_def fields opt_time_ok_def split: option.splits)
qed (simp_all add: enc_apptUpdatePayload_def marshal_def)

record apptDeletePayload =
  ad_appointment_id :: string

definition enc_apptDeletePayload :: "apptDeletePayload \<Rightarrow> string option" where
  "enc_apptDeletePayload p = marshal (True)
      ([(''appointment_id'', JStr (ad_appointment_id p))])"

definition dec_apptDeletePayload :: "string \<Rightarrow> apptDeletePayload option" where
  "dec_apptDeletePayload s = do {
     ms \<leftarrow> unmarshal s;
     x_appointment_id \<leftarrow> str_field ''appointment_id'' ms;
     Some \<lparr>ad_appointment_id = x_appointment_id\<rparr>}"

interpretation apptDeletePayload_codec: codec enc_apptDeletePayload dec_apptDeletePayload "\<lambda>p :: apptDeletePayload. True"
proof
  fix p :: apptDeletePayload and t
  assume "enc_apptDeletePayload p = Some t"
  from this [unfolded enc_apptDeletePayload_def, THEN unmarshal_marshal]
  show "dec_apptDeletePayload t = Some p"
    by (cases p) (auto simp: dec_apptDeletePayload_def fields opt_time_ok_def split: option.splits)
qed (simp_all add: enc_apptDeletePayload_def marshal_def)

record userUpdateProfilePayload =
  uup_user_id :: string
  uup_username :: "string option"
  uup_email :: "string option"
  uup_display_name :: "string option"

definition enc_userUpdateProfilePayload :: "userUpdateProfilePayload \<Rightarrow> string option" where
  "enc_userUpdateProfilePayload p = marshal (True)
      ([(''user_id'', JStr (uup_user_id p))]
       @ str_member ''username'' (uup_username p)
       @ str_member ''email'' (uup_email p)
       @ str_member ''display_name'' (uup_display_name p))"

definition dec_userUpdateProfilePayload :: "string \<Rightarrow> userUpdateProfilePayload option" where
  "dec_userUpdateProfilePayload s = do {
     ms \<leftarrow> unmarshal s;
     x_user_id \<leftarrow> str_field ''user_id'' ms;
     x_username \<leftarrow> str_pointer ''username'' ms;
     x_email \<leftarrow> str_pointer ''email'' ms;
     x_display_name \<leftarrow> str_pointer ''display_name'' ms;
     Some \<lparr>uup_user_id = x_user_id, uup_username = x_username, uup_email = x_email, uup_display_name = x_display_name\<rparr>}"

interpretation userUpdateProfilePayload_codec: codec enc_userUpdateProfilePayload dec_userUpdateProfilePayload "\<lambda>p :: userUpdateProfilePayload. True"
proof
  fix p :: userUpdateProfilePayload and t
  assume "enc_userUpdateProfilePayload p = Some t"
  from this [unfolded enc_userUpdateProfilePayload_def, THEN unmarshal_marshal]
  show "dec_userUpdateProfilePayload t = Some p"
    by (cases p) (auto simp: dec_userUpdateProfilePayload_def fields opt_time_ok_def split: option.splits)
qed (simp_all add: enc_userUpdateProfilePayload_def marshal_def)

record userUpdatePasswordPayload =
  uupw_user_id :: string
  uupw_password_hash :: string

definition enc_userUpdatePasswordPayload :: "userUpdatePasswordPayload \<Rightarrow> string option" where
  "enc_userUpdatePasswordPayload p = marshal (True)
      ([(''user_id'', JStr (uupw_user_id p)),
        (''password_hash'', JStr (uupw_password_hash p))])"

definition dec_userUpdatePasswordPayload :: "string \<Rightarrow> userUpdatePasswordPayload option" where
  "dec_userUpdatePasswordPayload s = do {
     ms \<leftarrow> unmarshal s;
     x_user_id \<leftarrow> str_field ''user_id'' ms;
     x_password_hash \<leftarrow> str_field ''password_hash'' ms;
     Some \<lparr>uupw_user_id = x_user_id, uupw_password_hash = x_password_hash\<rparr>}"

interpretation userUpdatePasswordPayload_codec: codec enc_userUpdatePasswordPayload dec_userUpdatePasswordPayload "\<lambda>p :: userUpdatePasswordPayload. True"
proof
  fix p :: userUpdatePasswordPayload and t
  assume "enc_userUpdatePasswordPayload p = Some t"
  from this [unfolded enc_userUpdatePasswordPayload_def, THEN unmarshal_marshal]
  show "dec_userUpdatePasswordPayload t = Some p"
    by (cases p) (auto simp: dec_userUpdatePasswordPayload_def fields opt_time_ok_def split: option.splits)
qed (simp_all add: enc_userUpdatePasswordPayload_def marshal_def)

record groupCreatePayload =
  gc_name :: string
  gc_description :: string
  gc_creator_id :: string
  gc_creator_username :: string
  gc_group_type :: string

definition enc_groupCreatePayload :: "groupCreatePayload \<Rightarrow> string option" where
  "enc_groupCreatePayload p = marshal (True)
      ([(''name'', JStr (gc_name p)),
        (''description'', JStr (gc_description p)),
        (''creator_id'', JStr (gc_creator_id p)),
        (''creator_username'', JStr (gc_creator_username p)),
        (''group_type'', JStr (gc_group_type p))])"

definition dec_groupCreatePayload :: "string \<Rightarrow> groupCreatePayload option" where
  "dec_groupCreatePayload s = do {
     ms \<leftarrow> unmarshal s;
     x_name \<leftarrow> str_field ''name'' ms;
     x_description \<leftarrow> str_field ''description'' ms;
     x_creator_id \<leftarrow> str_field ''creator_id'' ms;
     x_creator_username \<leftarrow> str_field ''creator_username'' ms;
     x_group_type \<leftarrow> str_field ''group_type'' ms;
     Some \<lparr>gc_name = x_name, gc_description = x_description, gc_creator_id = x_creator_id, gc_creator_username = x_creator_username, gc_group_type = x_group_type\<rparr>}"

interpretation groupCreatePayload_codec: codec enc_groupCreatePayload dec_groupCreatePayload "\<lambda>p :: groupCreatePayload. True"
proof
  fix p :: groupCreatePayload and t
  assume "enc_groupCreatePayload p = Some t"
  from this [unfolded enc_groupCreatePayload_def, THEN unmarshal_marshal]
  show "dec_groupCreatePayload t = Some p"
    by (cases p) (auto simp: dec_groupCreatePayload_def fields opt_time_ok_def split: option.splits)
qed (simp_all add: enc_groupCreatePayload_def marshal_def)

record groupUpdatePayload =
  gu_group_id :: string
  gu_name :: "string option"
  gu_description :: "string option"

definition enc_groupUpdatePayload :: "groupUpdatePayload \<Rightarrow> string option" where
  "enc_groupUpdatePayload p = marshal (True)
      ([(''group_id'', JStr (gu_group_id p))]
       @ str_member ''name'' (gu_name p)
       @ str_member ''description'' (gu_description p))"

definition dec_groupUpdatePayload :: "string \<Rightarrow> groupUpdatePayload option" where
  "dec_groupUpdatePayload s = do {
     ms \<leftarrow> unmarshal s;
     x_group_id \<leftarrow> str_field ''group_id'' ms;
     x_name \<leftarrow> str_pointer ''name'' ms;
     x_description \<leftarrow> str_pointer ''description'' ms;
     Some \<lparr>gu_group_id = x_group_id, gu_name = x_name, gu_description = x_description\<rparr>}"

interpretation groupUpdatePayload_codec: codec enc_groupUpdatePayload dec_groupUpdatePayload "\<lambda>p :: groupUpdatePayload. True"
proof
  fix p :: groupUpdatePayload and t
  assume "enc_groupUpdatePayload p = Some t"
  from this [unfolded enc_groupUpdatePayload_def, THEN unmarshal_marshal]
  show "dec_groupUpdatePayload t = Some p"
    by (cases p) (auto simp: dec_groupUpdatePayload_def fields opt_time_ok_def split: option.splits)
qed (simp_all add: enc_groupUpdatePayload_def marshal_def)

record groupDeletePayload =
  gd_group_id :: string

definition enc_groupDeletePayload :: "groupDeletePayload \<Rightarrow> string option" where
  "enc_groupDeletePayload p = marshal (True)
      ([(''group_id'', JStr (gd_group_id p))])"

definition dec_groupDeletePayload :: "string \<Rightarrow> groupDeletePayload option" where
  "dec_groupDeletePayload s = do {
     ms \<leftarrow> unmarshal s;
     x_group_id \<leftarrow> str_field ''group_id'' ms;
     Some \<lparr>gd_group_id = x_group_id\<rparr>}"

interpretation groupDeletePayload_codec: codec enc_groupDeletePayload dec_groupDeletePayload "\<lambda>p :: groupDeletePayload. True"
proof
  fix p :: groupDeletePayload and t
  assume "enc_groupDeletePayload p = Some t"
  from this [unfolded enc_groupDeletePayload_def, THEN unmarshal_marshal]
  show "dec_groupDeletePayload t = Some p"
    by (cases p) (auto simp: dec_groupDeletePayload_def fields opt_time_ok_def split: option.splits)
qed (simp_all add: enc_groupDeletePayload_def marshal_def)

record groupMemberPayload =
  gm_group_id :: string
  gm_user_id :: string
  gm_rank :: int

definition enc_groupMemberPayload :: "groupMemberPayload \<Rightarrow> string option" where
  "enc_groupMemberPayload p = marshal (is_int64 (gm_rank p))
      ([(''group_id'', JStr (gm_group_id p)),
        (''user_id'', JStr (gm_user_id p)),
        (''rank'', json_int (gm_rank p))])"

definition dec_groupMemberPayload :: "string \<Rightarrow> groupMemberPayload option" where
  "dec_groupMemberPayload s = do {
     ms \<leftarrow> unmarshal s;
     x_group_id \<leftarrow> str_field ''group_id'' ms;
     x_user_id \<leftarrow> str_field ''user_id'' ms;
     x_rank \<leftarrow> int_field ''rank'' ms;
     Some \<lparr>gm_group_id = x_group_id, gm_user_id = x_user_id, gm_rank = x_rank\<rparr>}"

interpretation groupMemberPayload_codec: codec enc_groupMemberPayload dec_groupMemberPayload "\<lambda>p :: groupMemberPayload. is_int64 (gm_rank p)"
proof
  fix p :: groupMemberPayload and t
  assume "enc_groupMemberPayload p = Some t"
  from this [unfolded enc_groupMemberPayload_def, THEN unmarshal_marshal]
  show "dec_groupMemberPayload t = Some p"
    by (cases p) (auto simp: dec_groupMemberPayload_def fields opt_time_ok_def split: option.splits)
qed (simp_all add: enc_groupMemberPayload_def marshal_def)

record invitationStatusPayload =
  is_appointment_id :: string
  is_user_id :: string
  is_status :: string

definition enc_invitationStatusPayload :: "invitationStatusPayload \<Rightarrow> string option" where
  "enc_invitationStatusPayload p = marshal (True)
      ([(''appointment_id'', JStr (is_appointment_id p)),
        (''user_id'', JStr (is_user_id p)),
        (''status'', JStr (is_status p))])"

definition dec_invitationStatusPayload :: "string \<Rightarrow> invitationStatusPayload option" where
  "dec_invitationStatusPayload s = do {
     ms \<leftarrow> unmarshal s;
     x_appointment_id \<leftarrow> str_field ''appointment_id'' ms;
     x_user_id \<leftarrow> str_field ''user_id'' ms;
     x_status \<leftarrow> str_field ''status'' ms;
     Some \<lparr>is_appointment_id = x_appointment_id, is_user_id = x_user_id, is_status = x_status\<rparr>}"

interpretation invitationStatusPayload_codec: codec enc_invitationStatusPayload dec_invitationStatusPayload "\<lambda>p :: invitationStatusPayload. True"
proof
  fix p :: invitationStatusPayload and t
  assume "enc_invitationStatusPayload p = Some t"
  from this [unfolded enc_invitationStatusPayload_def, THEN unmarshal_marshal]
  show "dec_invitationStatusPayload t = Some p"
    by (cases p) (auto simp: dec_invitationStatusPayload_def fields opt_time_ok_def split: option.splits)
qed (simp_all add: enc_invitationStatusPayload_def marshal_def)

end
