(* ===== verification/Hmac.thy ===== *)
theory Hmac
  imports Ids
begin

text \<open>
  The signatures of \<open>utils.go\<close>: HMAC with SHA-256 (Go's \<open>crypto/hmac\<close> and
  \<open>crypto/sha256\<close>, FIPS 198-1 and 180-4), executable, in lower-case
  hexadecimal.
\<close>

section \<open>SHA-256\<close>

definition ror :: "nat \<Rightarrow> w32 \<Rightarrow> w32" where
  "ror n x = drop_bit n x OR push_bit (32 - n) x"

text \<open>The constants, eight words to a number of 256 bits.\<close>

definition words8 :: "int \<Rightarrow> w32 list" where
  "words8 n = be_words (be_bytes 32 n)"

definition sha256_k :: "w32 list" where
  "sha256_k = concat (map words8
    [0x428a2f9871374491b5c0fbcfe9b5dba53956c25b59f111f1923f82a4ab1c5ed5,
     0xd807aa9812835b01243185be550c7dc372be5d7480deb1fe9bdc06a7c19bf174,
     0xe49b69c1efbe47860fc19dc6240ca1cc2de92c6f4a7484aa5cb0a9dc76f988da,
     0x983e5152a831c66db00327c8bf597fc7c6e00bf3d5a7914706ca635114292967,
     0x27b70a852e1b21384d2c6dfc53380d13650a7354766a0abb81c2c92e92722c85,
     0xa2bfe8a1a81a664bc24b8b70c76c51a3d192e819d6990624f40e3585106aa070,
     0x19a4c1161e376c082748774c34b0bcb5391c0cb34ed8aa4a5b9cca4f682e6ff3,
     0x748f82ee78a5636f84c878148cc7020890befffaa4506cebbef9a3f7c67178f2])"

text \<open>The message schedule, newest word first.\<close>

fun sha256_extend :: "nat \<Rightarrow> w32 list \<Rightarrow> w32 list" where
  "sha256_extend 0 ws = ws"
| "sha256_extend (Suc k) ws =
     (let x = ws ! 14; y = ws ! 1;
          s0 = ror 7 x XOR ror 18 x XOR drop_bit 3 x;
          s1 = ror 17 y XOR ror 19 y XOR drop_bit 10 y
      in sha256_extend k ((ws ! 15 + s0 + ws ! 6 + s1) # ws))"

type_synonym sha256_state = "w32 \<times> w32 \<times> w32 \<times> w32 \<times> w32 \<times> w32 \<times> w32 \<times> w32"

fun sha256_rounds :: "(w32 \<times> w32) list \<Rightarrow> sha256_state \<Rightarrow> sha256_state" where
  "sha256_rounds [] s = s"
| "sha256_rounds ((k, w) # ws) (a, b, c, d, e, f, g, h) =
     (let t1 = h + (ror 6 e XOR ror 11 e XOR ror 25 e) + ((e AND f) XOR (NOT e AND g)) + k + w;
          t2 = (ror 2 a XOR ror 13 a XOR ror 22 a) + ((a AND b) XOR (a AND c) XOR (b AND c))
      in sha256_rounds ws (t1 + t2, a, b, c, d + t1, e, f, g))"

definition sha256_block :: "w32 list \<Rightarrow> sha256_state \<Rightarrow> sha256_state" where
  "sha256_block ws s =
     (case s of (h0, h1, h2, h3, h4, h5, h6, h7) \<Rightarrow>
        (case sha256_rounds (zip sha256_k (rev (sha256_extend 48 (rev ws)))) s of
           (a, b, c, d, e, f, g, h) \<Rightarrow>
             (h0 + a, h1 + b, h2 + c, h3 + d, h4 + e, h5 + f, h6 + g, h7 + h)))"

function sha256_blocks :: "w32 list \<Rightarrow> sha256_state \<Rightarrow> sha256_state" where
  "sha256_blocks ws s =
     (if length ws < 16 then s else sha256_blocks (drop 16 ws) (sha256_block (take 16 ws) s))"
  by pat_completeness auto
termination
  by (relation "measure (\<lambda>(ws, s). length ws)") auto

declare sha256_blocks.simps [simp del]

definition sha256_init :: sha256_state where
  "sha256_init = (0x6a09e667, 0xbb67ae85, 0x3c6ef372, 0xa54ff53a, 0x510e527f, 0x9b05688c, 0x1f83d9ab, 0x5be0cd19)"

text \<open>The padding is that of SHA-1.\<close>

definition sha256_sum :: "int list \<Rightarrow> int list" where
  "sha256_sum bs =
     (case sha256_blocks (be_words (sha1_pad bs)) sha256_init of
        (a, b, c, d, e, f, g, h) \<Rightarrow> concat (map (\<lambda>w. be_bytes 4 (uint w)) [a, b, c, d, e, f, g, h]))"

section \<open>HMAC\<close>

definition xor_bytes :: "int \<Rightarrow> int list \<Rightarrow> int list" where
  "xor_bytes x bs = map (\<lambda>b. uint ((of_int b :: 8 word) XOR of_int x)) bs"

definition hmac_key :: "int list \<Rightarrow> int list" where
  "hmac_key key =
     (let k = (if length key > 64 then sha256_sum key else key) in k @ replicate (64 - length k) 0)"

definition hmac_sha256 :: "int list \<Rightarrow> int list \<Rightarrow> int list" where
  "hmac_sha256 key msg =
     sha256_sum (xor_bytes 0x5c (hmac_key key) @ sha256_sum (xor_bytes 0x36 (hmac_key key) @ msg))"

definition bytes_of :: "string \<Rightarrow> int list" where
  "bytes_of s = map (\<lambda>c. int (byte_of c)) s"

definition computeHMACSHA256Hex :: "string \<Rightarrow> string \<Rightarrow> string" where
  "computeHMACSHA256Hex body secret = hex_encode (hmac_sha256 (bytes_of secret) (bytes_of body))"

definition verifyHMACSHA256Hex :: "string \<Rightarrow> string \<Rightarrow> string \<Rightarrow> bool" where
  "verifyHMACSHA256Hex body secret hexSig \<longleftrightarrow> computeHMACSHA256Hex body secret = hexSig"

lemma length_sha256_sum [simp]: "length (sha256_sum bs) = 32"
  by (simp add: sha256_sum_def split: prod.splits)

lemma length_computeHMAC [simp]: "length (computeHMACSHA256Hex body secret) = 64"
  by (simp add: computeHMACSHA256Hex_def hmac_sha256_def)

lemma computeHMAC_not_Nil [simp]: "computeHMACSHA256Hex body secret \<noteq> []"
  using length_computeHMAC [of body secret] by fastforce

end
