(* ===== verification/Wire.thy ===== *)
theory Wire
  imports Payloads Hmac StoreEvents
begin

text \<open>
  What the servers put on the wire: the JSON of the structs of \<open>models.go\<close>, the
  decoding of the lists the nodes exchange, the layouts of \<open>time.Parse\<close>, and
  HTTP requests and responses. The content-type header is left out.
\<close>

section \<open>The structs in JSON\<close>

text \<open>A field with \<open>omitempty\<close> is left out when it is the empty string; a nil slice is \<open>null\<close>.\<close>

definition omit_empty :: "string \<Rightarrow> string \<Rightarrow> members" where
  "omit_empty k v = (if v = [] then [] else [(k, JStr v)])"

definition json_list :: "('a \<Rightarrow> json) \<Rightarrow> 'a list \<Rightarrow> json" where
  "json_list f xs = (if xs = [] then JNull else JArr (map f xs))"

text \<open>A Go map is written with its keys in order.\<close>

definition json_map :: "members \<Rightarrow> json" where
  "json_map ms = JObj (sort_key fst ms)"

definition json_opt_string :: "string option \<Rightarrow> json" where
  "json_opt_string v = (case v of None \<Rightarrow> JNull | Some s \<Rightarrow> JStr s)"

definition json_user :: "User \<Rightarrow> json" where
  "json_user u = JObj [(''id'', JStr (u_id u)), (''username'', JStr (u_username u)),
     (''email'', JStr (u_email u)), (''display_name'', JStr (u_display_name u)),
     (''created_at'', json_time (u_created_at u)), (''updated_at'', json_time (u_updated_at u))]"

definition json_group :: "Group \<Rightarrow> json" where
  "json_group g = JObj ([(''id'', JStr (g_id g)), (''name'', JStr (g_name g))]
     @ omit_empty ''description'' (g_description g)
     @ [(''created_at'', json_time (g_created_at g)), (''updated_at'', json_time (g_updated_at g)),
        (''creator_id'', JStr (g_creator_id g))]
     @ omit_empty ''creator_username'' (g_creator_username g)
     @ [(''group_type'', JStr (g_group_type g))])"

definition json_member :: "GroupMember \<Rightarrow> json" where
  "json_member m = JObj ([(''group_id'', JStr (m_group_id m)), (''user_id'', JStr (m_user_id m)),
     (''rank'', json_int (m_rank m))]
     @ str_member ''added_by'' (m_added_by m)
     @ [(''created_at'', json_time (m_created_at m))]
     @ omit_empty ''username'' (m_username m))"

definition json_appointment :: "Appointment \<Rightarrow> json" where
  "json_appointment a = JObj ([(''id'', JStr (a_id a)), (''title'', JStr (a_title a))]
     @ omit_empty ''description'' (a_description a)
     @ [(''owner_id'', JStr (a_owner_id a))]
     @ str_member ''group_id'' (a_group_id a)
     @ [(''start'', json_time (a_start a)), (''end'', json_time (a_end a)),
        (''privacy'', JStr (a_privacy a)), (''status'', JStr (a_status a)),
        (''created_at'', json_time (a_created_at a)), (''updated_at'', json_time (a_updated_at a)),
        (''version'', json_int (a_version a))]
     @ omit_empty ''origin_node'' (a_origin_node a)
     @ [(''deleted'', JBool (a_deleted a))])"

definition participant_members :: "'x Participant_scheme \<Rightarrow> members" where
  "participant_members p = [(''id'', JStr (p_id p)), (''appointment_id'', JStr (p_appointment_id p)),
     (''user_id'', JStr (p_user_id p)), (''status'', JStr (p_status p)),
     (''is_optional'', JBool (p_is_optional p)), (''created_at'', json_time (p_created_at p)),
     (''updated_at'', json_time (p_updated_at p))]"

definition json_participant :: "Participant \<Rightarrow> json" where
  "json_participant p = JObj (participant_members p)"

definition json_details :: "ParticipantDetails \<Rightarrow> json" where
  "json_details p = JObj (participant_members p
     @ [(''username'', JStr (pd_username p)), (''display_name'', JStr (pd_display_name p))])"

definition json_notification :: "Notification \<Rightarrow> json" where
  "json_notification n = JObj ([(''id'', JStr (n_id n)), (''user_id'', JStr (n_user_id n)),
     (''type'', JStr (n_type n)), (''payload'', JStr (n_payload n))]
     @ time_member ''read_at'' (n_read_at n)
     @ [(''created_at'', json_time (n_created_at n))])"

definition event_members :: "Event \<Rightarrow> members" where
  "event_members e = [(''id'', json_int (e_id e)), (''entity'', JStr (e_entity e)),
     (''entity_id'', JStr (e_entity_id e)), (''action'', JStr (e_action e)),
     (''payload'', JStr (e_payload e)), (''created_at'', json_time (e_created_at e)),
     (''origin_node'', JStr (e_origin_node e)), (''version'', json_int (e_version e))]"

definition json_node :: "ClusterNode \<Rightarrow> json" where
  "json_node n = JObj [(''node_id'', JStr (cn_node_id n)), (''address'', JStr (cn_address n)),
     (''source'', JStr (cn_source n)), (''last_seen'', json_time (cn_last_seen n))]"

definition audit_members :: "AuditLog \<Rightarrow> members" where
  "audit_members a = [(''id'', json_int (al_id a)), (''component'', JStr (al_component a)),
     (''action'', JStr (al_action a)), (''level'', JStr (al_level a)), (''message'', JStr (al_message a))]
     @ str_member ''actor_id'' (al_actor_id a)
     @ [(''request_id'', JStr (al_request_id a)), (''node_id'', JStr (al_node_id a)),
        (''payload'', JStr (al_payload a)), (''occurred_at'', json_time (al_occurred_at a))]"

section \<open>Lists that travel between the nodes\<close>

text \<open>The first value of a body; an array decodes element by element, \<open>null\<close> leaves the slice nil.\<close>

definition dec_list :: "(members \<Rightarrow> 'a option) \<Rightarrow> string \<Rightarrow> 'a list option" where
  "dec_list f t = Option.bind (first_json t) (\<lambda>j. case j of
     JNull \<Rightarrow> Some []
   | JArr js \<Rightarrow> those (map (\<lambda>x. Option.bind (struct_of x) f) js)
   | _ \<Rightarrow> None)"

definition enc_list :: "('a \<Rightarrow> bool) \<Rightarrow> ('a \<Rightarrow> members) \<Rightarrow> 'a list \<Rightarrow> string option" where
  "enc_list fine f xs = (if list_all fine xs then Some (jprint (json_list (\<lambda>x. JObj (f x)) xs)) else None)"

definition dec_event :: "members \<Rightarrow> Event option" where
  "dec_event ms = do {
     i \<leftarrow> int_field ''id'' ms;
     entity \<leftarrow> str_field ''entity'' ms;
     eid \<leftarrow> str_field ''entity_id'' ms;
     action \<leftarrow> str_field ''action'' ms;
     payload \<leftarrow> str_field ''payload'' ms;
     created \<leftarrow> time_field ''created_at'' ms;
     origin \<leftarrow> str_field ''origin_node'' ms;
     version \<leftarrow> int_field ''version'' ms;
     Some \<lparr>e_id = i, e_entity = entity, e_entity_id = eid, e_action = action, e_payload = payload,
           e_created_at = created, e_origin_node = origin, e_version = version\<rparr>}"

definition dec_audit :: "members \<Rightarrow> AuditLog option" where
  "dec_audit ms = do {
     i \<leftarrow> int_field ''id'' ms;
     component \<leftarrow> str_field ''component'' ms;
     action \<leftarrow> str_field ''action'' ms;
     level \<leftarrow> str_field ''level'' ms;
     message \<leftarrow> str_field ''message'' ms;
     actor \<leftarrow> str_pointer ''actor_id'' ms;
     request \<leftarrow> str_field ''request_id'' ms;
     node \<leftarrow> str_field ''node_id'' ms;
     payload \<leftarrow> str_field ''payload'' ms;
     occurred \<leftarrow> time_field ''occurred_at'' ms;
     Some \<lparr>al_id = i, al_component = component, al_action = action, al_level = level, al_message = message,
           al_actor_id = actor, al_request_id = request, al_node_id = node, al_payload = payload,
           al_occurred_at = occurred\<rparr>}"

definition event_fine :: "Event \<Rightarrow> bool" where
  "event_fine e \<longleftrightarrow> json_time_ok (e_created_at e) \<and> is_int64 (e_id e) \<and> is_int64 (e_version e)"

definition audit_fine :: "AuditLog \<Rightarrow> bool" where
  "audit_fine a \<longleftrightarrow> json_time_ok (al_occurred_at a) \<and> is_int64 (al_id a)"

definition enc_events :: "Event list \<Rightarrow> string option" where
  "enc_events = enc_list event_fine event_members"

definition dec_events :: "string \<Rightarrow> Event list option" where
  "dec_events = dec_list dec_event"

definition enc_audits :: "AuditLog list \<Rightarrow> string option" where
  "enc_audits = enc_list audit_fine audit_members"

definition dec_audits :: "string \<Rightarrow> AuditLog list option" where
  "dec_audits = dec_list dec_audit"

lemma those_map_Some: "(\<And>x. x \<in> set xs \<Longrightarrow> f x = Some (g x)) \<Longrightarrow> those (map f xs) = Some (map g xs)"
  by (induction xs) auto

lemma dec_enc_list:
  assumes "enc_list fine f xs = Some t" and "stops r"
    and "\<And>x. fine x \<Longrightarrow> conv (f x) = Some x" and "\<And>x. list_all (\<lambda>(k, v). jwf v) (f x)"
  shows "dec_list conv (t @ r) = Some xs"
proof -
  have fine: "list_all fine xs" and t: "t = jprint (json_list (\<lambda>x. JObj (f x)) xs)"
    using assms(1) by (auto simp: enc_list_def split: if_splits)
  have "jwf (json_list (\<lambda>x. JObj (f x)) xs)"
    using assms(4) by (simp add: json_list_def list_all_iff)
  then have p: "first_json (t @ r) = Some (json_list (\<lambda>x. JObj (f x)) xs)"
    unfolding t using assms(2) by (rule first_json_jprint)
  have "those (map (\<lambda>x. conv (f x)) xs) = Some (map (\<lambda>x. x) xs)"
    using fine assms(3) by (intro those_map_Some) (simp add: list_all_iff)
  then show ?thesis
    by (cases "xs = []") (simp_all add: dec_list_def p json_list_def struct_of_def comp_def)
qed

lemma lower_wire_keys [simp]:
  "ToLower ''entity'' = ''entity''" "ToLower ''entity_id'' = ''entity_id''" "ToLower ''action'' = ''action''"
  "ToLower ''created_at'' = ''created_at''" "ToLower ''origin_node'' = ''origin_node''"
  "ToLower ''version'' = ''version''" "ToLower ''component'' = ''component''" "ToLower ''level'' = ''level''"
  "ToLower ''message'' = ''message''" "ToLower ''actor_id'' = ''actor_id''"
  "ToLower ''request_id'' = ''request_id''" "ToLower ''node_id'' = ''node_id''"
  "ToLower ''occurred_at'' = ''occurred_at''"
  by code_simp+

lemma dec_event_members: "event_fine e \<Longrightarrow> dec_event (event_members e) = Some e"
  by (cases e) (simp add: dec_event_def event_members_def event_fine_def fields)

lemma dec_audit_members: "audit_fine a \<Longrightarrow> dec_audit (audit_members a) = Some a"
  by (cases a) (auto simp: dec_audit_def audit_members_def audit_fine_def fields split: option.splits)

lemma enc_list_fine: "(enc_list fine f xs = None) \<longleftrightarrow> \<not> list_all fine xs"
  by (simp add: enc_list_def)

lemma dec_enc_events: "enc_events xs = Some t \<Longrightarrow> stops r \<Longrightarrow> dec_events (t @ r) = Some xs"
  unfolding enc_events_def dec_events_def
  by (erule dec_enc_list) (simp_all add: dec_event_members, simp add: event_members_def)

lemma dec_enc_audits: "enc_audits xs = Some t \<Longrightarrow> stops r \<Longrightarrow> dec_audits (t @ r) = Some xs"
  unfolding enc_audits_def dec_audits_def
  by (erule dec_enc_list) (simp_all add: dec_audit_members, simp add: audit_members_def)

interpretation events_codec: codec enc_events dec_events "list_all event_fine"
  using dec_enc_events [where r = "[]"] by unfold_locales (simp_all add: enc_events_def enc_list_fine)

interpretation audits_codec: codec enc_audits dec_audits "list_all audit_fine"
  using dec_enc_audits [where r = "[]"] by unfold_locales (simp_all add: enc_audits_def enc_list_fine)

end
