(* ===== verification/Consensus.thy ===== *)
theory Consensus
  imports RaftLog Peers Wire
begin

text \<open>
  \<open>consensus.go\<close>, the part a single node runs on its own state: the two RPC
  handlers, the commit index, and the application of committed entries. A node
  is the record of the fields of \<open>ConsensusImpl\<close> together with the database and
  the peer store it points to. The lines written to the log files are left out; the
  audit records are not. \<open>c_stamps\<close> is what the clock shows and the request id
  that is drawn at each of the audit records still to come.
\<close>

section \<open>State\<close>

datatype role = Follower | Candidate | Leader

record Node =
  c_id :: string
  c_state :: RaftState
  c_role :: role
  c_reset_timer :: bool
  c_hb_failures :: int
  c_failed_elections :: int
  c_next :: "string \<Rightarrow> int option"
  c_match :: "string \<Rightarrow> int option"
  c_apply_err :: "gerr option"
  c_apply_err_index :: int
  c_peers :: PeerStore
  c_db :: Store
  c_stamps :: "nat \<Rightarrow> GoTime \<times> string"

record AppendEntriesRequest =
  ae_term :: int
  ae_leader :: string
  ae_prev_index :: int
  ae_prev_term :: int
  ae_entries :: "LogEntry list"
  ae_commit :: int

record AppendEntriesResponse =
  aer_term :: int
  aer_success :: bool
  aer_match :: int

record RequestVoteRequest =
  rv_term :: int
  rv_candidate :: string
  rv_last_index :: int
  rv_last_term :: int
  rv_prevote :: bool

record RequestVoteResponse =
  rvr_term :: int
  rvr_granted :: bool

abbreviation c_term :: "Node \<Rightarrow> int" where "c_term c \<equiv> rs_current_term (c_state c)"
abbreviation c_voted :: "Node \<Rightarrow> string" where "c_voted c \<equiv> rs_voted_for (c_state c)"
abbreviation c_commit :: "Node \<Rightarrow> int" where "c_commit c \<equiv> rs_commit_index (c_state c)"
abbreviation c_applied :: "Node \<Rightarrow> int" where "c_applied c \<equiv> rs_last_applied (c_state c)"
abbreviation c_log :: "Node \<Rightarrow> LogEntry list" where "c_log c \<equiv> tb_log (c_db c)"

text \<open>\<open>NewConsensus\<close>\<close>

definition NewConsensus :: "(nat \<Rightarrow> GoTime \<times> string) \<Rightarrow> string \<Rightarrow> Store \<Rightarrow> PeerStore \<Rightarrow> Node" where
  "NewConsensus stamps nid s p =
     \<lparr>c_id = nid, c_state = zero_state, c_role = Follower, c_reset_timer = False,
      c_hb_failures = 0, c_failed_elections = 0, c_next = Map.empty, c_match = Map.empty,
      c_apply_err = None, c_apply_err_index = 0, c_peers = p, c_db = s, c_stamps = stamps\<rparr>"

section \<open>Audit records\<close>

text \<open>\<open>RecordAudit\<close>; the copy that goes to the log file is left out.\<close>

definition RecordAudit ::
    "GoTime \<Rightarrow> string \<Rightarrow> string option \<Rightarrow> string \<Rightarrow> string \<Rightarrow> string \<Rightarrow> members \<Rightarrow> Node \<Rightarrow> Node" where
  "RecordAudit now reqID actor component action message info c =
     c\<lparr>c_db := AppendAudit now
        \<lparr>al_id = 0, al_component = component, al_action = action, al_level = ''info'', al_message = message,
         al_actor_id = actor, al_request_id = reqID, al_node_id = c_id c,
         al_payload = (if info = [] then [] else jprint (json_map info)), al_occurred_at = now\<rparr> (c_db c)\<rparr>"

text \<open>The method \<open>audit\<close> adds the node to the fields, unless they name one.\<close>

definition audit :: "string \<Rightarrow> string \<Rightarrow> members \<Rightarrow> Node \<Rightarrow> Node" where
  "audit action message info c =
     RecordAudit (fst (c_stamps c 0)) (snd (c_stamps c 0)) None ''consensus'' action message
       (if map_of info ''node_id'' = None then (''node_id'', JStr (c_id c)) # info else info)
       (c\<lparr>c_stamps := (\<lambda>i. c_stamps c (Suc i))\<rparr>)"

section \<open>Starting and stopping\<close>

text \<open>\<open>Start\<close> loads the persistent state; \<open>Stop\<close> ends the loop and leaves a record.\<close>

definition Start :: "Node \<Rightarrow> Node" where
  "Start c =
     (let c1 = c\<lparr>c_state := loadState (c_db c)\<rparr>
      in audit ''start'' ''consensus loop started'' [(''term'', json_int (c_term c1))] c1)"

definition Stop_loop :: "Node \<Rightarrow> Node" where
  "Stop_loop c = audit ''stop'' ''consensus loop stopped'' [] c"

definition IsLeader :: "Node \<Rightarrow> bool" where
  "IsLeader c \<longleftrightarrow> c_role c = Leader"

definition LeaderID :: "Node \<Rightarrow> string" where
  "LeaderID c = GetLeader (c_peers c)"

section \<open>The state and its copy on disk\<close>

text \<open>The assignments the code pairs with a write to \<open>raft_meta\<close>.\<close>

definition set_term :: "int \<Rightarrow> Node \<Rightarrow> Node" where
  "set_term t c = c\<lparr>c_state := (c_state c)\<lparr>rs_current_term := t\<rparr>,
                    c_db := persistMeta ''currentTerm'' t (c_db c)\<rparr>"

definition set_voted :: "string \<Rightarrow> Node \<Rightarrow> Node" where
  "set_voted v c = c\<lparr>c_state := (c_state c)\<lparr>rs_voted_for := v\<rparr>,
                     c_db := persistMetaString ''votedFor'' v (c_db c)\<rparr>"

definition set_commit :: "int \<Rightarrow> Node \<Rightarrow> Node" where
  "set_commit i c = c\<lparr>c_state := (c_state c)\<lparr>rs_commit_index := i\<rparr>,
                      c_db := persistMeta ''commitIndex'' i (c_db c)\<rparr>"

definition set_applied :: "int \<Rightarrow> Node \<Rightarrow> Node" where
  "set_applied i c = c\<lparr>c_state := (c_state c)\<lparr>rs_last_applied := i\<rparr>,
                       c_db := persistMeta ''lastApplied'' i (c_db c)\<rparr>"

definition set_log :: "LogEntry list \<Rightarrow> Node \<Rightarrow> Node" where
  "set_log l c = c\<lparr>c_db := (c_db c)\<lparr>tb_log := l\<rparr>\<rparr>"

definition follow :: "string \<Rightarrow> Node \<Rightarrow> Node" where
  "follow leader c = c\<lparr>c_peers := SetLeader leader (c_peers c)\<rparr>"

section \<open>AppendEntries\<close>

text \<open>A request of the current or a later term: adopt the term and the sender.\<close>

definition audit_demotion :: "string \<Rightarrow> AppendEntriesRequest \<Rightarrow> Node \<Rightarrow> Node" where
  "audit_demotion message req =
     audit ''demotion'' message [(''new_leader'', JStr (ae_leader req)), (''term'', json_int (ae_term req))]"

definition adopt_leader :: "AppendEntriesRequest \<Rightarrow> Node \<Rightarrow> Node" where
  "adopt_leader req c =
     (if ae_term req > c_term c
      then (let c1 = follow (ae_leader req) ((set_term (ae_term req) c)\<lparr>c_role := Follower, c_hb_failures := 0\<rparr>)
            in if c_role c = Leader then audit_demotion ''leader demoted by higher term'' req c1 else c1)
      else if c_role c = Leader \<and> ae_leader req \<noteq> c_id c
      then audit_demotion ''leader demoted by same-term leader'' req
             (follow (ae_leader req) (c\<lparr>c_role := Follower, c_hb_failures := 0\<rparr>))
      else if c_role c \<noteq> Leader then follow (ae_leader req) c
      else c)"

definition reset_timer :: "AppendEntriesRequest \<Rightarrow> Node \<Rightarrow> Node" where
  "reset_timer req c =
     (if ae_leader req \<noteq> c_id c \<and> c_role c \<noteq> Leader then c\<lparr>c_reset_timer := True\<rparr> else c)"

text \<open>The previous entry does not match: cut the log there and step the indices back.\<close>

definition rollback :: "int \<Rightarrow> Node \<Rightarrow> Node" where
  "rollback prev c =
     (let c1 = set_log (truncateLogFrom prev (c_log c)) c;
          c2 = (if c_applied c1 \<ge> prev then set_applied (max 0 (prev - 1)) c1 else c1)
      in if c_commit c2 \<ge> prev then set_commit (max 0 (prev - 1)) c2 else c2)"

definition install_entry :: "LogEntry \<Rightarrow> Node \<Rightarrow> Node" where
  "install_entry e c = set_log (appendLog e (truncateLogFrom (le_index e) (c_log c))) c"

definition advance_commit :: "int \<Rightarrow> Node \<Rightarrow> Node" where
  "advance_commit i c = (if i > c_commit c then set_commit i c else c)"

definition last_installed :: "AppendEntriesRequest \<Rightarrow> int" where
  "last_installed req =
     (if ae_entries req = [] then ae_prev_index req else le_index (last (ae_entries req)))"

definition HandleAppendEntries :: "AppendEntriesRequest \<Rightarrow> Node \<Rightarrow> AppendEntriesResponse \<times> Node" where
  "HandleAppendEntries req c =
     (if ae_term req < c_term c
      then (\<lparr>aer_term = c_term c, aer_success = False, aer_match = c_applied c\<rparr>, c)
      else (let c1 = reset_timer req (adopt_leader req c)
            in if ae_prev_index req > 0 \<and> logTermAt (ae_prev_index req) (c_log c1) \<noteq> ae_prev_term req
               then (let c2 = rollback (ae_prev_index req) c1
                     in (\<lparr>aer_term = c_term c2, aer_success = False, aer_match = c_applied c2\<rparr>, c2))
               else (let c2 = advance_commit (ae_commit req) (fold install_entry (ae_entries req) c1)
                     in (\<lparr>aer_term = c_term c2, aer_success = True, aer_match = last_installed req\<rparr>, c2))))"

section \<open>RequestVote\<close>

text \<open>The log of the candidate is behind this node's.\<close>

definition log_outdated :: "RequestVoteRequest \<Rightarrow> LogEntry list \<Rightarrow> bool" where
  "log_outdated req log =
     (let (lastIdx, lastTerm) = lastIndexTerm log
      in lastTerm > rv_last_term req \<or> (lastTerm = rv_last_term req \<and> lastIdx > rv_last_index req))"

definition HandleRequestVote :: "RequestVoteRequest \<Rightarrow> Node \<Rightarrow> RequestVoteResponse \<times> Node" where
  "HandleRequestVote req c =
     (if rv_term req < c_term c then (\<lparr>rvr_term = c_term c, rvr_granted = False\<rparr>, c)
      else if rv_prevote req
      then (\<lparr>rvr_term = c_term c, rvr_granted = \<not> log_outdated req (c_log c)\<rparr>, c)
      else (let c1 = (if rv_term req > c_term c then set_voted [] (set_term (rv_term req) c) else c)
            in if c_voted c1 \<noteq> [] \<and> c_voted c1 \<noteq> rv_candidate req
               then (\<lparr>rvr_term = c_term c1, rvr_granted = False\<rparr>, c1)
               else if log_outdated req (c_log c1)
               then (\<lparr>rvr_term = c_term c1, rvr_granted = False\<rparr>, c1)
               else (\<lparr>rvr_term = c_term c1, rvr_granted = True\<rparr>, set_voted (rv_candidate req) c1)))"

section \<open>Commit index\<close>

definition activePeers :: "Node \<Rightarrow> string list" where
  "activePeers c =
     filter (\<lambda>nid. \<not> (nid = [] \<or> nid = c_id c \<or> nid = ''node-unknown'')) (ListPeers (c_peers c))"

definition majority :: "nat \<Rightarrow> nat" where
  "majority n = n div 2 + 1"

definition match_indexes :: "Node \<Rightarrow> int list" where
  "match_indexes c =
     fst (lastIndexTerm (c_log c))
       # map (\<lambda>nid. case c_match c nid of Some v \<Rightarrow> v | None \<Rightarrow> 0) (activePeers c)"

definition commit_candidate :: "int list \<Rightarrow> int" where
  "commit_candidate idxs = sort idxs ! (length idxs - majority (length idxs))"

definition recalculateCommitIndex :: "Node \<Rightarrow> Node" where
  "recalculateCommitIndex c =
     (if c_role c \<noteq> Leader then c
      else if fst (lastIndexTerm (c_log c)) = 0 then c
      else advance_commit (commit_candidate (match_indexes c)) c)"

section \<open>Applying committed entries\<close>

text \<open>\<open>isIgnorableApplyError\<close>\<close>

definition ignorable_ops :: "string list" where
  "ignorable_ops =
     [OpUserCreate, OpUserUpdateProfile, OpApptCreatePersonal, OpApptCreateGroup, OpGroupCreate,
      OpRepairEnsureParticipant, OpRepairEnsureGroupMember, OpRepairEnsureNotification]"

definition isIgnorableApplyError :: "LogEntry \<Rightarrow> gerr \<Rightarrow> bool" where
  "isIgnorableApplyError e err \<longleftrightarrow>
     Contains (err_text err) ''apply conflict''
     \<or> (le_op e = OpGroupMemberRemove \<and> Contains (err_text err) ''member not found'')
     \<or> (is_unique_error err \<and> le_op e \<in> set ignorable_ops)"

type_synonym applier = "LogEntry \<Rightarrow> Store \<Rightarrow> unit result \<times> Store"

definition clear_apply_err :: "int \<Rightarrow> Node \<Rightarrow> Node" where
  "clear_apply_err i c =
     (if c_apply_err c \<noteq> None \<and> c_apply_err_index c \<le> i
      then c\<lparr>c_apply_err := None, c_apply_err_index := 0\<rparr> else c)"

definition mark_applied :: "int \<Rightarrow> Node \<Rightarrow> Node" where
  "mark_applied i c = clear_apply_err i (set_applied i c)"

text \<open>Record the event as applied and move on, or stop when it cannot be recorded.\<close>

definition record_applied :: "LogEntry \<Rightarrow> Node \<Rightarrow> gerr option \<times> Node" where
  "record_applied e c =
     (case RecordAppliedEvent (le_event_id e) (le_index e) (c_db c) of
        (Inl err, s) \<Rightarrow> (Some err, c\<lparr>c_db := s\<rparr>)
      | (Inr _, s) \<Rightarrow> (None, mark_applied (le_index e) (c\<lparr>c_db := s\<rparr>)))"

definition audit_ignored :: "LogEntry \<Rightarrow> gerr \<Rightarrow> Node \<Rightarrow> Node" where
  "audit_ignored e err =
     audit ''raft_apply'' ''ignored apply error''
       [(''index'', json_int (le_index e)), (''op'', JStr (le_op e)), (''err'', JStr (err_text err))]"

text \<open>One round of the loop over the rows. An error ends the loop.\<close>

definition apply_entry :: "applier \<Rightarrow> LogEntry \<Rightarrow> Node \<Rightarrow> gerr option \<times> Node" where
  "apply_entry applier e c =
     (case HasAppliedEvent (le_event_id e) (c_db c) of
        Inl err \<Rightarrow> (Some err, c)
      | Inr True \<Rightarrow> (None, mark_applied (le_index e) c)
      | Inr False \<Rightarrow>
          (case applier e (c_db c) of
             (Inr _, s) \<Rightarrow> record_applied e (c\<lparr>c_db := s\<rparr>)
           | (Inl err, s) \<Rightarrow>
               if isIgnorableApplyError e err then record_applied e (audit_ignored e err (c\<lparr>c_db := s\<rparr>))
               else (Some err, c\<lparr>c_db := s, c_apply_err := Some err, c_apply_err_index := le_index e\<rparr>)))"

fun apply_entries :: "applier \<Rightarrow> LogEntry list \<Rightarrow> Node \<Rightarrow> gerr option \<times> Node" where
  "apply_entries applier [] c = (None, c)"
| "apply_entries applier (e # es) c =
     (case apply_entry applier e c of
        (Some err, c') \<Rightarrow> (Some err, c')
      | (None, c') \<Rightarrow> apply_entries applier es c')"

definition applyCommitted :: "applier option \<Rightarrow> Node \<Rightarrow> gerr option \<times> Node" where
  "applyCommitted applier c =
     (case applier of
        None \<Rightarrow> (None, c)
      | Some f \<Rightarrow>
          if c_commit c \<le> c_applied c then (None, c)
          else apply_entries f (entries_between (c_applied c) (c_commit c) (c_log c)) c)"

end
