(* ===== verification/Leader.thy ===== *)
theory Leader
  imports Consensus
begin

text \<open>
  \<open>consensus.go\<close>, the part that talks to the peers: heartbeats, replication,
  proposals, elections and the main loop. The network is a parameter: an \<open>rpc\<close>
  takes the peer, the request and the state of the rest of the world, and
  yields the decoded answer, or \<open>None\<close> for a transport error, a status outside
  2xx or a body that does not decode. The goroutine of a peer is one atomic
  step; \<open>order\<close> lists the peers whose goroutines finish in time, in the order
  in which their results arrive, and the end of the list is the timeout.
\<close>

type_synonym 'w ae_rpc = "string \<Rightarrow> AppendEntriesRequest \<Rightarrow> 'w \<Rightarrow> AppendEntriesResponse option \<times> 'w"
type_synonym 'w rv_rpc = "string \<Rightarrow> RequestVoteRequest \<Rightarrow> 'w \<Rightarrow> RequestVoteResponse option \<times> 'w"

section \<open>Collecting results\<close>

text \<open>
  The loop over the result channel: \<open>True\<close> as soon as a majority succeeded,
  \<open>False\<close> on the timeout, and after the last result the test again.
\<close>

fun collect :: "nat \<Rightarrow> bool list \<Rightarrow> nat \<Rightarrow> nat \<Rightarrow> bool" where
  "collect maj rs 0 successes \<longleftrightarrow> successes \<ge> maj"
| "collect maj [] (Suc pending) successes \<longleftrightarrow> False"
| "collect maj (r # rs) (Suc pending) successes \<longleftrightarrow>
     (let n = (if r then successes + 1 else successes)
      in n \<ge> maj \<or> collect maj rs pending n)"

text \<open>Run the goroutines in order, threading the node and the world.\<close>

fun run_peers :: "(string \<Rightarrow> 's \<Rightarrow> bool \<times> 's) \<Rightarrow> string list \<Rightarrow> 's \<Rightarrow> bool list \<times> 's" where
  "run_peers f [] s = ([], s)"
| "run_peers f (p # ps) s =
     (let (r, s1) = f p s; (rs, s2) = run_peers f ps s1 in (r # rs, s2))"

text \<open>An answer with a later term \<open>t\<close> than \<open>own\<close>, the one the round was started in.\<close>

definition audit_outdated :: "int \<Rightarrow> int \<Rightarrow> Node \<Rightarrow> Node" where
  "audit_outdated own t =
     audit ''demotion'' ''leader demoted due to higher term from follower''
       [(''follower_term'', json_int t), (''our_term'', json_int own)]"

definition stepDown :: "int \<Rightarrow> int \<Rightarrow> Node \<Rightarrow> Node" where
  "stepDown own t c =
     (if t > c_term c then audit_outdated own t (follow [] ((set_term t c)\<lparr>c_role := Follower\<rparr>)) else c)"

section \<open>Heartbeats\<close>

definition heartbeat_request :: "int \<Rightarrow> int \<Rightarrow> Node \<Rightarrow> AppendEntriesRequest" where
  "heartbeat_request term commit c =
     (let (prevIdx, prevTerm) = lastIndexTerm (c_log c)
      in \<lparr>ae_term = term, ae_leader = c_id c, ae_prev_index = prevIdx, ae_prev_term = prevTerm,
          ae_entries = [], ae_commit = commit\<rparr>)"

definition heartbeat_peer ::
    "'w ae_rpc \<Rightarrow> AppendEntriesRequest \<Rightarrow> string \<Rightarrow> Node \<times> 'w \<Rightarrow> bool \<times> Node \<times> 'w" where
  "heartbeat_peer rpc req pid cw =
     (case cw of (c, w) \<Rightarrow>
        (case rpc pid req w of
           (None, w1) \<Rightarrow> (False, c, w1)
         | (Some resp, w1) \<Rightarrow>
             if aer_term resp > ae_term req then (False, stepDown (ae_term req) (aer_term resp) c, w1)
             else (aer_success resp, c, w1)))"

definition broadcast_heartbeat ::
    "'w ae_rpc \<Rightarrow> string list \<Rightarrow> int \<Rightarrow> int \<Rightarrow> Node \<times> 'w \<Rightarrow> bool \<times> Node \<times> 'w" where
  "broadcast_heartbeat rpc order term commit cw =
     (let c = fst cw; peers = activePeers c;
          (rs, cw1) = run_peers (heartbeat_peer rpc (heartbeat_request term commit c)) order cw
      in (collect (majority (length peers + 1)) rs (length peers) 1, cw1))"

section \<open>Replication\<close>

definition set_progress :: "string \<Rightarrow> int \<Rightarrow> Node \<Rightarrow> Node" where
  "set_progress pid i c = c\<lparr>c_match := (c_match c)(pid \<mapsto> i), c_next := (c_next c)(pid \<mapsto> inc64 i)\<rparr>"

definition back_off :: "string \<Rightarrow> Node \<Rightarrow> Node" where
  "back_off pid c =
     (let cur = (case c_next c pid of Some v \<Rightarrow> v | None \<Rightarrow> 0)
      in c\<lparr>c_next := (c_next c)(pid \<mapsto> if cur \<le> 1 then 1 else cur - 1)\<rparr>)"

text \<open>The index the follower needs next, and the request that brings it there.\<close>

definition next_for :: "int \<Rightarrow> string \<Rightarrow> Node \<Rightarrow> int" where
  "next_for lastIdx pid c =
     (case c_next c pid of Some v \<Rightarrow> if v \<le> 0 then inc64 lastIdx else v | None \<Rightarrow> inc64 lastIdx)"

definition append_request :: "int \<Rightarrow> int \<Rightarrow> int \<Rightarrow> LogEntry list \<Rightarrow> Node \<Rightarrow> AppendEntriesRequest" where
  "append_request term commit prevIdx ents c =
     \<lparr>ae_term = term, ae_leader = c_id c, ae_prev_index = prevIdx,
      ae_prev_term = logTermAt prevIdx (c_log c), ae_entries = ents, ae_commit = commit\<rparr>"

text \<open>
  The goroutine of one follower, with up to the given number of attempts: each
  sends the suffix of the log from the follower's next index (or nothing, when
  it is past the end) and steps that index back when the follower refuses.
\<close>

fun replicate_peer ::
    "nat \<Rightarrow> 'w ae_rpc \<Rightarrow> int \<Rightarrow> int \<Rightarrow> int \<Rightarrow> string \<Rightarrow> Node \<times> 'w \<Rightarrow> bool \<times> Node \<times> 'w" where
  "replicate_peer 0 rpc term commit lastIdx pid cw = (False, cw)"
| "replicate_peer (Suc n) rpc term commit lastIdx pid (c, w) =
     (let ni = next_for lastIdx pid c;
          ents = (if ni > lastIdx then [] else loadLogEntriesFrom ni (c_log c));
          prevIdx = (if ni > lastIdx then lastIdx else ni - 1)
      in if ni \<le> lastIdx \<and> ents = [] then (True, set_progress pid lastIdx c, w)
         else case rpc pid (append_request term commit prevIdx ents c) w of
           (None, w1) \<Rightarrow> (False, c, w1)
         | (Some resp, w1) \<Rightarrow>
             if aer_term resp > term then (False, stepDown term (aer_term resp) c, w1)
             else if aer_success resp
             then (True, set_progress pid (if aer_match resp > 0 then aer_match resp else lastIdx) c, w1)
             else replicate_peer n rpc term commit lastIdx pid (back_off pid c, w1))"

definition broadcast_entries ::
    "'w ae_rpc \<Rightarrow> string list \<Rightarrow> int \<Rightarrow> int \<Rightarrow> Node \<times> 'w \<Rightarrow> bool \<times> Node \<times> 'w" where
  "broadcast_entries rpc order term commit cw =
     (let c = fst cw; peers = activePeers c; lastIdx = fst (lastIndexTerm (c_log c));
          (rs, cw1) = run_peers (replicate_peer 5 rpc term commit lastIdx) order cw
      in (collect (majority (length peers + 1)) rs (length peers) 1, cw1))"

text \<open>
  At most five broadcasts, one per element of \<open>orders\<close>, until one reaches a
  majority. The loop ends either way.
\<close>

fun replicate_retry :: "'w ae_rpc \<Rightarrow> string list list \<Rightarrow> int \<Rightarrow> Node \<times> 'w \<Rightarrow> Node \<times> 'w" where
  "replicate_retry rpc [] term cw = cw"
| "replicate_retry rpc (order # orders) term cw =
     (case broadcast_entries rpc order term (c_commit (fst cw)) cw of
        (True, cw1) \<Rightarrow> cw1
      | (False, cw1) \<Rightarrow> replicate_retry rpc orders term cw1)"

definition replicateAndCommit ::
    "'w ae_rpc \<Rightarrow> applier option \<Rightarrow> string list list \<Rightarrow> LogEntry \<Rightarrow> Node \<times> 'w \<Rightarrow> Node \<times> 'w" where
  "replicateAndCommit rpc applier orders e cw =
     (let (c, w) = cw;
          c1 = set_log (appendLog e (c_log c)) c;
          (c2, w2) = replicate_retry rpc (take 5 orders) (le_term e) (c1, w)
      in (snd (applyCommitted applier (recalculateCommitIndex c2)), w2))"

text \<open>
  \<open>waitForApplied\<close> polls; between two polls the rest of the node runs, which is
  an element of \<open>background\<close>. Its end is the deadline.
\<close>

definition poll_applied :: "int \<Rightarrow> Node \<Rightarrow> unit result option" where
  "poll_applied target c =
     (if c_role c \<noteq> Leader then Some (Inl (ErrMsg ''lost leadership while waiting for apply''))
      else if c_apply_err c \<noteq> None \<and> c_apply_err_index c > 0 \<and> c_apply_err_index c \<le> target
      then Some (Inl (ErrMsg ''apply error while waiting for entry to be applied''))
      else if c_applied c \<ge> target then Some (Inr ())
      else None)"

fun waitForApplied :: "int \<Rightarrow> (Node \<Rightarrow> Node) list \<Rightarrow> Node \<Rightarrow> unit result \<times> Node" where
  "waitForApplied target background c =
     (case poll_applied target c of
        Some r \<Rightarrow> (r, c)
      | None \<Rightarrow>
          (case background of
             [] \<Rightarrow> (Inl (ErrMsg ''timeout waiting for entry to be applied''), c)
           | f # fs \<Rightarrow> waitForApplied target fs (f c)))"

declare waitForApplied.simps [simp del]

definition audit_proposed :: "LogEntry \<Rightarrow> Node \<Rightarrow> Node" where
  "audit_proposed e =
     audit ''propose'' ''log entry committed and applied''
       [(''index'', json_int (le_index e)), (''op'', JStr (le_op e))]"

definition Propose ::
    "'w ae_rpc \<Rightarrow> applier option \<Rightarrow> string list list \<Rightarrow> (Node \<Rightarrow> Node) list \<Rightarrow> LogEntry
     \<Rightarrow> Node \<times> 'w \<Rightarrow> unit result \<times> Node \<times> 'w" where
  "Propose rpc applier orders background e cw =
     (let c = fst cw
      in if c_role c \<noteq> Leader then (Inl (ErrMsg ''not leader''), cw)
         else if c_apply_err c \<noteq> None
         then (Inl (ErrMsg ''node has unapplied committed entries (apply error)''), cw)
         else (let e1 = e\<lparr>le_term := c_term c, le_index := nextIndex (c_log c)\<rparr>;
                   (c1, w1) = replicateAndCommit rpc applier orders e1 cw;
                   (r, c2) = waitForApplied (le_index e1) background c1
               in (r, if r = Inr () then audit_proposed e1 c2 else c2, w1)))"

section \<open>Elections\<close>

text \<open>
  The test both vote loops make after each answer, on the timeout and at the
  end: more than half of the nodes that answered (this one included), or a
  single vote when two or three answered, the degraded mode. A loop that is won yields
  the votes, the number of nodes that answered, and whether it ended with the timeout.
\<close>

definition election_wins :: "nat \<Rightarrow> nat \<Rightarrow> nat \<Rightarrow> bool" where
  "election_wins attempted votes reachable \<longleftrightarrow>
     votes \<ge> majority reachable
     \<or> (votes = 1 \<and> attempted > 0 \<and> (reachable = 2 \<or> reachable = 3))"

fun vote_loop :: "nat \<Rightarrow> bool list \<Rightarrow> nat \<Rightarrow> nat \<Rightarrow> nat \<Rightarrow> (nat \<times> nat \<times> bool) option" where
  "vote_loop attempted oks 0 votes reachable =
     (if election_wins attempted votes reachable then Some (votes, reachable, False) else None)"
| "vote_loop attempted [] (Suc pending) votes reachable =
     (if election_wins attempted votes reachable then Some (votes, reachable, True) else None)"
| "vote_loop attempted (r # oks) (Suc pending) votes reachable =
     (let v = (if r then votes + 1 else votes)
      in if election_wins attempted v (reachable + 1) then Some (v, reachable + 1, False)
         else vote_loop attempted oks pending v (reachable + 1))"

definition vote_request :: "int \<Rightarrow> bool \<Rightarrow> Node \<Rightarrow> RequestVoteRequest" where
  "vote_request term prevote c =
     (let (lastIdx, lastTerm) = lastIndexTerm (c_log c)
      in \<lparr>rv_term = term, rv_candidate = c_id c, rv_last_index = lastIdx, rv_last_term = lastTerm,
          rv_prevote = prevote\<rparr>)"

text \<open>A pre-vote counts when the answer grants it.\<close>

definition prevote_peer :: "'w rv_rpc \<Rightarrow> RequestVoteRequest \<Rightarrow> string \<Rightarrow> 'w \<Rightarrow> bool \<times> 'w" where
  "prevote_peer rpc req pid w =
     (case rpc pid req w of
        (None, w1) \<Rightarrow> (False, w1) | (Some resp, w1) \<Rightarrow> (rvr_granted resp, w1))"

definition runPreVote :: "'w rv_rpc \<Rightarrow> string list \<Rightarrow> Node \<Rightarrow> 'w \<Rightarrow> bool \<times> 'w" where
  "runPreVote rpc order c w =
     (let peers = activePeers c;
          (oks, w1) = run_peers (prevote_peer rpc (vote_request (c_term c) True c)) order w
      in (vote_loop (length peers) oks (length peers) 1 1 \<noteq> None, w1))"

text \<open>A vote counts when the request was answered at all: \<open>postJSON\<close> looks at the status only.\<close>

definition vote_peer :: "'w rv_rpc \<Rightarrow> RequestVoteRequest \<Rightarrow> string \<Rightarrow> 'w \<Rightarrow> bool \<times> 'w" where
  "vote_peer rpc req pid w =
     (case rpc pid req w of (None, w1) \<Rightarrow> (False, w1) | (Some resp, w1) \<Rightarrow> (True, w1))"

definition becomeLeader :: "string list \<Rightarrow> Node \<Rightarrow> Node" where
  "becomeLeader peers c =
     (let lastIdx = fst (lastIndexTerm (c_log c))
      in follow (c_id c)
           (c\<lparr>c_role := Leader, c_hb_failures := 0, c_failed_elections := 0,
              c_next := (\<lambda>nid. if nid \<in> set peers then Some (inc64 lastIdx) else None),
              c_match := (\<lambda>nid. if nid \<in> set peers then Some 0 else None)\<rparr>))"

definition count_failure :: "Node \<Rightarrow> Node" where
  "count_failure c =
     (if c_failed_elections c < 10 then c\<lparr>c_failed_elections := c_failed_elections c + 1\<rparr> else c)"

text \<open>
  The node becomes a candidate in the next term. Its vote for itself goes to
  the database; the field \<open>VotedFor\<close> in memory keeps its value.
\<close>

definition stand :: "Node \<Rightarrow> Node" where
  "stand c =
     (let c1 = set_term (inc64 (c_term c)) c
      in c1\<lparr>c_db := persistMetaString ''votedFor'' (c_id c) (c_db c1), c_role := Candidate\<rparr>)"

text \<open>The record of an election that was won\<close>

definition elected_message :: "nat \<times> nat \<times> bool \<Rightarrow> string" where
  "elected_message won =
     (case won of (votes, reachable, late) \<Rightarrow>
        ''node became leader'' @ (if votes \<ge> majority reachable then [] else '' in degraded mode'')
          @ (if late then '' after timeout'' else []))"

definition elected_info :: "int \<Rightarrow> nat \<Rightarrow> nat \<times> nat \<times> bool \<Rightarrow> members" where
  "elected_info term known won =
     (case won of (votes, reachable, late) \<Rightarrow>
        [(''term'', json_int term), (''votes'', json_int (int votes))]
          @ (if votes \<ge> majority reachable then [(''majority'', json_int (int (majority reachable)))] else [])
          @ [(''reachable_peers'', json_int (int reachable)), (''total_known'', json_int (int known))])"

definition audit_elected :: "int \<Rightarrow> nat \<Rightarrow> nat \<times> nat \<times> bool \<Rightarrow> Node \<Rightarrow> Node" where
  "audit_elected term known won = audit ''election'' (elected_message won) (elected_info term known won)"

definition startElection ::
    "'w rv_rpc \<Rightarrow> string list \<Rightarrow> string list \<Rightarrow> Node \<Rightarrow> 'w \<Rightarrow> unit result \<times> Node \<times> 'w" where
  "startElection rpc preorder order c w =
     (case runPreVote rpc preorder c w of
        (False, w1) \<Rightarrow> (Inl (ErrMsg ''prevote failed''), count_failure c, w1)
      | (True, w1) \<Rightarrow>
          (let c1 = stand c; peers = activePeers c1;
               (oks, w2) = run_peers (vote_peer rpc (vote_request (c_term c1) False c1)) order w1
           in case vote_loop (length peers) oks (length peers) 1 1 of
                Some won \<Rightarrow> (Inr (), audit_elected (c_term c1) (length peers + 1) won (becomeLeader peers c1), w2)
              | None \<Rightarrow>
                  (Inl (ErrMsg (if length oks < length peers then ''election timeout'' else ''not enough votes'')),
                   count_failure c1, w2)))"

section \<open>The main loop\<close>

text \<open>
  The three cases of the \<open>select\<close>: the heartbeat ticker, the election ticker, the reset channel. The
  record of a demotion reads the failures after they were set to 0.
\<close>

definition note_heartbeat :: "bool \<Rightarrow> Node \<Rightarrow> Node" where
  "note_heartbeat reached c =
     (if reached then c\<lparr>c_hb_failures := 0\<rparr>
      else if c_hb_failures c + 1 \<ge> 3
      then audit ''demotion'' ''leader demoted due to repeated heartbeat failures'' [(''failures'', json_int 0)]
             (follow [] (c\<lparr>c_role := Follower, c_hb_failures := 0\<rparr>))
      else c\<lparr>c_hb_failures := c_hb_failures c + 1\<rparr>)"

definition heartbeat_case :: "'w ae_rpc \<Rightarrow> applier option \<Rightarrow> string list \<Rightarrow> Node \<times> 'w \<Rightarrow> Node \<times> 'w" where
  "heartbeat_case rpc applier order cw =
     (let c = fst cw;
          (c1, w1) = (if c_role c = Leader
                      then (let (reached, c', w') = broadcast_heartbeat rpc order (c_term c) (c_commit c) cw
                            in (note_heartbeat reached c', w'))
                      else cw)
      in (snd (applyCommitted applier c1), w1))"

definition election_case :: "'w rv_rpc \<Rightarrow> string list \<Rightarrow> string list \<Rightarrow> Node \<times> 'w \<Rightarrow> Node \<times> 'w" where
  "election_case rpc preorder order cw =
     (case cw of (c, w) \<Rightarrow>
        if c_role c \<noteq> Leader then snd (startElection rpc preorder order c w) else (c, w))"

definition reset_case :: "Node \<Rightarrow> Node" where
  "reset_case c = c\<lparr>c_reset_timer := False\<rparr>"

text \<open>\<open>electionTimeout\<close>, in nanoseconds, from a clock reading\<close>

definition electionTimeout :: "int \<Rightarrow> Node \<Rightarrow> int" where
  "electionTimeout now c =
     (let fe = (if c_failed_elections c < 0 then 0 else if c_failed_elections c > 3 then 3
                else c_failed_elections c)
      in 5 * second + fe * (2 * second) + now mod 2000000000)"

end
