(* ===== verification/ConsensusInv.thy ===== *)
theory ConsensusInv
  imports Leader
begin

text \<open>
  Invariants of a single node: what every operation of the consensus module
  keeps. The frame lemmas say which fields an operation leaves alone; the
  invariants are the well-formed log, the order of the applied and commit
  indices, the agreement of the state in memory with the metadata on disk, and
  the bounds of the two failure counters.
\<close>

section \<open>Frames\<close>

lemma persist_frames [simp, frames]:
  "tb_log (persistMeta k v s) = tb_log s" "tb_log (persistMetaString k t s) = tb_log s"
  "tb_applied (persistMeta k v s) = tb_applied s" "tb_applied (persistMetaString k t s) = tb_applied s"
  by (simp_all add: persistMeta_def persistMetaString_def)

lemma set_frames [simp, frames]:
  "c_id (set_term t c) = c_id c" "c_id (set_voted v c) = c_id c" "c_id (set_commit i c) = c_id c"
  "c_id (set_applied i c) = c_id c" "c_id (set_log l c) = c_id c" "c_id (follow x c) = c_id c"
  "c_role (set_term t c) = c_role c" "c_role (set_voted v c) = c_role c" "c_role (set_commit i c) = c_role c"
  "c_role (set_applied i c) = c_role c" "c_role (set_log l c) = c_role c" "c_role (follow x c) = c_role c"
  "c_state (set_log l c) = c_state c" "c_state (follow x c) = c_state c"
  "c_state (set_term t c) = (c_state c)\<lparr>rs_current_term := t\<rparr>"
  "c_state (set_voted v c) = (c_state c)\<lparr>rs_voted_for := v\<rparr>"
  "c_state (set_commit i c) = (c_state c)\<lparr>rs_commit_index := i\<rparr>"
  "c_state (set_applied i c) = (c_state c)\<lparr>rs_last_applied := i\<rparr>"
  "c_log (set_term t c) = c_log c" "c_log (set_voted v c) = c_log c" "c_log (set_commit i c) = c_log c"
  "c_log (set_applied i c) = c_log c" "c_log (set_log l c) = l" "c_log (follow x c) = c_log c"
  by (simp_all add: set_term_def set_voted_def set_commit_def set_applied_def set_log_def follow_def)

lemma set_frames_more [simp, frames]:
  "c_hb_failures (set_term t c) = c_hb_failures c" "c_hb_failures (set_voted v c) = c_hb_failures c"
  "c_hb_failures (set_commit i c) = c_hb_failures c" "c_hb_failures (set_applied i c) = c_hb_failures c"
  "c_hb_failures (set_log l c) = c_hb_failures c" "c_hb_failures (follow x c) = c_hb_failures c"
  "c_failed_elections (set_term t c) = c_failed_elections c"
  "c_failed_elections (set_voted v c) = c_failed_elections c"
  "c_failed_elections (set_commit i c) = c_failed_elections c"
  "c_failed_elections (set_applied i c) = c_failed_elections c"
  "c_failed_elections (set_log l c) = c_failed_elections c"
  "c_failed_elections (follow x c) = c_failed_elections c"
  "c_peers (set_term t c) = c_peers c" "c_peers (set_voted v c) = c_peers c"
  "c_peers (set_commit i c) = c_peers c" "c_peers (set_applied i c) = c_peers c"
  "c_peers (set_log l c) = c_peers c" "c_peers (follow x c) = SetLeader x (c_peers c)"
  by (simp_all add: set_term_def set_voted_def set_commit_def set_applied_def set_log_def follow_def)

lemma audit_frames [simp, frames]:
  "c_id (audit a m fs c) = c_id c" "c_state (audit a m fs c) = c_state c" "c_role (audit a m fs c) = c_role c"
  "c_reset_timer (audit a m fs c) = c_reset_timer c" "c_hb_failures (audit a m fs c) = c_hb_failures c"
  "c_failed_elections (audit a m fs c) = c_failed_elections c" "c_next (audit a m fs c) = c_next c"
  "c_match (audit a m fs c) = c_match c" "c_apply_err (audit a m fs c) = c_apply_err c"
  "c_apply_err_index (audit a m fs c) = c_apply_err_index c" "c_peers (audit a m fs c) = c_peers c"
  by (simp_all add: audit_def RecordAudit_def)

lemma audit_db [simp, frames]:
  "c_log (audit a m fs c) = c_log c" "tb_meta (c_db (audit a m fs c)) = tb_meta (c_db c)"
  "tb_applied (c_db (audit a m fs c)) = tb_applied (c_db c)"
  by (simp_all add: audit_def RecordAudit_def AppendAudit_def)

text \<open>A database with other audit records, and a node whose tables differ in them only\<close>

definition with_audit :: "AuditLog list \<Rightarrow> int \<Rightarrow> Store \<Rightarrow> Store" where
  "with_audit as n s = s\<lparr>tb_audit := as, seq_audit := n\<rparr>"

lemma with_audit_frames [simp, frames]:
  "tb_log (with_audit as n s) = tb_log s" "tb_meta (with_audit as n s) = tb_meta s"
  "tb_applied (with_audit as n s) = tb_applied s"
  by (simp_all add: with_audit_def)

lemma with_audit_same: "with_audit (tb_audit s) (seq_audit s) s = s"
  by (simp add: with_audit_def)

lemma audit_adds: "\<exists>as n st. audit a m fs c = c\<lparr>c_stamps := st, c_db := with_audit as n (c_db c)\<rparr>"
proof -
  let ?d = "audit a m fs c"
  have "?d = c\<lparr>c_stamps := c_stamps ?d, c_db := with_audit (tb_audit (c_db ?d)) (seq_audit (c_db ?d)) (c_db c)\<rparr>"
    by (simp add: audit_def RecordAudit_def AppendAudit_def with_audit_def)
  then show ?thesis by blast
qed

lemmas audits [simp] = audit_demotion_def audit_ignored_def audit_outdated_def audit_proposed_def audit_elected_def

lemma adopt_frames [simp, frames]:
  "c_id (adopt_leader req c) = c_id c" "c_log (adopt_leader req c) = c_log c"
  "c_commit (adopt_leader req c) = c_commit c" "c_applied (adopt_leader req c) = c_applied c"
  "c_voted (adopt_leader req c) = c_voted c"
  "c_term (adopt_leader req c) = max (c_term c) (ae_term req)
     \<or> ae_term req < c_term c"
  by (auto simp: adopt_leader_def Let_def)

lemma reset_timer_frames [simp, frames]:
  "c_id (reset_timer req c) = c_id c" "c_state (reset_timer req c) = c_state c"
  "c_db (reset_timer req c) = c_db c" "c_role (reset_timer req c) = c_role c"
  "c_peers (reset_timer req c) = c_peers c" "c_hb_failures (reset_timer req c) = c_hb_failures c"
  "c_failed_elections (reset_timer req c) = c_failed_elections c"
  by (simp_all add: reset_timer_def)

lemma adopt_term: "c_term c \<le> ae_term req \<Longrightarrow> c_term (adopt_leader req c) = ae_term req"
  by (auto simp: adopt_leader_def Let_def)

lemma rollback_frames [simp, frames]:
  "c_id (rollback p c) = c_id c" "c_term (rollback p c) = c_term c" "c_voted (rollback p c) = c_voted c"
  "c_role (rollback p c) = c_role c" "c_peers (rollback p c) = c_peers c"
  "c_log (rollback p c) = truncateLogFrom p (c_log c)"
  "c_hb_failures (rollback p c) = c_hb_failures c"
  "c_failed_elections (rollback p c) = c_failed_elections c"
  by (simp_all add: rollback_def Let_def)

lemma rollback_indices:
  "c_applied (rollback p c) = (if p \<le> c_applied c then max 0 (p - 1) else c_applied c)"
  "c_commit (rollback p c) = (if p \<le> c_commit c then max 0 (p - 1) else c_commit c)"
  by (auto simp: rollback_def Let_def)

lemma install_entry_frames [simp, frames]:
  "c_id (install_entry e c) = c_id c" "c_state (install_entry e c) = c_state c"
  "c_role (install_entry e c) = c_role c" "c_peers (install_entry e c) = c_peers c"
  "c_hb_failures (install_entry e c) = c_hb_failures c"
  "c_failed_elections (install_entry e c) = c_failed_elections c"
  "c_log (install_entry e c) = appendLog e (truncateLogFrom (le_index e) (c_log c))"
  "tb_meta (c_db (install_entry e c)) = tb_meta (c_db c)"
  by (simp_all add: install_entry_def) (simp add: set_log_def)

lemma fold_install_frames [simp, frames]:
  "c_id (fold install_entry es c) = c_id c" "c_state (fold install_entry es c) = c_state c"
  "c_role (fold install_entry es c) = c_role c" "c_peers (fold install_entry es c) = c_peers c"
  "c_hb_failures (fold install_entry es c) = c_hb_failures c"
  "c_failed_elections (fold install_entry es c) = c_failed_elections c"
  "tb_meta (c_db (fold install_entry es c)) = tb_meta (c_db c)"
  "c_log (fold install_entry es c) = raft_log.install es (c_log c)"
  by (induction es arbitrary: c) (simp_all add: raft_log.install_def)

lemma advance_frames [simp, frames]:
  "c_id (advance_commit i c) = c_id c" "c_term (advance_commit i c) = c_term c"
  "c_voted (advance_commit i c) = c_voted c" "c_applied (advance_commit i c) = c_applied c"
  "c_role (advance_commit i c) = c_role c" "c_peers (advance_commit i c) = c_peers c"
  "c_log (advance_commit i c) = c_log c" "c_commit (advance_commit i c) = max (c_commit c) i"
  "c_hb_failures (advance_commit i c) = c_hb_failures c"
  "c_failed_elections (advance_commit i c) = c_failed_elections c"
  by (auto simp: advance_commit_def)

section \<open>The handlers, case by case\<close>

lemma AppendEntries_stale:
  "ae_term req < c_term c \<Longrightarrow>
     HandleAppendEntries req c = (\<lparr>aer_term = c_term c, aer_success = False, aer_match = c_applied c\<rparr>, c)"
  by (simp add: HandleAppendEntries_def)

definition prev_matches :: "AppendEntriesRequest \<Rightarrow> LogEntry list \<Rightarrow> bool" where
  "prev_matches req log \<longleftrightarrow> ae_prev_index req \<le> 0 \<or> logTermAt (ae_prev_index req) log = ae_prev_term req"

lemma AppendEntries_mismatch:
  assumes "c_term c \<le> ae_term req" "\<not> prev_matches req (c_log c)"
  shows "snd (HandleAppendEntries req c) = rollback (ae_prev_index req) (reset_timer req (adopt_leader req c))"
    and "\<not> aer_success (fst (HandleAppendEntries req c))"
  using assms by (auto simp: HandleAppendEntries_def prev_matches_def Let_def)

lemma AppendEntries_match:
  assumes "c_term c \<le> ae_term req" "prev_matches req (c_log c)"
  shows "snd (HandleAppendEntries req c)
      = advance_commit (ae_commit req) (fold install_entry (ae_entries req) (reset_timer req (adopt_leader req c)))"
    and "fst (HandleAppendEntries req c)
      = \<lparr>aer_term = ae_term req, aer_success = True, aer_match = last_installed req\<rparr>"
  using assms by (auto simp: HandleAppendEntries_def prev_matches_def Let_def adopt_term)

lemma AppendEntries_cases:
  obtains (stale) "ae_term req < c_term c" | (mismatch) "c_term c \<le> ae_term req" "\<not> prev_matches req (c_log c)"
    | (match) "c_term c \<le> ae_term req" "prev_matches req (c_log c)"
  by fastforce

lemma AppendEntries_id [simp]: "c_id (snd (HandleAppendEntries req c)) = c_id c"
  by (cases req c rule: AppendEntries_cases) (simp_all add: AppendEntries_stale AppendEntries_mismatch AppendEntries_match)

lemma AppendEntries_term: "c_term (snd (HandleAppendEntries req c)) = max (c_term c) (ae_term req)"
  by (cases req c rule: AppendEntries_cases)
    (simp_all add: AppendEntries_stale AppendEntries_mismatch AppendEntries_match adopt_term)

lemma AppendEntries_voted [simp]: "c_voted (snd (HandleAppendEntries req c)) = c_voted c"
  by (cases req c rule: AppendEntries_cases)
    (simp_all add: AppendEntries_stale AppendEntries_mismatch AppendEntries_match)

lemma AppendEntries_log:
  "c_log (snd (HandleAppendEntries req c)) =
     (if ae_term req < c_term c then c_log c
      else if prev_matches req (c_log c) then raft_log.install (ae_entries req) (c_log c)
      else truncateLogFrom (ae_prev_index req) (c_log c))"
  by (cases req c rule: AppendEntries_cases)
    (simp_all add: AppendEntries_stale AppendEntries_mismatch AppendEntries_match)

lemma AppendEntries_success:
  "aer_success (fst (HandleAppendEntries req c)) \<longleftrightarrow> c_term c \<le> ae_term req \<and> prev_matches req (c_log c)"
  by (cases req c rule: AppendEntries_cases)
    (simp_all add: AppendEntries_stale AppendEntries_mismatch AppendEntries_match)

lemma RequestVote_frames [simp, frames]:
  "c_id (snd (HandleRequestVote req c)) = c_id c"
  "c_log (snd (HandleRequestVote req c)) = c_log c"
  "c_commit (snd (HandleRequestVote req c)) = c_commit c"
  "c_applied (snd (HandleRequestVote req c)) = c_applied c"
  "c_role (snd (HandleRequestVote req c)) = c_role c"
  "c_peers (snd (HandleRequestVote req c)) = c_peers c"
  "c_hb_failures (snd (HandleRequestVote req c)) = c_hb_failures c"
  "c_failed_elections (snd (HandleRequestVote req c)) = c_failed_elections c"
  by (simp_all add: HandleRequestVote_def Let_def)

lemma RequestVote_term:
  "c_term (snd (HandleRequestVote req c)) = (if rv_prevote req then c_term c else max (c_term c) (rv_term req))"
  by (auto simp: HandleRequestVote_def Let_def)

lemma RequestVote_granted:
  assumes "rvr_granted (fst (HandleRequestVote req c))" "\<not> rv_prevote req"
  shows "c_term c \<le> rv_term req" "\<not> log_outdated req (c_log c)"
    and "c_term (snd (HandleRequestVote req c)) = rv_term req"
    and "c_voted (snd (HandleRequestVote req c)) = rv_candidate req"
    and "rv_term req = c_term c \<Longrightarrow> c_voted c = [] \<or> c_voted c = rv_candidate req"
  using assms by (auto simp: HandleRequestVote_def Let_def split: if_splits)

text \<open>Within a term a recorded vote stays.\<close>

lemma RequestVote_keeps_vote:
  assumes "c_voted c \<noteq> []" "c_term (snd (HandleRequestVote req c)) = c_term c"
  shows "c_voted (snd (HandleRequestVote req c)) = c_voted c"
  using assms by (auto simp: HandleRequestVote_def Let_def split: if_splits)

section \<open>The order of the indices\<close>

definition indices_ok :: "Node \<Rightarrow> bool" where
  "indices_ok c \<longleftrightarrow> 0 \<le> c_applied c \<and> c_applied c \<le> c_commit c"

lemma indices_rollback: "indices_ok c \<Longrightarrow> indices_ok (rollback p c)"
  by (auto simp: indices_ok_def rollback_indices)

lemma indices_advance: "indices_ok c \<Longrightarrow> indices_ok (advance_commit i c)"
  by (auto simp: indices_ok_def)

lemma indices_AppendEntries: "indices_ok c \<Longrightarrow> indices_ok (snd (HandleAppendEntries req c))"
  by (cases req c rule: AppendEntries_cases)
    (simp_all add: AppendEntries_stale AppendEntries_mismatch AppendEntries_match
      indices_rollback indices_advance, auto simp: indices_ok_def rollback_indices)

lemma indices_RequestVote: "indices_ok c \<Longrightarrow> indices_ok (snd (HandleRequestVote req c))"
  by (simp add: indices_ok_def)

section \<open>Memory and disk\<close>

text \<open>
  The three counters on disk are those in memory; \<open>vote_ok\<close> says it of the
  vote, which an election of this node breaks.
\<close>

definition meta_ok :: "Node \<Rightarrow> bool" where
  "meta_ok c \<longleftrightarrow> unique_on fst (tb_meta (c_db c))
     \<and> map_of (tb_meta (c_db c)) ''currentTerm'' = Some (fmtInt (c_term c))
     \<and> map_of (tb_meta (c_db c)) ''commitIndex'' = Some (fmtInt (c_commit c))
     \<and> map_of (tb_meta (c_db c)) ''lastApplied'' = Some (fmtInt (c_applied c))
     \<and> is_int64 (c_term c) \<and> is_int64 (c_commit c) \<and> is_int64 (c_applied c)"

definition vote_ok :: "Node \<Rightarrow> bool" where
  "vote_ok c \<longleftrightarrow> map_of (tb_meta (c_db c)) ''votedFor'' = Some (c_voted c)"

lemma meta_frames [simp]:
  "tb_meta (c_db (set_term t c)) = put_meta ''currentTerm'' (fmtInt t) (tb_meta (c_db c))"
  "tb_meta (c_db (set_voted v c)) = put_meta ''votedFor'' v (tb_meta (c_db c))"
  "tb_meta (c_db (set_commit i c)) = put_meta ''commitIndex'' (fmtInt i) (tb_meta (c_db c))"
  "tb_meta (c_db (set_applied i c)) = put_meta ''lastApplied'' (fmtInt i) (tb_meta (c_db c))"
  "tb_meta (c_db (set_log l c)) = tb_meta (c_db c)" "tb_meta (c_db (follow x c)) = tb_meta (c_db c)"
  by (simp_all add: set_term_def set_voted_def set_commit_def set_applied_def set_log_def follow_def
      persistMeta_def persistMetaString_def)

lemma meta_ok_set:
  "meta_ok c \<Longrightarrow> is_int64 t \<Longrightarrow> meta_ok (set_term t c)"
  "meta_ok c \<Longrightarrow> meta_ok (set_voted v c)"
  "meta_ok c \<Longrightarrow> is_int64 i \<Longrightarrow> meta_ok (set_commit i c)"
  "meta_ok c \<Longrightarrow> is_int64 i \<Longrightarrow> meta_ok (set_applied i c)"
  by (simp_all add: meta_ok_def map_of_put_meta unique_put_meta)

lemma vote_ok_set:
  "vote_ok c \<Longrightarrow> vote_ok (set_term t c)" "vote_ok (set_voted v c)"
  "vote_ok c \<Longrightarrow> vote_ok (set_commit i c)" "vote_ok c \<Longrightarrow> vote_ok (set_applied i c)"
  by (simp_all add: vote_ok_def map_of_put_meta)

text \<open>What these two say of a node depends on its state and metadata only.\<close>

lemma meta_ok_cong:
  "c_state d = c_state c \<Longrightarrow> tb_meta (c_db d) = tb_meta (c_db c) \<Longrightarrow> meta_ok d = meta_ok c"
  "c_state d = c_state c \<Longrightarrow> tb_meta (c_db d) = tb_meta (c_db c) \<Longrightarrow> vote_ok d = vote_ok c"
  by (simp_all add: meta_ok_def vote_ok_def)

lemma is_int64_pred: "is_int64 p \<Longrightarrow> 0 < p \<Longrightarrow> is_int64 (p - 1)"
  by (auto simp: is_int64_def min64_def)

lemma loadState_meta_ok:
  assumes "meta_ok c" "vote_ok c"
  shows "loadState (c_db c) = c_state c"
  using assms
  by (simp add: meta_ok_def vote_ok_def loadState_meta state_of_meta_def meta_int_def parseInt64Default_fmtInt)

lemma meta_ok_irrelevant [simp]:
  "meta_ok (follow x c) = meta_ok c" "vote_ok (follow x c) = vote_ok c"
  "meta_ok (set_log l c) = meta_ok c" "vote_ok (set_log l c) = vote_ok c"
  "meta_ok (c\<lparr>c_role := r\<rparr>) = meta_ok c" "vote_ok (c\<lparr>c_role := r\<rparr>) = vote_ok c"
  "meta_ok (c\<lparr>c_hb_failures := n\<rparr>) = meta_ok c" "vote_ok (c\<lparr>c_hb_failures := n\<rparr>) = vote_ok c"
  "meta_ok (c\<lparr>c_reset_timer := b\<rparr>) = meta_ok c" "vote_ok (c\<lparr>c_reset_timer := b\<rparr>) = vote_ok c"
  "meta_ok (audit a m fs c) = meta_ok c" "vote_ok (audit a m fs c) = vote_ok c"
  by (auto intro!: meta_ok_cong)

lemma meta_ok_phases:
  "meta_ok c \<Longrightarrow> is_int64 (ae_term req) \<Longrightarrow> meta_ok (adopt_leader req c)"
  "vote_ok c \<Longrightarrow> vote_ok (adopt_leader req c)"
  "meta_ok c \<Longrightarrow> meta_ok (reset_timer req c)" "vote_ok c \<Longrightarrow> vote_ok (reset_timer req c)"
  "meta_ok c \<Longrightarrow> is_int64 p \<Longrightarrow> 0 < p \<Longrightarrow> meta_ok (rollback p c)" "vote_ok c \<Longrightarrow> vote_ok (rollback p c)"
  "meta_ok (fold install_entry es c) = meta_ok c" "vote_ok (fold install_entry es c) = vote_ok c"
  "meta_ok c \<Longrightarrow> is_int64 i \<Longrightarrow> meta_ok (advance_commit i c)" "vote_ok c \<Longrightarrow> vote_ok (advance_commit i c)"
  by (auto simp: adopt_leader_def reset_timer_def rollback_def advance_commit_def Let_def
      intro!: meta_ok_set vote_ok_set is_int64_pred meta_ok_cong)

text \<open>A request as Go decodes it: 64-bit numbers, and entries with positive indices.\<close>

definition ae_request_ok :: "AppendEntriesRequest \<Rightarrow> bool" where
  "ae_request_ok req \<longleftrightarrow> is_int64 (ae_term req) \<and> is_int64 (ae_prev_index req) \<and> is_int64 (ae_commit req)
     \<and> (\<forall>e \<in> set (ae_entries req). index_ok (le_index e))"

lemma meta_AppendEntries:
  assumes "meta_ok c" "ae_request_ok req"
  shows "meta_ok (snd (HandleAppendEntries req c))"
proof -
  have p: "0 < ae_prev_index req" if "\<not> prev_matches req (c_log c)"
    using that by (simp add: prev_matches_def)
  with assms show ?thesis
    by (cases req c rule: AppendEntries_cases)
      (auto simp: AppendEntries_stale AppendEntries_mismatch AppendEntries_match ae_request_ok_def
        meta_ok_phases(7) intro!: meta_ok_phases(1,3,5,9))
qed

lemma vote_AppendEntries: "vote_ok c \<Longrightarrow> vote_ok (snd (HandleAppendEntries req c))"
  by (cases req c rule: AppendEntries_cases)
    (auto simp: AppendEntries_stale AppendEntries_mismatch AppendEntries_match meta_ok_phases
      intro!: meta_ok_phases(2,4,6,10))

lemma meta_RequestVote:
  assumes "meta_ok c" "is_int64 (rv_term req)"
  shows "meta_ok (snd (HandleRequestVote req c))"
  using assms by (auto simp: HandleRequestVote_def Let_def intro!: meta_ok_set)

lemma vote_RequestVote: "vote_ok c \<Longrightarrow> vote_ok (snd (HandleRequestVote req c))"
  by (auto simp: HandleRequestVote_def Let_def intro!: vote_ok_set)

section \<open>The log\<close>

lemma log_AppendEntries:
  assumes "wf_log (c_log c)" "ae_request_ok req"
  shows "wf_log (c_log (snd (HandleAppendEntries req c)))"
  using assms
  by (simp add: AppendEntries_log wf_log_truncate raft_log.install_good ae_request_ok_def)

text \<open>
  Entries a leader sends: consecutive indices after the previous one, each
  event once.
\<close>

definition consecutive :: "int \<Rightarrow> LogEntry list \<Rightarrow> bool" where
  "consecutive p es \<longleftrightarrow> map le_index es = map (\<lambda>k. p + 1 + int k) [0..<length es]
     \<and> distinct (map le_event_id es)"

section \<open>Counters and peers\<close>

definition counters_ok :: "Node \<Rightarrow> bool" where
  "counters_ok c \<longleftrightarrow> 0 \<le> c_hb_failures c \<and> c_hb_failures c < 3
     \<and> 0 \<le> c_failed_elections c \<and> c_failed_elections c \<le> 10"

lemma counters_adopt: "counters_ok c \<Longrightarrow> counters_ok (adopt_leader req c)"
  by (auto simp: adopt_leader_def counters_ok_def follow_def set_term_def Let_def)

lemma counters_AppendEntries: "counters_ok c \<Longrightarrow> counters_ok (snd (HandleAppendEntries req c))"
  using counters_adopt [of c req]
  by (cases req c rule: AppendEntries_cases)
    (simp_all add: AppendEntries_stale AppendEntries_mismatch AppendEntries_match counters_ok_def)

lemma counters_note_heartbeat: "counters_ok c \<Longrightarrow> counters_ok (note_heartbeat b c)"
  by (auto simp: counters_ok_def note_heartbeat_def)

lemma counters_count_failure: "counters_ok c \<Longrightarrow> counters_ok (count_failure c)"
  by (auto simp: counters_ok_def count_failure_def)

lemma peers_adopt: "peers_ok (c_peers c) \<Longrightarrow> peers_ok (c_peers (adopt_leader req c))"
  by (auto simp: adopt_leader_def peers_ok_ops Let_def)

lemma peers_AppendEntries: "peers_ok (c_peers c) \<Longrightarrow> peers_ok (c_peers (snd (HandleAppendEntries req c)))"
  by (cases req c rule: AppendEntries_cases)
    (simp_all add: AppendEntries_stale AppendEntries_mismatch AppendEntries_match peers_adopt)

end
