(* ===== verification/ApplyLoop.thy ===== *)
theory ApplyLoop
  imports ConsensusInv
begin

text \<open>
  The apply loop of \<open>consensus.go\<close>. Two interfaces: \<open>applied_record\<close>, what the
  loop needs of the table of applied events, and \<open>state_machine\<close>, what it needs
  of the applier, which is to leave the log, its metadata and that table alone.
  The lemmas in \<open>state_machine\<close> say what the loop does for every such applier:
  entries are applied in index order, each event is recorded, an error stops
  the loop at its entry, and recorded events are never handed to the applier.
\<close>

section \<open>The table of applied events\<close>

locale applied_record =
  fixes has :: "string \<Rightarrow> 's \<Rightarrow> bool result"
    and record_event :: "string \<Rightarrow> int \<Rightarrow> 's \<Rightarrow> unit result \<times> 's"
  assumes record_has: "fst (record_event k i s) = Inr () \<Longrightarrow> has k (snd (record_event k i s)) = Inr True"
    and record_keeps: "has j s = Inr True \<Longrightarrow> has j (snd (record_event k i s)) = Inr True"
    and record_known: "has k s = Inr b \<Longrightarrow> fst (record_event k i s) = Inr ()"
    and record_again: "has k s = Inr True \<Longrightarrow> snd (record_event k i s) = s"
begin

lemma record_idem:
  assumes "fst (record_event k i s) = Inr ()"
  shows "snd (record_event k j (snd (record_event k i s))) = snd (record_event k i s)"
  by (rule record_again [OF record_has [OF assms]])

end

interpretation raft_applied: applied_record HasAppliedEvent RecordAppliedEvent
  by unfold_locales
    (auto simp: HasAppliedEvent_def RecordAppliedEvent_def split: if_splits)

definition recorded :: "Node \<Rightarrow> LogEntry \<Rightarrow> bool" where
  "recorded c e \<longleftrightarrow> HasAppliedEvent (le_event_id e) (c_db c) = Inr True"

lemma RecordAppliedEvent_frames [simp, frames]:
  "tb_log (snd (RecordAppliedEvent k i s)) = tb_log s"
  "tb_meta (snd (RecordAppliedEvent k i s)) = tb_meta s"
  by (simp_all add: RecordAppliedEvent_def)

lemma HasApplied_cong: "tb_applied s = tb_applied t \<Longrightarrow> HasAppliedEvent k s = HasAppliedEvent k t"
  by (simp add: HasAppliedEvent_def)

lemma mark_applied_frames [simp, frames]:
  "c_id (mark_applied i c) = c_id c" "c_role (mark_applied i c) = c_role c"
  "c_peers (mark_applied i c) = c_peers c" "c_log (mark_applied i c) = c_log c"
  "c_state (mark_applied i c) = (c_state c)\<lparr>rs_last_applied := i\<rparr>"
  "c_hb_failures (mark_applied i c) = c_hb_failures c"
  "c_failed_elections (mark_applied i c) = c_failed_elections c"
  "c_next (mark_applied i c) = c_next c" "c_match (mark_applied i c) = c_match c"
  "tb_applied (c_db (mark_applied i c)) = tb_applied (c_db c)"
  "tb_meta (c_db (mark_applied i c)) = put_meta ''lastApplied'' (fmtInt i) (tb_meta (c_db c))"
  by (simp_all add: mark_applied_def clear_apply_err_def) (simp_all add: set_applied_def)

lemma recorded_mark [simp]: "recorded (mark_applied i c) e = recorded c e"
  by (simp add: recorded_def cong: HasApplied_cong)

section \<open>The loop\<close>

text \<open>The entry did what it should, or its error counts as done.\<close>

definition passed :: "LogEntry \<Rightarrow> unit result \<Rightarrow> bool" where
  "passed e r \<longleftrightarrow> (case r of Inr _ \<Rightarrow> True | Inl err \<Rightarrow> isIgnorableApplyError e err)"

locale state_machine =
  fixes f :: applier
  assumes keeps_log: "tb_log (snd (f e s)) = tb_log s"
    and keeps_meta: "tb_meta (snd (f e s)) = tb_meta s"
    and keeps_applied: "tb_applied (snd (f e s)) = tb_applied s"
begin

text \<open>The ways a round can go.\<close>

lemma apply_entry_cases:
  obtains (blank) err where "HasAppliedEvent (le_event_id e) (c_db c) = Inl err" "apply_entry f e c = (Some err, c)"
  | (known) "recorded c e" "apply_entry f e c = (None, mark_applied (le_index e) c)"
  | (ran) s as n st where "HasAppliedEvent (le_event_id e) (c_db c) = Inr False"
      "s = with_audit as n (snd (f e (c_db c)))"
      "apply_entry f e c
         = (None, mark_applied (le_index e)
             (c\<lparr>c_stamps := st, c_db := snd (RecordAppliedEvent (le_event_id e) (le_index e) s)\<rparr>))"
      "fst (RecordAppliedEvent (le_event_id e) (le_index e) s) = Inr ()" "passed e (fst (f e (c_db c)))"
  | (stuck) err s where "HasAppliedEvent (le_event_id e) (c_db c) = Inr False"
      "f e (c_db c) = (Inl err, s)" "\<not> isIgnorableApplyError e err"
      "apply_entry f e c = (Some err, c\<lparr>c_db := s, c_apply_err := Some err, c_apply_err_index := le_index e\<rparr>)"
proof (cases "HasAppliedEvent (le_event_id e) (c_db c)")
  case (Inl err)
  then show thesis by (intro blank) (auto simp: apply_entry_def)
next
  case (Inr b)
  show thesis
  proof (cases b)
    case True
    with Inr show thesis by (intro known) (auto simp: apply_entry_def recorded_def)
  next
    case False
    obtain r s where fs: "f e (c_db c) = (r, s)" by fastforce
    have "tb_applied s = tb_applied (c_db c)"
      using keeps_applied [of e "c_db c"] fs by simp
    then have "HasAppliedEvent (le_event_id e) (with_audit as n s) = Inr False" for as n
      using Inr False HasApplied_cong [of "with_audit as n s" "c_db c"] by simp
    then have rec: "fst (RecordAppliedEvent (le_event_id e) (le_index e) (with_audit as n s)) = Inr ()" for as n
      by (rule raft_applied.record_known)
    have taken: "record_applied e (c\<lparr>c_stamps := st, c_db := with_audit as n s\<rparr>) = (None, mark_applied (le_index e)
        (c\<lparr>c_stamps := st, c_db := snd (RecordAppliedEvent (le_event_id e) (le_index e) (with_audit as n s))\<rparr>))" for as n st
      using rec [of as n] by (auto simp: record_applied_def split: prod.splits sum.splits)
    show thesis
    proof (cases "\<exists>err. r = Inl err \<and> \<not> isIgnorableApplyError e err")
      case True
      then obtain err where "r = Inl err" "\<not> isIgnorableApplyError e err" by blast
      with Inr False fs show thesis by (intro stuck [of err s]) (simp_all add: apply_entry_def)
    next
      case unstuck: False
      have "\<exists>as n st. apply_entry f e c = record_applied e (c\<lparr>c_stamps := st, c_db := with_audit as n s\<rparr>)"
      proof (cases r)
        case (Inl err)
        with unstuck Inr False fs have "apply_entry f e c = record_applied e (audit_ignored e err (c\<lparr>c_db := s\<rparr>))"
          by (simp add: apply_entry_def)
        moreover obtain as n st where "audit_ignored e err (c\<lparr>c_db := s\<rparr>) = c\<lparr>c_stamps := st, c_db := with_audit as n s\<rparr>"
          using audit_adds [of _ _ _ "c\<lparr>c_db := s\<rparr>"] by (fastforce simp: audit_ignored_def)
        ultimately show ?thesis by metis
      next
        case (Inr u)
        with \<open>HasAppliedEvent (le_event_id e) (c_db c) = Inr b\<close> False fs
        have "apply_entry f e c = record_applied e (c\<lparr>c_db := s\<rparr>)" by (simp add: apply_entry_def)
        then show ?thesis
          using with_audit_same [of s] by (intro exI [of _ "tb_audit s"] exI [of _ "seq_audit s"] exI [of _ "c_stamps c"]) simp
      qed
      then obtain as n st where "apply_entry f e c = record_applied e (c\<lparr>c_stamps := st, c_db := with_audit as n s\<rparr>)"
        by blast
      moreover have "passed e (fst (f e (c_db c)))"
        using unstuck fs by (auto simp: passed_def split: sum.split)
      ultimately show thesis using Inr False fs rec taken by (intro ran) auto
    qed
  qed
qed

lemma apply_entry_frames:
  "c_id (snd (apply_entry f e c)) = c_id c" "c_role (snd (apply_entry f e c)) = c_role c"
  "c_peers (snd (apply_entry f e c)) = c_peers c" "c_log (snd (apply_entry f e c)) = c_log c"
  "c_term (snd (apply_entry f e c)) = c_term c" "c_voted (snd (apply_entry f e c)) = c_voted c"
  "c_commit (snd (apply_entry f e c)) = c_commit c"
  "c_hb_failures (snd (apply_entry f e c)) = c_hb_failures c"
  "c_failed_elections (snd (apply_entry f e c)) = c_failed_elections c"
  using keeps_log [of e "c_db c"] by (cases rule: apply_entry_cases [of e c]; simp)+

lemma apply_entry_applied:
  "c_applied (snd (apply_entry f e c)) = (if fst (apply_entry f e c) = None then le_index e else c_applied c)"
  by (cases rule: apply_entry_cases [of e c]) simp_all

lemma apply_entry_keeps_recorded: "recorded c d \<Longrightarrow> recorded (snd (apply_entry f e c)) d"
proof (cases rule: apply_entry_cases [of e c])
  case (ran s)
  assume "recorded c d"
  then have "HasAppliedEvent (le_event_id d) s = Inr True"
    using keeps_applied [of e "c_db c"] ran(2) HasApplied_cong [of s "c_db c"] by (simp add: recorded_def)
  then show ?thesis
    using raft_applied.record_keeps by (simp add: ran(3)) (simp add: recorded_def)
next
  case (stuck err s)
  assume "recorded c d"
  moreover have "tb_applied s = tb_applied (c_db c)"
    using keeps_applied [of e "c_db c"] stuck(2) by simp
  ultimately show ?thesis
    by (simp add: stuck(4) recorded_def HasAppliedEvent_def split: if_splits)
qed simp_all

lemma apply_entry_records: "fst (apply_entry f e c) = None \<Longrightarrow> recorded (snd (apply_entry f e c)) e"
proof (cases rule: apply_entry_cases [of e c])
  case (ran s)
  then show ?thesis
    using raft_applied.record_has [OF ran(4)] by (simp add: ran(3)) (simp add: recorded_def)
qed simp_all

lemma apply_entry_meta:
  assumes "meta_ok c" "is_int64 (le_index e)"
  shows "meta_ok (snd (apply_entry f e c))"
  using assms keeps_meta [of e "c_db c"]
  by (cases rule: apply_entry_cases [of e c])
    (auto simp: meta_ok_def map_of_put_meta unique_put_meta)

lemma apply_entry_vote: "vote_ok c \<Longrightarrow> vote_ok (snd (apply_entry f e c))"
  using keeps_meta [of e "c_db c"]
  by (cases rule: apply_entry_cases [of e c]) (auto simp: vote_ok_def map_of_put_meta)

lemma apply_entries_frames:
  "c_id (snd (apply_entries f es c)) = c_id c \<and> c_role (snd (apply_entries f es c)) = c_role c
   \<and> c_peers (snd (apply_entries f es c)) = c_peers c \<and> c_log (snd (apply_entries f es c)) = c_log c
   \<and> c_term (snd (apply_entries f es c)) = c_term c \<and> c_voted (snd (apply_entries f es c)) = c_voted c
   \<and> c_commit (snd (apply_entries f es c)) = c_commit c
   \<and> c_hb_failures (snd (apply_entries f es c)) = c_hb_failures c
   \<and> c_failed_elections (snd (apply_entries f es c)) = c_failed_elections c"
proof (induction es arbitrary: c)
  case Nil
  then show ?case by simp
next
  case (Cons e es)
  then show ?case
    using apply_entry_frames [of e c]
    by (cases "apply_entry f e c"; cases "fst (apply_entry f e c)") auto
qed

lemma apply_entries_keeps_recorded: "recorded c d \<Longrightarrow> recorded (snd (apply_entries f es c)) d"
proof (induction es arbitrary: c)
  case (Cons e es)
  then show ?case
    using apply_entry_keeps_recorded [of c d e]
    by (cases "apply_entry f e c"; cases "fst (apply_entry f e c)") auto
qed simp

lemma apply_entries_meta:
  "meta_ok c \<Longrightarrow> \<forall>e \<in> set es. is_int64 (le_index e) \<Longrightarrow> meta_ok (snd (apply_entries f es c))"
proof (induction es arbitrary: c)
  case (Cons e es)
  then show ?case
    using apply_entry_meta [of c e]
    by (cases "apply_entry f e c"; cases "fst (apply_entry f e c)") auto
qed simp

lemma apply_entries_vote: "vote_ok c \<Longrightarrow> vote_ok (snd (apply_entries f es c))"
proof (induction es arbitrary: c)
  case (Cons e es)
  then show ?case
    using apply_entry_vote [of c e]
    by (cases "apply_entry f e c"; cases "fst (apply_entry f e c)") auto
qed simp

text \<open>
  The loop stops after some of the entries: those are recorded, the index of
  the last of them is the applied index, and without an error they are all.
\<close>

lemma apply_entries_prefix:
  "\<exists>k \<le> length es. (\<forall>e \<in> set (take k es). recorded (snd (apply_entries f es c)) e)
     \<and> c_applied (snd (apply_entries f es c))
         = (if k = 0 then c_applied c else le_index (es ! (k - 1)))
     \<and> (fst (apply_entries f es c) = None \<longleftrightarrow> k = length es)"
proof (induction es arbitrary: c)
  case Nil
  then show ?case by simp
next
  case (Cons e es)
  show ?case
  proof (cases "fst (apply_entry f e c)")
    case (Some err)
    then obtain c' where "apply_entry f e c = (Some err, c')" by (metis prod.collapse)
    with apply_entry_applied [of e c] show ?thesis by (intro exI [of _ 0]) simp
  next
    case None
    then obtain c' where c': "apply_entry f e c = (None, c')" by (metis prod.collapse)
    with apply_entry_applied [of e c] apply_entry_records [of e c]
    have e: "c_applied c' = le_index e" "recorded c' e" by simp_all
    obtain k where k: "k \<le> length es" "\<forall>e \<in> set (take k es). recorded (snd (apply_entries f es c')) e"
      "c_applied (snd (apply_entries f es c')) = (if k = 0 then c_applied c' else le_index (es ! (k - 1)))"
      "fst (apply_entries f es c') = None \<longleftrightarrow> k = length es"
      using Cons.IH [of c'] by (elim exE conjE) (rule that; assumption)
    have run: "apply_entries f (e # es) c = apply_entries f es c'" by (simp add: c')
    have "\<forall>d \<in> set (take (Suc k) (e # es)). recorded (snd (apply_entries f (e # es) c)) d"
      using k(2) apply_entries_keeps_recorded [OF e(2)] unfolding run by simp
    moreover have "c_applied (snd (apply_entries f (e # es) c)) = le_index ((e # es) ! (Suc k - 1))"
      using k(3) e(1) unfolding run by (cases k) simp_all
    moreover have "fst (apply_entries f (e # es) c) = None \<longleftrightarrow> Suc k = length (e # es)"
      using k(4) unfolding run by simp
    moreover have "Suc k \<le> length (e # es)" using k(1) by simp
    ultimately show ?thesis by (metis nat.distinct(1))
  qed
qed

text \<open>The applied index never leaves the range of the entries, nor goes down.\<close>

lemma applyCommitted_indices:
  assumes "indices_ok c"
  shows "indices_ok (snd (applyCommitted (Some f) c))"
    and "c_applied c \<le> c_applied (snd (applyCommitted (Some f) c))"
proof -
  define es where "es = entries_between (c_applied c) (c_commit c) (c_log c)"
  have es: "c_applied c < le_index e \<and> le_index e \<le> c_commit c" if "e \<in> set es" for e
    using that by (simp add: entries_between_def es_def)
  obtain k where k: "k \<le> length es"
    "c_applied (snd (apply_entries f es c)) = (if k = 0 then c_applied c else le_index (es ! (k - 1)))"
    using apply_entries_prefix [of es c] by (elim exE conjE) (rule that; assumption)
  have last: "c_applied c < le_index (es ! (k - 1)) \<and> le_index (es ! (k - 1)) \<le> c_commit c" if "0 < k"
    using that k(1) by (intro es nth_mem) simp
  have range: "c_applied c \<le> c_applied (snd (apply_entries f es c))
      \<and> c_applied (snd (apply_entries f es c)) \<le> c_commit c"
  proof (cases "k = 0")
    case True
    with k(2) assms show ?thesis by (simp add: indices_ok_def)
  next
    case False
    with k(2) last show ?thesis by simp
  qed
  have run: "snd (applyCommitted (Some f) c)
      = (if c_commit c \<le> c_applied c then c else snd (apply_entries f es c))"
    by (simp add: applyCommitted_def es_def)
  show "c_applied c \<le> c_applied (snd (applyCommitted (Some f) c))"
    using range by (simp add: run)
  show "indices_ok (snd (applyCommitted (Some f) c))"
    using range assms apply_entries_frames [of es c] by (simp add: run indices_ok_def)
qed

lemma applyCommitted_frames:
  "c_id (snd (applyCommitted (Some f) c)) = c_id c" "c_role (snd (applyCommitted (Some f) c)) = c_role c"
  "c_peers (snd (applyCommitted (Some f) c)) = c_peers c" "c_log (snd (applyCommitted (Some f) c)) = c_log c"
  "c_term (snd (applyCommitted (Some f) c)) = c_term c" "c_voted (snd (applyCommitted (Some f) c)) = c_voted c"
  "c_commit (snd (applyCommitted (Some f) c)) = c_commit c"
  "c_hb_failures (snd (applyCommitted (Some f) c)) = c_hb_failures c"
  "c_failed_elections (snd (applyCommitted (Some f) c)) = c_failed_elections c"
  using apply_entries_frames by (simp_all add: applyCommitted_def)

lemma applyCommitted_meta:
  assumes "meta_ok c" "indices_ok c"
  shows "meta_ok (snd (applyCommitted (Some f) c))"
proof -
  have "is_int64 (le_index e)" if "e \<in> set (entries_between (c_applied c) (c_commit c) (c_log c))" for e
    using that assms by (auto simp: entries_between_def meta_ok_def indices_ok_def is_int64_def min64_def)
  then show ?thesis
    using apply_entries_meta [OF assms(1)] assms(1) by (simp add: applyCommitted_def)
qed

lemma applyCommitted_vote: "vote_ok c \<Longrightarrow> vote_ok (snd (applyCommitted (Some f) c))"
  by (simp add: applyCommitted_def apply_entries_vote)

end

text \<open>Recorded events do not reach the applier: which applier it is makes no difference.\<close>

lemma apply_entries_recorded:
  "\<forall>e \<in> set es. recorded c e \<Longrightarrow>
     apply_entries f es c = (None, fold (\<lambda>e. mark_applied (le_index e)) es c)"
proof (induction es arbitrary: c)
  case (Cons e es)
  then have "apply_entry f e c = (None, mark_applied (le_index e) c)"
    by (simp add: apply_entry_def recorded_def)
  with Cons show ?case by simp
qed simp

lemma applyCommitted_none [simp]: "applyCommitted None c = (None, c)"
  by (simp add: applyCommitted_def)

end
