(* ===== verification/ConsensusRun.thy ===== *)
theory ConsensusRun
  imports ApplyLoop
begin

text \<open>
  Every operation of a node keeps its invariant \<open>node_ok\<close>, so every state a
  node reaches has it. \<open>node_step\<close> is the step relation: an RPC handled, a tick
  of the main loop, a proposal, the late goroutine of a peer, or a change of
  the known peers, against any network that answers with 64-bit numbers.
\<close>

section \<open>The invariant\<close>

definition progress_ok :: "Node \<Rightarrow> bool" where
  "progress_ok c \<longleftrightarrow> (\<forall>pid v. c_match c pid = Some v \<longrightarrow> is_int64 v)"

definition node_ok :: "Node \<Rightarrow> bool" where
  "node_ok c \<longleftrightarrow> wf_log (c_log c) \<and> indices_ok c \<and> meta_ok c \<and> counters_ok c \<and> progress_ok c
     \<and> peers_ok (c_peers c)"

lemma progress_frames [simp]:
  "progress_ok (set_term t c) = progress_ok c" "progress_ok (set_voted v c) = progress_ok c"
  "progress_ok (set_commit i c) = progress_ok c" "progress_ok (set_applied i c) = progress_ok c"
  "progress_ok (set_log l c) = progress_ok c" "progress_ok (follow x c) = progress_ok c"
  "progress_ok (c\<lparr>c_role := r\<rparr>) = progress_ok c" "progress_ok (c\<lparr>c_hb_failures := n\<rparr>) = progress_ok c"
  "progress_ok (audit a m fs c) = progress_ok c"
  by (simp_all add: progress_ok_def set_term_def set_voted_def set_commit_def set_applied_def
      set_log_def follow_def)

lemma progress_handlers:
  "progress_ok c \<Longrightarrow> progress_ok (snd (HandleAppendEntries req c))"
  "progress_ok c \<Longrightarrow> progress_ok (snd (HandleRequestVote vreq c))"
proof -
  have install: "progress_ok (fold install_entry es c) = progress_ok c" for es c
    by (induction es arbitrary: c) (simp_all add: install_entry_def)
  show "progress_ok c \<Longrightarrow> progress_ok (snd (HandleAppendEntries req c))"
    by (cases req c rule: AppendEntries_cases)
      (simp_all add: AppendEntries_stale AppendEntries_mismatch AppendEntries_match install
        advance_commit_def rollback_def Let_def, simp_all add: adopt_leader_def reset_timer_def
        progress_ok_def set_term_def follow_def)
  show "progress_ok c \<Longrightarrow> progress_ok (snd (HandleRequestVote vreq c))"
    by (simp add: HandleRequestVote_def Let_def)
qed

lemma node_ok_AppendEntries:
  "node_ok c \<Longrightarrow> ae_request_ok req \<Longrightarrow> node_ok (snd (HandleAppendEntries req c))"
  by (simp add: node_ok_def log_AppendEntries indices_AppendEntries meta_AppendEntries
      counters_AppendEntries progress_handlers peers_AppendEntries)

lemma node_ok_RequestVote:
  "node_ok c \<Longrightarrow> is_int64 (rv_term req) \<Longrightarrow> node_ok (snd (HandleRequestVote req c))"
  by (simp add: node_ok_def indices_RequestVote meta_RequestVote progress_handlers)
    (simp add: counters_ok_def)

section \<open>The pieces of the leader\<close>

text \<open>A network whose answers carry 64-bit numbers.\<close>

definition ae_rpc_ok :: "'w ae_rpc \<Rightarrow> bool" where
  "ae_rpc_ok rpc \<longleftrightarrow> (\<forall>pid req w. case fst (rpc pid req w) of None \<Rightarrow> True
     | Some r \<Rightarrow> is_int64 (aer_term r) \<and> is_int64 (aer_match r))"

lemma ae_rpc_okD:
  "ae_rpc_ok rpc \<Longrightarrow> rpc pid req w = (Some r, w1) \<Longrightarrow> is_int64 (aer_term r) \<and> is_int64 (aer_match r)"
  by (auto simp: ae_rpc_ok_def dest!: spec [of _ pid] spec [of _ req] spec [of _ w])

lemma counters_frames [simp]:
  "counters_ok (set_term t c) = counters_ok c" "counters_ok (follow x c) = counters_ok c"
  "counters_ok (c\<lparr>c_role := r\<rparr>) = counters_ok c" "counters_ok (audit a m fs c) = counters_ok c"
  by (simp_all add: counters_ok_def follow_def)

lemma node_ok_stepDown: "node_ok c \<Longrightarrow> is_int64 t \<Longrightarrow> node_ok (stepDown own t c)"
  by (auto simp: node_ok_def stepDown_def indices_ok_def peers_ok_ops intro!: meta_ok_set)

lemma node_ok_note_heartbeat: "node_ok c \<Longrightarrow> node_ok (note_heartbeat b c)"
  using counters_note_heartbeat [of c b]
  by (auto simp: node_ok_def note_heartbeat_def indices_ok_def peers_ok_ops)

lemma node_ok_set_progress: "node_ok c \<Longrightarrow> is_int64 i \<Longrightarrow> node_ok (set_progress pid i c)"
  by (auto simp: node_ok_def set_progress_def indices_ok_def meta_ok_def counters_ok_def progress_ok_def)

lemma node_ok_back_off: "node_ok c \<Longrightarrow> node_ok (back_off pid c)"
  by (auto simp: node_ok_def back_off_def Let_def indices_ok_def meta_ok_def counters_ok_def progress_ok_def)

lemma lastIndexTerm_cases:
  obtains (empty) "log = []" "lastIndexTerm log = (0, 0)"
  | (last) e where "e \<in> set log" "lastIndexTerm log = (le_index e, le_term e)"
      "\<And>d. d \<in> set log \<Longrightarrow> le_index d \<le> le_index e"
proof (cases "log = []")
  case True
  then show thesis by (intro empty) (simp_all add: lastIndexTerm_def)
next
  case False
  let ?s = "sort_key le_index log"
  have ne: "?s \<noteq> []" using False by (metis set_empty set_sort)
  have "le_index d \<le> le_index (last ?s)" if "d \<in> set log" for d
  proof -
    have "d \<in> set ?s" using that by simp
    then obtain i where i: "i < length ?s" "?s ! i = d" by (metis in_set_conv_nth)
    have "map le_index ?s ! i \<le> map le_index ?s ! (length ?s - 1)"
      using i(1) by (intro sorted_nth_mono) (simp_all add: sorted_sort_key)
    with i ne show ?thesis by (simp add: last_conv_nth)
  qed
  moreover have "last ?s \<in> set log" using ne by (metis last_in_set set_sort)
  ultimately show thesis using False by (intro last [of "last ?s"]) (simp_all add: lastIndexTerm_def Let_def)
qed

lemma lastIndex_int64: "wf_log log \<Longrightarrow> is_int64 (fst (lastIndexTerm log)) \<and> 0 \<le> fst (lastIndexTerm log)"
  by (cases log rule: lastIndexTerm_cases)
    (auto simp: wf_log_def index_ok_def is_int64_def min64_def max64_def)

lemma node_ok_advance: "node_ok c \<Longrightarrow> is_int64 i \<Longrightarrow> node_ok (advance_commit i c)"
  by (simp add: node_ok_def indices_advance meta_ok_phases)
    (simp add: advance_commit_def counters_ok_def)

lemma commit_candidate_in:
  assumes "idxs \<noteq> []"
  shows "commit_candidate idxs \<in> set idxs"
proof -
  have "length idxs - majority (length idxs) < length (sort idxs)"
    using assms by (simp add: majority_def)
  then have "sort idxs ! (length idxs - majority (length idxs)) \<in> set (sort idxs)" by (rule nth_mem)
  then show ?thesis by (simp add: commit_candidate_def)
qed

lemma node_ok_recalculate: "node_ok c \<Longrightarrow> node_ok (recalculateCommitIndex c)"
proof -
  assume c: "node_ok c"
  have "is_int64 i" if "i \<in> set (match_indexes c)" for i
    using that c lastIndex_int64 [of "c_log c"]
    by (auto simp: match_indexes_def node_ok_def progress_ok_def is_int64_def min64_def max64_def
        split: option.splits)
  moreover have "commit_candidate (match_indexes c) \<in> set (match_indexes c)"
    by (rule commit_candidate_in) (simp add: match_indexes_def)
  ultimately show ?thesis using c by (simp add: recalculateCommitIndex_def node_ok_advance)
qed

section \<open>Rounds over the peers\<close>

lemma run_peers_inv:
  assumes "\<And>pid s. I s \<Longrightarrow> I (snd (f pid s))" and "I s"
  shows "I (snd (run_peers f ps s))"
  using assms(2)
proof (induction ps arbitrary: s)
  case (Cons p ps)
  then show ?case
    using assms(1) [of s p] by (auto simp: split: prod.splits) (metis snd_conv)
qed simp

lemma node_ok_heartbeat_peer:
  assumes "ae_rpc_ok rpc" "node_ok (fst cw)"
  shows "node_ok (fst (snd (heartbeat_peer rpc req pid cw)))"
  using assms
  by (auto simp: heartbeat_peer_def node_ok_stepDown split: prod.splits option.splits dest: ae_rpc_okD)

lemma node_ok_replicate_peer:
  assumes "ae_rpc_ok rpc" "is_int64 lastIdx"
  shows "node_ok (fst cw) \<Longrightarrow> node_ok (fst (snd (replicate_peer n rpc term commit lastIdx pid cw)))"
proof (induction n arbitrary: cw)
  case 0
  then show ?case by (cases cw) simp
next
  case (Suc n)
  obtain c w where cw: "cw = (c, w)" by fastforce
  show ?case
    using Suc assms
    by (auto simp: cw Let_def node_ok_stepDown node_ok_set_progress node_ok_back_off
        split: prod.splits option.splits dest: ae_rpc_okD)
qed

lemma node_ok_broadcast:
  assumes "ae_rpc_ok rpc" "node_ok (fst cw)"
  shows "node_ok (fst (snd (broadcast_heartbeat rpc order term commit cw)))"
    and "node_ok (fst (snd (broadcast_entries rpc order term commit cw)))"
proof -
  have "node_ok (fst (snd (run_peers (heartbeat_peer rpc req) order cw)))" for req
    by (rule run_peers_inv [where I = "\<lambda>s. node_ok (fst s)"])
      (use assms node_ok_heartbeat_peer in auto)
  then show "node_ok (fst (snd (broadcast_heartbeat rpc order term commit cw)))"
    by (auto simp: broadcast_heartbeat_def Let_def split: prod.splits) (metis fst_conv snd_conv)
  have "is_int64 (fst (lastIndexTerm (c_log (fst cw))))"
    using assms(2) lastIndex_int64 by (simp add: node_ok_def)
  then have "node_ok (fst (snd (run_peers (replicate_peer 5 rpc term commit (fst (lastIndexTerm (c_log (fst cw))))) order cw)))"
    by (intro run_peers_inv [where I = "\<lambda>s. node_ok (fst s)"])
      (use assms node_ok_replicate_peer in auto)
  then show "node_ok (fst (snd (broadcast_entries rpc order term commit cw)))"
    by (auto simp: broadcast_entries_def Let_def split: prod.splits)
qed

lemma node_ok_replicate_retry:
  "ae_rpc_ok rpc \<Longrightarrow> node_ok (fst cw) \<Longrightarrow> node_ok (fst (replicate_retry rpc orders term cw))"
proof (induction orders arbitrary: cw)
  case (Cons order orders)
  have "node_ok (fst (snd (broadcast_entries rpc order term (c_commit (fst cw)) cw)))"
    using node_ok_broadcast(2) Cons.prems by blast
  with Cons show ?case by (auto split: prod.splits bool.splits)
qed simp

section \<open>The applier\<close>

context state_machine
begin

lemma apply_entries_progress: "c_match (snd (apply_entries f es c)) = c_match c"
proof (induction es arbitrary: c)
  case (Cons e es)
  have "c_match (snd (apply_entry f e c)) = c_match c"
    by (cases rule: apply_entry_cases [of e c]) simp_all
  with Cons show ?case by (cases "apply_entry f e c"; cases "fst (apply_entry f e c)") auto
qed simp

lemma node_ok_applyCommitted: "node_ok c \<Longrightarrow> node_ok (snd (applyCommitted (Some f) c))"
proof -
  assume c: "node_ok c"
  have "c_match (snd (applyCommitted (Some f) c)) = c_match c"
    by (simp add: applyCommitted_def apply_entries_progress)
  with c show ?thesis
    using applyCommitted_indices(1) [of c] applyCommitted_meta [of c] applyCommitted_frames [of c]
    by (simp add: node_ok_def counters_ok_def progress_ok_def)
qed

lemma node_ok_replicateAndCommit:
  assumes "ae_rpc_ok rpc" "node_ok c" "index_ok (le_index e)" "\<not> taken le_index (le_index e) (c_log c)"
  shows "node_ok (fst (replicateAndCommit rpc (Some f) orders e (c, w)))"
proof -
  let ?c1 = "set_log (appendLog e (c_log c)) c"
  have "node_ok ?c1"
    using assms(2-4) by (simp add: node_ok_def wf_log_append indices_ok_def) (simp add: counters_ok_def)
  then have "node_ok (fst (replicate_retry rpc (take 5 orders) (le_term e) (?c1, w)))"
    using node_ok_replicate_retry assms(1) by fastforce
  then show ?thesis
    by (auto simp: replicateAndCommit_def Let_def node_ok_recalculate node_ok_applyCommitted split: prod.splits)
qed

end

lemma max_index_bound: "e \<in> set log \<Longrightarrow> le_index e \<le> max_index log"
  by (auto simp: max_index_def)

lemma max_index_ge0: "wf_log log \<Longrightarrow> 0 \<le> max_index log"
  by (cases log) (auto simp: max_index_def wf_log_def index_ok_def Max_ge_iff intro: order.strict_implies_order)

text \<open>Until the 64-bit range is used up, the next index is positive and new.\<close>

lemma nextIndex_fresh:
  assumes "wf_log log" "max_index log < max64"
  shows "nextIndex log = max_index log + 1" and "index_ok (nextIndex log)"
    and "\<not> taken le_index (nextIndex log) log"
proof -
  show n: "nextIndex log = max_index log + 1" using assms(2) by (simp add: nextIndex_def inc64_below)
  show "index_ok (nextIndex log)"
    using assms max_index_ge0 [OF assms(1)] by (simp add: n index_ok_def)
  show "\<not> taken le_index (nextIndex log) log"
    using max_index_bound [of _ log] by (force simp: n taken_def)
qed

lemma waitForApplied_inv:
  assumes "\<forall>f \<in> set background. \<forall>c. node_ok c \<longrightarrow> node_ok (f c)" "node_ok c"
  shows "node_ok (snd (waitForApplied target background c))"
  using assms
proof (induction background arbitrary: c)
  case Nil
  then show ?case by (subst waitForApplied.simps) (simp split: option.splits)
next
  case (Cons g gs)
  then show ?case by (subst waitForApplied.simps) (simp split: option.splits)
qed

section \<open>Elections\<close>

lemma node_ok_stand: "node_ok c \<Longrightarrow> node_ok (stand c)"
proof -
  assume c: "node_ok c"
  let ?c1 = "set_term (inc64 (c_term c)) c"
  have m: "meta_ok ?c1" using c by (intro meta_ok_set) (auto simp: node_ok_def meta_ok_def is_int64_inc64)
  have "meta_ok (stand c)"
    using m by (simp add: stand_def Let_def meta_ok_def persistMetaString_def map_of_put_meta unique_put_meta)
  moreover have "progress_ok (stand c)" using c
    by (simp add: stand_def Let_def progress_ok_def node_ok_def set_term_def)
  ultimately show ?thesis using c
    by (simp add: stand_def Let_def node_ok_def indices_ok_def counters_ok_def)
qed

lemma node_ok_becomeLeader: "node_ok c \<Longrightarrow> node_ok (becomeLeader peers c)"
proof -
  have "is_int64 0" by (simp add: is_int64_def min64_def max64_def)
  then show "node_ok c \<Longrightarrow> ?thesis"
    by (auto simp: becomeLeader_def Let_def node_ok_def indices_ok_def counters_ok_def progress_ok_def
        follow_def meta_ok_def peers_ok_ops)
qed

lemma node_ok_count_failure: "node_ok c \<Longrightarrow> node_ok (count_failure c)"
  using counters_count_failure [of c]
  by (auto simp: node_ok_def count_failure_def indices_ok_def meta_ok_def progress_ok_def)

lemma node_ok_audit [simp]: "node_ok (audit a m fs c) = node_ok c"
  by (simp add: node_ok_def indices_ok_def)

lemma node_ok_startElection: "node_ok c \<Longrightarrow> node_ok (fst (snd (startElection rpc preorder order c w)))"
  by (auto simp: startElection_def Let_def node_ok_count_failure node_ok_becomeLeader node_ok_stand
      split: prod.splits bool.splits option.splits)

section \<open>Steps\<close>

text \<open>
  \<open>F\<close> is the applier the node was given. The world is a counter, so that a
  network may answer every request differently. Two premises keep 64-bit
  counters from wrapping: the term of an election and the index of a proposal.
\<close>

inductive node_step :: "applier option \<Rightarrow> Node \<Rightarrow> Node \<Rightarrow> bool" for F :: "applier option" where
  append: "ae_request_ok req \<Longrightarrow> node_step F c (snd (HandleAppendEntries req c))"
| vote: "is_int64 (rv_term req) \<Longrightarrow> node_step F c (snd (HandleRequestVote req c))"
| heartbeat: "ae_rpc_ok (rpc :: nat ae_rpc) \<Longrightarrow> node_step F c (fst (heartbeat_case rpc F order (c, w)))"
| elect: "c_term c < max64 \<Longrightarrow> node_step F c (fst (election_case (vrpc :: nat rv_rpc) preorder order (c, w)))"
| timer: "node_step F c (reset_case c)"
| propose: "c_role c = Leader \<Longrightarrow> c_apply_err c = None \<Longrightarrow> max_index (c_log c) < max64
    \<Longrightarrow> ae_rpc_ok (rpc :: nat ae_rpc)
    \<Longrightarrow> node_step F c (fst (replicateAndCommit rpc F orders
          (e\<lparr>le_term := c_term c, le_index := nextIndex (c_log c)\<rparr>) (c, w)))"
| late: "ae_rpc_ok (rpc :: nat ae_rpc) \<Longrightarrow> is_int64 lastIdx
    \<Longrightarrow> node_step F c (fst (snd (replicate_peer n rpc term commit lastIdx pid (c, w))))"
| peers: "peers_ok p \<Longrightarrow> node_step F c (c\<lparr>c_peers := p\<rparr>)"
| tables: "tb_log s = tb_log (c_db c) \<Longrightarrow> tb_meta s = tb_meta (c_db c)
    \<Longrightarrow> tb_applied s = tb_applied (c_db c) \<Longrightarrow> node_step F c (c\<lparr>c_db := s\<rparr>)"

inductive_cases node_step_elim: "node_step F c c'"

definition reachable :: "applier option \<Rightarrow> Node \<Rightarrow> Node \<Rightarrow> bool" where
  "reachable F c c' \<longleftrightarrow> (node_step F)\<^sup>*\<^sup>* c c'"

text \<open>A node that has just been created and started on a new database.\<close>

definition boot_at :: "(nat \<Rightarrow> GoTime \<times> string) \<Rightarrow> string \<Rightarrow> string list \<Rightarrow> Node" where
  "boot_at stamps nid ids = Start (NewConsensus stamps nid migrate (NewEnvPeerStore nid ids))"

definition unstamped :: "nat \<Rightarrow> GoTime \<times> string" where
  "unstamped i = (zeroTime, [])"

abbreviation boot :: "string \<Rightarrow> string list \<Rightarrow> Node" where
  "boot \<equiv> boot_at unstamped"

lemma boot_state [simp]: "c_state (boot_at st nid ids) = zero_state"
  by code_simp

lemma boot_fields [simp]:
  "c_log (boot_at st nid ids) = []" "c_id (boot_at st nid ids) = nid" "c_role (boot_at st nid ids) = Follower"
  by (simp_all add: boot_at_def Start_def NewConsensus_def migrate_def)

lemma node_ok_boot: "node_ok (boot_at st nid ids)"
proof -
  have f: "fmtInt 0 = ''0''" by code_simp
  show ?thesis
    unfolding node_ok_def
    by (simp add: indices_ok_def meta_ok_def counters_ok_def progress_ok_def zero_state_def f)
      (simp add: boot_at_def Start_def NewConsensus_def migrate_def NewEnvPeerStore_def peers_ok_ops
        unique_on_def is_int64_def min64_def max64_def)
qed

context state_machine
begin

theorem node_ok_step: "node_step (Some f) c c' \<Longrightarrow> node_ok c \<Longrightarrow> node_ok c'"
proof (induction rule: node_step.induct)
  case (heartbeat rpc c order w)
  then have "node_ok (fst (snd (broadcast_heartbeat rpc order (c_term c) (c_commit c) (c, w))))"
    using node_ok_broadcast(1) by fastforce
  with heartbeat show ?case
    by (auto simp: heartbeat_case_def Let_def node_ok_applyCommitted node_ok_note_heartbeat split: prod.splits)
next
  case (elect c vrpc preorder order w)
  then show ?case by (simp add: election_case_def node_ok_startElection)
next
  case (propose c rpc orders e w)
  then show ?case
    using nextIndex_fresh [of "c_log c"] by (intro node_ok_replicateAndCommit) (simp_all add: node_ok_def)
next
  case (late rpc lastIdx c n tm commit pid w)
  then show ?case using node_ok_replicate_peer [of rpc lastIdx "(c, w)" n] by simp
next
  case (timer c)
  then show ?case
    by (simp add: reset_case_def node_ok_def indices_ok_def meta_ok_def counters_ok_def progress_ok_def)
next
  case (peers p c)
  then show ?case
    by (simp add: node_ok_def indices_ok_def meta_ok_def counters_ok_def progress_ok_def)
next
  case (tables s c)
  then show ?case
    by (simp add: node_ok_def indices_ok_def meta_ok_def counters_ok_def progress_ok_def)
qed (simp_all add: node_ok_AppendEntries node_ok_RequestVote)

theorem node_ok_reachable: "reachable (Some f) (boot_at st nid ids) c \<Longrightarrow> node_ok c"
  unfolding reachable_def by (induction rule: rtranclp_induct) (auto intro: node_ok_boot node_ok_step)

end

end
