(* ===== verification/ConsensusProps.thy ===== *)
theory ConsensusProps
  imports ConsensusRun
begin

text \<open>
  What the consensus module guarantees, and what it does not: votes, elections,
  replication of the log, the commit index, the apply loop, proposals and
  recovery after a restart.
\<close>

section \<open>Votes\<close>

text \<open>A sequence of RPCs a node handles, and the (term, candidate) pairs it votes for meanwhile.\<close>

datatype rpc_call = CallAppend AppendEntriesRequest | CallVote RequestVoteRequest

fun handle_call :: "rpc_call \<Rightarrow> Node \<Rightarrow> Node" where
  "handle_call (CallAppend req) c = snd (HandleAppendEntries req c)"
| "handle_call (CallVote req) c = snd (HandleRequestVote req c)"

fun votes_cast :: "rpc_call list \<Rightarrow> Node \<Rightarrow> (int \<times> string) list" where
  "votes_cast [] c = []"
| "votes_cast (CallAppend req # calls) c = votes_cast calls (snd (HandleAppendEntries req c))"
| "votes_cast (CallVote req # calls) c =
     (if rvr_granted (fst (HandleRequestVote req c)) \<and> \<not> rv_prevote req
      then [(rv_term req, rv_candidate req)] else [])
     @ votes_cast calls (snd (HandleRequestVote req c))"

definition named :: "rpc_call \<Rightarrow> bool" where
  "named call = (case call of CallVote req \<Rightarrow> rv_candidate req \<noteq> [] | CallAppend req \<Rightarrow> True)"

lemma votes_cast_later:
  "(t, a) \<in> set (votes_cast calls c) \<Longrightarrow> \<forall>call \<in> set calls. named call \<Longrightarrow>
     c_term c \<le> t \<and> (t = c_term c \<longrightarrow> c_voted c \<noteq> [] \<longrightarrow> a = c_voted c)"
proof (induction calls c rule: votes_cast.induct)
  case (2 req calls c)
  then have "c_term (snd (HandleAppendEntries req c)) \<le> t
      \<and> (t = c_term (snd (HandleAppendEntries req c)) \<longrightarrow> c_voted c \<noteq> [] \<longrightarrow> a = c_voted c)"
    by simp
  then show ?case by (auto simp: AppendEntries_term)
next
  case (3 req calls c)
  let ?c' = "snd (HandleRequestVote req c)"
  have n: "rv_candidate req \<noteq> []" using "3.prems"(2) by (auto simp: named_def)
  show ?case
  proof (cases "(t, a) \<in> set (votes_cast calls ?c')")
    case True
    with 3 have later: "c_term ?c' \<le> t" "t = c_term ?c' \<Longrightarrow> c_voted ?c' \<noteq> [] \<Longrightarrow> a = c_voted ?c'" by auto
    then show ?thesis
      using RequestVote_keeps_vote [of c req] RequestVote_term [of req c] by (auto split: if_splits)
  next
    case False
    with "3.prems"(1) have v: "rvr_granted (fst (HandleRequestVote req c))" "\<not> rv_prevote req"
      "t = rv_term req" "a = rv_candidate req" by (auto split: if_splits)
    then show ?thesis using RequestVote_granted [of req c] by auto
  qed
qed simp

text \<open>
  C6. A node votes for one candidate per term: whatever AppendEntries and
  RequestVote calls it handles, two granted votes (pre-votes aside) of the same
  term name the same candidate. Candidates carry a non-empty id.
\<close>

theorem one_vote_per_term:
  assumes "\<forall>call \<in> set calls. named call"
    and "(t, a) \<in> set (votes_cast calls c)" and "(t, b) \<in> set (votes_cast calls c)"
  shows "a = b"
  using assms
proof (induction calls c rule: votes_cast.induct)
  case (3 req calls c)
  let ?c' = "snd (HandleRequestVote req c)"
  have after: "d = rv_candidate req"
    if "rvr_granted (fst (HandleRequestVote req c))" "\<not> rv_prevote req" "(rv_term req, d) \<in> set (votes_cast calls ?c')" for d
    using votes_cast_later [OF that(3)] RequestVote_granted [OF that(1,2)] "3.prems"(1)
    by (auto simp: named_def)
  show ?case using 3 after by (auto split: if_splits)
qed auto

definition sample_vote :: "string \<Rightarrow> RequestVoteRequest" where
  "sample_vote cand = \<lparr>rv_term = 3, rv_candidate = cand, rv_last_index = 0, rv_last_term = 0, rv_prevote = False\<rparr>"

definition sample_calls :: "rpc_call list" where
  "sample_calls = map (CallVote \<circ> sample_vote) [''a'', ''b'', ''a'']"

lemma sample_votes: "votes_cast sample_calls (boot ''n'' []) = [(3, ''a''), (3, ''a'')]"
  by code_simp

theorem one_vote_per_term_witness:
  "snd (votes_cast sample_calls (boot ''n'' []) ! 0) = snd (votes_cast sample_calls (boot ''n'' []) ! 1)"
proof (rule one_vote_per_term [of sample_calls 3 _ "boot ''n'' []"])
  show "\<forall>call \<in> set sample_calls. named call" by code_simp
qed (simp_all add: sample_votes)

text \<open>
  Standing for election does not protect the vote: the candidate writes its
  own id to the database but not to the field the handler reads. Right after,
  a node that had not voted grants its vote in that very term to any other
  candidate with an up-to-date log, although the database names itself.
\<close>

theorem candidate_votes_for_rival:
  assumes "c_voted c = []" and "\<not> rv_prevote req" and "rv_term req = c_term (stand c)"
    and "\<not> log_outdated req (c_log c)"
  shows "map_of (tb_meta (c_db (stand c))) ''votedFor'' = Some (c_id c)
     \<and> rvr_granted (fst (HandleRequestVote req (stand c)))
     \<and> map_of (tb_meta (c_db (snd (HandleRequestVote req (stand c))))) ''votedFor'' = Some (rv_candidate req)"
proof -
  have "c_voted (stand c) = []" "c_log (stand c) = c_log c"
    using assms(1) by (simp_all add: stand_def Let_def)
  moreover have "map_of (tb_meta (c_db (stand c))) ''votedFor'' = Some (c_id c)"
    by (simp add: stand_def Let_def persistMetaString_def map_of_put_meta)
  ultimately show ?thesis
    using assms(2-4) by (simp add: HandleRequestVote_def map_of_put_meta Let_def)
qed

definition rival_request :: RequestVoteRequest where
  "rival_request = \<lparr>rv_term = 1, rv_candidate = ''b'', rv_last_index = 0, rv_last_term = 0, rv_prevote = False\<rparr>"

theorem candidate_votes_for_rival_witness:
  "map_of (tb_meta (c_db (stand (boot ''a'' [''b''])))) ''votedFor'' = Some ''a''
   \<and> rvr_granted (fst (HandleRequestVote rival_request (stand (boot ''a'' [''b'']))))
   \<and> map_of (tb_meta (c_db (snd (HandleRequestVote rival_request (stand (boot ''a'' [''b''])))))) ''votedFor'' = Some ''b''"
proof -
  have "c_voted (boot ''a'' [''b'']) = [] \<and> \<not> rv_prevote rival_request
      \<and> rv_term rival_request = c_term (stand (boot ''a'' [''b'']))
      \<and> \<not> log_outdated rival_request (c_log (boot ''a'' [''b'']))" by code_simp
  then show ?thesis
    using candidate_votes_for_rival [of "boot ''a'' [''b'']" rival_request]
    by (simp add: rival_request_def)
qed

section \<open>Elections\<close>

text \<open>
  The vote loops never fail: with no answer the one reachable node is a
  majority of one, and after one answer either there are two votes of two or
  the single vote counts in degraded mode.
\<close>

lemma vote_loop_wins: "vote_loop n oks n 1 1 \<noteq> None"
proof (cases n)
  case 0
  then show ?thesis by (simp add: election_wins_def majority_def)
next
  case (Suc m)
  then show ?thesis
    by (cases oks) (auto simp: election_wins_def majority_def Let_def)
qed

lemma startElection_leads:
  "\<exists>w' won. startElection rpc preorder order c w
     = (Inr (), audit_elected (c_term (stand c)) (length (activePeers c) + 1) won
          (becomeLeader (activePeers c) (stand c)), w')"
proof -
  obtain w1 where pre: "runPreVote rpc preorder c w = (True, w1)"
    using vote_loop_wins
    by (cases "run_peers (prevote_peer rpc (vote_request (c_term c) True c)) preorder w")
      (simp add: runPreVote_def Let_def)
  obtain oks w2 where run: "run_peers (vote_peer rpc (vote_request (c_term (stand c)) False (stand c))) order w1 = (oks, w2)"
    by fastforce
  obtain won where "vote_loop (length (activePeers c)) oks (length (activePeers c)) 1 1 = Some won"
    using vote_loop_wins by blast
  moreover have "activePeers (stand c) = activePeers c"
    by (simp add: activePeers_def stand_def Let_def)
  ultimately show ?thesis using pre run by (cases won) (auto simp: startElection_def Let_def)
qed

text \<open>
  C14. An election is always won. Whatever the peers answer to the pre-vote and
  the vote requests, and even when none answers, \<open>startElection\<close> succeeds and
  leaves the node leader of the next term.
\<close>

theorem election_always_won:
  "\<exists>c'. fst (startElection rpc preorder order c w) = Inr ()
     \<and> fst (snd (startElection rpc preorder order c w)) = c'
     \<and> c_role c' = Leader \<and> c_term c' = inc64 (c_term c) \<and> GetLeader (c_peers c') = c_id c
     \<and> c_failed_elections c' = 0
     \<and> c_match c' = (\<lambda>pid. if pid \<in> set (activePeers c) then Some 0 else None)"
proof -
  have "c_term (stand c) = inc64 (c_term c)" "c_id (stand c) = c_id c"
    by (simp_all add: stand_def Let_def)
  with startElection_leads [of rpc preorder order c w] show ?thesis
    by (auto simp: becomeLeader_def Let_def GetLeader_def follow_def)
qed

section \<open>Replication of the log\<close>

lemma entry_at_install:
  assumes "wf_log log" "0 \<le> p" "\<forall>e \<in> set es. index_ok (le_index e)" "consecutive p es"
    and "\<And>e. e \<in> set log \<Longrightarrow> le_index e \<le> p \<Longrightarrow> le_event_id e \<notin> le_event_id ` set es" and "es \<noteq> []"
  shows "entry_at (raft_log.install es log) j =
     (if j \<le> p then entry_at log j
      else if j \<le> p + int (length es) then Some (es ! nat (j - p - 1)) else None)"
proof (rule raft_log.install_look)
  show "le_event_id d \<notin> le_event_id ` set es" if "i \<le> p" "entry_at log i = Some d" for i d
    using assms(5) [of d] entry_at_Some [OF that(2)] that(1) by simp
qed (use assms in \<open>auto simp: consecutive_def\<close>)

text \<open>
  C7. What a successful AppendEntries with entries leaves: the term is the
  leader's; the log agrees with the old one up to the previous index, then
  holds exactly the entries sent and nothing after them; the commit index does
  not fall and reaches the leader's; the answer names the last index sent. The
  entries are consecutive and their events are not among those kept.
\<close>

theorem append_entries_replicates:
  assumes "wf_log (c_log c)" and "ae_request_ok req" and "0 \<le> ae_prev_index req"
    and "consecutive (ae_prev_index req) (ae_entries req)" and "ae_entries req \<noteq> []"
    and "\<And>e. e \<in> set (c_log c) \<Longrightarrow> le_index e \<le> ae_prev_index req
           \<Longrightarrow> le_event_id e \<notin> le_event_id ` set (ae_entries req)"
    and "aer_success (fst (HandleAppendEntries req c))"
  shows "(\<forall>j. entry_at (c_log (snd (HandleAppendEntries req c))) j =
      (if j \<le> ae_prev_index req then entry_at (c_log c) j
       else if j \<le> ae_prev_index req + int (length (ae_entries req))
       then Some (ae_entries req ! nat (j - ae_prev_index req - 1)) else None))
    \<and> c_term (snd (HandleAppendEntries req c)) = ae_term req
    \<and> c_commit (snd (HandleAppendEntries req c)) = max (c_commit c) (ae_commit req)
    \<and> aer_match (fst (HandleAppendEntries req c)) = ae_prev_index req + int (length (ae_entries req))"
proof (intro conjI)
  have ok: "c_term c \<le> ae_term req" "prev_matches req (c_log c)"
    using assms(7) by (simp_all add: AppendEntries_success)
  have es: "\<forall>e \<in> set (ae_entries req). index_ok (le_index e)"
    using assms(2) by (simp add: ae_request_ok_def)
  show "\<forall>j. entry_at (c_log (snd (HandleAppendEntries req c))) j =
      (if j \<le> ae_prev_index req then entry_at (c_log c) j
       else if j \<le> ae_prev_index req + int (length (ae_entries req))
       then Some (ae_entries req ! nat (j - ae_prev_index req - 1)) else None)"
    using ok entry_at_install [OF assms(1,3) es assms(4,6,5)] by (simp add: AppendEntries_log)
  show "c_term (snd (HandleAppendEntries req c)) = ae_term req"
    "c_commit (snd (HandleAppendEntries req c)) = max (c_commit c) (ae_commit req)"
    using ok by (simp_all add: AppendEntries_match adopt_term)
  have "le_index (last (ae_entries req)) = ae_prev_index req + int (length (ae_entries req))"
    using assms(4,5) by (cases "ae_entries req" rule: rev_cases)
      (auto simp: consecutive_def map_eq_append_conv)
  then show "aer_match (fst (HandleAppendEntries req c)) = ae_prev_index req + int (length (ae_entries req))"
    using ok assms(5) by (simp add: AppendEntries_match last_installed_def)
qed

definition entry :: "int \<Rightarrow> int \<Rightarrow> string \<Rightarrow> LogEntry" where
  "entry t i eid = \<lparr>le_term = t, le_index = i, le_event_id = eid, le_aggregate = [], le_aggregate_id = [],
     le_op = OpApptDelete, le_payload = [], le_ts = zeroTime\<rparr>"

definition send :: "int \<Rightarrow> int \<Rightarrow> int \<Rightarrow> LogEntry list \<Rightarrow> int \<Rightarrow> AppendEntriesRequest" where
  "send t prev prevTerm es commit = \<lparr>ae_term = t, ae_leader = ''L'', ae_prev_index = prev,
     ae_prev_term = prevTerm, ae_entries = es, ae_commit = commit\<rparr>"

text \<open>A follower with entries 1 and 2 of term 1, both committed.\<close>

definition sample_follower :: Node where
  "sample_follower = snd (HandleAppendEntries (send 1 0 0 [entry 1 1 ''x'', entry 1 2 ''y''] 2) (boot ''n'' []))"

theorem append_entries_replicates_witness:
  "entry_at (c_log (snd (HandleAppendEntries (send 2 1 1 [entry 2 2 ''z''] 2) sample_follower))) 2 = Some (entry 2 2 ''z'')
   \<and> c_term (snd (HandleAppendEntries (send 2 1 1 [entry 2 2 ''z''] 2) sample_follower)) = 2"
proof -
  let ?req = "send 2 1 1 [entry 2 2 ''z''] 2"
  have "wf_log (c_log sample_follower)" "ae_request_ok ?req" "0 \<le> ae_prev_index ?req"
    "consecutive (ae_prev_index ?req) (ae_entries ?req)" "ae_entries ?req \<noteq> []"
    "aer_success (fst (HandleAppendEntries ?req sample_follower))"
    "list_all (\<lambda>e. le_event_id e \<notin> le_event_id ` set (ae_entries ?req)) (c_log sample_follower)"
    by code_simp+
  then show ?thesis
    using append_entries_replicates [of sample_follower ?req]
    by (simp add: list_all_iff) (simp add: send_def)
qed

text \<open>
  C15. When an AppendEntries is refused: one of an older term changes nothing and
  answers the current term; one whose previous entry does not match adopts the
  term, removes the log from the previous index on and keeps the rest, and
  leaves both the applied and the commit index below it, even where entries
  up to it were committed.
\<close>

theorem append_entries_refuses:
  assumes "0 \<le> c_applied c" and "\<not> aer_success (fst (HandleAppendEntries req c))"
  shows "(ae_term req < c_term c
        \<and> HandleAppendEntries req c = (\<lparr>aer_term = c_term c, aer_success = False, aer_match = c_applied c\<rparr>, c))
    \<or> (c_term c \<le> ae_term req \<and> 0 < ae_prev_index req
        \<and> c_term (snd (HandleAppendEntries req c)) = ae_term req
        \<and> c_log (snd (HandleAppendEntries req c)) = filter (\<lambda>e. le_index e < ae_prev_index req) (c_log c)
        \<and> c_applied (snd (HandleAppendEntries req c)) = min (c_applied c) (ae_prev_index req - 1)
        \<and> c_commit (snd (HandleAppendEntries req c)) = min (c_commit c) (ae_prev_index req - 1))"
proof (cases req c rule: AppendEntries_cases)
  case stale
  then show ?thesis by (simp add: AppendEntries_stale)
next
  case mismatch
  then have p: "0 < ae_prev_index req" by (simp add: prev_matches_def)
  then have "truncateLogFrom (ae_prev_index req) (c_log c) = filter (\<lambda>e. le_index e < ae_prev_index req) (c_log c)"
    by (simp add: truncateLogFrom_def delete_where_def not_le)
  with mismatch p show ?thesis
    by (simp add: AppendEntries_mismatch rollback_indices adopt_term)
next
  case match
  with assms(2) show ?thesis by (simp add: AppendEntries_match)
qed

theorem append_entries_refuses_witness:
  "c_log (snd (HandleAppendEntries (send 2 1 7 [] 0) sample_follower)) = []
   \<and> c_commit sample_follower = 2 \<and> c_commit (snd (HandleAppendEntries (send 2 1 7 [] 0) sample_follower)) = 0"
proof -
  let ?req = "send 2 1 7 [] 0"
  have "0 \<le> c_applied sample_follower" "\<not> aer_success (fst (HandleAppendEntries ?req sample_follower))"
    and f: "c_term sample_follower = 1" "c_commit sample_follower = 2"
      "filter (\<lambda>e. le_index e < 1) (c_log sample_follower) = []"
    by code_simp+
  from append_entries_refuses [OF this(1,2)] f show ?thesis by (simp add: send_def)
qed

text \<open>
  Accepting entries never lowers the applied index, although the log is
  truncated under it: an accepted entry at or below the applied index is in the
  log, and no later \<open>applyCommitted\<close> selects it, whatever the commit index.
\<close>

theorem overwritten_entries_are_not_applied:
  assumes "aer_success (fst (HandleAppendEntries req c))"
    and "e \<in> set (ae_entries req)" and "le_index e \<le> c_applied c"
  shows "c_applied (snd (HandleAppendEntries req c)) = c_applied c
     \<and> (\<forall>commit log. e \<notin> set (entries_between (c_applied (snd (HandleAppendEntries req c))) commit log))"
proof -
  have "c_applied (snd (HandleAppendEntries req c)) = c_applied c"
    using assms(1) by (simp add: AppendEntries_success AppendEntries_match)
  with assms(3) show ?thesis by (simp add: entries_between_def)
qed

theorem overwritten_entries_are_not_applied_witness:
  "entry 2 1 ''z'' \<in> set (c_log (snd (HandleAppendEntries (send 2 0 0 [entry 2 1 ''z''] 2) (set_applied 2 sample_follower))))
   \<and> c_applied (snd (HandleAppendEntries (send 2 0 0 [entry 2 1 ''z''] 2) (set_applied 2 sample_follower))) = 2"
proof -
  let ?req = "send 2 0 0 [entry 2 1 ''z''] 2" and ?c = "set_applied 2 sample_follower"
  have "aer_success (fst (HandleAppendEntries ?req ?c))" "le_index (entry 2 1 ''z'') \<le> c_applied ?c"
    and log: "c_log (snd (HandleAppendEntries ?req ?c)) = [entry 2 1 ''z'']" and a: "c_applied ?c = 2"
    by code_simp+
  moreover have "entry 2 1 ''z'' \<in> set (ae_entries ?req)" by (simp add: send_def)
  ultimately show ?thesis
    using overwritten_entries_are_not_applied [of ?req ?c "entry 2 1 ''z''"] by simp
qed

section \<open>The commit index\<close>

lemma length_filter_sort: "length (filter P (sort xs)) = length (filter P xs)"
  by (metis length_sort filter_sort)

lemma length_filter_ge_drop:
  assumes "sorted xs" "k < length xs" "v = xs ! k"
  shows "length xs - k \<le> length (filter (\<lambda>i. v \<le> i) xs)"
    and "v < j \<Longrightarrow> length (filter (\<lambda>i. j \<le> i) xs) \<le> length xs - k - 1"
proof -
  have "filter (\<lambda>i. v \<le> i) (drop k xs) = drop k xs"
    using assms by (intro filter_True) (auto simp: in_set_conv_nth sorted_nth_mono)
  then have "length xs - k = length (filter (\<lambda>i. v \<le> i) (drop k xs))" by simp
  also have "\<dots> \<le> length (filter (\<lambda>i. v \<le> i) xs)"
    by (metis append_take_drop_id filter_append length_append le_add2)
  finally show "length xs - k \<le> length (filter (\<lambda>i. v \<le> i) xs)" .
  assume "v < j"
  have "filter (\<lambda>i. j \<le> i) (take (Suc k) xs) = []"
  proof -
    have "xs ! i \<le> v" if "i \<le> k" for i
      using that assms by (simp add: sorted_nth_mono)
    with \<open>v < j\<close> show ?thesis
      by (auto simp: filter_empty_conv in_set_conv_nth not_le) (meson less_Suc_eq_le order.strict_trans1 order.strict_trans not_less)
  qed
  then have "filter (\<lambda>i. j \<le> i) xs = filter (\<lambda>i. j \<le> i) (drop (Suc k) xs)"
    by (metis append_Nil append_take_drop_id filter_append)
  then show "length (filter (\<lambda>i. j \<le> i) xs) \<le> length xs - k - 1"
    by (metis length_drop length_filter_le Suc_eq_plus1 diff_diff_left)
qed

lemma commit_candidate_majority:
  assumes "idxs \<noteq> []"
  shows "majority (length idxs) \<le> length (filter (\<lambda>i. commit_candidate idxs \<le> i) idxs)"
    and "commit_candidate idxs < j \<Longrightarrow> length (filter (\<lambda>i. j \<le> i) idxs) < majority (length idxs)"
proof -
  let ?k = "length idxs - majority (length idxs)"
  have k: "?k < length (sort idxs)" and m: "majority (length idxs) \<le> length idxs" "0 < majority (length idxs)"
    using assms by (simp_all add: majority_def) (cases "length idxs", simp_all)
  have v: "commit_candidate idxs = sort idxs ! ?k" by (simp add: commit_candidate_def)
  note bounds = length_filter_ge_drop [OF sorted_sort k v]
  show "majority (length idxs) \<le> length (filter (\<lambda>i. commit_candidate idxs \<le> i) idxs)"
    using bounds(1) m by (simp add: length_filter_sort)
  show "commit_candidate idxs < j \<Longrightarrow> length (filter (\<lambda>i. j \<le> i) idxs) < majority (length idxs)"
    using bounds(2) [of j] m by (simp add: length_filter_sort)
qed

text \<open>
  C16. The commit index of a leader never falls. When it moves, more than half
  of the nodes counted (this one and its active peers) are known to hold the log
  up to the new index, and for no larger index is that so.
\<close>

theorem commit_index_is_majority:
  "c_commit c \<le> c_commit (recalculateCommitIndex c)
   \<and> (c_commit (recalculateCommitIndex c) \<noteq> c_commit c \<longrightarrow>
       c_role c = Leader
       \<and> 2 * length (filter (\<lambda>i. c_commit (recalculateCommitIndex c) \<le> i) (match_indexes c)) > length (activePeers c) + 1
       \<and> (\<forall>j > c_commit (recalculateCommitIndex c).
            2 * length (filter (\<lambda>i. j \<le> i) (match_indexes c)) \<le> length (activePeers c) + 1))"
proof (cases "c_role c = Leader \<and> fst (lastIndexTerm (c_log c)) \<noteq> 0")
  case False
  then show ?thesis by (auto simp: recalculateCommitIndex_def)
next
  case True
  define i where "i = commit_candidate (match_indexes c)"
  have commit: "c_commit (recalculateCommitIndex c) = max (c_commit c) i"
    using True by (simp add: recalculateCommitIndex_def i_def)
  have n: "length (match_indexes c) = length (activePeers c) + 1" "match_indexes c \<noteq> []"
    by (simp_all add: match_indexes_def)
  note m = commit_candidate_majority [OF n(2), folded i_def, unfolded n(1) majority_def]
  show ?thesis
  proof (cases "i \<le> c_commit c")
    case True
    then show ?thesis by (simp add: commit)
  next
    case False
    have "2 * length (filter (\<lambda>k. j \<le> k) (match_indexes c)) \<le> length (activePeers c) + 1" if "i < j" for j
      using m(2) [OF that] by linarith
    moreover have "2 * length (filter (\<lambda>k. i \<le> k) (match_indexes c)) > length (activePeers c) + 1"
      using m(1) by linarith
    ultimately show ?thesis using False True by (simp add: commit max_def)
  qed
qed

text \<open>A leader of three nodes with two entries, one of whose followers holds both.\<close>

definition sample_leader :: Node where
  "sample_leader = set_progress ''b'' 2 (becomeLeader [''b'', ''c'']
     (snd (HandleAppendEntries (send 1 0 0 [entry 1 1 ''x'', entry 1 2 ''y''] 0) (boot ''a'' [''b'', ''c'']))))"

theorem commit_index_is_majority_witness:
  "c_commit sample_leader = 0 \<and> c_commit (recalculateCommitIndex sample_leader) = 2
   \<and> 2 * length (filter (\<lambda>i. 2 \<le> i) (match_indexes sample_leader)) > length (activePeers sample_leader) + 1"
proof -
  have "c_commit sample_leader = 0" "c_commit (recalculateCommitIndex sample_leader) = 2" by code_simp+
  then show ?thesis using commit_index_is_majority [of sample_leader] by simp
qed

section \<open>Proposals\<close>

lemma waitForApplied_ok:
  "fst (waitForApplied target background c) = Inr ()
   \<Longrightarrow> poll_applied target (snd (waitForApplied target background c)) = Some (Inr ())"
proof (induction background arbitrary: c)
  case Nil
  then show ?case by (subst waitForApplied.simps, subst (asm) waitForApplied.simps) (auto split: option.splits)
next
  case (Cons g gs)
  show ?case
  proof (cases "poll_applied target c")
    case None
    with Cons show ?thesis by (subst waitForApplied.simps, subst (asm) (2) waitForApplied.simps) simp
  next
    case (Some r)
    with Cons.prems show ?thesis by (subst waitForApplied.simps, subst (asm) waitForApplied.simps) simp
  qed
qed

lemma poll_applied_ok:
  "poll_applied target c = Some (Inr ()) \<Longrightarrow> c_role c = Leader \<and> target \<le> c_applied c
     \<and> (c_apply_err c = None \<or> c_apply_err_index c \<le> 0 \<or> target < c_apply_err_index c)"
  by (auto simp: poll_applied_def split: if_splits)


definition no_votes :: "unit rv_rpc" where
  "no_votes pid req w = (None, w)"

definition no_answers :: "unit ae_rpc" where
  "no_answers pid req w = (None, w)"

definition accept_all :: applier where
  "accept_all e s = (Inr (), s)"

definition lone_leader :: Node where
  "lone_leader = fst (snd (startElection no_votes [] [] (boot ''a'' []) ()))"

lemma lone_leader_fields: "c_role lone_leader = Leader \<and> c_apply_err lone_leader = None \<and> nextIndex (c_log lone_leader) = 1"
  by code_simp


section \<open>Restart\<close>

definition call_ok :: "rpc_call \<Rightarrow> bool" where
  "call_ok call = (case call of CallAppend req \<Rightarrow> ae_request_ok req | CallVote req \<Rightarrow> is_int64 (rv_term req))"

lemma handle_call_ok:
  assumes "call_ok call" "meta_ok c" "vote_ok c"
  shows "meta_ok (handle_call call c) \<and> vote_ok (handle_call call c)"
  using assms by (cases call) (simp_all add: call_ok_def meta_AppendEntries vote_AppendEntries
      meta_RequestVote vote_RequestVote)

lemma boot_vote_ok: "vote_ok (boot_at st nid ids)"
  by (simp add: vote_ok_def zero_state_def) (simp add: boot_at_def Start_def NewConsensus_def migrate_def)

text \<open>
  C17. Whatever RPCs a node has handled since it was created, what \<open>loadState\<close>
  reads back from the database is the state in memory: starting again adds the audit record
  of a start and changes nothing else. An election is the exception: after it the database names the node
  itself as voted for, whatever the field in memory says.
\<close>

theorem restart_recovers_state:
  assumes "\<forall>call \<in> set calls. call_ok call" and "c = fold handle_call calls (boot_at st nid ids)"
  shows "Start c = audit ''start'' ''consensus loop started'' [(''term'', json_int (c_term c))] c
     \<and> rs_voted_for (loadState (c_db (stand c))) = nid \<and> c_voted (stand c) = c_voted c"
proof -
  have c: "meta_ok c \<and> vote_ok c \<and> c_id c = nid"
  proof -
    have "\<forall>call \<in> set calls. call_ok call \<Longrightarrow> meta_ok d \<Longrightarrow> vote_ok d
      \<Longrightarrow> meta_ok (fold handle_call calls d) \<and> vote_ok (fold handle_call calls d)
        \<and> c_id (fold handle_call calls d) = c_id d" for d
    proof (induction calls arbitrary: d)
      case (Cons call calls)
      have "c_id (handle_call call d) = c_id d" by (cases call) simp_all
      with Cons handle_call_ok [of call d] show ?case by simp
    qed simp
    with assms node_ok_boot [of st nid ids] boot_vote_ok show ?thesis by (simp add: node_ok_def)
  qed
  then have "unique_on fst (tb_meta (c_db (stand c)))"
    by (simp add: stand_def Let_def meta_ok_def persistMetaString_def unique_put_meta)
  then have "rs_voted_for (loadState (c_db (stand c))) = nid"
    using c by (simp add: loadState_meta state_of_meta_def stand_def Let_def persistMetaString_def map_of_put_meta)
  moreover have "c_voted (stand c) = c_voted c" by (simp add: stand_def Let_def)
  ultimately show ?thesis using c by (simp add: Start_def loadState_meta_ok)
qed

theorem restart_recovers_state_witness:
  "c_commit (Start (fold handle_call [CallAppend (send 1 0 0 [entry 1 1 ''x''] 1)] (boot ''n'' []))) = 1"
proof -
  let ?calls = "[CallAppend (send 1 0 0 [entry 1 1 ''x''] 1)]"
  have "\<forall>call \<in> set ?calls. call_ok call" by code_simp
  from restart_recovers_state [OF this refl, of unstamped "''n''" "[]"]
  have "c_state (Start (fold handle_call ?calls (boot ''n'' []))) = c_state (fold handle_call ?calls (boot ''n'' []))" by simp
  moreover have "c_commit (fold handle_call ?calls (boot ''n'' [])) = 1" by code_simp
  ultimately show ?thesis by simp
qed

end
