(* ===== verification/Entries.thy ===== *)
theory Entries
  imports Payloads
begin

text \<open>
  \<open>domain_propose.go\<close>: the log entries the API builds from a request. The event
  id is the clock in nanoseconds; term and index are filled in by \<open>Propose\<close>. An
  entry whose payload cannot be encoded is an error.
\<close>

definition build_entry :: "GoTime \<Rightarrow> string \<Rightarrow> string \<Rightarrow> string \<Rightarrow> string option \<Rightarrow> LogEntry result" where
  "build_entry now aggregate aid op payload =
     (case payload of
        None \<Rightarrow> Inl ErrJson
      | Some text \<Rightarrow> Inr \<lparr>le_term = 0, le_index = 0, le_event_id = fmtInt (t_ns now), le_aggregate = aggregate,
          le_aggregate_id = aid, le_op = op, le_payload = text, le_ts = now\<rparr>)"

definition BuildEntryApptCreatePersonal :: "GoTime \<Rightarrow> string \<Rightarrow> Appointment \<Rightarrow> LogEntry result" where
  "BuildEntryApptCreatePersonal now owner a =
     build_entry now ''appointment'' owner OpApptCreatePersonal
       (enc_apptCreatePayload \<lparr>ac_title = a_title a, ac_description = a_description a, ac_owner_id = owner,
          ac_start = a_start a, ac_end = a_end a, ac_privacy = a_privacy a\<rparr>)"

definition BuildEntryRepairEnsureUser :: "GoTime \<Rightarrow> User \<Rightarrow> LogEntry result" where
  "BuildEntryRepairEnsureUser now u =
     build_entry now ''repair_user'' (u_id u) OpRepairEnsureUser
       (enc_repairEnsureUserPayload \<lparr>reu_id = u_id u, reu_username = u_username u, reu_email = u_email u,
          reu_password_hash = u_password_hash u, reu_display_name = u_display_name u\<rparr>)"

definition BuildEntryApptCreateGroup :: "GoTime \<Rightarrow> string \<Rightarrow> Appointment \<Rightarrow> LogEntry result" where
  "BuildEntryApptCreateGroup now owner a =
     build_entry now ''appointment_group'' owner OpApptCreateGroup
       (enc_apptCreateGroupPayload \<lparr>acg_title = a_title a, acg_description = a_description a,
          acg_owner_id = owner, acg_group_id = (case a_group_id a of None \<Rightarrow> [] | Some g \<Rightarrow> g),
          acg_start = a_start a, acg_end = a_end a, acg_privacy = a_privacy a\<rparr>)"

definition BuildEntryApptUpdate :: "GoTime \<Rightarrow> Appointment \<Rightarrow> LogEntry result" where
  "BuildEntryApptUpdate now a =
     build_entry now ''appointment'' (a_id a) OpApptUpdate
       (enc_apptUpdatePayload \<lparr>au_appointment_id = a_id a, au_title = Some (a_title a),
          au_description = Some (a_description a), au_start = Some (a_start a), au_end = Some (a_end a),
          au_privacy = Some (a_privacy a)\<rparr>)"

definition BuildEntryApptDelete :: "GoTime \<Rightarrow> string \<Rightarrow> LogEntry result" where
  "BuildEntryApptDelete now aid =
     build_entry now ''appointment'' aid OpApptDelete (enc_apptDeletePayload \<lparr>ad_appointment_id = aid\<rparr>)"

definition BuildEntryUserCreate :: "GoTime \<Rightarrow> User \<Rightarrow> LogEntry result" where
  "BuildEntryUserCreate now u =
     build_entry now ''user'' (u_id u) OpUserCreate
       (enc_userCreatePayload \<lparr>uc_username = u_username u, uc_email = u_email u,
          uc_password_hash = u_password_hash u, uc_id = [], uc_display_name = u_display_name u\<rparr>)"

definition BuildEntryUserUpdateProfile :: "GoTime \<Rightarrow> User \<Rightarrow> LogEntry result" where
  "BuildEntryUserUpdateProfile now u =
     build_entry now ''user'' (u_id u) OpUserUpdateProfile
       (enc_userUpdateProfilePayload \<lparr>uup_user_id = u_id u, uup_username = Some (u_username u),
          uup_email = Some (u_email u), uup_display_name = Some (u_display_name u)\<rparr>)"

definition BuildEntryUserUpdatePassword :: "GoTime \<Rightarrow> string \<Rightarrow> string \<Rightarrow> LogEntry result" where
  "BuildEntryUserUpdatePassword now uid hash =
     build_entry now ''user'' uid OpUserUpdatePassword
       (enc_userUpdatePasswordPayload \<lparr>uupw_user_id = uid, uupw_password_hash = hash\<rparr>)"

definition BuildEntryGroupCreate :: "GoTime \<Rightarrow> Group \<Rightarrow> LogEntry result" where
  "BuildEntryGroupCreate now g =
     build_entry now ''group'' (g_id g) OpGroupCreate
       (enc_groupCreatePayload \<lparr>gc_name = g_name g, gc_description = g_description g,
          gc_creator_id = g_creator_id g, gc_creator_username = g_creator_username g,
          gc_group_type = g_group_type g\<rparr>)"

definition BuildEntryGroupUpdate ::
    "GoTime \<Rightarrow> string \<Rightarrow> string option \<Rightarrow> string option \<Rightarrow> LogEntry result" where
  "BuildEntryGroupUpdate now gid name description =
     build_entry now ''group'' gid OpGroupUpdate
       (enc_groupUpdatePayload \<lparr>gu_group_id = gid, gu_name = name, gu_description = description\<rparr>)"

definition BuildEntryGroupDelete :: "GoTime \<Rightarrow> string \<Rightarrow> LogEntry result" where
  "BuildEntryGroupDelete now gid =
     build_entry now ''group'' gid OpGroupDelete (enc_groupDeletePayload \<lparr>gd_group_id = gid\<rparr>)"

definition BuildEntryGroupMemberOp :: "GoTime \<Rightarrow> string \<Rightarrow> string \<Rightarrow> string \<Rightarrow> int \<Rightarrow> LogEntry result" where
  "BuildEntryGroupMemberOp now op gid uid rank =
     build_entry now ''group_member'' gid op
       (enc_groupMemberPayload \<lparr>gm_group_id = gid, gm_user_id = uid, gm_rank = rank\<rparr>)"

definition BuildEntryInvitationStatus :: "GoTime \<Rightarrow> string \<Rightarrow> string \<Rightarrow> string \<Rightarrow> LogEntry result" where
  "BuildEntryInvitationStatus now aid uid status =
     build_entry now ''invitation'' aid
       (if status = StatusDeclined then OpInvitationReject else OpInvitationAccept)
       (enc_invitationStatusPayload \<lparr>is_appointment_id = aid, is_user_id = uid, is_status = status\<rparr>)"

definition BuildEntryRepairUserClearEmailIfMatches :: "GoTime \<Rightarrow> string \<Rightarrow> string \<Rightarrow> LogEntry result" where
  "BuildEntryRepairUserClearEmailIfMatches now uid email =
     build_entry now ''repair_user'' uid OpRepairUserClearEmailIfMatches
       (enc_repairUserClearEmailPayload \<lparr>ruce_user_id = uid, ruce_email = email\<rparr>)"

definition BuildEntryRepairEnsureGroupMember :: "GoTime \<Rightarrow> string \<Rightarrow> string \<Rightarrow> int \<Rightarrow> LogEntry result" where
  "BuildEntryRepairEnsureGroupMember now gid uid rank =
     build_entry now ''repair_group'' gid OpRepairEnsureGroupMember
       (enc_repairEnsureGroupMemberPayload \<lparr>rgm_group_id = gid, rgm_user_id = uid, rgm_rank = rank\<rparr>)"

definition BuildEntryRepairEnsureParticipant ::
    "GoTime \<Rightarrow> string \<Rightarrow> string \<Rightarrow> string \<Rightarrow> bool \<Rightarrow> LogEntry result" where
  "BuildEntryRepairEnsureParticipant now aid uid status optional =
     build_entry now ''repair_appointment'' aid OpRepairEnsureParticipant
       (enc_repairEnsureParticipantPayload \<lparr>rep_appointment_id = aid, rep_user_id = uid,
          rep_status = status, rep_is_optional = optional\<rparr>)"

definition BuildEntryRepairEnsureNotification ::
    "GoTime \<Rightarrow> string \<Rightarrow> string \<Rightarrow> string \<Rightarrow> LogEntry result" where
  "BuildEntryRepairEnsureNotification now uid typ payload =
     build_entry now ''repair_notification'' uid OpRepairEnsureNotification
       (enc_repairEnsureNotificationPayload \<lparr>ren_user_id = uid, ren_type = typ, ren_payload = payload\<rparr>)"

lemma build_entry_Inr:
  "build_entry now aggregate aid op payload = Inr e \<Longrightarrow>
     payload = Some (le_payload e) \<and> le_op e = op \<and> le_event_id e = fmtInt (t_ns now) \<and> \<not> blank (le_event_id e)"
proof -
  have "\<exists>c \<in> set (fmtInt n). \<not> is_space c" for n
  proof -
    have "dec m \<noteq> [] \<and> (\<forall>c \<in> set (dec m). \<not> is_space c)" for m
      using dec_digits [of _ m] by (force simp: is_digit_def is_space_def)
    then have "\<exists>c \<in> set (dec m). \<not> is_space c" for m
      by (metis last_in_set)
    then show ?thesis by (auto simp: fmtInt_def)
  qed
  then have "\<not> blank (fmtInt n)" for n by (auto simp: blank_iff_spaces)
  then show "build_entry now aggregate aid op payload = Inr e \<Longrightarrow> ?thesis"
    by (auto simp: build_entry_def split: option.splits)
qed

end
