(* ===== verification/Applier.thy ===== *)
theory Applier
  imports Entries ConsensusRun
begin

text \<open>
  \<open>raft_apply.go\<close>: the state machine behind the log. Every case of the switch
  of \<open>NewRaftApplier\<close> is a function of the decoded payload and the database;
  the dispatcher decodes the payload first and refuses unknown operations.
\<close>

section \<open>Control flow\<close>

text \<open>
  \<open>decoded\<close> runs a case on the payload, or returns the decoding error; \<open>tolerate\<close>
  turns the errors that satisfy a test into success.
\<close>

definition decoded :: "'p option \<Rightarrow> ('p \<Rightarrow> Store \<Rightarrow> unit result \<times> Store) \<Rightarrow> Store \<Rightarrow> unit result \<times> Store" where
  "decoded p act s = (case p of None \<Rightarrow> (Inl ErrJson, s) | Some x \<Rightarrow> act x s)"

definition done_ok :: "Store \<Rightarrow> unit result \<times> Store" where
  "done_ok s = (Inr (), s)"

definition tolerate :: "(gerr \<Rightarrow> bool) \<Rightarrow> unit result \<times> Store \<Rightarrow> unit result \<times> Store" where
  "tolerate P rs = (case rs of (Inl e, s) \<Rightarrow> (if P e then (Inr (), s) else (Inl e, s)) | (Inr u, s) \<Rightarrow> (Inr u, s))"

definition drop_value :: "'a result \<times> Store \<Rightarrow> unit result \<times> Store" where
  "drop_value rs = (case rs of (Inl e, s) \<Rightarrow> (Inl e, s) | (Inr u, s) \<Rightarrow> (Inr (), s))"

section \<open>Appointments\<close>

definition new_appt ::
    "string \<Rightarrow> string \<Rightarrow> string \<Rightarrow> string option \<Rightarrow> GoTime \<Rightarrow> GoTime \<Rightarrow> string \<Rightarrow> string \<Rightarrow> Appointment" where
  "new_appt title description owner gid start fin privacy status =
     \<lparr>a_id = [], a_title = title, a_description = description, a_owner_id = owner, a_group_id = gid,
      a_start = start, a_end = fin, a_privacy = privacy, a_status = status, a_created_at = zeroTime,
      a_updated_at = zeroTime, a_version = 0, a_origin_node = [], a_deleted = False\<rparr>"

text \<open>Make the owner a participant unless they are one.\<close>

definition join_owner :: "GoTime \<Rightarrow> string \<Rightarrow> string \<Rightarrow> Store \<Rightarrow> unit result \<times> Store" where
  "join_owner now aid owner s =
     (if ok (GetParticipantByAppointmentAndUser aid owner s) then done_ok s
      else tolerate is_unique_error (AddParticipant now (participant aid owner StatusAccepted False) s))"

definition apply_create_personal :: "GoTime \<Rightarrow> apptCreatePayload \<Rightarrow> Store \<Rightarrow> unit result \<times> Store" where
  "apply_create_personal now p s =
     (let existing = FindAppointmentBySignature (ac_owner_id p) None (ac_start p) (ac_end p) (ac_title p) s
      in if existing \<noteq> [] then join_owner now existing (ac_owner_id p) s
         else case CreateAppointment now (new_appt (ac_title p) (ac_description p) (ac_owner_id p) None
                     (ac_start p) (ac_end p) (ac_privacy p) StatusAccepted) s of
           (Inl e, s1) \<Rightarrow> (Inl e, s1)
         | (Inr a, s1) \<Rightarrow> join_owner now (a_id a) (ac_owner_id p) s1)"

definition apply_create_group :: "GoTime \<Rightarrow> apptCreateGroupPayload \<Rightarrow> Store \<Rightarrow> unit result \<times> Store" where
  "apply_create_group now p s =
     (if FindAppointmentBySignature (acg_owner_id p) (Some (acg_group_id p)) (acg_start p) (acg_end p) (acg_title p) s \<noteq> []
      then done_ok s
      else drop_value (CreateGroupAppointment now (new_appt (acg_title p) (acg_description p) (acg_owner_id p)
             (Some (acg_group_id p)) (acg_start p) (acg_end p) (acg_privacy p) StatusPending) s))"

definition set_opt :: "'a option \<Rightarrow> 'a \<Rightarrow> 'a" where
  "set_opt v old = (case v of None \<Rightarrow> old | Some x \<Rightarrow> x)"

definition apply_appt_update :: "GoTime \<Rightarrow> apptUpdatePayload \<Rightarrow> Store \<Rightarrow> unit result \<times> Store" where
  "apply_appt_update now p s =
     (case GetAppointmentByID (au_appointment_id p) s of
        Inl e \<Rightarrow> (Inl e, s)
      | Inr a \<Rightarrow> (Inr (), UpdateAppointment now
          (a\<lparr>a_title := set_opt (au_title p) (a_title a),
             a_description := set_opt (au_description p) (a_description a),
             a_start := set_opt (au_start p) (a_start a), a_end := set_opt (au_end p) (a_end a),
             a_privacy := set_opt (au_privacy p) (a_privacy a)\<rparr>) s))"

definition apply_appt_delete :: "GoTime \<Rightarrow> apptDeletePayload \<Rightarrow> Store \<Rightarrow> unit result \<times> Store" where
  "apply_appt_delete now p s = (Inr (), DeleteAppointment now (ad_appointment_id p) s)"

section \<open>Users\<close>

definition new_user :: "string \<Rightarrow> string \<Rightarrow> string \<Rightarrow> string \<Rightarrow> string \<Rightarrow> User" where
  "new_user uid name email hash display =
     \<lparr>u_id = uid, u_username = name, u_email = email, u_password_hash = hash, u_display_name = display,
      u_created_at = zeroTime, u_updated_at = zeroTime\<rparr>"

definition apply_ensure_user :: "GoTime \<Rightarrow> repairEnsureUserPayload \<Rightarrow> Store \<Rightarrow> unit result \<times> Store" where
  "apply_ensure_user now p s =
     (if reu_password_hash p = [] \<and> \<not> ok (GetUserByUsername (reu_username p) s)
      then (Inl (ErrMsg ''apply conflict: repair.user.ensure skipped for new user with empty password hash''), s)
      else drop_value (EnsureUser now (new_user (reu_id p) (reu_username p) (reu_email p)
             (reu_password_hash p) (reu_display_name p)) s))"

definition email_owner :: "string \<Rightarrow> Store \<Rightarrow> User option" where
  "email_owner email s = (if email = [] then None else value_of (GetUserByEmail email s))"

definition apply_user_create :: "GoTime \<Rightarrow> userCreatePayload \<Rightarrow> Store \<Rightarrow> unit result \<times> Store" where
  "apply_user_create now p s =
     (if ok (GetUserByUsername (uc_username p) s) then done_ok s
      else case email_owner (uc_email p) s of
        Some x \<Rightarrow> if u_username x = uc_username p then done_ok s
                  else (Inl (ErrMsg ''user.create apply conflict: email already exists''), s)
      | None \<Rightarrow>
          (case CreateUser now (new_user (uc_id p) (uc_username p) (uc_email p) (uc_password_hash p)
                  (uc_display_name p)) s of
             (Inr u, s1) \<Rightarrow> (Inr (), s1)
           | (Inl e, s1) \<Rightarrow>
               if is_unique_error e
                  \<and> (ok (GetUserByUsername (uc_username p) s1)
                     \<or> (case email_owner (uc_email p) s1 of
                          Some x \<Rightarrow> u_username x = uc_username p | None \<Rightarrow> False))
               then (Inr (), s1) else (Inl e, s1)))"

definition profile_eq :: "User \<Rightarrow> User \<Rightarrow> bool" where
  "profile_eq a b \<longleftrightarrow> u_username a = u_username b \<and> u_email a = u_email b \<and> u_display_name a = u_display_name b"

definition apply_update_profile :: "GoTime \<Rightarrow> userUpdateProfilePayload \<Rightarrow> Store \<Rightarrow> unit result \<times> Store" where
  "apply_update_profile now p s =
     (case GetUserByID (uup_user_id p) s of
        Inl e \<Rightarrow> (Inl e, s)
      | Inr u \<Rightarrow>
          (let desired = u\<lparr>u_username := set_opt (uup_username p) (u_username u),
                           u_email := set_opt (uup_email p) (u_email u),
                           u_display_name := set_opt (uup_display_name p) (u_display_name u)\<rparr>
           in if profile_eq desired u then done_ok s
              else case UpdateUser now desired s of
                (Inr v, s1) \<Rightarrow> (Inr (), s1)
              | (Inl e, s1) \<Rightarrow>
                  if is_unique_error e
                  then (if (case GetUserByID (uup_user_id p) s1 of Inr fresh \<Rightarrow> profile_eq fresh desired | Inl _ \<Rightarrow> False)
                        then (Inr (), s1)
                        else (Inl (ErrMsg ''user.update_profile apply conflict: unique constraint''), s1))
                  else (Inl e, s1)))"

definition apply_update_password :: "GoTime \<Rightarrow> userUpdatePasswordPayload \<Rightarrow> Store \<Rightarrow> unit result \<times> Store" where
  "apply_update_password now p s =
     (if (case GetUserByID (uupw_user_id p) s of Inr u \<Rightarrow> u_password_hash u = uupw_password_hash p | Inl _ \<Rightarrow> False)
      then done_ok s
      else (Inr (), UpdatePassword now (uupw_user_id p) (uupw_password_hash p) s))"

definition apply_clear_email :: "GoTime \<Rightarrow> repairUserClearEmailPayload \<Rightarrow> Store \<Rightarrow> unit result \<times> Store" where
  "apply_clear_email now p s = (Inr (), ClearUserEmailIfMatches now (ruce_user_id p) (ruce_email p) s)"

section \<open>Groups\<close>

definition apply_group_create :: "GoTime \<Rightarrow> groupCreatePayload \<Rightarrow> Store \<Rightarrow> unit result \<times> Store" where
  "apply_group_create now p s =
     (if ok (GetGroupByID (GroupIDFromSignature (gc_group_type p) (gc_creator_username p) (gc_name p)) s)
      then done_ok s
      else case CreateGroup now \<lparr>g_id = [], g_name = gc_name p, g_description = gc_description p,
                  g_created_at = zeroTime, g_updated_at = zeroTime, g_creator_id = gc_creator_id p,
                  g_creator_username = gc_creator_username p, g_group_type = gc_group_type p\<rparr> s of
        (Inl e, s1) \<Rightarrow> if is_unique_error e then (Inr (), s1) else (Inl e, s1)
      | (Inr g, s1) \<Rightarrow>
          (Inr (), AddGroupMember now (g_id g) (gc_creator_id p)
                     (if gc_group_type p = GroupTypeNonHierarchical then 0 else 5) None s1))"

definition apply_group_update :: "GoTime \<Rightarrow> groupUpdatePayload \<Rightarrow> Store \<Rightarrow> unit result \<times> Store" where
  "apply_group_update now p s =
     (case GetGroupByID (gu_group_id p) s of
        Inl e \<Rightarrow> (Inl e, s)
      | Inr g \<Rightarrow> (Inr (), UpdateGroup now (g\<lparr>g_name := set_opt (gu_name p) (g_name g),
                                            g_description := set_opt (gu_description p) (g_description g)\<rparr>) s))"

definition apply_group_delete :: "GoTime \<Rightarrow> groupDeletePayload \<Rightarrow> Store \<Rightarrow> unit result \<times> Store" where
  "apply_group_delete now p s =
     (if \<not> ok (GetGroupByID (gd_group_id p) s) then done_ok s else (Inr (), DeleteGroup (gd_group_id p) s))"

definition apply_member_add :: "GoTime \<Rightarrow> groupMemberPayload \<Rightarrow> Store \<Rightarrow> unit result \<times> Store" where
  "apply_member_add now p s = (Inr (), AddGroupMember now (gm_group_id p) (gm_user_id p) (gm_rank p) None s)"

definition apply_member_update :: "GoTime \<Rightarrow> groupMemberPayload \<Rightarrow> Store \<Rightarrow> unit result \<times> Store" where
  "apply_member_update now p s = (Inr (), UpdateGroupMember (gm_group_id p) (gm_user_id p) (gm_rank p) s)"

definition apply_member_remove :: "GoTime \<Rightarrow> groupMemberPayload \<Rightarrow> Store \<Rightarrow> unit result \<times> Store" where
  "apply_member_remove now p s =
     tolerate (\<lambda>e. Contains (err_text e) ''member not found'') (RemoveGroupMember (gm_group_id p) (gm_user_id p) s)"

definition apply_ensure_member :: "GoTime \<Rightarrow> repairEnsureGroupMemberPayload \<Rightarrow> Store \<Rightarrow> unit result \<times> Store" where
  "apply_ensure_member now p s =
     (Inr (), EnsureGroupMember now (rgm_group_id p) (rgm_user_id p) (rgm_rank p) None s)"

section \<open>Invitations and notifications\<close>

definition answer_payload :: "invitationStatusPayload \<Rightarrow> Appointment \<Rightarrow> Store \<Rightarrow> string" where
  "answer_payload p a s =
     (let user = GetUserByID (is_user_id p) s
      in jprint (JObj [
        (''appointment_id'', JStr (is_appointment_id p)), (''title'', JStr (a_title a)),
        (''user_id'', JStr (is_user_id p)),
        (''user_username'', JStr (case user of Inr u \<Rightarrow> u_username u | Inl _ \<Rightarrow> [])),
        (''user_display_name'', JStr (case user of Inr u \<Rightarrow> u_display_name u | Inl _ \<Rightarrow> [])),
        (''status'', JStr (if is_status p = StatusDeclined then ''declined'' else ''accepted'')),
        (''start'', JStr (fmtRFC3339 (a_start a))), (''end'', JStr (fmtRFC3339 (a_end a)))]))"

definition apply_invitation :: "GoTime \<Rightarrow> invitationStatusPayload \<Rightarrow> Store \<Rightarrow> unit result \<times> Store" where
  "apply_invitation now p s =
     (if (case GetParticipantByAppointmentAndUser (is_appointment_id p) (is_user_id p) s of
            Inr part \<Rightarrow> p_status part = is_status p | Inl _ \<Rightarrow> False)
      then done_ok s
      else (let s1 = UpdateParticipantStatus now (is_appointment_id p) (is_user_id p) (is_status p) s
            in case GetAppointmentByID (is_appointment_id p) s1 of
                 Inl _ \<Rightarrow> done_ok s1
               | Inr a \<Rightarrow> AddNotification now
                   (notification (a_owner_id a)
                      (if is_status p = StatusDeclined then ''invitation_declined'' else ''invitation_accepted'')
                      (answer_payload p a s1)) s1))"

definition apply_ensure_participant ::
    "GoTime \<Rightarrow> repairEnsureParticipantPayload \<Rightarrow> Store \<Rightarrow> unit result \<times> Store" where
  "apply_ensure_participant now p s =
     tolerate is_unique_error
       (EnsureParticipant now (rep_appointment_id p) (rep_user_id p) (rep_status p) (rep_is_optional p) s)"

definition apply_ensure_notification ::
    "GoTime \<Rightarrow> repairEnsureNotificationPayload \<Rightarrow> Store \<Rightarrow> unit result \<times> Store" where
  "apply_ensure_notification now p s =
     EnsureNotification now (notification (ren_user_id p) (ren_type p) (ren_payload p)) s"

section \<open>The dispatcher\<close>

definition NewRaftApplier :: "GoTime \<Rightarrow> applier" where
  "NewRaftApplier now e s =
     (let t = le_payload e; op = le_op e
      in if op = OpApptCreatePersonal then decoded (dec_apptCreatePayload t) (apply_create_personal now) s
         else if op = OpRepairEnsureUser then decoded (dec_repairEnsureUserPayload t) (apply_ensure_user now) s
         else if op = OpApptCreateGroup then decoded (dec_apptCreateGroupPayload t) (apply_create_group now) s
         else if op = OpApptUpdate then decoded (dec_apptUpdatePayload t) (apply_appt_update now) s
         else if op = OpApptDelete then decoded (dec_apptDeletePayload t) (apply_appt_delete now) s
         else if op = OpUserCreate then decoded (dec_userCreatePayload t) (apply_user_create now) s
         else if op = OpUserUpdateProfile then decoded (dec_userUpdateProfilePayload t) (apply_update_profile now) s
         else if op = OpUserUpdatePassword then decoded (dec_userUpdatePasswordPayload t) (apply_update_password now) s
         else if op = OpGroupCreate then decoded (dec_groupCreatePayload t) (apply_group_create now) s
         else if op = OpGroupUpdate then decoded (dec_groupUpdatePayload t) (apply_group_update now) s
         else if op = OpGroupDelete then decoded (dec_groupDeletePayload t) (apply_group_delete now) s
         else if op = OpGroupMemberAdd then decoded (dec_groupMemberPayload t) (apply_member_add now) s
         else if op = OpGroupMemberUpdate then decoded (dec_groupMemberPayload t) (apply_member_update now) s
         else if op = OpGroupMemberRemove then decoded (dec_groupMemberPayload t) (apply_member_remove now) s
         else if op = OpInvitationAccept \<or> op = OpInvitationReject
         then decoded (dec_invitationStatusPayload t) (apply_invitation now) s
         else if op = OpRepairUserClearEmailIfMatches
         then decoded (dec_repairUserClearEmailPayload t) (apply_clear_email now) s
         else if op = OpRepairEnsureGroupMember
         then decoded (dec_repairEnsureGroupMemberPayload t) (apply_ensure_member now) s
         else if op = OpRepairEnsureParticipant
         then decoded (dec_repairEnsureParticipantPayload t) (apply_ensure_participant now) s
         else if op = OpRepairEnsureNotification
         then decoded (dec_repairEnsureNotificationPayload t) (apply_ensure_notification now) s
         else (Inl (ErrMsg (''unsupported op: '' @ op)), s))"

section \<open>The applier leaves the tables of the log alone\<close>

definition raft_tables :: "Store \<Rightarrow> LogEntry list \<times> (string \<times> string) list \<times> (string \<times> int) list" where
  "raft_tables s = (tb_log s, tb_meta s, tb_applied s)"

lemma raft_tables_AppendEvent [simp]: "raft_tables (AppendEvent now e s) = raft_tables s"
  by (simp add: AppendEvent_def raft_tables_def)

lemma raft_tables_users [simp, frames]:
  "raft_tables (snd (CreateUser now u s)) = raft_tables s"
  "raft_tables (snd (UpdateUser now u s)) = raft_tables s"
  "raft_tables (UpdatePassword now uid hash s) = raft_tables s"
  "raft_tables (ClearUserEmailIfMatches now uid email s) = raft_tables s"
  by (auto simp: CreateUser_def UpdateUser_def UpdatePassword_def ClearUserEmailIfMatches_def Let_def
      raft_tables_def split: option.splits)

lemma raft_tables_EnsureUser [simp, frames]: "raft_tables (snd (EnsureUser now u s)) = raft_tables s"
proof -
  obtain r s1 where c: "CreateUser now (u\<lparr>u_id := [], u_created_at := zeroTime, u_updated_at := zeroTime\<rparr>) s = (r, s1)"
    by fastforce
  have "raft_tables s1 = raft_tables s"
    using raft_tables_users(1) [of now "u\<lparr>u_id := [], u_created_at := zeroTime, u_updated_at := zeroTime\<rparr>" s] c
    by simp
  with c show ?thesis by (auto simp: EnsureUser_def split: option.splits sum.splits)
qed

lemma raft_tables_groups [simp, frames]:
  "raft_tables (snd (CreateGroup now g s)) = raft_tables s"
  "raft_tables (AddGroupMember now gid uid rank by s) = raft_tables s"
  "raft_tables (EnsureGroupMember now gid uid rank by s) = raft_tables s"
  "raft_tables (UpdateGroup now g s) = raft_tables s"
  "raft_tables (DeleteGroup gid s) = raft_tables s"
  "raft_tables (UpdateGroupMember gid uid rank s) = raft_tables s"
  "raft_tables (snd (RemoveGroupMember gid uid s)) = raft_tables s"
  by (auto simp: CreateGroup_def AddGroupMember_def EnsureGroupMember_def UpdateGroup_def DeleteGroup_def
      UpdateGroupMember_def RemoveGroupMember_def Let_def AppendEvent_def raft_tables_def)

lemma raft_tables_parts [simp, frames]:
  "raft_tables (snd (insert_participant p s)) = raft_tables s"
  "raft_tables (snd (insert_notification n s)) = raft_tables s"
  "raft_tables (UpdateParticipantStatus now aid uid status s) = raft_tables s"
  by (auto simp: insert_participant_def insert_notification_def UpdateParticipantStatus_def AppendEvent_def
      raft_tables_def)

lemma raft_tables_appts [simp, frames]:
  "raft_tables (snd (AddParticipant now p s)) = raft_tables s"
  "raft_tables (snd (CreateAppointment now a s)) = raft_tables s"
  "raft_tables (UpdateAppointment now a s) = raft_tables s"
  "raft_tables (DeleteAppointment now aid s) = raft_tables s"
  "raft_tables (snd (EnsureParticipant now aid uid status opt s)) = raft_tables s"
proof -
  show ap: "raft_tables (snd (AddParticipant now p s)) = raft_tables s" for p
    by (simp add: AddParticipant_def Let_def)
  show "raft_tables (snd (EnsureParticipant now aid uid status opt s)) = raft_tables s"
    using ap by (auto simp: EnsureParticipant_def split: sum.splits)
qed (auto simp: CreateAppointment_def UpdateAppointment_def DeleteAppointment_def Let_def AppendEvent_def raft_tables_def)

lemma raft_tables_AddNotification [simp, frames]: "raft_tables (snd (AddNotification now n s)) = raft_tables s"
  by (auto simp: AddNotification_def Let_def insert_notification_def AppendEvent_def raft_tables_def)

lemma raft_tables_EnsureNotification [simp, frames]: "raft_tables (snd (EnsureNotification now n s)) = raft_tables s"
  by (simp add: EnsureNotification_def)

lemma invite_member_tables: "invite_member now g a m s tx = Inr (p, tx') \<Longrightarrow> raft_tables tx' = raft_tables tx"
  by (auto simp: invite_member_def insert_participant_def insert_notification_def Let_def raft_tables_def
      split: sum.splits if_splits)

lemma invite_members_tables:
  "invite_members now g a ms s tx = Inr (ps, tx') \<Longrightarrow> raft_tables tx' = raft_tables tx"
proof (induction ms arbitrary: tx ps)
  case (Cons m ms)
  then show ?case by (auto split: sum.splits dest!: invite_member_tables Cons.IH)
qed simp

lemma raft_tables_CreateGroupAppointment [simp, frames]:
  "raft_tables (snd (CreateGroupAppointment now a s)) = raft_tables s"
proof -
  have "raft_tables (s\<lparr>tb_appts := rows\<rparr>) = raft_tables s" for rows by (simp add: raft_tables_def)
  then show ?thesis
    by (auto simp: CreateGroupAppointment_def Let_def split: option.splits sum.splits
        dest!: invite_members_tables)
qed

lemma raft_tables_flow [simp]:
  "raft_tables (snd (decoded p act s)) = raft_tables s
     \<longleftrightarrow> (case p of None \<Rightarrow> True | Some x \<Rightarrow> raft_tables (snd (act x s)) = raft_tables s)"
  "snd (done_ok s) = s" "snd (tolerate P rs) = snd rs" "snd (drop_value rs') = snd rs'"
  by (auto simp: decoded_def done_ok_def tolerate_def drop_value_def split: option.splits prod.splits sum.splits)

lemma raft_tables_join_owner [simp, frames]: "raft_tables (snd (join_owner now aid owner s)) = raft_tables s"
  by (simp add: join_owner_def)

lemma raft_tables_cases [simp, frames]:
  "raft_tables (snd (apply_create_personal now p1 s)) = raft_tables s"
  "raft_tables (snd (apply_create_group now p2 s)) = raft_tables s"
  "raft_tables (snd (apply_appt_update now p3 s)) = raft_tables s"
  "raft_tables (snd (apply_appt_delete now p4 s)) = raft_tables s"
  "raft_tables (snd (apply_ensure_user now p5 s)) = raft_tables s"
proof -
  let ?a = "new_appt (ac_title p1) (ac_description p1) (ac_owner_id p1) None
                     (ac_start p1) (ac_end p1) (ac_privacy p1) StatusAccepted"
  have "raft_tables (snd (CreateAppointment now ?a s)) = raft_tables s" by simp
  then show "raft_tables (snd (apply_create_personal now p1 s)) = raft_tables s"
    by (cases "CreateAppointment now ?a s") (auto simp: apply_create_personal_def Let_def split: sum.splits)
qed (auto simp: apply_create_group_def apply_appt_update_def apply_appt_delete_def apply_ensure_user_def
    split: sum.splits)

lemma raft_tables_cases_users [simp, frames]:
  "raft_tables (snd (apply_user_create now p1 s)) = raft_tables s"
  "raft_tables (snd (apply_update_profile now p2 s)) = raft_tables s"
  "raft_tables (snd (apply_update_password now p3 s)) = raft_tables s"
  "raft_tables (snd (apply_clear_email now p4 s)) = raft_tables s"
proof -
  let ?u = "new_user (uc_id p1) (uc_username p1) (uc_email p1) (uc_password_hash p1) (uc_display_name p1)"
  have "raft_tables (snd (CreateUser now ?u s)) = raft_tables s" by simp
  then show "raft_tables (snd (apply_user_create now p1 s)) = raft_tables s"
    by (cases "CreateUser now ?u s") (auto simp: apply_user_create_def split: option.splits sum.splits)
  show "raft_tables (snd (apply_update_profile now p2 s)) = raft_tables s"
  proof (cases "GetUserByID (uup_user_id p2) s")
    case (Inr u)
    let ?d = "u\<lparr>u_username := set_opt (uup_username p2) (u_username u),
                u_email := set_opt (uup_email p2) (u_email u),
                u_display_name := set_opt (uup_display_name p2) (u_display_name u)\<rparr>"
    have "raft_tables (snd (UpdateUser now ?d s)) = raft_tables s" by simp
    with Inr show ?thesis
      by (cases "UpdateUser now ?d s") (auto simp: apply_update_profile_def Let_def split: sum.splits)
  qed (simp add: apply_update_profile_def)
qed (auto simp: apply_update_password_def apply_clear_email_def)

lemma raft_tables_cases_groups [simp, frames]:
  "raft_tables (snd (apply_group_create now p1 s)) = raft_tables s"
  "raft_tables (snd (apply_group_update now p2 s)) = raft_tables s"
  "raft_tables (snd (apply_group_delete now p3 s)) = raft_tables s"
  "raft_tables (snd (apply_member_add now p4 s)) = raft_tables s"
  "raft_tables (snd (apply_member_update now p4 s)) = raft_tables s"
  "raft_tables (snd (apply_member_remove now p4 s)) = raft_tables s"
  "raft_tables (snd (apply_ensure_member now p5 s)) = raft_tables s"
proof -
  let ?g = "\<lparr>g_id = [], g_name = gc_name p1, g_description = gc_description p1,
                  g_created_at = zeroTime, g_updated_at = zeroTime, g_creator_id = gc_creator_id p1,
                  g_creator_username = gc_creator_username p1, g_group_type = gc_group_type p1\<rparr>"
  have "raft_tables (snd (CreateGroup now ?g s)) = raft_tables s" by simp
  then show "raft_tables (snd (apply_group_create now p1 s)) = raft_tables s"
    by (cases "CreateGroup now ?g s") (auto simp: apply_group_create_def split: sum.splits)
qed (auto simp: apply_group_update_def apply_group_delete_def apply_member_add_def apply_member_update_def
    apply_member_remove_def apply_ensure_member_def split: sum.splits)

lemma raft_tables_cases_invitations [simp, frames]:
  "raft_tables (snd (apply_invitation now p1 s)) = raft_tables s"
  "raft_tables (snd (apply_ensure_participant now p2 s)) = raft_tables s"
  "raft_tables (snd (apply_ensure_notification now p3 s)) = raft_tables s"
  by (auto simp: apply_invitation_def apply_ensure_participant_def apply_ensure_notification_def Let_def
      split: sum.splits)

lemma raft_tables_if:
  "raft_tables (snd a) = t \<Longrightarrow> raft_tables (snd b) = t \<Longrightarrow> raft_tables (snd (if c then a else b)) = t"
  by simp

lemma raft_tables_decoded:
  "(\<And>x. raft_tables (snd (act x s)) = raft_tables s) \<Longrightarrow> raft_tables (snd (decoded p act s)) = raft_tables s"
  by (simp split: option.split)

lemma raft_tables_applier [simp, frames]: "raft_tables (snd (NewRaftApplier now e s)) = raft_tables s"
  unfolding NewRaftApplier_def Let_def
  by (intro raft_tables_if raft_tables_decoded raft_tables_cases raft_tables_cases_users
      raft_tables_cases_groups raft_tables_cases_invitations) simp

interpretation raft_applier: state_machine "NewRaftApplier now"
proof
  fix e s
  have "raft_tables (snd (NewRaftApplier now e s)) = raft_tables s" by simp
  then show "tb_log (snd (NewRaftApplier now e s)) = tb_log s"
    "tb_meta (snd (NewRaftApplier now e s)) = tb_meta s"
    "tb_applied (snd (NewRaftApplier now e s)) = tb_applied s"
    by (simp_all add: raft_tables_def)
qed

end
