(* ===== verification/StoreInv.thy ===== *)
theory StoreInv
  imports Applier
begin

text \<open>
  The constraints of the schema: primary keys and unique indices. Every method
  of \<open>Storage\<close> that writes keeps them, so every state the replicated log leads
  to has them. The locale \<open>preserved\<close> is interpreted on the applier.
\<close>

section \<open>Constraints\<close>

definition unique_some :: "('r \<Rightarrow> 'k option) \<Rightarrow> 'r list \<Rightarrow> bool" where
  "unique_some key rows = unique_on key (filter (\<lambda>r. key r \<noteq> None) rows)"

definition users_ok :: "UserRow list \<Rightarrow> bool" where
  "users_ok rows \<longleftrightarrow> unique_on u_id rows \<and> unique_on u_username rows \<and> unique_some u_email rows"

definition events_ok :: "Store \<Rightarrow> bool" where
  "events_ok s \<longleftrightarrow> unique_on e_id (tb_events s) \<and> (\<forall>e \<in> set (tb_events s). e_id e \<le> seq_events s)"

definition store_ok :: "Store \<Rightarrow> bool" where
  "store_ok s \<longleftrightarrow> users_ok (tb_users s) \<and> unique_on g_id (tb_groups s) \<and> unique_on member_key (tb_members s)
     \<and> unique_on a_id (tb_appts s) \<and> unique_on p_id (tb_parts s) \<and> unique_on part_key (tb_parts s)
     \<and> unique_on n_id (tb_notes s) \<and> events_ok s"

lemma store_ok_migrate: "store_ok migrate"
  by (simp add: store_ok_def users_ok_def unique_some_def events_ok_def migrate_def)

lemma unique_some_snoc [simp]:
  "unique_some key (rows @ [r]) \<longleftrightarrow> unique_some key rows \<and> (key r = None \<or> \<not> taken key (key r) rows)"
  by (auto simp: unique_some_def taken_def)

lemma unique_on_replace:
  assumes "unique_on ik rows" "unique_on key rows" "\<And>r. key (f r) = k"
    and "\<not> taken key k (filter (\<lambda>r. ik r \<noteq> i) rows)"
  shows "unique_on key (update_where (\<lambda>r. ik r = i) f rows)"
  using assms(1,2,4)
proof (induction rows)
  case (Cons r rows)
  show ?case
  proof (cases "ik r = i")
    case True
    then have "\<forall>s \<in> set rows. ik s \<noteq> i" using Cons.prems(1) by (metis distinct.simps(2) image_eqI list.set_map list.simps(9) unique_on_def)
    then have "update_where (\<lambda>r. ik r = i) f rows = rows" "filter (\<lambda>r. ik r \<noteq> i) rows = rows"
      by (simp_all add: update_where_none)
    with Cons.prems True assms(3) show ?thesis by (auto simp: unique_on_def taken_def)
  next
    case False
    have "key r \<notin> key ` set (update_where (\<lambda>r. ik r = i) f rows)"
      using Cons.prems False assms(3) by (auto simp: set_update_where unique_on_def taken_def)
    with Cons False show ?thesis by (auto simp: unique_on_def)
  qed
qed simp

lemma unique_some_replace:
  assumes "unique_on ik rows" "unique_some key rows" "\<And>r. key (f r) = k"
    and "k = None \<or> \<not> taken key k (filter (\<lambda>r. ik r \<noteq> i) rows)"
  shows "unique_some key (update_where (\<lambda>r. ik r = i) f rows)"
  using assms(1,2,4)
proof (induction rows)
  case (Cons r rows)
  show ?case
  proof (cases "ik r = i")
    case True
    then have "\<forall>s \<in> set rows. ik s \<noteq> i" using Cons.prems(1) by (metis distinct.simps(2) image_eqI list.set_map list.simps(9) unique_on_def)
    then have "update_where (\<lambda>r. ik r = i) f rows = rows" "filter (\<lambda>r. ik r \<noteq> i) rows = rows"
      by (simp_all add: update_where_none)
    with Cons.prems True assms(3) show ?thesis
      by (auto simp: unique_some_def unique_on_def taken_def split: if_splits)
  next
    case False
    have "key r \<notin> key ` set (filter (\<lambda>r. key r \<noteq> None) (update_where (\<lambda>r. ik r = i) f rows))"
      if "key r \<noteq> None"
      using that Cons.prems False assms(3)
      by (auto simp: set_update_where unique_some_def unique_on_def taken_def)
    moreover have "unique_some key (update_where (\<lambda>r. ik r = i) f rows)"
      using Cons False by (auto simp: unique_on_def unique_some_def split: if_splits)
    ultimately show ?thesis using False by (auto simp: unique_some_def unique_on_def)
  qed
qed (simp add: unique_some_def)

lemma unique_some_update_same:
  assumes "\<And>r. key (f r) = key r"
  shows "unique_some key (update_where P f rows) = unique_some key rows"
proof -
  have "map key (filter (\<lambda>r. key r \<noteq> None) (update_where P f rows)) = map key (filter (\<lambda>r. key r \<noteq> None) rows)"
    by (induction rows) (auto simp: assms)
  then show ?thesis by (simp add: unique_some_def unique_on_def)
qed

lemma unique_some_clear:
  assumes "\<And>r. key (f r) = None" "unique_some key rows"
  shows "unique_some key (update_where P f rows)"
  using assms(2)
proof (induction rows)
  case (Cons r rows)
  then show ?case
    by (auto simp: unique_some_def unique_on_def assms(1) set_update_where split: if_splits)
qed (simp add: unique_some_def)

lemma store_ok_AppendEvent: "store_ok s \<Longrightarrow> store_ok (AppendEvent now e s)"
  by (fastforce simp: store_ok_def AppendEvent_def events_ok_def taken_def)

section \<open>Users\<close>

lemma user_conflict_None:
  "user_conflict r rows = None \<longleftrightarrow> \<not> taken u_id (u_id r) rows \<and> \<not> taken u_username (u_username r) rows
     \<and> (u_email r = None \<or> \<not> taken u_email (u_email r) rows)"
  by (auto simp: user_conflict_def)

lemma user_row_fields [simp]:
  "u_id (user_row u) = u_id u" "u_username (user_row u) = u_username u" "u_email (user_row u) = Some (u_email u)"
  by (simp_all add: user_row_def)

lemma users_ok_CreateUser: "users_ok (tb_users s) \<Longrightarrow> users_ok (tb_users (snd (CreateUser now u s)))"
  by (auto simp: CreateUser_def Let_def users_ok_def user_conflict_None split: option.splits)

lemma users_ok_UpdateUser:
  assumes "users_ok (tb_users s)"
  shows "users_ok (tb_users (snd (UpdateUser now u s)))"
  using assms
  by (auto simp: UpdateUser_def Let_def users_ok_def user_conflict_None unique_on_update
      intro!: unique_on_replace unique_some_replace split: option.splits)

lemma users_ok_rest:
  "users_ok (tb_users s) \<Longrightarrow> users_ok (tb_users (UpdatePassword now uid hash s))"
  "users_ok (tb_users s) \<Longrightarrow> users_ok (tb_users (ClearUserEmailIfMatches now uid email s))"
  by (simp_all add: UpdatePassword_def ClearUserEmailIfMatches_def users_ok_def unique_on_update
      unique_some_update_same unique_some_clear)

section \<open>Every method\<close>

lemma store_ok_users:
  assumes "store_ok s"
  shows "store_ok (snd (CreateUser now u s))" "store_ok (snd (UpdateUser now u s))"
    "store_ok (UpdatePassword now uid hash s)" "store_ok (ClearUserEmailIfMatches now uid email s)"
proof -
  have u: "users_ok (tb_users s)" using assms by (simp add: store_ok_def)
  have rest: "store_ok s \<Longrightarrow> users_ok rows \<Longrightarrow> store_ok (s\<lparr>tb_users := rows\<rparr>)" for rows
    by (simp add: store_ok_def events_ok_def)
  have "snd (CreateUser now u s) = s\<lparr>tb_users := tb_users (snd (CreateUser now u s))\<rparr>"
    "snd (UpdateUser now u s) = s\<lparr>tb_users := tb_users (snd (UpdateUser now u s))\<rparr>"
    "UpdatePassword now uid hash s = s\<lparr>tb_users := tb_users (UpdatePassword now uid hash s)\<rparr>"
    "ClearUserEmailIfMatches now uid email s = s\<lparr>tb_users := tb_users (ClearUserEmailIfMatches now uid email s)\<rparr>"
    by (simp_all add: CreateUser_def UpdateUser_def UpdatePassword_def ClearUserEmailIfMatches_def Let_def
        split: option.split)
  then show "store_ok (snd (CreateUser now u s))" "store_ok (snd (UpdateUser now u s))"
    "store_ok (UpdatePassword now uid hash s)" "store_ok (ClearUserEmailIfMatches now uid email s)"
    using rest [OF assms] users_ok_CreateUser [OF u] users_ok_UpdateUser [OF u] users_ok_rest [OF u]
    by metis+
qed

lemma store_ok_EnsureUser: "store_ok s \<Longrightarrow> store_ok (snd (EnsureUser now u s))"
proof -
  assume s: "store_ok s"
  obtain r s1 where c: "CreateUser now (u\<lparr>u_id := [], u_created_at := zeroTime, u_updated_at := zeroTime\<rparr>) s = (r, s1)"
    by fastforce
  have "store_ok s1"
    using store_ok_users(1) [OF s, of now "u\<lparr>u_id := [], u_created_at := zeroTime, u_updated_at := zeroTime\<rparr>"] c
    by simp
  with c s show ?thesis by (auto simp: EnsureUser_def split: option.splits sum.splits)
qed

lemma unique_upsert: "unique_on key rows \<Longrightarrow> key r = k \<Longrightarrow> unique_on key (delete_where (\<lambda>x. key x = k) rows @ [r])"
  by (auto simp: unique_on_delete taken_def)

lemma unique_update_member [simp]:
  "unique_on member_key (update_where P (\<lambda>m. m\<lparr>m_rank := k\<rparr>) rows) = unique_on member_key rows"
  by (rule unique_on_update) (simp add: member_key_def)

lemma unique_update_part [simp]:
  "unique_on part_key (update_where P (\<lambda>p. p\<lparr>p_status := st, p_updated_at := t\<rparr>) rows) = unique_on part_key rows"
  "unique_on p_id (update_where P (\<lambda>p. p\<lparr>p_status := st, p_updated_at := t\<rparr>) rows) = unique_on p_id rows"
  by (rule unique_on_update; simp add: part_key_def)+

lemma store_ok_groups:
  assumes "store_ok s"
  shows "store_ok (snd (CreateGroup now g s))" "store_ok (AddGroupMember now gid uid rank by s)"
    "store_ok (EnsureGroupMember now gid uid rank by s)" "store_ok (UpdateGroup now g s)"
    "store_ok (DeleteGroup gid s)" "store_ok (UpdateGroupMember gid uid rank s)"
    "store_ok (snd (RemoveGroupMember gid uid s))"
proof -
  show "store_ok (snd (CreateGroup now g s))"
    using assms by (auto simp: CreateGroup_def Let_def intro!: store_ok_AppendEvent)
      (simp_all add: store_ok_def events_ok_def)
  show add: "store_ok (AddGroupMember now gid uid rank by s)"
    unfolding AddGroupMember_def Let_def
    by (intro store_ok_AppendEvent)
      (use assms in \<open>auto simp: store_ok_def events_ok_def unique_on_delete taken_def member_key_def\<close>)
  then show "store_ok (EnsureGroupMember now gid uid rank by s)"
    by (simp add: EnsureGroupMember_def)
  show "store_ok (UpdateGroup now g s)" "store_ok (UpdateGroupMember gid uid rank s)" "store_ok (DeleteGroup gid s)"
    "store_ok (snd (RemoveGroupMember gid uid s))"
    using assms
    by (simp_all add: UpdateGroup_def UpdateGroupMember_def DeleteGroup_def RemoveGroupMember_def
        store_ok_def events_ok_def unique_on_update unique_on_delete)
qed

lemma store_ok_inserts:
  assumes "store_ok s"
  shows "store_ok (snd (insert_participant p s))" "store_ok (snd (insert_notification n s))"
  using assms by (simp_all add: insert_participant_def insert_notification_def store_ok_def events_ok_def)

lemma store_ok_appts:
  assumes "store_ok s"
  shows "store_ok (snd (AddParticipant now p s))" "store_ok (snd (CreateAppointment now a s))"
    "store_ok (UpdateAppointment now a s)" "store_ok (DeleteAppointment now aid s)"
    "store_ok (UpdateParticipantStatus now aid uid status s)"
    "store_ok (snd (EnsureParticipant now aid uid status opt s))"
proof -
  show ap: "store_ok (snd (AddParticipant now p s))" for p
    using assms by (simp add: AddParticipant_def Let_def store_ok_inserts)
  show "store_ok (snd (CreateAppointment now a s))"
    using assms by (auto simp: CreateAppointment_def Let_def intro!: store_ok_AppendEvent)
      (simp_all add: store_ok_def events_ok_def appt_row_def)
  show "store_ok (UpdateAppointment now a s)" "store_ok (DeleteAppointment now aid s)"
    using assms
    by (simp_all add: UpdateAppointment_def DeleteAppointment_def store_ok_def events_ok_def unique_on_update)
  show st: "store_ok (UpdateParticipantStatus now aid uid status s)"
    using assms unfolding UpdateParticipantStatus_def
    by (intro store_ok_AppendEvent) (simp add: store_ok_def events_ok_def)
  show "store_ok (snd (EnsureParticipant now aid uid status opt s))"
    using assms ap st by (auto simp: EnsureParticipant_def split: sum.splits)
qed

lemma store_ok_notes:
  assumes "store_ok s"
  shows "store_ok (snd (AddNotification now n s))" "store_ok (snd (EnsureNotification now n s))"
    "store_ok (MarkNotificationRead now nid s)"
proof -
  show an: "store_ok (snd (AddNotification now n s))"
  proof -
    define n' where "n' = n\<lparr>n_id := (if blank (n_id n)
                 then stableID ''notification'' (n_user_id n @ CHR '':'' # n_type n @ CHR '':'' # n_payload n)
                 else n_id n), n_created_at := now\<rparr>"
    have "store_ok (snd (insert_notification n' s))" by (rule store_ok_inserts [OF assms])
    then show ?thesis
      by (auto simp: AddNotification_def Let_def n'_def split: prod.splits sum.splits intro!: store_ok_AppendEvent)
  qed
  show "store_ok (snd (EnsureNotification now n s))" using assms an by (simp add: EnsureNotification_def)
  show "store_ok (MarkNotificationRead now nid s)"
    using assms by (simp add: MarkNotificationRead_def store_ok_def events_ok_def unique_on_update)
qed

lemma invite_member_ok: "invite_member now g a m s tx = Inr (p, tx') \<Longrightarrow> store_ok tx \<Longrightarrow> store_ok tx'"
  unfolding invite_member_def Let_def
  by (auto split: sum.splits prod.splits) (metis snd_conv store_ok_inserts)+

lemma invite_members_ok: "invite_members now g a ms s tx = Inr (ps, tx') \<Longrightarrow> store_ok tx \<Longrightarrow> store_ok tx'"
proof (induction ms arbitrary: tx ps)
  case (Cons m ms)
  then show ?case by (auto split: sum.splits dest!: invite_member_ok intro: Cons.IH)
qed simp

lemma store_ok_CreateGroupAppointment: "store_ok s \<Longrightarrow> store_ok (snd (CreateGroupAppointment now a s))"
proof -
  assume s: "store_ok s"
  have "store_ok (s\<lparr>tb_appts := tb_appts s @ [appt_row now a']\<rparr>)" if "\<not> taken a_id (a_id a') (tb_appts s)" for a'
    using s that by (simp add: store_ok_def events_ok_def appt_row_def)
  with s show ?thesis
    by (auto simp: CreateGroupAppointment_def Let_def split: option.splits sum.splits
        intro!: store_ok_AppendEvent dest!: invite_members_ok)
qed

section \<open>The applier\<close>

lemma store_ok_split: "store_ok (snd x) \<Longrightarrow> x = (r, s) \<Longrightarrow> store_ok s"
  by simp

lemma store_ok_join_owner: "store_ok s \<Longrightarrow> store_ok (snd (join_owner now aid owner s))"
  by (simp add: join_owner_def store_ok_appts)

lemma store_ok_create_personal: "store_ok s \<Longrightarrow> store_ok (snd (apply_create_personal now p s))"
  unfolding apply_create_personal_def Let_def
  by (auto simp: store_ok_join_owner split: prod.splits sum.splits
      dest: store_ok_split [OF store_ok_appts(2)] intro!: store_ok_join_owner)

lemma store_ok_user_create: "store_ok s \<Longrightarrow> store_ok (snd (apply_user_create now p s))"
  unfolding apply_user_create_def
  by (auto split: option.split prod.splits sum.splits dest: store_ok_split [OF store_ok_users(1)])

lemma store_ok_update_profile: "store_ok s \<Longrightarrow> store_ok (snd (apply_update_profile now p s))"
  unfolding apply_update_profile_def Let_def
  by (auto split: prod.splits sum.splits dest: store_ok_split [OF store_ok_users(2)])

lemma store_ok_group_create: "store_ok s \<Longrightarrow> store_ok (snd (apply_group_create now p s))"
  unfolding apply_group_create_def
  by (auto split: prod.splits sum.splits dest: store_ok_split [OF store_ok_groups(1)] intro!: store_ok_groups)

lemma store_ok_invitation: "store_ok s \<Longrightarrow> store_ok (snd (apply_invitation now p s))"
  unfolding apply_invitation_def Let_def
  by (auto split: sum.split intro!: store_ok_notes store_ok_appts)

lemma store_ok_cases:
  assumes "store_ok s"
  shows "store_ok (snd (apply_create_group now p1 s))" "store_ok (snd (apply_appt_update now p2 s))"
    "store_ok (snd (apply_appt_delete now p3 s))" "store_ok (snd (apply_ensure_user now p4 s))"
    "store_ok (snd (apply_update_password now p5 s))" "store_ok (snd (apply_clear_email now p6 s))"
    "store_ok (snd (apply_group_update now p7 s))" "store_ok (snd (apply_group_delete now p8 s))"
    "store_ok (snd (apply_member_add now p9 s))" "store_ok (snd (apply_member_update now p9 s))"
    "store_ok (snd (apply_member_remove now p9 s))" "store_ok (snd (apply_ensure_member now p10 s))"
    "store_ok (snd (apply_ensure_participant now p11 s))" "store_ok (snd (apply_ensure_notification now p12 s))"
  using assms
  by (simp_all add: apply_create_group_def apply_appt_update_def apply_appt_delete_def apply_ensure_user_def
      apply_update_password_def apply_clear_email_def apply_group_update_def apply_group_delete_def
      apply_member_add_def apply_member_update_def apply_member_remove_def apply_ensure_member_def
      apply_ensure_participant_def apply_ensure_notification_def store_ok_CreateGroupAppointment
      store_ok_appts store_ok_EnsureUser store_ok_users store_ok_groups store_ok_notes split: sum.split)

lemma store_ok_decoded:
  "(\<And>x. store_ok (snd (act x s))) \<Longrightarrow> store_ok s \<Longrightarrow> store_ok (snd (decoded p act s))"
  by (simp add: decoded_def split: option.split)

lemma store_ok_if: "store_ok (snd a) \<Longrightarrow> store_ok (snd b) \<Longrightarrow> store_ok (snd (if c then a else b))"
  by simp

lemma store_ok_applier: "store_ok s \<Longrightarrow> store_ok (snd (NewRaftApplier now e s))"
  unfolding NewRaftApplier_def Let_def
  by (intro store_ok_if store_ok_decoded store_ok_create_personal store_ok_user_create store_ok_update_profile
      store_ok_group_create store_ok_invitation store_ok_cases) simp_all

text \<open>The operations of the replicated log, each at its own time.\<close>

definition apply_op :: "GoTime \<times> LogEntry \<Rightarrow> Store \<Rightarrow> Store" where
  "apply_op te s = snd (NewRaftApplier (fst te) (snd te) s)"

interpretation log_ops: preserved apply_op store_ok
  by unfold_locales (simp add: apply_op_def store_ok_applier)

end
