(* ===== verification/ReplicaProps.thy ===== *)
theory ReplicaProps
  imports ConsensusProps StoreInv
begin

text \<open>
  The node with its state machine: what holds of every node that runs
  \<open>NewRaftApplier\<close>, of the entries it applies, and of the database they lead to.
\<close>

section \<open>Reachable nodes\<close>

definition replica_step :: "GoTime \<Rightarrow> Node \<Rightarrow> Node \<Rightarrow> bool" where
  "replica_step now = node_step (Some (NewRaftApplier now))"

text \<open>The node's moves, each at its own time.\<close>

inductive replica :: "string \<Rightarrow> string list \<Rightarrow> Node \<Rightarrow> bool" for nid ids where
  start: "replica nid ids (boot_at st nid ids)"
| move: "replica nid ids c \<Longrightarrow> replica_step now c c' \<Longrightarrow> replica nid ids c'"

lemma replica_node_ok: "replica nid ids c \<Longrightarrow> node_ok c"
proof (induction rule: replica.induct)
  case start
  show ?case by (rule node_ok_boot)
next
  case (move c now c')
  then show ?case using raft_applier.node_ok_step unfolding replica_step_def by blast
qed


definition elected :: Node where
  "elected = fst (election_case (\<lambda>pid req w. (None, w)) [] [] (boot ''a'' [''b''], 0 :: nat))"

lemma replica_elected: "replica ''a'' [''b''] elected"
proof -
  have "c_term (boot ''a'' [''b'']) < max64" by (simp add: zero_state_def max64_def)
  then have "replica_step zeroTime (boot ''a'' [''b'']) elected"
    unfolding elected_def replica_step_def by (rule node_step.elect)
  with replica.start show ?thesis by (rule replica.move)
qed


section \<open>Terms\<close>

lemma stepDown_term: "c_term c \<le> c_term (stepDown own t c)"
  by (simp add: stepDown_def)

lemma progress_term [simp]: "c_state (set_progress pid i c) = c_state c" "c_state (back_off pid c) = c_state c"
  by (simp_all add: set_progress_def back_off_def Let_def)

lemma replicate_peer_term: "c_term (fst cw) \<le> c_term (fst (snd (replicate_peer n rpc t commit lastIdx pid cw)))"
proof (induction n arbitrary: cw)
  case 0
  then show ?case by (cases cw) simp
next
  case (Suc n)
  obtain c w where cw: "cw = (c, w)" by fastforce
  have rec: "c_term c \<le> c_term (fst (snd (replicate_peer n rpc t commit lastIdx pid (back_off pid c, w1))))" for w1
    using Suc [of "(back_off pid c, w1)"] by simp
  show ?case
    using stepDown_term [of c] rec by (auto simp: cw Let_def split: prod.splits option.splits)
qed

lemma heartbeat_peer_term: "c_term (fst cw) \<le> c_term (fst (snd (heartbeat_peer rpc req pid cw)))"
  using stepDown_term [of "fst cw"] by (auto simp: heartbeat_peer_def split: prod.splits option.splits)

lemma run_peers_term:
  assumes "\<And>pid (s :: Node \<times> 'w). c_term (fst s) \<le> c_term (fst (snd (f pid s)))"
  shows "c_term (fst s) \<le> c_term (fst (snd (run_peers f ps s)))"
  by (rule run_peers_inv [where I = "\<lambda>x. c_term (fst s) \<le> c_term (fst x)"])
    (use assms order_trans in \<open>blast+\<close>)

lemma broadcast_term:
  "c_term (fst cw) \<le> c_term (fst (snd (broadcast_heartbeat rpc order t commit cw)))"
  "c_term (fst cw) \<le> c_term (fst (snd (broadcast_entries rpc order t commit cw)))"
  using run_peers_term [of "heartbeat_peer rpc (heartbeat_request t commit (fst cw))", OF heartbeat_peer_term, of cw order]
    run_peers_term [of "replicate_peer 5 rpc t commit (fst (lastIndexTerm (c_log (fst cw))))",
      OF replicate_peer_term, of cw order]
  by (auto simp: broadcast_heartbeat_def broadcast_entries_def Let_def split: prod.splits)

lemma replicate_retry_term: "c_term (fst cw) \<le> c_term (fst (replicate_retry rpc orders t cw))"
proof (induction orders arbitrary: cw)
  case (Cons order orders)
  show ?case
    using broadcast_term(2) [of cw rpc order t "c_commit (fst cw)"] Cons.IH order_trans
    by (fastforce split: prod.splits bool.splits)
qed simp

lemma recalculate_term [simp]: "c_term (recalculateCommitIndex c) = c_term c"
  by (simp add: recalculateCommitIndex_def)

text \<open>C18. No move of a node lowers its term.\<close>

theorem term_never_falls:
  assumes "replica_step now c c'"
  shows "c_term c \<le> c_term c'"
  using assms unfolding replica_step_def
proof (cases rule: node_step.cases)
  case (append req)
  then show ?thesis by (simp add: AppendEntries_term)
next
  case (vote req)
  then show ?thesis by (simp add: RequestVote_term)
next
  case (heartbeat rpc order w)
  then show ?thesis
    using broadcast_term(1) [of "(c, w)" rpc order "c_term c" "c_commit c"]
    by (auto simp: heartbeat_case_def Let_def raft_applier.applyCommitted_frames note_heartbeat_def
        split: prod.splits)
next
  case (elect vrpc preorder order w)
  then show ?thesis
    using startElection_leads [of vrpc preorder order c w]
    by (auto simp: election_case_def becomeLeader_def stand_def Let_def inc64_below)
next
  case (propose rpc e orders w)
  have "c_term c \<le> c_term (fst (replicate_retry rpc os t (set_log l c, w)))" for os t l
    using replicate_retry_term [of "(set_log l c, w)" rpc os t] by simp
  with propose show ?thesis
    by (auto simp: replicateAndCommit_def Let_def raft_applier.applyCommitted_frames split: prod.splits)
      (metis fst_conv)+
next
  case (late rpc lastIdx n t commit pid w)
  then show ?thesis using replicate_peer_term [of "(c, w)" n rpc t commit lastIdx pid] by simp
qed (simp_all add: reset_case_def)

theorem term_never_falls_witness: "c_term (boot ''a'' [''b'']) \<le> c_term elected"
proof (rule term_never_falls)
  have "c_term (boot ''a'' [''b'']) < max64" by (simp add: zero_state_def max64_def)
  then show "replica_step zeroTime (boot ''a'' [''b'']) elected"
    unfolding elected_def replica_step_def by (rule node_step.elect)
qed

end
