(* ===== verification/Http.thy ===== *)
theory Http
  imports Wire Leader
begin

text \<open>
  HTTP between the clients and the nodes: requests and responses, the audit
  record a handler leaves, the guard of the intra-cluster endpoints, the tokens
  of \<open>auth.go\<close>, and the middleware of \<open>raft_http.go\<close> that sends requests to the
  leader. The library of tokens and the HTTP client are parameters.
\<close>

section \<open>Requests and responses\<close>

text \<open>
  Header names are in canonical form. \<open>rq_user\<close> is the user id the token check
  puts into the context and \<open>rq_id\<close> the request id.
\<close>

record Request =
  rq_method :: string
  rq_path :: string
  rq_uri :: string
  rq_headers :: "(string \<times> string) list"
  rq_query :: "(string \<times> string) list"
  rq_vars :: "(string \<times> string) list"
  rq_body :: string
  rq_user :: "string option"
  rq_id :: string

record Response =
  rp_status :: int
  rp_headers :: "(string \<times> string) list"
  rp_body :: string

definition first_value :: "string \<Rightarrow> (string \<times> string) list \<Rightarrow> string" where
  "first_value k xs = (case map_of xs k of Some v \<Rightarrow> v | None \<Rightarrow> [])"

abbreviation header_of :: "string \<Rightarrow> Request \<Rightarrow> string" where
  "header_of k r \<equiv> first_value k (rq_headers r)"

abbreviation query_of :: "string \<Rightarrow> Request \<Rightarrow> string" where
  "query_of k r \<equiv> first_value k (rq_query r)"

abbreviation path_id :: "string \<Rightarrow> Request \<Rightarrow> string" where
  "path_id k r \<equiv> parseID (first_value k (rq_vars r))"

definition newline :: string where
  "newline = [CHR 0x0A]"

definition http_error :: "int \<Rightarrow> string \<Rightarrow> Response" where
  "http_error status msg = \<lparr>rp_status = status, rp_headers = [], rp_body = msg @ newline\<rparr>"

definition reply_json :: "int \<Rightarrow> json \<Rightarrow> Response" where
  "reply_json status j = \<lparr>rp_status = status, rp_headers = [], rp_body = jprint j @ newline\<rparr>"

definition reply_empty :: "int \<Rightarrow> Response" where
  "reply_empty status = \<lparr>rp_status = status, rp_headers = [], rp_body = []\<rparr>"

text \<open>\<open>json.NewDecoder(r.Body).Decode\<close> reads the first value of the body and ignores the rest.\<close>

definition decode_body :: "string \<Rightarrow> members option" where
  "decode_body s = Option.bind (first_json s) struct_of"

section \<open>Times in requests\<close>

text \<open>
  \<open>time.Parse\<close> for the layouts of the code: a date, then unless \<open>ly_time\<close> is off
  the hour and minute, the seconds when \<open>ly_secs\<close>, three digits of a fraction
  when \<open>ly_milli\<close> and else a fraction of any length if there is one, and the
  zone when \<open>ly_zone\<close>. The hour may have one digit.
\<close>

record Layout =
  ly_time :: bool
  ly_secs :: bool
  ly_milli :: bool
  ly_zone :: bool

definition take_hour :: "string \<Rightarrow> (int \<times> string) option" where
  "take_hour s = (case number 2 s of Some x \<Rightarrow> Some x | None \<Rightarrow> number 1 s)"

definition take_any_frac :: "string \<Rightarrow> (int \<times> string) option" where
  "take_any_frac s = (case s of
     c # d # r \<Rightarrow>
       if (c = CHR ''.'' \<or> c = CHR '','') \<and> is_digit d then take_frac (CHR ''.'' # d # r) else Some (0, s)
   | _ \<Rightarrow> Some (0, s))"

definition take_milli :: "string \<Rightarrow> (int \<times> string) option" where
  "take_milli s = (case s of
     c # r \<Rightarrow>
       if c = CHR ''.'' \<or> c = CHR '',''
       then map_option (\<lambda>(n, rest). (n * 1000000, rest)) (number 3 r) else None
   | [] \<Rightarrow> None)"

definition take_offset :: "string \<Rightarrow> (int \<times> string) option" where
  "take_offset s = (case s of
     [] \<Rightarrow> None
   | c # r \<Rightarrow>
       if c = CHR ''Z'' then Some (0, r)
       else if c = CHR ''+'' \<or> c = CHR ''-'' then
         Option.bind (number 2 r) (\<lambda>(h, r1).
         Option.bind (literal CHR '':'' r1) (\<lambda>r2.
         Option.bind (number 2 r2) (\<lambda>(m, r3).
           if h \<le> 24 \<and> m \<le> 60
           then Some ((if c = CHR ''-'' then -1 else 1) * (60 * h + m), r3) else None)))
       else None)"

definition take_date :: "string \<Rightarrow> ((int \<times> int \<times> int) \<times> string) option" where
  "take_date s0 =
     Option.bind (number 4 s0) (\<lambda>(y, s1). Option.bind (literal CHR ''-'' s1) (\<lambda>s2.
     Option.bind (number 2 s2) (\<lambda>(mo, s3). Option.bind (literal CHR ''-'' s3) (\<lambda>s4.
     Option.bind (number 2 s4) (\<lambda>(d, s5).
       if valid_date y mo d then Some ((y, mo, d), s5) else None)))))"

text \<open>Nanoseconds since midnight.\<close>

definition take_clock :: "Layout \<Rightarrow> string \<Rightarrow> (int \<times> string) option" where
  "take_clock ly s0 =
     Option.bind (literal CHR ''T'' s0) (\<lambda>s1. Option.bind (take_hour s1) (\<lambda>(h, s2).
     Option.bind (literal CHR '':'' s2) (\<lambda>s3. Option.bind (number 2 s3) (\<lambda>(mi, s4).
       if h \<le> 23 \<and> mi \<le> 59 then
         (if ly_secs ly then
            Option.bind (literal CHR '':'' s4) (\<lambda>s5. Option.bind (number 2 s5) (\<lambda>(se, s6).
            Option.bind ((if ly_milli ly then take_milli else take_any_frac) s6) (\<lambda>(ns, s7).
              if se \<le> 59 then Some ((3600 * h + 60 * mi + se) * second + ns, s7) else None)))
          else Some ((3600 * h + 60 * mi) * second, s4))
       else None))))"

definition time_Parse :: "Layout \<Rightarrow> string \<Rightarrow> GoTime option" where
  "time_Parse ly s =
     Option.bind (take_date s) (\<lambda>((y, mo, d), s1).
     Option.bind (if ly_time ly then take_clock ly s1 else Some (0, s1)) (\<lambda>(clock, s2).
     Option.bind (if ly_zone ly then take_offset s2 else Some (0, s2)) (\<lambda>(z, s3).
       if s3 = [] then
         Some \<lparr>t_ns = (days_of_civil y mo d - 719528) * 86400 * second + clock - z * 60 * second, t_off = z\<rparr>
       else None)))"

definition RFC3339 :: Layout where
  "RFC3339 = \<lparr>ly_time = True, ly_secs = True, ly_milli = False, ly_zone = True\<rparr>"

section \<open>The guard of the cluster endpoints\<close>

text \<open>\<open>validateClusterHMAC\<close>: the response that refuses the request, if any.\<close>

definition validateClusterHMAC :: "string \<Rightarrow> Request \<Rightarrow> Response option" where
  "validateClusterHMAC env r =
     (let secret = TrimSpace env; sig = header_of ''X-Cluster-Signature'' r
      in if secret = [] then Some (http_error 500 ''cluster secret not configured'')
         else if sig = [] then Some (http_error 401 ''missing signature'')
         else if \<not> verifyHMACSHA256Hex (rq_body r) secret sig then Some (http_error 401 ''invalid signature'')
         else None)"

definition guarded :: "string \<Rightarrow> (Request \<Rightarrow> 's \<Rightarrow> Response \<times> 's) \<Rightarrow> Request \<Rightarrow> 's \<Rightarrow> Response \<times> 's" where
  "guarded env handler r s =
     (case validateClusterHMAC env r of Some resp \<Rightarrow> (resp, s) | None \<Rightarrow> handler r s)"

section \<open>Tokens\<close>

text \<open>The claims of \<open>auth.go\<close>; times are in whole seconds, as in the token.\<close>

record Claims =
  cl_user_id :: string
  cl_username :: string
  cl_expires :: int
  cl_issued :: int

text \<open>
  The token library: signing claims under the key of the server, and parsing,
  which checks the signature and the times at the given instant.
\<close>

record TokenLib =
  jwt_sign :: "Claims \<Rightarrow> string result"
  jwt_parse :: "GoTime \<Rightarrow> string \<Rightarrow> Claims option"

definition GenerateToken :: "TokenLib \<Rightarrow> GoTime \<Rightarrow> User \<Rightarrow> string result" where
  "GenerateToken lib now u =
     jwt_sign lib \<lparr>cl_user_id = u_id u, cl_username = u_username u,
       cl_expires = Unix (AddTime now (24 * 3600 * second)), cl_issued = Unix now\<rparr>"

definition ParseToken :: "TokenLib \<Rightarrow> GoTime \<Rightarrow> string \<Rightarrow> Claims result" where
  "ParseToken lib now token =
     (case jwt_parse lib now token of
        None \<Rightarrow> Inl (ErrMsg ''invalid or expired token'') | Some cl \<Rightarrow> Inr cl)"

text \<open>\<open>strings.SplitN(s, " ", 2)\<close>: the part before and after the first space.\<close>

definition split_space :: "string \<Rightarrow> (string \<times> string) option" where
  "split_space s =
     (case dropWhile (\<lambda>c. c \<noteq> CHR '' '') s of
        [] \<Rightarrow> None | _ # rest \<Rightarrow> Some (takeWhile (\<lambda>c. c \<noteq> CHR '' '') s, rest))"

definition bearer :: "string \<Rightarrow> string option" where
  "bearer auth =
     (case split_space auth of
        Some (scheme, token) \<Rightarrow> if ToLower scheme = ''bearer'' then Some token else None
      | None \<Rightarrow> None)"

text \<open>The check in front of \<open>/api\<close>: the user id of the token goes into the context.\<close>

definition protected ::
    "TokenLib \<Rightarrow> GoTime \<Rightarrow> (Request \<Rightarrow> 's \<Rightarrow> Response \<times> 's) \<Rightarrow> Request \<Rightarrow> 's \<Rightarrow> Response \<times> 's" where
  "protected lib now handler r s =
     (let auth = header_of ''Authorization'' r
      in if auth = [] then (http_error 401 ''missing token'', s)
         else case bearer auth of
           None \<Rightarrow> (http_error 401 ''invalid authorization header'', s)
         | Some token \<Rightarrow>
             (case ParseToken lib now token of
                Inl _ \<Rightarrow> (http_error 401 ''invalid token'', s)
              | Inr cl \<Rightarrow> handler (r\<lparr>rq_user := Some (cl_user_id cl)\<rparr>) s))"

text \<open>\<open>GetUserIDFromContext\<close>, the value used where the second result is ignored\<close>

definition user_of :: "Request \<Rightarrow> string" where
  "user_of r = (case rq_user r of Some u \<Rightarrow> u | None \<Rightarrow> [])"

section \<open>Requests go to the leader\<close>

datatype route = Preflight | Local | Forward string

definition internal_path :: "string \<Rightarrow> bool" where
  "internal_path path \<longleftrightarrow> HasPrefix path ''/raft/'' \<or> HasPrefix path ''/cluster/''
     \<or> HasPrefix path ''/ws'' \<or> HasPrefix path ''/ui/''"

definition leader_addr :: "Node \<Rightarrow> string" where
  "leader_addr c = ResolveAddr (GetLeader (c_peers c)) (c_peers c)"

text \<open>What \<open>LeaderWriteMiddleware\<close> does with a request; \<open>None\<close> is a server without consensus.\<close>

definition route_of :: "Node option \<Rightarrow> Request \<Rightarrow> route" where
  "route_of cons r =
     (let path = rq_path r;
          leads = (case cons of None \<Rightarrow> True | Some c \<Rightarrow> c_role c = Leader);
          known = (case cons of None \<Rightarrow> False | Some c \<Rightarrow> GetLeader (c_peers c) \<noteq> []);
          there = Forward (case cons of None \<Rightarrow> [] | Some c \<Rightarrow> leader_addr c)
      in if rq_method r = ''OPTIONS'' then Preflight
         else if internal_path path then Local
         else if (path = ''/register'' \<or> path = ''/login'') \<and> \<not> leads \<and> known then there
         else if leads then Local
         else if HasPrefix path ''/api/'' \<and> known then there
         else Local)"

definition cors :: "Request \<Rightarrow> (string \<times> string) list" where
  "cors r =
     [(''Access-Control-Allow-Origin'',
         (let origin = header_of ''Origin'' r in if origin \<noteq> [] then origin else ''*'')),
      (''Access-Control-Allow-Methods'', ''GET, POST, PUT, DELETE, PATCH, OPTIONS''),
      (''Access-Control-Allow-Headers'', ''Content-Type, Authorization''),
      (''Access-Control-Allow-Credentials'', ''true''),
      (''Access-Control-Max-Age'', ''3600'')]"

text \<open>The HTTP client: the request cannot be built, the server not reached, or it answers.\<close>

datatype client_error = NoRequest string | Unreachable string

type_synonym 'w client = "string \<Rightarrow> Request \<Rightarrow> 'w \<Rightarrow> (client_error + Response) \<times> 'w"

definition proxyRequestToLeader :: "'w client \<Rightarrow> string \<Rightarrow> Request \<Rightarrow> 'w \<Rightarrow> Response \<times> 'w" where
  "proxyRequestToLeader client addr r w =
     (let out = r\<lparr>rq_headers := filter (\<lambda>(k, v). ToLower k \<noteq> ''host'') (rq_headers r)\<rparr>
      in case client (''http://'' @ addr @ rq_uri r) out w of
           (Inl (NoRequest err), w1) \<Rightarrow> (http_error 500 (''failed to create proxy request: '' @ err), w1)
         | (Inl (Unreachable err), w1) \<Rightarrow> (http_error 502 (''failed to reach leader: '' @ err), w1)
         | (Inr resp, w1) \<Rightarrow>
             (resp\<lparr>rp_headers := filter (\<lambda>(k, v). \<not> HasPrefix (ToLower k) ''access-control-'') (rp_headers resp)\<rparr>, w1))"

definition LeaderWriteMiddleware ::
    "'w client \<Rightarrow> (Request \<Rightarrow> Node \<times> 'w \<Rightarrow> Response \<times> Node \<times> 'w) \<Rightarrow> Request \<Rightarrow> Node \<times> 'w
     \<Rightarrow> Response \<times> Node \<times> 'w" where
  "LeaderWriteMiddleware client next_handler r cw =
     (let (resp, cw1) =
        (case route_of (Some (fst cw)) r of
           Preflight \<Rightarrow> (reply_empty 200, cw)
         | Local \<Rightarrow> next_handler r cw
         | Forward addr \<Rightarrow>
             (let (resp, w1) = proxyRequestToLeader client addr r (snd cw) in (resp, fst cw, w1)))
      in (resp\<lparr>rp_headers := cors r @ rp_headers resp\<rparr>, cw1))"

end
