(* ===== verification/Services.thy ===== *)
theory Services
  imports Http Entries
begin

text \<open>
  \<open>services.go\<close>: the business rules between the handlers and the database. A
  service that proposes works on the node and the rest of the world; \<open>prop\<close> is the
  consensus component it was wired to, \<open>None\<close> when there is none. The event bus and
  the replication service of the program do nothing and are left out.
\<close>

type_synonym 'w proposer = "LogEntry \<Rightarrow> Node \<times> 'w \<Rightarrow> unit result \<times> Node \<times> 'w"

definition leading :: "'w proposer option \<Rightarrow> Node \<Rightarrow> bool" where
  "leading prop c \<longleftrightarrow> prop \<noteq> None \<and> c_role c = Leader"

definition set_db :: "Store \<Rightarrow> Node \<times> 'w \<Rightarrow> Node \<times> 'w" where
  "set_db s cw = ((fst cw)\<lparr>c_db := s\<rparr>, snd cw)"

abbreviation db_of :: "Node \<times> 'w \<Rightarrow> Store" where
  "db_of cw \<equiv> c_db (fst cw)"

definition username_in :: "User result \<Rightarrow> string" where
  "username_in r = (case r of Inr u \<Rightarrow> u_username u | Inl _ \<Rightarrow> [])"

definition display_in :: "User result \<Rightarrow> string" where
  "display_in r = (case r of Inr u \<Rightarrow> u_display_name u | Inl _ \<Rightarrow> [])"

section \<open>authService\<close>

text \<open>The password library: hashing with a salt of its own and checking.\<close>

record PasswordLib =
  pw_hash :: "string \<Rightarrow> string result"
  pw_check :: "string \<Rightarrow> string \<Rightarrow> bool"

definition Authenticate ::
    "PasswordLib \<Rightarrow> TokenLib \<Rightarrow> GoTime \<Rightarrow> string \<Rightarrow> string \<Rightarrow> Store \<Rightarrow> (User \<times> string) result" where
  "Authenticate pw lib now username password s =
     (case GetUserByUsername username s of
        Inl _ \<Rightarrow> Inl ErrUnauthorized
      | Inr u \<Rightarrow>
          if \<not> pw_check pw password (u_password_hash u) then Inl ErrUnauthorized
          else (case GenerateToken lib now u of Inl e \<Rightarrow> Inl e | Inr token \<Rightarrow> Inr (u, token)))"

section \<open>groupService\<close>

definition groupService_CreateGroup ::
    "GoTime \<Rightarrow> string \<Rightarrow> string \<Rightarrow> string \<Rightarrow> Store \<Rightarrow> Group result \<times> Store" where
  "groupService_CreateGroup now owner name description s =
     (case CreateGroup now \<lparr>g_id = [], g_name = name, g_description = description, g_created_at = now,
               g_updated_at = now, g_creator_id = owner, g_creator_username = username_in (GetUserByID owner s),
               g_group_type = GroupTypeHierarchical\<rparr> s of
        (Inl e, s1) \<Rightarrow> (Inl e, s1)
      | (Inr g, s1) \<Rightarrow>
          (let s2 = AddGroupMember now (g_id g) owner 5 None s1;
               creator = GetUserByID owner s2;
               payload = obj_text [(''group_id'', quoteGo (g_id g)), (''group_name'', quoteGo (g_name g)),
                 (''group_description'', quoteGo (g_description g)), (''created_by_id'', quoteGo owner),
                 (''created_by_username'', quoteGo (username_in creator)),
                 (''created_by_display_name'', quoteGo (display_in creator))]
           in case AddNotification now (notification owner ''group_created'' payload) s2 of
                (Inl e, s3) \<Rightarrow> (Inl e, s3)
              | (Inr _, s3) \<Rightarrow> (Inr g, s3)))"

definition groupService_UpdateGroup ::
    "GoTime \<Rightarrow> string \<Rightarrow> string \<Rightarrow> string \<Rightarrow> string \<Rightarrow> Store \<Rightarrow> Group result \<times> Store" where
  "groupService_UpdateGroup now owner gid name description s =
     (case GetGroupByID gid s of
        Inl e \<Rightarrow> (Inl e, s)
      | Inr g \<Rightarrow>
          if g_creator_id g \<noteq> owner
          then (Inl (ErrMsg ''unauthorized: only group creator can update''), s)
          else (let g1 = g\<lparr>g_name := (if name \<noteq> [] then name else g_name g),
                           g_description := (if description \<noteq> [] \<or> name \<noteq> [] then description
                                             else g_description g)\<rparr>
                in (Inr (g1\<lparr>g_updated_at := now\<rparr>), UpdateGroup now g1 s)))"

definition groupService_DeleteGroup :: "string \<Rightarrow> string \<Rightarrow> Store \<Rightarrow> unit result \<times> Store" where
  "groupService_DeleteGroup owner gid s =
     (case GetGroupByID gid s of
        Inl e \<Rightarrow> (Inl e, s)
      | Inr g \<Rightarrow>
          if g_creator_id g \<noteq> owner
          then (Inl (ErrMsg ''unauthorized: only group creator can delete''), s)
          else (Inr (), DeleteGroup gid s))"

definition groupService_AddMember ::
    "GoTime \<Rightarrow> string \<Rightarrow> string \<Rightarrow> string \<Rightarrow> int \<Rightarrow> Store \<Rightarrow> unit result \<times> Store" where
  "groupService_AddMember now actor gid uid rank s =
     (case GetGroupByID gid s of
        Inl e \<Rightarrow> (Inl e, s)
      | Inr g \<Rightarrow>
          (let flat = (g_group_type g = GroupTypeNonHierarchical);
               allowed = (if flat then g_creator_id g = actor
                          else case GetMemberRank gid actor s of Inl _ \<Rightarrow> False | Inr own \<Rightarrow> rank < own);
               rank' = (if flat then 0 else rank)
           in if \<not> allowed then (Inl ErrUnauthorized, s)
              else (let s1 = AddGroupMember now gid uid rank' (Some actor) s;
                        by = GetUserByID actor s1;
                        payload = obj_text [(''group_id'', quoteGo gid),
                          (''group_name'', quoteGo (group_name_of gid s1)),
                          (''added_by_id'', quoteGo actor), (''added_by_username'', quoteGo (username_in by)),
                          (''added_by_display_name'', quoteGo (display_in by)), (''rank'', fmtInt rank')]
                    in AddNotification now (notification uid ''group_invite'' payload) s1)))"

text \<open>The check \<open>UpdateMember\<close> and \<open>RemoveMember\<close> share: the actor outranks the member.\<close>

definition outranks :: "string \<Rightarrow> string \<Rightarrow> string \<Rightarrow> string \<Rightarrow> Store \<Rightarrow> gerr option" where
  "outranks verb actor gid uid s =
     (case GetMemberRank gid actor s of
        Inl _ \<Rightarrow> Some ErrUnauthorized
      | Inr own \<Rightarrow>
          (case GetMemberRank gid uid s of
             Inl _ \<Rightarrow> Some (ErrMsg ''member not found'')
           | Inr rank \<Rightarrow>
               if own \<le> rank then Some (ErrMsg (''unauthorized: insufficient rank to '' @ verb @ '' this member''))
               else None))"

definition groupService_UpdateMember ::
    "string \<Rightarrow> string \<Rightarrow> string \<Rightarrow> int \<Rightarrow> Store \<Rightarrow> unit result \<times> Store" where
  "groupService_UpdateMember actor gid uid rank s =
     (case outranks ''modify'' actor gid uid s of
        Some e \<Rightarrow> (Inl e, s) | None \<Rightarrow> (Inr (), UpdateGroupMember gid uid rank s))"

definition groupService_RemoveMember ::
    "string \<Rightarrow> string \<Rightarrow> string \<Rightarrow> Store \<Rightarrow> unit result \<times> Store" where
  "groupService_RemoveMember actor gid uid s =
     (case outranks ''remove'' actor gid uid s of
        Some e \<Rightarrow> (Inl e, s) | None \<Rightarrow> RemoveGroupMember gid uid s)"

section \<open>Invitations\<close>

text \<open>Why an invitation cannot be answered, and the answer both methods write.\<close>

definition cannot_answer :: "string \<Rightarrow> string \<Rightarrow> Store \<Rightarrow> string option" where
  "cannot_answer aid uid s =
     (case GetParticipantByAppointmentAndUser aid uid s of
        Inl _ \<Rightarrow> Some ''invitation not found''
      | Inr p \<Rightarrow>
          if p_status p = StatusAccepted then Some ''invitation already accepted''
          else if p_status p = StatusDeclined then Some ''invitation already declined''
          else None)"

definition answer_invitation ::
    "GoTime \<Rightarrow> string \<Rightarrow> string \<Rightarrow> string \<Rightarrow> string \<Rightarrow> Store \<Rightarrow> unit result \<times> Store" where
  "answer_invitation now status typ uid aid s =
     (case cannot_answer aid uid s of
        Some msg \<Rightarrow> (Inl (ErrMsg msg), s)
      | None \<Rightarrow>
          (let s1 = UpdateParticipantStatus now aid uid status s
           in case GetAppointmentByID aid s1 of
                Inl _ \<Rightarrow> (Inr (), s1)
              | Inr a \<Rightarrow>
                  (let u = GetUserByID uid s1;
                       payload = obj_text [(''appointment_id'', quoteGo aid), (''title'', quoteGo (a_title a)),
                         (''user_id'', quoteGo uid), (''user_username'', quoteGo (username_in u)),
                         (''user_display_name'', quoteGo (display_in u)),
                         (''status'', CHR 0x22 # status @ [CHR 0x22]),
                         (''start'', quoteGo (fmtRFC3339 (a_start a))), (''end'', quoteGo (fmtRFC3339 (a_end a)))]
                   in (Inr (), snd (AddNotification now (notification (a_owner_id a) typ payload) s1)))))"

definition AcceptInvitation :: "GoTime \<Rightarrow> string \<Rightarrow> string \<Rightarrow> Store \<Rightarrow> unit result \<times> Store" where
  "AcceptInvitation now uid aid s = answer_invitation now StatusAccepted ''invitation_accepted'' uid aid s"

definition RejectInvitation :: "GoTime \<Rightarrow> string \<Rightarrow> string \<Rightarrow> Store \<Rightarrow> unit result \<times> Store" where
  "RejectInvitation now uid aid s = answer_invitation now StatusDeclined ''invitation_declined'' uid aid s"

section \<open>appointmentService\<close>

text \<open>Build an entry and propose it.\<close>

definition propose_built ::
    "'w proposer option \<Rightarrow> LogEntry result \<Rightarrow> Node \<times> 'w \<Rightarrow> unit result \<times> Node \<times> 'w" where
  "propose_built prop built cw =
     (case built of
        Inl e \<Rightarrow> (Inl e, cw)
      | Inr entry \<Rightarrow> (case prop of None \<Rightarrow> (Inl (ErrMsg ''no consensus''), cw) | Some p \<Rightarrow> p entry cw))"

text \<open>The appointment with the title and times of \<open>a\<close> among those of an agenda.\<close>

definition same_slot :: "Appointment \<Rightarrow> Appointment \<Rightarrow> bool" where
  "same_slot a cand \<longleftrightarrow> a_title cand = a_title a \<and> EqualTime (a_start cand) (a_start a)
     \<and> EqualTime (a_end cand) (a_end a)"

definition around :: "(GoTime \<Rightarrow> GoTime \<Rightarrow> Appointment list) \<Rightarrow> Appointment \<Rightarrow> Appointment option" where
  "around agenda a = find (same_slot a) (agenda (AddTime (a_start a) (- second)) (AddTime (a_end a) second))"

definition created_payload :: "Appointment \<Rightarrow> string \<Rightarrow> Store \<Rightarrow> string" where
  "created_payload a owner s =
     (let u = GetUserByID owner s
      in obj_text [(''appointment_id'', quoteGo (a_id a)), (''title'', quoteGo (a_title a)),
           (''description'', quoteGo (a_description a)), (''start'', quoteGo (fmtRFC3339 (a_start a))),
           (''end'', quoteGo (fmtRFC3339 (a_end a))), (''created_by_id'', quoteGo owner),
           (''created_by_username'', quoteGo (username_in u)),
           (''created_by_display_name'', quoteGo (display_in u)), (''privacy'', quoteGo (a_privacy a))])"

definition create_directly :: "GoTime \<Rightarrow> string \<Rightarrow> Appointment \<Rightarrow> Store \<Rightarrow> Appointment result \<times> Store" where
  "create_directly now owner a s =
     (case CreateAppointment now a s of
        (Inl e, s1) \<Rightarrow> (Inl e, s1)
      | (Inr a1, s1) \<Rightarrow>
          (case AddParticipant now (participant (a_id a1) owner StatusAccepted False) s1 of
             (Inl e, s2) \<Rightarrow> (Inl e, s2) | (Inr _, s2) \<Rightarrow> (Inr a1, s2)))"

definition CreatePersonalAppointment ::
    "'w proposer option \<Rightarrow> GoTime \<Rightarrow> string \<Rightarrow> Appointment \<Rightarrow> Node \<times> 'w \<Rightarrow> Appointment result \<times> Node \<times> 'w" where
  "CreatePersonalAppointment prop now owner a0 cw =
     (if After (a_start a0) (a_end a0) then (Inl ErrInvalidInput, cw)
      else if HasConflict owner (a_start a0) (a_end a0) (db_of cw)
      then (Inl (ErrMsg ''conflict detected''), cw)
      else (let a = a0\<lparr>a_owner_id := owner, a_status := StatusAccepted\<rparr>;
                (made, cw1) =
                  (if leading prop (fst cw)
                   then (case propose_built prop (BuildEntryApptCreatePersonal now owner a) cw of
                           (Inl e, cw1) \<Rightarrow> (Inl e, cw1)
                         | (Inr _, cw1) \<Rightarrow>
                             (Inr (case around (\<lambda>x y. GetUserAgenda owner x y (db_of cw1)) a of
                                     None \<Rightarrow> a | Some cand \<Rightarrow> cand), cw1))
                   else (let (r, s) = create_directly now owner a (db_of cw) in (r, set_db s cw)))
            in case made of
                 Inl e \<Rightarrow> (Inl e, cw1)
               | Inr a1 \<Rightarrow>
                   (case AddNotification now (notification owner ''appt_created''
                           (created_payload a1 owner (db_of cw1))) (db_of cw1) of
                      (Inl e, s) \<Rightarrow> (Inl e, set_db s cw1)
                    | (Inr _, s) \<Rightarrow> (Inr a1, set_db s cw1))))"

definition plain_participant :: "ParticipantDetails \<Rightarrow> Participant" where
  "plain_participant d =
     \<lparr>p_id = p_id d, p_appointment_id = p_appointment_id d, p_user_id = p_user_id d,
      p_status = p_status d, p_is_optional = p_is_optional d, p_created_at = p_created_at d,
      p_updated_at = p_updated_at d\<rparr>"

text \<open>The participants are \<open>None\<close> for a nil slice.\<close>

definition CreateGroupAppointment_service ::
    "'w proposer option \<Rightarrow> GoTime \<Rightarrow> string \<Rightarrow> Appointment \<Rightarrow> Node \<times> 'w
     \<Rightarrow> (Appointment \<times> Participant list option) result \<times> Node \<times> 'w" where
  "CreateGroupAppointment_service prop now owner a0 cw =
     (case a_group_id a0 of
        None \<Rightarrow> (Inl ErrInvalidInput, cw)
      | Some gid \<Rightarrow>
          if After (a_start a0) (a_end a0) then (Inl ErrInvalidInput, cw)
          else (let a = a0\<lparr>a_owner_id := owner, a_status := StatusPending\<rparr>
                in if leading prop (fst cw)
                   then (case propose_built prop (BuildEntryApptCreateGroup now owner a) cw of
                           (Inl e, cw1) \<Rightarrow> (Inl e, cw1)
                         | (Inr _, cw1) \<Rightarrow>
                             (case around (\<lambda>x y. GetGroupAgenda gid x y (db_of cw1)) a of
                                None \<Rightarrow> (Inr (a, None), cw1)
                              | Some cand \<Rightarrow>
                                  (Inr (cand, Some (map plain_participant
                                     (GetAppointmentParticipants (a_id cand) (db_of cw1)))), cw1)))
                   else (case CreateGroupAppointment now a (db_of cw) of
                           (Inl e, s) \<Rightarrow> (Inl e, set_db s cw)
                         | (Inr (a1, parts), s) \<Rightarrow> (Inr (a1, Some parts), set_db s cw))))"

definition UpdateAppointment_service ::
    "'w proposer option \<Rightarrow> GoTime \<Rightarrow> string \<Rightarrow> Appointment \<Rightarrow> Node \<times> 'w \<Rightarrow> Appointment result \<times> Node \<times> 'w" where
  "UpdateAppointment_service prop now owner a0 cw =
     (case GetAppointmentByID (a_id a0) (db_of cw) of
        Inl e \<Rightarrow> (Inl e, cw)
      | Inr existing \<Rightarrow>
          if a_owner_id existing \<noteq> owner
          then (Inl (ErrMsg ''unauthorized: only appointment owner can update''), cw)
          else if After (a_start a0) (a_end a0) then (Inl ErrInvalidInput, cw)
          else if HasConflictExcluding owner (a_start a0) (a_end a0) (a_id a0) (db_of cw)
          then (Inl (ErrMsg ''time conflict with existing appointment''), cw)
          else (let a = a0\<lparr>a_owner_id := owner\<rparr>
                in if leading prop (fst cw)
                   then (case propose_built prop (BuildEntryApptUpdate now a) cw of
                           (Inl e, cw1) \<Rightarrow> (Inl e, cw1) | (Inr _, cw1) \<Rightarrow> (Inr a, cw1))
                   else (Inr (a\<lparr>a_updated_at := now\<rparr>), set_db (UpdateAppointment now a (db_of cw)) cw)))"

definition DeleteAppointment_service ::
    "'w proposer option \<Rightarrow> GoTime \<Rightarrow> string \<Rightarrow> string \<Rightarrow> Node \<times> 'w \<Rightarrow> unit result \<times> Node \<times> 'w" where
  "DeleteAppointment_service prop now owner aid cw =
     (case GetAppointmentByID aid (db_of cw) of
        Inl e \<Rightarrow> (Inl e, cw)
      | Inr existing \<Rightarrow>
          if a_owner_id existing \<noteq> owner
          then (Inl (ErrMsg ''unauthorized: only appointment owner can delete''), cw)
          else if leading prop (fst cw) then propose_built prop (BuildEntryApptDelete now aid) cw
          else (Inr (), set_db (DeleteAppointment now aid (db_of cw)) cw))"

section \<open>agendaService and notificationService\<close>

definition GetUserAgendaForViewer :: "string \<Rightarrow> GoTime \<Rightarrow> GoTime \<Rightarrow> Store \<Rightarrow> Appointment list" where
  "GetUserAgendaForViewer viewer start fin s = GetUserAgenda viewer start fin s"

definition superior_in :: "string \<Rightarrow> string \<Rightarrow> string \<Rightarrow> Store \<Rightarrow> bool" where
  "superior_in gid a b s = (case IsSuperior gid a b s of Inr x \<Rightarrow> x | Inl _ \<Rightarrow> False)"

definition busy_only :: "Appointment \<Rightarrow> Appointment" where
  "busy_only a = a\<lparr>a_title := ''Busy'', a_description := []\<rparr>"

definition GetGroupAgendaForViewer :: "string \<Rightarrow> string \<Rightarrow> GoTime \<Rightarrow> GoTime \<Rightarrow> Store \<Rightarrow> Appointment list" where
  "GetGroupAgendaForViewer viewer gid start fin s =
     map (\<lambda>a. if a_owner_id a = viewer \<or> superior_in gid viewer (a_owner_id a) s then a else busy_only a)
       (GetGroupAgenda gid start fin s)"

definition Notify :: "GoTime \<Rightarrow> string \<Rightarrow> string \<Rightarrow> string \<Rightarrow> Store \<Rightarrow> unit result \<times> Store" where
  "Notify now uid typ payload s = AddNotification now (notification uid typ payload) s"

end
