(* ===== verification/ApiAccounts.thy ===== *)
theory ApiAccounts
  imports Services
begin

text \<open>
  \<open>http_handlers_scaffold.go\<close>, first part: what the handlers of the API share, and
  the handlers of accounts. A handler takes the request and the state, the node
  with the rest of the world, and yields the response and the new state. The
  log lines are left out, the audit records are not.
\<close>

section \<open>The server\<close>

text \<open>
  What \<open>NewAPI\<close> is given: the libraries of passwords and tokens, the check of
  \<open>net/mail\<close> that an address is well formed, and the consensus component.
\<close>

record 'w Api =
  api_pw :: PasswordLib
  api_lib :: TokenLib
  api_email :: "string \<Rightarrow> bool"
  api_prop :: "'w proposer option"
  api_audit_token :: string

type_synonym 'w handler = "Request \<Rightarrow> Node \<times> 'w \<Rightarrow> Response \<times> Node \<times> 'w"

definition audited ::
    "GoTime \<Rightarrow> string \<Rightarrow> string option \<Rightarrow> string \<Rightarrow> string \<Rightarrow> string \<Rightarrow> members
     \<Rightarrow> Node \<times> 'w \<Rightarrow> Node \<times> 'w" where
  "audited now rid actor component action message info cw =
     (RecordAudit now rid actor component action message info (fst cw), snd cw)"

text \<open>Decode the body with the given reader, or answer 400.\<close>

definition with_body ::
    "(members \<Rightarrow> 'a option) \<Rightarrow> Request \<Rightarrow> Node \<times> 'w \<Rightarrow> ('a \<Rightarrow> Response \<times> Node \<times> 'w) \<Rightarrow> Response \<times> Node \<times> 'w" where
  "with_body read r cw k =
     (case Option.bind (decode_body (rq_body r)) read of
        None \<Rightarrow> (http_error 400 (err_text ErrJson), cw) | Some x \<Rightarrow> k x)"

text \<open>The user of the context, or 401.\<close>

definition with_user ::
    "Request \<Rightarrow> Node \<times> 'w \<Rightarrow> (string \<Rightarrow> Response \<times> Node \<times> 'w) \<Rightarrow> Response \<times> Node \<times> 'w" where
  "with_user r cw k =
     (case rq_user r of None \<Rightarrow> (http_error 401 ''unauthorized'', cw) | Some uid \<Rightarrow> k uid)"

text \<open>Build an entry, propose it, go on when it was acknowledged; either failure is a 500.\<close>

definition via_log ::
    "'w Api \<Rightarrow> LogEntry result \<Rightarrow> string \<Rightarrow> Node \<times> 'w \<Rightarrow> (Node \<times> 'w \<Rightarrow> Response \<times> Node \<times> 'w)
     \<Rightarrow> Response \<times> Node \<times> 'w" where
  "via_log api built failed cw k =
     (case built of
        Inl _ \<Rightarrow> (http_error 500 ''internal error'', cw)
      | Inr _ \<Rightarrow>
          (case propose_built (api_prop api) built cw of
             (Inl _, cw1) \<Rightarrow> (http_error 500 failed, cw1)
           | (Inr _, cw1) \<Rightarrow> k cw1))"

section \<open>Accounts\<close>

record RegisterIn =
  ri_username :: string
  ri_password :: string
  ri_email :: string
  ri_display :: string
  ri_name :: string

definition read_register :: "members \<Rightarrow> RegisterIn option" where
  "read_register ms = do {
     u \<leftarrow> str_field ''username'' ms;
     p \<leftarrow> str_field ''password'' ms;
     e \<leftarrow> str_field ''email'' ms;
     d \<leftarrow> str_field ''display_name'' ms;
     n \<leftarrow> str_field ''name'' ms;
     Some \<lparr>ri_username = TrimSpace u, ri_password = p, ri_email = TrimSpace e,
           ri_display = TrimSpace d, ri_name = TrimSpace n\<rparr>}"

text \<open>Why a registration is refused before anything is written.\<close>

definition register_refusal :: "'w Api \<Rightarrow> RegisterIn \<Rightarrow> Store \<Rightarrow> Response option" where
  "register_refusal api i s =
     (if ri_username i = [] \<or> ri_password i = []
      then Some (http_error 400 ''username and password are required'')
      else if \<not> api_email api (ri_email i) then Some (http_error 400 ''invalid email'')
      else case pw_hash (api_pw api) (ri_password i) of
        Inl e \<Rightarrow> Some (http_error 500 (err_text e))
      | Inr _ \<Rightarrow>
          if ri_display i = [] \<and> ri_name i = [] then Some (http_error 400 ''display_name is required'')
          else if ok (GetUserByUsername (ri_username i) s) then Some (http_error 409 ''username already exists'')
          else if ok (GetUserByEmail (ri_email i) s) then Some (http_error 409 ''email already exists'')
          else None)"

definition register_user :: "'w Api \<Rightarrow> RegisterIn \<Rightarrow> User" where
  "register_user api i =
     \<lparr>u_id = [], u_username = ri_username i, u_email = ri_email i,
      u_password_hash = (case pw_hash (api_pw api) (ri_password i) of Inr h \<Rightarrow> h | Inl _ \<Rightarrow> []),
      u_display_name = (if ri_display i = [] then ri_name i else ri_display i),
      u_created_at = zeroTime, u_updated_at = zeroTime\<rparr>"

definition registered :: "'w Api \<Rightarrow> GoTime \<Rightarrow> Request \<Rightarrow> User \<Rightarrow> Node \<times> 'w \<Rightarrow> Response \<times> Node \<times> 'w" where
  "registered api now r u cw =
     (case GenerateToken (api_lib api) now u of
        Inl e \<Rightarrow> (http_error 500 (err_text e), cw)
      | Inr token \<Rightarrow>
          (reply_json 201 (json_map [(''user'', json_user u), (''token'', JStr token)]),
           audited now (rq_id r) (Some (u_id u)) ''auth'' ''register'' ''user registered''
             [(''user_id'', JStr (u_id u)), (''username'', JStr (u_username u)), (''email'', JStr (u_email u)),
              (''display_name'', JStr (u_display_name u)), (''password_hash'', JStr (u_password_hash u))] cw))"

definition handleRegister :: "'w Api \<Rightarrow> GoTime \<Rightarrow> 'w handler" where
  "handleRegister api now r cw =
     with_body read_register r cw (\<lambda>i.
       (case register_refusal api i (db_of cw) of
          Some resp \<Rightarrow> (resp, cw)
        | None \<Rightarrow>
            (let u = register_user api i
             in if leading (api_prop api) (fst cw)
                then via_log api (BuildEntryUserCreate now u) ''failed to replicate user'' cw (\<lambda>cw1.
                  registered api now r
                    (case GetUserByUsername (u_username u) (db_of cw1) of Inr created \<Rightarrow> created | Inl _ \<Rightarrow> u) cw1)
                else (case CreateUser now u (db_of cw) of
                        (Inl e, s) \<Rightarrow>
                          (if is_unique_error e then http_error 409 ''user already exists''
                           else http_error 500 (err_text e), set_db s cw)
                      | (Inr u1, s) \<Rightarrow> registered api now r u1 (set_db s cw)))))"

definition handleLogin :: "'w Api \<Rightarrow> GoTime \<Rightarrow> 'w handler" where
  "handleLogin api now r cw =
     with_body (\<lambda>ms. do {u \<leftarrow> str_field ''username'' ms; p \<leftarrow> str_field ''password'' ms; Some (u, p)}) r cw
       (\<lambda>(username, password).
          (case Authenticate (api_pw api) (api_lib api) now username password (db_of cw) of
             Inl _ \<Rightarrow> (http_error 401 ''invalid credentials'', cw)
           | Inr (u, token) \<Rightarrow>
               (reply_json 200 (json_map [(''user'', json_user u), (''token'', JStr token)]),
                audited now (rq_id r) (Some (u_id u)) ''auth'' ''login'' ''user logged in''
                  [(''user_id'', JStr (u_id u)), (''username'', JStr (u_username u))] cw)))"

definition handleMe :: "'w handler" where
  "handleMe r cw =
     ((case GetUserByID (user_of r) (db_of cw) of
         Inl e \<Rightarrow> http_error 500 (err_text e) | Inr u \<Rightarrow> reply_json 200 (json_user u)), cw)"

record ProfileIn =
  pi_display :: string
  pi_username :: string
  pi_email :: string
  pi_password :: string

definition read_profile :: "members \<Rightarrow> ProfileIn option" where
  "read_profile ms = do {
     d \<leftarrow> str_field ''display_name'' ms;
     u \<leftarrow> str_field ''username'' ms;
     e \<leftarrow> str_field ''email'' ms;
     p \<leftarrow> str_field ''current_password'' ms;
     Some \<lparr>pi_display = d, pi_username = u, pi_email = e, pi_password = p\<rparr>}"

text \<open>Another user has the name or the address asked for.\<close>

definition held_by_other :: "string \<Rightarrow> User result \<Rightarrow> bool" where
  "held_by_other uid r = (case r of Inr x \<Rightarrow> u_id x \<noteq> uid | Inl _ \<Rightarrow> False)"

definition profile_refusal :: "'w Api \<Rightarrow> string \<Rightarrow> User \<Rightarrow> ProfileIn \<Rightarrow> Store \<Rightarrow> Response option" where
  "profile_refusal api uid u i s =
     (if \<not> pw_check (api_pw api) (pi_password i) (u_password_hash u)
      then Some (http_error 401 ''Invalid current password'')
      else if pi_email i \<noteq> [] \<and> \<not> api_email api (pi_email i)
      then Some (http_error 400 ''Invalid email format'')
      else if pi_username i \<noteq> u_username u \<and> held_by_other uid (GetUserByUsername (pi_username i) s)
      then Some (http_error 409 ''Username already taken'')
      else if pi_email i \<noteq> u_email u \<and> held_by_other uid (GetUserByEmail (pi_email i) s)
      then Some (http_error 409 ''Email already in use'')
      else None)"

definition profile_done :: "GoTime \<Rightarrow> Request \<Rightarrow> string \<Rightarrow> User \<Rightarrow> Node \<times> 'w \<Rightarrow> Response \<times> Node \<times> 'w" where
  "profile_done now r uid u cw =
     (reply_json 200 (json_user u),
      audited now (rq_id r) (rq_user r) ''user'' ''update_profile'' ''profile updated''
        [(''user_id'', JStr uid)] cw)"

definition handleUpdateProfile :: "'w Api \<Rightarrow> GoTime \<Rightarrow> 'w handler" where
  "handleUpdateProfile api now r cw =
     with_body read_profile r cw (\<lambda>i.
       (case GetUserByID (user_of r) (db_of cw) of
          Inl _ \<Rightarrow> (http_error 404 ''User not found'', cw)
        | Inr u \<Rightarrow>
            (case profile_refusal api (user_of r) u i (db_of cw) of
               Some resp \<Rightarrow> (resp, cw)
             | None \<Rightarrow>
                 (let u1 = u\<lparr>u_display_name := pi_display i, u_username := pi_username i, u_email := pi_email i\<rparr>
                  in if leading (api_prop api) (fst cw)
                     then via_log api (BuildEntryUserUpdateProfile now u1) ''failed to replicate profile update'' cw
                       (\<lambda>cw1. profile_done now r (user_of r)
                          (case GetUserByID (user_of r) (db_of cw1) of Inr fresh \<Rightarrow> fresh | Inl _ \<Rightarrow> u1) cw1)
                     else (case UpdateUser now u1 (db_of cw) of
                             (Inl e, s) \<Rightarrow> (http_error 500 (err_text e), set_db s cw)
                           | (Inr _, s) \<Rightarrow>
                               profile_done now r (user_of r) (u1\<lparr>u_updated_at := now\<rparr>) (set_db s cw))))))"

definition password_done :: "GoTime \<Rightarrow> Request \<Rightarrow> string \<Rightarrow> Node \<times> 'w \<Rightarrow> Response \<times> Node \<times> 'w" where
  "password_done now r uid cw =
     (reply_json 200 (json_map [(''message'', JStr ''Password updated successfully'')]),
      audited now (rq_id r) (rq_user r) ''user'' ''update_password'' ''password updated''
        [(''user_id'', JStr uid)] cw)"

definition handleUpdatePassword :: "'w Api \<Rightarrow> GoTime \<Rightarrow> 'w handler" where
  "handleUpdatePassword api now r cw =
     with_body (\<lambda>ms. do {c \<leftarrow> str_field ''current_password'' ms; n \<leftarrow> str_field ''new_password'' ms; Some (c, n)}) r cw
       (\<lambda>(current, new).
          (case GetUserByID (user_of r) (db_of cw) of
             Inl _ \<Rightarrow> (http_error 404 ''User not found'', cw)
           | Inr u \<Rightarrow>
               if \<not> pw_check (api_pw api) current (u_password_hash u)
               then (http_error 401 ''Invalid current password'', cw)
               else if length new < 6 then (http_error 400 ''Password must be at least 6 characters'', cw)
               else (case pw_hash (api_pw api) new of
                       Inl _ \<Rightarrow> (http_error 500 ''Error hashing password'', cw)
                     | Inr hash \<Rightarrow>
                         if leading (api_prop api) (fst cw)
                         then via_log api (BuildEntryUserUpdatePassword now (user_of r) hash)
                                ''failed to replicate password update'' cw (password_done now r (user_of r))
                         else password_done now r (user_of r)
                                (set_db (UpdatePassword now (user_of r) hash (db_of cw)) cw))))"

end
