(* ===== verification/ApiGroups.thy ===== *)
theory ApiGroups
  imports ApiAccounts
begin

text \<open>\<open>http_handlers_scaffold.go\<close>, second part: the handlers of groups and their members.\<close>

section \<open>Groups\<close>

definition handleCreateGroup :: "'w Api \<Rightarrow> GoTime \<Rightarrow> 'w handler" where
  "handleCreateGroup api now r cw =
     with_body (\<lambda>ms. do {n \<leftarrow> str_field ''name'' ms; d \<leftarrow> str_field ''description'' ms;
                         t \<leftarrow> str_field ''group_type'' ms; Some (n, d, t)}) r cw
       (\<lambda>(raw, description, gtype).
          (case GetUserByID (user_of r) (db_of cw) of
             Inl _ \<Rightarrow> (http_error 401 ''user not found'', cw)
           | Inr u \<Rightarrow>
               (let gt = (if gtype = [] then ''non_hierarchical'' else gtype);
                    name = TrimSpace raw;
                    g = \<lparr>g_id = [], g_name = name, g_description = description, g_created_at = zeroTime,
                         g_updated_at = zeroTime, g_creator_id = u_id u, g_creator_username = u_username u,
                         g_group_type = gt\<rparr>;
                    finish = (\<lambda>g1 cw1. (reply_json 200 (json_group g1),
                      audited now (rq_id r) (rq_user r) ''group'' ''create'' ''group created''
                        [(''group_id'', JStr (g_id g1)), (''user_id'', JStr (u_id u)), (''type'', JStr gt)] cw1))
                in if name = [] then (http_error 400 ''name is required'', cw)
                   else if length name > 200 then (http_error 400 ''name is too long'', cw)
                   else if leading (api_prop api) (fst cw)
                   then via_log api (BuildEntryGroupCreate now g) ''failed to replicate group'' cw (finish g)
                   else (case CreateGroup now g (db_of cw) of
                           (Inl e, s) \<Rightarrow> (http_error 500 (err_text e), set_db s cw)
                         | (Inr g1, s) \<Rightarrow>
                             finish g1 (set_db (AddGroupMember now (g_id g1) (u_id u)
                               (if gt = ''hierarchical'' then 10 else 0) None s) cw)))))"

definition handleListMyGroups :: "'w handler" where
  "handleListMyGroups r cw =
     (reply_json 200 (json_list json_group (GetGroupsForUser (user_of r) (db_of cw))), cw)"

definition handleGetGroupDetail :: "'w handler" where
  "handleGetGroupDetail r cw =
     (let gid = path_id ''groupID'' r
      in (case GetGroupByID gid (db_of cw) of
            Inl e \<Rightarrow> http_error 404 (err_text e)
          | Inr g \<Rightarrow> reply_json 200 (json_map [(''group'', json_group g),
              (''members'', json_list json_member (GetGroupMembers gid (db_of cw)))]), cw))"

definition handleUpdateGroup :: "'w Api \<Rightarrow> GoTime \<Rightarrow> 'w handler" where
  "handleUpdateGroup api now r cw = with_user r cw (\<lambda>uid.
     (let gid = path_id ''groupID'' r;
          finish = (\<lambda>g cw1. (reply_json 200 (json_group g),
            audited now (rq_id r) (rq_user r) ''group'' ''update'' ''group updated''
              [(''group_id'', JStr gid), (''user_id'', JStr uid)] cw1))
      in if gid = [] then (http_error 400 ''invalid group ID'', cw)
         else with_body (\<lambda>ms. do {n \<leftarrow> str_field ''name'' ms; d \<leftarrow> str_field ''description'' ms; Some (n, d)}) r cw
           (\<lambda>(name, description).
              if name = [] \<and> description = []
              then (http_error 400 ''At least one field (name or description) must be provided'', cw)
              else if leading (api_prop api) (fst cw)
              then (case GetGroupByID gid (db_of cw) of
                      Inl _ \<Rightarrow> (http_error 404 ''group not found'', cw)
                    | Inr g \<Rightarrow>
                        if g_creator_id g \<noteq> uid
                        then (http_error 403 ''unauthorized: only group creator can update'', cw)
                        else via_log api
                          (BuildEntryGroupUpdate now gid (if name \<noteq> [] then Some name else None)
                             (if description \<noteq> [] then Some description else None))
                          ''failed to replicate group update'' cw
                          (\<lambda>cw1. (case GetGroupByID gid (db_of cw1) of
                             Inl _ \<Rightarrow> (http_error 500 ''failed to load updated group'', cw1)
                           | Inr updated \<Rightarrow> finish updated cw1)))
              else (case groupService_UpdateGroup now uid gid name description (db_of cw) of
                      (Inl e, s) \<Rightarrow> (http_error 500 (err_text e), set_db s cw)
                    | (Inr updated, s) \<Rightarrow> finish updated (set_db s cw)))))"

text \<open>\<open>handleDeleteGroup\<close> writes to the local database on every node.\<close>

definition handleDeleteGroup :: "GoTime \<Rightarrow> 'w handler" where
  "handleDeleteGroup now r cw = with_user r cw (\<lambda>uid.
     (let gid = path_id ''groupID'' r
      in if gid = [] then (http_error 400 ''invalid group ID'', cw)
         else case groupService_DeleteGroup uid gid (db_of cw) of
           (Inl e, s) \<Rightarrow> (http_error 500 (err_text e), set_db s cw)
         | (Inr _, s) \<Rightarrow>
             (reply_json 200 (json_map [(''status'', JStr ''deleted'')]),
              audited now (rq_id r) (rq_user r) ''group'' ''delete'' ''group deleted''
                [(''group_id'', JStr gid), (''user_id'', JStr uid)] (set_db s cw))))"

section \<open>Members\<close>

text \<open>Whether a leader lets the actor add a member, and with which rank.\<close>

definition add_member_check :: "string \<Rightarrow> string \<Rightarrow> int \<Rightarrow> Store \<Rightarrow> Response + int" where
  "add_member_check actor gid rank s =
     (case GetGroupByID gid s of
        Inl _ \<Rightarrow> Inl (http_error 404 ''group not found'')
      | Inr g \<Rightarrow>
          if g_group_type g = GroupTypeNonHierarchical
          then (if g_creator_id g \<noteq> actor then Inl (http_error 403 (err_text ErrUnauthorized)) else Inr 0)
          else (case GetMemberRank gid actor s of
                  Inl _ \<Rightarrow> Inl (http_error 403 (err_text ErrUnauthorized))
                | Inr own \<Rightarrow> if rank \<ge> own then Inl (http_error 403 (err_text ErrUnauthorized)) else Inr rank))"

definition handleAddMember :: "'w Api \<Rightarrow> GoTime \<Rightarrow> 'w handler" where
  "handleAddMember api now r cw =
     with_body (\<lambda>ms. do {u \<leftarrow> str_field ''username'' ms; k \<leftarrow> int_field ''rank'' ms; Some (u, k)}) r cw
       (\<lambda>(username, rank).
          if username = [] then (http_error 400 ''Username is required'', cw)
          else if rank < 0 then (http_error 400 ''Rank must be a positive number'', cw)
          else (let gid = path_id ''groupID'' r; actor = user_of r in
            (case GetUserByUsername username (db_of cw) of
               Inl _ \<Rightarrow> (http_error 400 ''User not found'', cw)
             | Inr u \<Rightarrow>
                 (let finish = (\<lambda>cw1. (reply_json 200 (json_map
                          [(''status'', JStr ''member added''), (''group_id'', JStr gid), (''user_id'', JStr (u_id u)),
                           (''username'', JStr (u_username u)), (''rank'', json_int rank), (''added_by'', JStr actor)]),
                        audited now (rq_id r) (rq_user r) ''group'' ''add_member'' ''group member added''
                          [(''group_id'', JStr gid), (''user_id'', JStr (u_id u)), (''actor_id'', JStr actor),
                           (''rank'', json_int rank)] cw1))
                  in if ok (GetMemberRank gid (u_id u) (db_of cw))
                     then (http_error 400 ''User is already a member'', cw)
                     else if leading (api_prop api) (fst cw)
                     then (case add_member_check actor gid rank (db_of cw) of
                             Inl resp \<Rightarrow> (resp, cw)
                           | Inr k \<Rightarrow> via_log api (BuildEntryGroupMemberOp now OpGroupMemberAdd gid (u_id u) k)
                               ''failed to replicate member add'' cw finish)
                     else (case groupService_AddMember now actor gid (u_id u) rank (db_of cw) of
                             (Inl e, s) \<Rightarrow>
                               (http_error (if e = ErrUnauthorized then 403 else 500) (err_text e), set_db s cw)
                           | (Inr _, s) \<Rightarrow> finish (set_db s cw))))))"

text \<open>The refusals of a leader for a change of a member, from the shared check.\<close>

definition member_refusal :: "gerr \<Rightarrow> Response" where
  "member_refusal e = http_error (if e = ErrMsg ''member not found'' then 400 else 403) (err_text e)"

definition service_refusal :: "gerr \<Rightarrow> Response" where
  "service_refusal e = http_error (if e = ErrUnauthorized then 403 else 500) (err_text e)"

definition handleUpdateMember :: "'w Api \<Rightarrow> GoTime \<Rightarrow> 'w handler" where
  "handleUpdateMember api now r cw = with_user r cw (\<lambda>actor.
     (let gid = path_id ''groupID'' r; uid = path_id ''userID'' r
      in if gid = [] \<or> uid = [] then (http_error 400 ''invalid group or user ID'', cw)
         else with_body (int_field ''rank'') r cw (\<lambda>rank.
           (let finish = (\<lambda>cw1. (reply_json 200 (json_map [(''status'', JStr ''updated'')]),
                  audited now (rq_id r) (rq_user r) ''group'' ''update_member'' ''group member updated''
                    [(''group_id'', JStr gid), (''user_id'', JStr uid), (''actor_id'', JStr actor),
                     (''rank'', json_int rank)] cw1))
            in if rank < 0 then (http_error 400 ''Rank must be a positive number'', cw)
               else if leading (api_prop api) (fst cw)
               then (case outranks ''modify'' actor gid uid (db_of cw) of
                       Some e \<Rightarrow> (member_refusal e, cw)
                     | None \<Rightarrow> via_log api (BuildEntryGroupMemberOp now OpGroupMemberUpdate gid uid rank)
                         ''failed to replicate member update'' cw finish)
               else (case groupService_UpdateMember actor gid uid rank (db_of cw) of
                       (Inl e, s) \<Rightarrow> (service_refusal e, set_db s cw)
                     | (Inr _, s) \<Rightarrow> finish (set_db s cw))))))"

definition handleRemoveMember :: "'w Api \<Rightarrow> GoTime \<Rightarrow> 'w handler" where
  "handleRemoveMember api now r cw = with_user r cw (\<lambda>actor.
     (let gid = path_id ''groupID'' r; uid = path_id ''userID'' r;
          finish = (\<lambda>cw1. (reply_json 200 (json_map [(''status'', JStr ''removed'')]),
            audited now (rq_id r) (rq_user r) ''group'' ''remove_member'' ''group member removed''
              [(''group_id'', JStr gid), (''user_id'', JStr uid), (''actor_id'', JStr actor)] cw1))
      in if gid = [] \<or> uid = [] then (http_error 400 ''invalid group or user ID'', cw)
         else if leading (api_prop api) (fst cw)
         then (case outranks ''remove'' actor gid uid (db_of cw) of
                 Some e \<Rightarrow> (member_refusal e, cw)
               | None \<Rightarrow> via_log api (BuildEntryGroupMemberOp now OpGroupMemberRemove gid uid 0)
                   ''failed to replicate member remove'' cw finish)
         else (case groupService_RemoveMember actor gid uid (db_of cw) of
                 (Inl e, s) \<Rightarrow> (service_refusal e, set_db s cw)
               | (Inr _, s) \<Rightarrow> finish (set_db s cw))))"

end
