(* ===== verification/ApiAppts.thy ===== *)
theory ApiAppts
  imports ApiGroups
begin

text \<open>
  \<open>http_handlers_scaffold.go\<close>, third part: appointments, invitations, agendas,
  notifications and the audit records, and the routes of \<open>NewAPI\<close>.
\<close>

section \<open>Times\<close>

definition layout :: "bool \<Rightarrow> bool \<Rightarrow> bool \<Rightarrow> bool \<Rightarrow> Layout" where
  "layout clock secs milli zone = \<lparr>ly_time = clock, ly_secs = secs, ly_milli = milli, ly_zone = zone\<rparr>"

text \<open>The first of the layouts that reads the text, with the value it read.\<close>

fun first_layout :: "Layout list \<Rightarrow> string \<Rightarrow> (Layout \<times> GoTime) option" where
  "first_layout [] v = None"
| "first_layout (l # ls) v = (case time_Parse l v of Some t \<Rightarrow> Some (l, t) | None \<Rightarrow> first_layout ls v)"

definition formats :: "Layout list" where
  "formats = [RFC3339, layout True True True True, layout True True True False, RFC3339,
     layout True True False False, layout True False False True, layout True False False False,
     layout False False False False]"

text \<open>A date alone is its first minute, or its last one for an end.\<close>

definition toRFC3339 :: "string \<Rightarrow> bool \<Rightarrow> GoTime result" where
  "toRFC3339 v0 fin =
     (let v = TrimSpace v0
      in if v = [] then Inl (ErrMsg ''missing time'')
         else case first_layout formats v of
           None \<Rightarrow> Inl (ErrMsg (''invalid time format: '' @ v))
         | Some (l, t) \<Rightarrow>
             if \<not> ly_time l then Inr (AddTime t (if fin then (23 * 3600 + 59 * 60) * second else 0))
             else Inr t)"

text \<open>\<open>parseTimeRange\<close>: today and the seven days after it, unless the query says otherwise.\<close>

definition midnight :: "GoTime \<Rightarrow> GoTime" where
  "midnight now = \<lparr>t_ns = t_ns now div (86400 * second) * (86400 * second), t_off = 0\<rparr>"

definition query_time :: "string \<Rightarrow> Request \<Rightarrow> GoTime \<Rightarrow> GoTime" where
  "query_time k r d =
     (if query_of k r = [] then d else case time_Parse RFC3339 (query_of k r) of Some t \<Rightarrow> t | None \<Rightarrow> d)"

definition parseTimeRange :: "GoTime \<Rightarrow> Request \<Rightarrow> GoTime \<times> GoTime" where
  "parseTimeRange now r =
     (let start = midnight now
      in (query_time ''start'' r start, query_time ''end'' r (AddTime start (7 * 24 * 3600 * second))))"

section \<open>Creating, changing and deleting appointments\<close>

record ApptIn =
  ai_title :: string
  ai_description :: string
  ai_start :: string
  ai_end :: string
  ai_privacy :: string
  ai_group_id :: "string option"

definition read_appt :: "members \<Rightarrow> ApptIn option" where
  "read_appt ms = do {
     t \<leftarrow> str_field ''title'' ms;
     d \<leftarrow> str_field ''description'' ms;
     s \<leftarrow> str_field ''start'' ms;
     e \<leftarrow> str_field ''end'' ms;
     p \<leftarrow> str_field ''privacy'' ms;
     g \<leftarrow> str_pointer ''group_id'' ms;
     Some \<lparr>ai_title = t, ai_description = d, ai_start = s, ai_end = e, ai_privacy = p, ai_group_id = g\<rparr>}"

text \<open>An \<open>Appointment\<close> with the fields a request gives, the others zero.\<close>

definition requested ::
    "string \<Rightarrow> string \<Rightarrow> string \<Rightarrow> string \<Rightarrow> GoTime \<Rightarrow> GoTime \<Rightarrow> string \<Rightarrow> string option \<Rightarrow> Appointment" where
  "requested aid title description owner start fin privacy gid =
     \<lparr>a_id = aid, a_title = title, a_description = description, a_owner_id = owner, a_group_id = gid,
      a_start = start, a_end = fin, a_privacy = privacy, a_status = [], a_created_at = zeroTime,
      a_updated_at = zeroTime, a_version = 0, a_origin_node = [], a_deleted = False\<rparr>"

definition handleCreateAppointment :: "'w Api \<Rightarrow> GoTime \<Rightarrow> 'w handler" where
  "handleCreateAppointment api now r cw =
     with_body read_appt r cw (\<lambda>i.
       (let uid = user_of r;
            finish = (\<lambda>info cw1. audited now (rq_id r) (rq_user r) ''appointment'' ''create''
              ''appointment created'' info cw1)
        in case toRFC3339 (ai_start i) False of
          Inl e \<Rightarrow> (http_error 400 (err_text e), cw)
        | Inr start \<Rightarrow>
            (case toRFC3339 (ai_end i) True of
               Inl e \<Rightarrow> (http_error 400 (err_text e), cw)
             | Inr fin \<Rightarrow>
                 (let a = requested [] (ai_title i) (ai_description i) uid start fin
                            (fallback (ai_privacy i) PrivacyFull) (ai_group_id i)
                  in if ai_group_id i \<noteq> None
                     then (case CreateGroupAppointment_service (api_prop api) now uid a cw of
                             (Inl e, cw1) \<Rightarrow> (http_error 400 (err_text e), cw1)
                           | (Inr (created, parts), cw1) \<Rightarrow>
                               (reply_json 200 (json_map
                                  [(''appointment'', json_appointment created),
                                   (''participants'', case parts of None \<Rightarrow> JNull
                                      | Some ps \<Rightarrow> JArr (map json_participant ps))]),
                                finish [(''appointment_id'', JStr (a_id created)),
                                        (''group_id'', json_opt_string (ai_group_id i))] cw1))
                     else (case CreatePersonalAppointment (api_prop api) now uid a cw of
                             (Inl e, cw1) \<Rightarrow> (http_error 400 (err_text e), cw1)
                           | (Inr created, cw1) \<Rightarrow>
                               (reply_json 200 (json_appointment created),
                                finish [(''appointment_id'', JStr (a_id created))] cw1))))))"

definition with_appt ::
    "Request \<Rightarrow> Node \<times> 'w \<Rightarrow> (string \<Rightarrow> string \<Rightarrow> Response \<times> Node \<times> 'w) \<Rightarrow> Response \<times> Node \<times> 'w" where
  "with_appt r cw k = with_user r cw (\<lambda>uid.
     (let aid = path_id ''appointmentID'' r
      in if aid = [] then (http_error 400 ''invalid appointment ID'', cw) else k uid aid))"

definition appt_audit :: "GoTime \<Rightarrow> Request \<Rightarrow> string \<Rightarrow> string \<Rightarrow> string \<Rightarrow> string \<Rightarrow> Node \<times> 'w \<Rightarrow> Node \<times> 'w" where
  "appt_audit now r action message aid uid =
     audited now (rq_id r) (rq_user r) ''appointment'' action message
       [(''appointment_id'', JStr aid), (''user_id'', JStr uid)]"

definition handleUpdateAppointment :: "'w Api \<Rightarrow> GoTime \<Rightarrow> 'w handler" where
  "handleUpdateAppointment api now r cw = with_appt r cw (\<lambda>uid aid.
     with_body (\<lambda>ms. do {
         t \<leftarrow> str_field ''title'' ms;
         d \<leftarrow> str_field ''description'' ms;
         s \<leftarrow> time_field ''start'' ms;
         e \<leftarrow> time_field ''end'' ms;
         p \<leftarrow> str_field ''privacy'' ms;
         g \<leftarrow> str_pointer ''group_id'' ms;
         Some (requested aid t d [] s e p g)}) r cw
       (\<lambda>a. (case UpdateAppointment_service (api_prop api) now uid a cw of
               (Inl e, cw1) \<Rightarrow> (http_error 500 (err_text e), cw1)
             | (Inr updated, cw1) \<Rightarrow>
                 (reply_json 200 (json_appointment updated),
                  appt_audit now r ''update'' ''appointment updated'' aid uid cw1))))"

definition handleDeleteAppointment :: "'w Api \<Rightarrow> GoTime \<Rightarrow> 'w handler" where
  "handleDeleteAppointment api now r cw = with_appt r cw (\<lambda>uid aid.
     (case DeleteAppointment_service (api_prop api) now uid aid cw of
        (Inl e, cw1) \<Rightarrow> (http_error 500 (err_text e), cw1)
      | (Inr _, cw1) \<Rightarrow>
          (reply_json 200 (json_map [(''status'', JStr ''deleted'')]),
           appt_audit now r ''delete'' ''appointment deleted'' aid uid cw1)))"

section \<open>Details\<close>

definition filterAppointmentForViewer :: "Appointment \<Rightarrow> User \<Rightarrow> string option \<Rightarrow> Store \<Rightarrow> Appointment" where
  "filterAppointmentForViewer a viewer gid s =
     (if a_owner_id a = u_id viewer then a
      else case (gid, a_group_id a) of
        (Some _, Some g) \<Rightarrow>
          if superior_in g (u_id viewer) (a_owner_id a) s then a
          else if a_privacy a = PrivacyFreeBusy then busy_only a else a
      | _ \<Rightarrow> if a_privacy a = PrivacyFreeBusy then busy_only a else a)"

definition may_view :: "string \<Rightarrow> Appointment \<Rightarrow> string \<Rightarrow> Store \<Rightarrow> bool" where
  "may_view uid a aid s \<longleftrightarrow> a_owner_id a = uid
     \<or> (case a_group_id a of
          None \<Rightarrow> False
        | Some g \<Rightarrow> (\<exists>p \<in> set (GetAppointmentParticipants aid s). p_user_id p = uid)
            \<or> superior_in g uid (a_owner_id a) s)"

text \<open>The server ends the connection when a handler panics; the reply is then none at all.\<close>

definition aborted :: Response where
  "aborted = \<lparr>rp_status = 0, rp_headers = [], rp_body = []\<rparr>"

definition handleGetAppointmentDetails :: "'w handler" where
  "handleGetAppointmentDetails r cw =
     (let uid = user_of r; aid = path_id ''appointmentID'' r; s = db_of cw
      in (if aid = [] then http_error 400 ''Invalid appointment ID''
          else case GetAppointmentByID aid s of
            Inl _ \<Rightarrow> http_error 404 ''Appointment not found''
          | Inr a \<Rightarrow>
              if \<not> may_view uid a aid s then http_error 403 ''Access denied''
              else case GetUserByID uid s of
                Inl _ \<Rightarrow> aborted
              | Inr u \<Rightarrow> reply_json 200 (json_map
                  [(''appointment'', json_appointment (filterAppointmentForViewer a u (a_group_id a) s)),
                   (''participants'', json_list json_details (GetAppointmentParticipants aid s))]), cw))"

section \<open>Agendas and notifications\<close>

definition handleGetUserAgenda :: "GoTime \<Rightarrow> 'w handler" where
  "handleGetUserAgenda now r cw =
     (let (start, fin) = parseTimeRange now r
      in (reply_json 200 (json_list json_appointment (GetUserAgendaForViewer (user_of r) start fin (db_of cw))), cw))"

definition handleGetGroupAgenda :: "GoTime \<Rightarrow> 'w handler" where
  "handleGetGroupAgenda now r cw =
     (let (start, fin) = parseTimeRange now r
      in (reply_json 200 (json_list json_appointment
            (GetGroupAgendaForViewer (user_of r) (path_id ''groupID'' r) start fin (db_of cw))), cw))"

definition handleListNotifications :: "'w handler" where
  "handleListNotifications r cw =
     (reply_json 200 (json_list json_notification (GetUserNotifications (user_of r) (db_of cw))), cw)"

definition handleListUnreadNotifications :: "'w handler" where
  "handleListUnreadNotifications r cw =
     (reply_json 200 (json_list json_notification (GetUnreadNotifications (user_of r) (db_of cw))), cw)"

definition handleMarkNotificationRead :: "GoTime \<Rightarrow> 'w handler" where
  "handleMarkNotificationRead now r cw =
     (reply_empty 204, set_db (MarkNotificationRead now (path_id ''id'' r) (db_of cw)) cw)"

section \<open>Invitations\<close>

text \<open>\<open>handleAcceptInvitation\<close> and \<open>handleRejectInvitation\<close> differ in the status and the texts.\<close>

definition answer_handler ::
    "'w Api \<Rightarrow> GoTime \<Rightarrow> string \<Rightarrow> string \<Rightarrow> (GoTime \<Rightarrow> string \<Rightarrow> string \<Rightarrow> Store \<Rightarrow> unit result \<times> Store)
     \<Rightarrow> string \<times> string \<times> string \<Rightarrow> 'w handler" where
  "answer_handler api now status failed service texts r cw = with_appt r cw (\<lambda>uid aid.
     (let (said, action, message) = texts;
          finish = (\<lambda>cw1. (reply_json 200 (json_map [(''status'', JStr said)]),
            appt_audit now r action message aid uid cw1))
      in if leading (api_prop api) (fst cw)
         then (case cannot_answer aid uid (db_of cw) of
                 Some msg \<Rightarrow> (http_error 400 msg, cw)
               | None \<Rightarrow> via_log api (BuildEntryInvitationStatus now aid uid status) failed cw finish)
         else (case service now uid aid (db_of cw) of
                 (Inl e, s) \<Rightarrow> (http_error 400 (err_text e), set_db s cw)
               | (Inr _, s) \<Rightarrow> finish (set_db s cw))))"

definition handleAcceptInvitation :: "'w Api \<Rightarrow> GoTime \<Rightarrow> 'w handler" where
  "handleAcceptInvitation api now =
     answer_handler api now StatusAccepted ''failed to replicate invitation accept'' AcceptInvitation
       (''accepted'', ''accept_invitation'', ''invitation accepted'')"

definition handleRejectInvitation :: "'w Api \<Rightarrow> GoTime \<Rightarrow> 'w handler" where
  "handleRejectInvitation api now =
     answer_handler api now StatusDeclined ''failed to replicate invitation reject'' RejectInvitation
       (''rejected'', ''reject_invitation'', ''invitation rejected'')"

definition handleGetMyParticipationStatus :: "'w handler" where
  "handleGetMyParticipationStatus r cw = with_appt r cw (\<lambda>uid aid.
     (case GetParticipantByAppointmentAndUser aid uid (db_of cw) of
        Inl _ \<Rightarrow> (http_error 404 ''not a participant'', cw)
      | Inr p \<Rightarrow> (reply_json 200 (json_map [(''status'', JStr (p_status p))]), cw)))"

section \<open>Audit records\<close>

definition audit_filter :: "Request \<Rightarrow> Response + AuditFilter" where
  "audit_filter r =
     (let since = query_of ''since'' r; limit = query_of ''limit'' r;
          f = (\<lambda>t n. Inr \<lparr>af_component = query_of ''component'' r, af_action = query_of ''action'' r,
             af_level = query_of ''level'' r, af_request_id = query_of ''request_id'' r,
             af_since = t, af_limit = n\<rparr>)
      in case (if since = [] then Some zeroTime else time_Parse RFC3339 since) of
           None \<Rightarrow> Inl (http_error 400 ''invalid since (RFC3339 required)'')
         | Some t \<Rightarrow>
             if limit = [] then f t 0
             else case parseInt64 limit of
               None \<Rightarrow> Inl (http_error 400 ''invalid limit'')
             | Some n \<Rightarrow> if n \<le> 0 then Inl (http_error 400 ''invalid limit'') else f t n)"

definition handleListAuditLogs :: "'w Api \<Rightarrow> GoTime \<Rightarrow> 'w handler" where
  "handleListAuditLogs api now r cw =
     (if api_audit_token api = [] then (http_error 404 ''audit endpoint disabled'', cw)
      else if api_audit_token api \<noteq> header_of ''X-Audit-Token'' r then (http_error 403 ''forbidden'', cw)
      else case audit_filter r of
        Inl resp \<Rightarrow> (resp, cw)
      | Inr f \<Rightarrow>
          (let logs = ListAuditLogs f (db_of cw)
           in (reply_json 200 (JObj [(''logs'', json_list (\<lambda>a. JObj (audit_members a)) logs)]),
               audited now (rq_id r) (rq_user r) ''observability'' ''audit_logs_list'' ''audit logs fetched''
                 [(''component'', JStr (af_component f)), (''count'', json_int (int (length logs)))] cw)))"

end
