(* ===== verification/ClusterHttp.thy ===== *)
theory ClusterHttp
  imports Http
begin

text \<open>
  The endpoints the nodes call on each other: \<open>cluster_http.go\<close> and the handlers
  of \<open>raft_http.go\<close>, with the JSON of the Raft messages and the client side,
  \<open>postJSON\<close> and \<open>postJSONWithResponse\<close> of \<open>consensus.go\<close>. \<open>env\<close> is the variable
  \<open>CLUSTER_HMAC_SECRET\<close>. The text of a decoding error is that of \<open>ErrJson\<close>.
\<close>

section \<open>Raft messages in JSON\<close>

definition entry_members :: "LogEntry \<Rightarrow> members" where
  "entry_members e = [(''term'', json_int (le_term e)), (''index'', json_int (le_index e)),
     (''event_id'', JStr (le_event_id e)), (''aggregate'', JStr (le_aggregate e)),
     (''aggregate_id'', JStr (le_aggregate_id e)), (''op'', JStr (le_op e)),
     (''payload'', JStr (le_payload e)), (''ts'', json_time (le_ts e))]"

definition entry_fine :: "LogEntry \<Rightarrow> bool" where
  "entry_fine e \<longleftrightarrow> is_int64 (le_term e) \<and> is_int64 (le_index e) \<and> json_time_ok (le_ts e)"

definition dec_entry :: "members \<Rightarrow> LogEntry option" where
  "dec_entry ms = do {
     t \<leftarrow> int_field ''term'' ms;
     i \<leftarrow> int_field ''index'' ms;
     eid \<leftarrow> str_field ''event_id'' ms;
     aggregate \<leftarrow> str_field ''aggregate'' ms;
     aid \<leftarrow> str_field ''aggregate_id'' ms;
     op \<leftarrow> str_field ''op'' ms;
     payload \<leftarrow> str_field ''payload'' ms;
     ts \<leftarrow> time_field ''ts'' ms;
     Some \<lparr>le_term = t, le_index = i, le_event_id = eid, le_aggregate = aggregate, le_aggregate_id = aid,
           le_op = op, le_payload = payload, le_ts = ts\<rparr>}"

definition as_entries :: "json \<Rightarrow> LogEntry list \<Rightarrow> LogEntry list option" where
  "as_entries v old = (case v of
     JNull \<Rightarrow> Some []
   | JArr js \<Rightarrow> those (map (\<lambda>x. Option.bind (struct_of x) dec_entry) js)
   | _ \<Rightarrow> None)"

definition append_fine :: "AppendEntriesRequest \<Rightarrow> bool" where
  "append_fine req \<longleftrightarrow> is_int64 (ae_term req) \<and> is_int64 (ae_prev_index req) \<and> is_int64 (ae_prev_term req)
     \<and> is_int64 (ae_commit req) \<and> list_all entry_fine (ae_entries req)"

definition enc_append :: "AppendEntriesRequest \<Rightarrow> string option" where
  "enc_append req = marshal (append_fine req)
     [(''term'', json_int (ae_term req)), (''leader_id'', JStr (ae_leader req)),
      (''prev_log_index'', json_int (ae_prev_index req)), (''prev_log_term'', json_int (ae_prev_term req)),
      (''entries'', json_list (\<lambda>e. JObj (entry_members e)) (ae_entries req)),
      (''leader_commit'', json_int (ae_commit req))]"

definition read_append :: "members \<Rightarrow> AppendEntriesRequest option" where
  "read_append ms = do {
     t \<leftarrow> int_field ''term'' ms;
     leader \<leftarrow> str_field ''leader_id'' ms;
     prev \<leftarrow> int_field ''prev_log_index'' ms;
     prevTerm \<leftarrow> int_field ''prev_log_term'' ms;
     es \<leftarrow> field as_entries ''entries'' [] ms;
     commit \<leftarrow> int_field ''leader_commit'' ms;
     Some \<lparr>ae_term = t, ae_leader = leader, ae_prev_index = prev, ae_prev_term = prevTerm,
           ae_entries = es, ae_commit = commit\<rparr>}"

definition append_resp_fine :: "AppendEntriesResponse \<Rightarrow> bool" where
  "append_resp_fine r \<longleftrightarrow> is_int64 (aer_term r) \<and> is_int64 (aer_match r)"

definition json_append_resp :: "AppendEntriesResponse \<Rightarrow> json" where
  "json_append_resp r = JObj [(''term'', json_int (aer_term r)), (''success'', JBool (aer_success r)),
     (''match_index'', json_int (aer_match r))]"

definition dec_append_resp :: "string \<Rightarrow> AppendEntriesResponse option" where
  "dec_append_resp s = do {
     ms \<leftarrow> unmarshal s;
     t \<leftarrow> int_field ''term'' ms;
     ok \<leftarrow> bool_field ''success'' ms;
     i \<leftarrow> int_field ''match_index'' ms;
     Some \<lparr>aer_term = t, aer_success = ok, aer_match = i\<rparr>}"

text \<open>\<open>pre_vote\<close> is left out when it is false.\<close>

definition vote_fine :: "RequestVoteRequest \<Rightarrow> bool" where
  "vote_fine r \<longleftrightarrow> is_int64 (rv_term r) \<and> is_int64 (rv_last_index r) \<and> is_int64 (rv_last_term r)"

definition enc_vote :: "RequestVoteRequest \<Rightarrow> string option" where
  "enc_vote r = marshal (vote_fine r)
     ([(''term'', json_int (rv_term r)), (''candidate_id'', JStr (rv_candidate r)),
       (''last_log_index'', json_int (rv_last_index r)), (''last_log_term'', json_int (rv_last_term r))]
      @ (if rv_prevote r then [(''pre_vote'', JBool True)] else []))"

definition read_vote :: "members \<Rightarrow> RequestVoteRequest option" where
  "read_vote ms = do {
     t \<leftarrow> int_field ''term'' ms;
     cand \<leftarrow> str_field ''candidate_id'' ms;
     i \<leftarrow> int_field ''last_log_index'' ms;
     lt \<leftarrow> int_field ''last_log_term'' ms;
     pre \<leftarrow> bool_field ''pre_vote'' ms;
     Some \<lparr>rv_term = t, rv_candidate = cand, rv_last_index = i, rv_last_term = lt, rv_prevote = pre\<rparr>}"

definition json_vote_resp :: "RequestVoteResponse \<Rightarrow> json" where
  "json_vote_resp r = JObj [(''term'', json_int (rvr_term r)), (''vote_granted'', JBool (rvr_granted r))]"

definition dec_vote_resp :: "string \<Rightarrow> RequestVoteResponse option" where
  "dec_vote_resp s = do {
     ms \<leftarrow> unmarshal s;
     t \<leftarrow> int_field ''term'' ms;
     granted \<leftarrow> bool_field ''vote_granted'' ms;
     Some \<lparr>rvr_term = t, rvr_granted = granted\<rparr>}"

section \<open>Membership\<close>

definition clusterJoinHandler :: "string \<Rightarrow> GoTime \<Rightarrow> Request \<Rightarrow> Node \<Rightarrow> Response \<times> Node" where
  "clusterJoinHandler env now = guarded env (\<lambda>r c.
     (case Option.bind (decode_body (rq_body r)) (\<lambda>ms. do {
        nid \<leftarrow> str_field ''node_id'' ms;
        addr \<leftarrow> str_field ''address'' ms;
        source \<leftarrow> str_field ''source'' ms;
        Some (nid, addr, source)}) of
        None \<Rightarrow> (http_error 400 (err_text ErrJson), c)
      | Some (nid0, addr, source) \<Rightarrow>
          if addr = [] then (http_error 400 ''address is required'', c)
          else (let nid = (if nid0 = [] then addr else nid0)
                in case UpsertClusterNode now \<lparr>cn_node_id = nid, cn_address = addr,
                          cn_source = fallback source ''gossip'', cn_last_seen = now\<rparr> (c_db c) of
                     (Inl e, s) \<Rightarrow> (http_error 500 (err_text e), c\<lparr>c_db := s\<rparr>)
                   | (Inr _, s) \<Rightarrow>
                       (reply_json 200 (json_map [(''status'', JStr ''joined''),
                          (''nodes'', json_list json_node (ListClusterNodes s))]),
                        RecordAudit now (rq_id r) None ''cluster'' ''join'' ''peer joined cluster''
                          [(''node_id'', JStr nid), (''address'', JStr addr)]
                          (c\<lparr>c_db := s, c_peers := UpsertPeer nid addr (c_peers c)\<rparr>)))))"

definition clusterLeaveHandler :: "string \<Rightarrow> GoTime \<Rightarrow> Request \<Rightarrow> Node \<Rightarrow> Response \<times> Node" where
  "clusterLeaveHandler env now = guarded env (\<lambda>r c.
     (case Option.bind (decode_body (rq_body r)) (str_field ''node_id'') of
        None \<Rightarrow> (http_error 400 (err_text ErrJson), c)
      | Some nid \<Rightarrow>
          if nid = [] then (http_error 400 ''node_id is required'', c)
          else (case RemoveClusterNode nid (c_db c) of
                  (Inl e, s) \<Rightarrow> (http_error 500 (err_text e), c\<lparr>c_db := s\<rparr>)
                | (Inr _, s) \<Rightarrow>
                    (reply_json 200 (json_map [(''status'', JStr ''removed'')]),
                     RecordAudit now (rq_id r) None ''cluster'' ''leave'' ''peer left cluster''
                       [(''node_id'', JStr nid)] (c\<lparr>c_db := s, c_peers := RemovePeer nid (c_peers c)\<rparr>)))))"

definition clusterNodesHandler :: "string \<Rightarrow> Request \<Rightarrow> Node \<Rightarrow> Response \<times> Node" where
  "clusterNodesHandler env = guarded env (\<lambda>r c.
     (reply_json 200 (json_map [(''nodes'', json_list json_node (ListClusterNodes (c_db c)))]), c))"

section \<open>Local events and audit records\<close>

definition reply_encoded :: "string option \<Rightarrow> Response" where
  "reply_encoded t = (case t of None \<Rightarrow> reply_empty 200
     | Some text \<Rightarrow> \<lparr>rp_status = 200, rp_headers = [], rp_body = text @ newline\<rparr>)"

text \<open>The \<open>since\<close> of the query, or the zero time when there is none or it does not parse.\<close>

definition since_of :: "Request \<Rightarrow> GoTime" where
  "since_of r =
     (let q = query_of ''since'' r
      in if q = [] then zeroTime else case time_Parse RFC3339 q of Some t \<Rightarrow> t | None \<Rightarrow> zeroTime)"

definition local_events :: "string \<Rightarrow> string \<Rightarrow> string \<Rightarrow> Request \<Rightarrow> Node \<Rightarrow> Response \<times> Node" where
  "local_events entity action env = guarded env (\<lambda>r c.
     (reply_encoded (enc_events (ListEvents
        \<lparr>ef_entity = entity, ef_action = action, ef_since = since_of r, ef_limit = 1000\<rparr> (c_db c))), c))"

definition clusterLocalAppointmentsHandler :: "string \<Rightarrow> Request \<Rightarrow> Node \<Rightarrow> Response \<times> Node" where
  "clusterLocalAppointmentsHandler = local_events ''appointment'' ''create''"

definition clusterLocalGroupsHandler :: "string \<Rightarrow> Request \<Rightarrow> Node \<Rightarrow> Response \<times> Node" where
  "clusterLocalGroupsHandler = local_events ''group'' ''create''"

definition clusterLocalGroupMembersHandler :: "string \<Rightarrow> Request \<Rightarrow> Node \<Rightarrow> Response \<times> Node" where
  "clusterLocalGroupMembersHandler = local_events ''group_member'' ''add''"

definition clusterLocalInvitationsHandler :: "string \<Rightarrow> Request \<Rightarrow> Node \<Rightarrow> Response \<times> Node" where
  "clusterLocalInvitationsHandler = local_events ''invitation'' ''status_change''"

definition clusterLocalNotificationsHandler :: "string \<Rightarrow> Request \<Rightarrow> Node \<Rightarrow> Response \<times> Node" where
  "clusterLocalNotificationsHandler = local_events ''notification'' ''create''"

definition clusterLocalUserAuditHandler :: "string \<Rightarrow> Request \<Rightarrow> Node \<Rightarrow> Response \<times> Node" where
  "clusterLocalUserAuditHandler env = guarded env (\<lambda>r c.
     (reply_encoded (enc_audits (ListAuditLogs
        \<lparr>af_component = ''auth'', af_action = ''register'', af_level = [], af_request_id = [],
         af_since = since_of r, af_limit = 0\<rparr> (c_db c))), c))"

section \<open>Raft endpoints\<close>

definition raft_health :: "Node \<Rightarrow> Response" where
  "raft_health c = reply_json 200 (json_map
     [(''node_id'', JStr (c_id c)), (''is_leader'', JBool (c_role c = Leader)),
      (''leader'', JStr (GetLeader (c_peers c))), (''term'', json_int (c_term c)),
      (''commit_index'', json_int (c_commit c)), (''last_applied'', json_int (c_applied c)),
      (''apply_error'', JStr (case c_apply_err c of None \<Rightarrow> [] | Some e \<Rightarrow> err_text e)),
      (''apply_error_index'', json_int (if c_apply_err c = None then 0 else c_apply_err_index c))])"

text \<open>The sender of a Raft message was reachable.\<close>

definition touch_sender :: "GoTime \<Rightarrow> string \<Rightarrow> Node \<Rightarrow> Node" where
  "touch_sender now nid c =
     (if nid \<noteq> [] \<and> nid \<noteq> c_id c
      then c\<lparr>c_db := upsert_node now nid
               (let addr = ResolveAddr nid (c_peers c) in if addr = [] then nid else addr) ''raft'' now (c_db c)\<rparr>
      else c)"

definition raft_request_vote :: "string \<Rightarrow> GoTime \<Rightarrow> Request \<Rightarrow> Node \<Rightarrow> Response \<times> Node" where
  "raft_request_vote env now = guarded env (\<lambda>r c.
     (case Option.bind (decode_body (rq_body r)) read_vote of
        None \<Rightarrow> (http_error 400 (err_text ErrJson), c)
      | Some req \<Rightarrow>
          (let (resp, c1) = HandleRequestVote req c
           in (reply_json 200 (json_vote_resp resp), touch_sender now (rv_candidate req) c1))))"

definition raft_append_entries :: "string \<Rightarrow> GoTime \<Rightarrow> Request \<Rightarrow> Node \<Rightarrow> Response \<times> Node" where
  "raft_append_entries env now = guarded env (\<lambda>r c.
     (case Option.bind (decode_body (rq_body r)) read_append of
        None \<Rightarrow> (http_error 400 (err_text ErrJson), c)
      | Some req \<Rightarrow>
          (let (resp, c1) = HandleAppendEntries req c
           in (reply_json 200 (json_append_resp resp), touch_sender now (ae_leader req) c1))))"

section \<open>The client side\<close>

definition post_request :: "string \<Rightarrow> string \<Rightarrow> Request" where
  "post_request secret body =
     \<lparr>rq_method = ''POST'', rq_path = [], rq_uri = [],
      rq_headers = (''Content-Type'', ''application/json'')
        # (if secret \<noteq> [] then [(''X-Cluster-Signature'', computeHMACSHA256Hex body secret)] else []),
      rq_query = [], rq_vars = [], rq_body = body, rq_user = None, rq_id = []\<rparr>"

definition success_status :: "int \<Rightarrow> bool" where
  "success_status n \<longleftrightarrow> 200 \<le> n \<and> n < 300"

definition postJSON :: "'w client \<Rightarrow> string \<Rightarrow> string \<Rightarrow> string \<Rightarrow> 'w \<Rightarrow> bool \<times> 'w" where
  "postJSON client secret url body w =
     (case client url (post_request secret body) w of
        (Inl _, w1) \<Rightarrow> (False, w1) | (Inr resp, w1) \<Rightarrow> (success_status (rp_status resp), w1))"

definition postJSONWithResponse :: "'w client \<Rightarrow> string \<Rightarrow> string \<Rightarrow> string \<Rightarrow> 'w \<Rightarrow> string option \<times> 'w" where
  "postJSONWithResponse client secret url body w =
     (case client url (post_request secret body) w of
        (Inl _, w1) \<Rightarrow> (None, w1)
      | (Inr resp, w1) \<Rightarrow> (if success_status (rp_status resp) then Some (rp_body resp) else None, w1))"

definition or_nil :: "string option \<Rightarrow> string" where
  "or_nil t = (case t of None \<Rightarrow> [] | Some s \<Rightarrow> s)"

text \<open>The calls of \<open>consensus.go\<close> over HTTP: the networks of the model, given a client.\<close>

definition append_over_http :: "'w client \<Rightarrow> string \<Rightarrow> PeerStore \<Rightarrow> 'w ae_rpc" where
  "append_over_http client secret peers pid req w =
     (case postJSONWithResponse client secret (''http://'' @ ResolveAddr pid peers @ ''/raft/append-entries'')
             (or_nil (enc_append req)) w of
        (None, w1) \<Rightarrow> (None, w1) | (Some body, w1) \<Rightarrow> (dec_append_resp body, w1))"

definition vote_over_http :: "'w client \<Rightarrow> string \<Rightarrow> PeerStore \<Rightarrow> 'w rv_rpc" where
  "vote_over_http client secret peers pid req w =
     (case postJSONWithResponse client secret (''http://'' @ ResolveAddr pid peers @ ''/raft/request-vote'')
             (or_nil (enc_vote req)) w of
        (None, w1) \<Rightarrow> (None, w1) | (Some body, w1) \<Rightarrow> (dec_vote_resp body, w1))"

section \<open>What arrives is what was sent\<close>

lemma lower_raft_keys [simp]:
  "ToLower ''term'' = ''term''" "ToLower ''index'' = ''index''" "ToLower ''event_id'' = ''event_id''"
  "ToLower ''aggregate'' = ''aggregate''" "ToLower ''aggregate_id'' = ''aggregate_id''" "ToLower ''op'' = ''op''"
  "ToLower ''ts'' = ''ts''" "ToLower ''leader_id'' = ''leader_id''"
  "ToLower ''prev_log_index'' = ''prev_log_index''" "ToLower ''prev_log_term'' = ''prev_log_term''"
  "ToLower ''entries'' = ''entries''" "ToLower ''leader_commit'' = ''leader_commit''"
  "ToLower ''success'' = ''success''" "ToLower ''match_index'' = ''match_index''"
  "ToLower ''candidate_id'' = ''candidate_id''" "ToLower ''last_log_index'' = ''last_log_index''"
  "ToLower ''last_log_term'' = ''last_log_term''" "ToLower ''pre_vote'' = ''pre_vote''"
  "ToLower ''vote_granted'' = ''vote_granted''"
  by code_simp+

lemma dec_entry_members: "entry_fine e \<Longrightarrow> dec_entry (entry_members e) = Some e"
  by (cases e) (simp add: dec_entry_def entry_members_def entry_fine_def fields)

lemma as_entries_json:
  assumes "list_all entry_fine es"
  shows "as_entries (json_list (\<lambda>e. JObj (entry_members e)) es) old = Some es"
proof -
  have "those (map (\<lambda>e. dec_entry (entry_members e)) es) = Some (map (\<lambda>e. e) es)"
    using assms by (intro those_map_Some) (simp add: dec_entry_members list_all_iff)
  then show ?thesis
    by (cases "es = []") (simp_all add: as_entries_def json_list_def struct_of_def comp_def)
qed

lemma jwf_entries: "jwf (json_list (\<lambda>e. JObj (entry_members e)) es)"
  by (simp add: json_list_def list_all_iff entry_members_def)

text \<open>A decoder of a stream reads a printed value as the decoder of a text does.\<close>

lemma decode_body_jprint: "list_all (\<lambda>(k, v). jwf v) ms \<Longrightarrow> decode_body (jprint (JObj ms)) = Some ms"
  using first_json_jprint [of "JObj ms" "[]"] by (simp add: decode_body_def struct_of_def del: jprint.simps)

lemma marshal_SomeD: "marshal fine ms = Some t \<Longrightarrow> fine \<and> t = jprint (JObj ms)"
  by (auto simp: marshal_def simp del: jprint.simps split: if_splits)

lemma read_enc_append:
  assumes "enc_append req = Some t"
  shows "append_fine req" and "Option.bind (decode_body t) read_append = Some req"
proof -
  note m = marshal_SomeD [OF assms [unfolded enc_append_def]]
  show fine: "append_fine req" using m by blast
  have "decode_body t = Some
     [(''term'', json_int (ae_term req)), (''leader_id'', JStr (ae_leader req)),
      (''prev_log_index'', json_int (ae_prev_index req)), (''prev_log_term'', json_int (ae_prev_term req)),
      (''entries'', json_list (\<lambda>e. JObj (entry_members e)) (ae_entries req)),
      (''leader_commit'', json_int (ae_commit req))]"
    unfolding conjunct2 [OF m] by (rule decode_body_jprint) (simp add: jwf_entries)
  with fine show "Option.bind (decode_body t) read_append = Some req"
    by (cases req) (simp add: read_append_def append_fine_def fields as_entries_json)
qed

lemma read_enc_vote:
  assumes "enc_vote req = Some t"
  shows "vote_fine req" and "Option.bind (decode_body t) read_vote = Some req"
proof -
  note m = marshal_SomeD [OF assms [unfolded enc_vote_def]]
  show fine: "vote_fine req" using m by blast
  have "decode_body t = Some
     ([(''term'', json_int (rv_term req)), (''candidate_id'', JStr (rv_candidate req)),
       (''last_log_index'', json_int (rv_last_index req)), (''last_log_term'', json_int (rv_last_term req))]
      @ (if rv_prevote req then [(''pre_vote'', JBool True)] else []))"
    unfolding conjunct2 [OF m] by (rule decode_body_jprint) simp
  with fine show "Option.bind (decode_body t) read_vote = Some req"
    by (cases req) (auto simp: read_vote_def vote_fine_def fields)
qed

end
