(* ===== verification/Reconcilers.thy ===== *)
theory Reconcilers
  imports ClusterHttp Services
begin

text \<open>
  The five \<open>reconciler_*.go\<close>: a leader pulls from every peer the events or audit
  records it kept, and proposes an entry for each that the leader's database lacks.
  What an event leads to is a function of the event and the database; the pull, the
  proposals and the cursor of a peer are the same in the five files. The clock is
  read for every event, so that the entries get different ids.
\<close>

section \<open>What is missing here\<close>

text \<open>\<open>None\<close> skips the event; else the result of building the entry.\<close>

type_synonym 'e repair = "GoTime \<Rightarrow> 'e \<Rightarrow> Store \<Rightarrow> LogEntry result option"

definition decode_payload :: "(members \<Rightarrow> 'p option) \<Rightarrow> string \<Rightarrow> 'p option" where
  "decode_payload read text = (if text = [] then None else Option.bind (unmarshal text) read)"

definition local_user :: "string \<Rightarrow> Store \<Rightarrow> string option" where
  "local_user name s = (case GetUserByUsername name s of Inr u \<Rightarrow> Some (u_id u) | Inl _ \<Rightarrow> None)"

definition user_repair :: "AuditLog repair" where
  "user_repair now log s =
     Option.bind (decode_payload Some (al_payload log)) (\<lambda>ms.
       let username = any_string ''username'' ms; email = any_string ''email'' ms;
           display = any_string ''display_name'' ms; hash = any_string ''password_hash'' ms
       in if blank username \<and> blank email \<or> hash = [] then None
          else if username \<noteq> [] \<and> (case GetUserByUsername username s of
                    Inr x \<Rightarrow> u_email x = email \<and> u_display_name x = display \<and> u_password_hash x = hash
                  | Inl _ \<Rightarrow> False) then None
          else Some (BuildEntryRepairEnsureUser now
            \<lparr>u_id = [], u_username = username, u_email = email, u_password_hash = hash,
             u_display_name = display, u_created_at = zeroTime, u_updated_at = zeroTime\<rparr>))"

text \<open>
  The group an event names, by its name, type and creator: \<open>Some None\<close> when it
  names none, \<open>None\<close> when it cannot be found here.
\<close>

definition local_group ::
    "(string \<Rightarrow> bool) \<Rightarrow> string option \<Rightarrow> string \<Rightarrow> string \<Rightarrow> string \<Rightarrow> Store \<Rightarrow> string option option" where
  "local_group absent gid name creator typ s =
     (case gid of
        None \<Rightarrow> Some None
      | Some g \<Rightarrow>
          if absent g then Some None
          else if blank name \<or> blank creator \<or> blank typ then None
          else Option.bind (local_user creator s) (\<lambda>cid.
            let found = FindGroupBySignature name cid typ s in if absent found then None else Some (Some found)))"

record apptPayload =
  rap_owner_username :: string
  rap_group_id :: "string option"
  rap_group_name :: string
  rap_group_creator :: string
  rap_group_type :: string
  rap_title :: string
  rap_description :: string
  rap_start :: string
  rap_end :: string
  rap_privacy :: string

definition read_apptPayload :: "members \<Rightarrow> apptPayload option" where
  "read_apptPayload ms = do {
     owner_id \<leftarrow> str_field ''owner_id'' ms;
     owner \<leftarrow> str_field ''owner_username'' ms;
     gid \<leftarrow> str_pointer ''group_id'' ms;
     name \<leftarrow> str_field ''group_name'' ms;
     creator \<leftarrow> str_field ''group_creator_username'' ms;
     typ \<leftarrow> str_field ''group_type'' ms;
     title \<leftarrow> str_field ''title'' ms;
     description \<leftarrow> str_field ''description'' ms;
     start \<leftarrow> str_field ''start'' ms;
     fin \<leftarrow> str_field ''end'' ms;
     privacy \<leftarrow> str_field ''privacy'' ms;
     Some \<lparr>rap_owner_username = owner, rap_group_id = gid, rap_group_name = name, rap_group_creator = creator,
           rap_group_type = typ, rap_title = title, rap_description = description, rap_start = start,
           rap_end = fin, rap_privacy = privacy\<rparr>}"

definition appt_repair :: "Event repair" where
  "appt_repair now ev s = do {
     p \<leftarrow> decode_payload read_apptPayload (e_payload ev);
     start \<leftarrow> time_Parse RFC3339 (rap_start p);
     fin \<leftarrow> time_Parse RFC3339 (rap_end p);
     owner \<leftarrow> (if blank (rap_owner_username p) then None else local_user (rap_owner_username p) s);
     gid \<leftarrow> local_group blank (rap_group_id p) (rap_group_name p) (rap_group_creator p) (rap_group_type p) s;
     if \<not> blank (FindAppointmentBySignature owner gid start fin (rap_title p) s) then None
     else (let a = \<lparr>a_id = [], a_title = rap_title p, a_description = rap_description p, a_owner_id = owner,
                    a_group_id = gid, a_start = start, a_end = fin, a_privacy = rap_privacy p, a_status = [],
                    a_created_at = zeroTime, a_updated_at = zeroTime, a_version = 0,
                    a_origin_node = e_origin_node ev, a_deleted = False\<rparr>
           in Some (if gid = None then BuildEntryApptCreatePersonal now owner a
                    else BuildEntryApptCreateGroup now owner a))}"

definition group_repair :: "Event repair" where
  "group_repair now ev s =
     Option.bind (decode_payload (\<lambda>ms. do {
         name \<leftarrow> str_field ''name'' ms;
         description \<leftarrow> str_field ''description'' ms;
         cid \<leftarrow> str_field ''creator_id'' ms;
         creator \<leftarrow> str_field ''creator_username'' ms;
         typ \<leftarrow> str_field ''group_type'' ms;
         Some (name, description, cid, creator, typ)}) (e_payload ev))
       (\<lambda>(name, description, cid, creator, typ).
          if name = [] then None
          else Option.bind
            (if creator \<noteq> [] then local_user creator s else if cid \<noteq> [] then Some cid else None) (\<lambda>owner.
              if FindGroupBySignature name owner typ s \<noteq> [] then None
              else Some (BuildEntryGroupCreate now
                \<lparr>g_id = [], g_name = name, g_description = description, g_created_at = zeroTime,
                 g_updated_at = zeroTime, g_creator_id = owner, g_creator_username = creator,
                 g_group_type = typ\<rparr>)))"

definition member_repair :: "Event repair" where
  "member_repair now ev s =
     Option.bind (decode_payload (\<lambda>ms. do {
         gid \<leftarrow> str_field ''group_id'' ms;
         uid \<leftarrow> str_field ''user_id'' ms;
         username \<leftarrow> str_field ''username'' ms;
         rank \<leftarrow> int_field ''rank'' ms;
         Some (gid, username, rank)}) (e_payload ev))
       (\<lambda>(gid, username, rank).
          if gid = [] \<or> blank username then None
          else Option.bind (local_user username s) (\<lambda>uid.
            if ok (GetGroupByID gid s) then Some (BuildEntryRepairEnsureGroupMember now gid uid rank) else None))"

record invitationPayload =
  rip_username :: string
  rip_status :: string
  rip_owner_username :: string
  rip_group_id :: "string option"
  rip_group_name :: string
  rip_group_creator :: string
  rip_group_type :: string
  rip_title :: string
  rip_start :: string
  rip_end :: string

definition read_invitationPayload :: "members \<Rightarrow> invitationPayload option" where
  "read_invitationPayload ms = do {
     aid \<leftarrow> str_field ''appointment_id'' ms;
     uid \<leftarrow> str_field ''user_id'' ms;
     username \<leftarrow> str_field ''username'' ms;
     status \<leftarrow> str_field ''status'' ms;
     owner \<leftarrow> str_field ''appt_owner_username'' ms;
     gid \<leftarrow> str_pointer ''appt_group_id'' ms;
     name \<leftarrow> str_field ''appt_group_name'' ms;
     creator \<leftarrow> str_field ''appt_group_creator_username'' ms;
     typ \<leftarrow> str_field ''appt_group_type'' ms;
     title \<leftarrow> str_field ''appt_title'' ms;
     start \<leftarrow> str_field ''appt_start'' ms;
     fin \<leftarrow> str_field ''appt_end'' ms;
     Some \<lparr>rip_username = username, rip_status = status, rip_owner_username = owner, rip_group_id = gid,
           rip_group_name = name, rip_group_creator = creator, rip_group_type = typ, rip_title = title,
           rip_start = start, rip_end = fin\<rparr>}"

definition nonempty :: "string \<Rightarrow> string option" where
  "nonempty t = (if t = [] then None else Some t)"

text \<open>The appointment an invitation is for, by its owner, group, times and title.\<close>

definition local_appointment :: "invitationPayload \<Rightarrow> Store \<Rightarrow> string option" where
  "local_appointment p s =
     (if rip_title p = [] \<or> rip_start p = [] \<or> rip_end p = [] then None
      else do {
        start \<leftarrow> time_Parse RFC3339 (rip_start p);
        fin \<leftarrow> time_Parse RFC3339 (rip_end p);
        owner \<leftarrow> (if blank (rip_owner_username p) then None else local_user (rip_owner_username p) s);
        gid \<leftarrow> local_group (\<lambda>g. g = []) (rip_group_id p) (rip_group_name p) (rip_group_creator p)
                 (rip_group_type p) s;
        nonempty (FindAppointmentBySignature owner gid start fin (rip_title p) s)})"

definition invitation_repair :: "Event repair" where
  "invitation_repair now ev s = do {
     p \<leftarrow> decode_payload read_invitationPayload (e_payload ev);
     uid \<leftarrow> (if blank (rip_username p) then None else local_user (rip_username p) s);
     aid \<leftarrow> local_appointment p s;
     if (case GetParticipantByAppointmentAndUser aid uid s of
           Inr x \<Rightarrow> p_status x = rip_status p | Inl _ \<Rightarrow> False) then None
     else Some (BuildEntryInvitationStatus now aid uid (rip_status p))}"

definition notification_repair :: "Event repair" where
  "notification_repair now ev s =
     Option.bind (decode_payload (\<lambda>ms. do {
         uid \<leftarrow> str_field ''user_id'' ms;
         username \<leftarrow> str_field ''username'' ms;
         typ \<leftarrow> str_field ''type'' ms;
         payload \<leftarrow> str_field ''payload'' ms;
         Some (uid, username, typ, payload)}) (e_payload ev))
       (\<lambda>(uid, username, typ, payload).
          if typ = [] \<or> payload = [] then None
          else Option.bind
            (if username \<noteq> [] then local_user username s else if uid \<noteq> [] then Some uid else None) (\<lambda>owner.
              if FindNotificationBySignature owner typ payload s \<noteq> [] then None
              else Some (BuildEntryRepairEnsureNotification now owner typ payload)))"

section \<open>Pulling from a peer\<close>

definition since_suffix :: "GoTime \<Rightarrow> string" where
  "since_suffix since = (if IsZero since then [] else ''?since='' @ fmtRFC3339 (UTC since))"

definition get_request :: "string \<Rightarrow> Request" where
  "get_request secret =
     \<lparr>rq_method = ''GET'', rq_path = [], rq_uri = [],
      rq_headers = [(''X-Cluster-Signature'', computeHMACSHA256Hex [] secret)],
      rq_query = [], rq_vars = [], rq_body = [], rq_user = None, rq_id = []\<rparr>"

text \<open>A peer that answers was seen, whatever its list is worth.\<close>

definition pull ::
    "'w client \<Rightarrow> string \<Rightarrow> (string \<Rightarrow> 'e list option) \<Rightarrow> string \<Rightarrow> GoTime \<Rightarrow> string \<Rightarrow> string \<Rightarrow> GoTime
     \<Rightarrow> Node \<times> 'w \<Rightarrow> 'e list option \<times> Node \<times> 'w" where
  "pull client secret decode path now pid addr since cw =
     (let (c, w) = cw
      in case client (''http://'' @ addr @ path @ since_suffix since) (get_request secret) w of
           (Inl _, w1) \<Rightarrow> (None, c, w1)
         | (Inr resp, w1) \<Rightarrow>
             if \<not> success_status (rp_status resp) then (None, c, w1)
             else (decode (rp_body resp),
                   c\<lparr>c_db := snd (UpsertClusterNode now \<lparr>cn_node_id = pid, cn_address = addr,
                       cn_source = ''reconciler'', cn_last_seen = now\<rparr> (c_db c))\<rparr>, w1))"

text \<open>One event: skip it, or build the entry and propose it. A failure is logged and forgotten.\<close>

definition repair_one :: "'w proposer \<Rightarrow> 'e repair \<Rightarrow> GoTime \<Rightarrow> 'e \<Rightarrow> Node \<times> 'w \<Rightarrow> Node \<times> 'w" where
  "repair_one prop repair now ev cw =
     (case repair now ev (db_of cw) of
        Some (Inr entry) \<Rightarrow> snd (prop entry cw)
      | _ \<Rightarrow> cw)"

text \<open>The events in order, the clock read anew for each.\<close>

fun repair_all :: "'w proposer \<Rightarrow> 'e repair \<Rightarrow> (nat \<Rightarrow> GoTime) \<Rightarrow> 'e list \<Rightarrow> Node \<times> 'w \<Rightarrow> Node \<times> 'w" where
  "repair_all prop repair clock [] cw = cw"
| "repair_all prop repair clock (ev # evs) cw =
     repair_all prop repair (\<lambda>i. clock (Suc i)) evs (repair_one prop repair (clock 0) ev cw)"

definition latest :: "('e \<Rightarrow> GoTime) \<Rightarrow> 'e list \<Rightarrow> GoTime" where
  "latest time evs = fold (\<lambda>ev m. if After (time ev) m then time ev else m) evs zeroTime"

text \<open>What the five reconcilers differ in: the path, the decoder, the time of an event and the repair.\<close>

record 'e Feed =
  fd_path :: string
  fd_decode :: "string \<Rightarrow> 'e list option"
  fd_time :: "'e \<Rightarrow> GoTime"
  fd_repair :: "'e repair"

definition pull_round ::
    "'w client \<Rightarrow> string \<Rightarrow> 'w proposer \<Rightarrow> 'e Feed \<Rightarrow> (nat \<Rightarrow> GoTime) \<Rightarrow> string \<Rightarrow> string \<Rightarrow> GoTime
     \<Rightarrow> Node \<times> 'w \<Rightarrow> GoTime \<times> Node \<times> 'w" where
  "pull_round client secret prop fd clock pid addr since cw =
     (case pull client secret (fd_decode fd) (fd_path fd) (clock 0) pid addr since cw of
        (None, cw1) \<Rightarrow> (since, cw1)
      | (Some evs, cw1) \<Rightarrow>
          (let m = latest (fd_time fd) evs
           in (if IsZero m then since else m, repair_all prop (fd_repair fd) (\<lambda>i. clock (Suc i)) evs cw1)))"

definition user_feed :: "AuditLog Feed" where
  "user_feed = \<lparr>fd_path = ''/cluster/local-audit/users'', fd_decode = dec_audits,
     fd_time = al_occurred_at, fd_repair = user_repair\<rparr>"

definition event_feed :: "string \<Rightarrow> Event repair \<Rightarrow> Event Feed" where
  "event_feed name repair = \<lparr>fd_path = ''/cluster/local-events/'' @ name, fd_decode = dec_events,
     fd_time = e_created_at, fd_repair = repair\<rparr>"

definition appointment_feed :: "Event Feed" where
  "appointment_feed = event_feed ''appointments'' appt_repair"

definition group_feed :: "Event Feed" where
  "group_feed = event_feed ''groups'' group_repair"

definition member_feed :: "Event Feed" where
  "member_feed = event_feed ''group-members'' member_repair"

definition invitation_feed :: "Event Feed" where
  "invitation_feed = event_feed ''invitations'' invitation_repair"

definition notification_feed :: "Event Feed" where
  "notification_feed = event_feed ''notifications'' notification_repair"

section \<open>A tick of a reconciler\<close>

text \<open>
  One peer after the other: a round changes the peer's cursor and the state. A peer
  without a cursor starts from the zero time. The clock differs from peer to peer.
\<close>

type_synonym ('p, 'w) round =
  "(nat \<Rightarrow> GoTime) \<Rightarrow> string \<Rightarrow> string \<Rightarrow> 'p \<Rightarrow> Node \<times> 'w \<Rightarrow> 'p \<times> Node \<times> 'w"

fun each_peer ::
    "('p, 'w) round \<Rightarrow> (string \<Rightarrow> nat \<Rightarrow> GoTime) \<Rightarrow> string list \<Rightarrow> (string \<Rightarrow> 'p) \<Rightarrow> Node \<times> 'w
     \<Rightarrow> (string \<Rightarrow> 'p) \<times> Node \<times> 'w" where
  "each_peer round clock [] cur cw = (cur, cw)"
| "each_peer round clock (pid # pids) cur cw =
     (let addr = ResolveAddr pid (c_peers (fst cw))
      in if pid = [] \<or> pid = c_id (fst cw) \<or> addr = [] then each_peer round clock pids cur cw
         else (let (p, cw1) = round (clock pid) pid addr (cur pid) cw
               in each_peer round clock pids (cur(pid := p)) cw1))"

definition reconciler_tick ::
    "('p, 'w) round \<Rightarrow> (string \<Rightarrow> nat \<Rightarrow> GoTime) \<Rightarrow> (string \<Rightarrow> 'p) \<Rightarrow> Node \<times> 'w
     \<Rightarrow> (string \<Rightarrow> 'p) \<times> Node \<times> 'w" where
  "reconciler_tick round clock cur cw =
     (if c_role (fst cw) \<noteq> Leader then (cur, cw)
      else each_peer round clock (ListPeers (c_peers (fst cw))) cur cw)"

definition StartUserReconciler ::
    "'w client \<Rightarrow> string \<Rightarrow> 'w proposer \<Rightarrow> (string \<Rightarrow> nat \<Rightarrow> GoTime) \<Rightarrow> (string \<Rightarrow> GoTime) \<Rightarrow> Node \<times> 'w
     \<Rightarrow> (string \<Rightarrow> GoTime) \<times> Node \<times> 'w" where
  "StartUserReconciler client env prop clock cur cw =
     (let secret = TrimSpace env in if secret = [] then (cur, cw)
      else reconciler_tick (pull_round client secret prop user_feed) clock cur cw)"

definition event_reconciler ::
    "Event Feed \<Rightarrow> 'w client \<Rightarrow> string \<Rightarrow> 'w proposer \<Rightarrow> (string \<Rightarrow> nat \<Rightarrow> GoTime) \<Rightarrow> (string \<Rightarrow> GoTime)
     \<Rightarrow> Node \<times> 'w \<Rightarrow> (string \<Rightarrow> GoTime) \<times> Node \<times> 'w" where
  "event_reconciler fd client env prop clock cur cw =
     (let secret = TrimSpace env in if secret = [] then (cur, cw)
      else reconciler_tick (pull_round client secret prop fd) clock cur cw)"

definition StartAppointmentReconciler where
  "StartAppointmentReconciler client = event_reconciler appointment_feed client"

definition StartInvitationReconciler where
  "StartInvitationReconciler client = event_reconciler invitation_feed client"

definition StartNotificationReconciler where
  "StartNotificationReconciler client = event_reconciler notification_feed client"

text \<open>
  The groups' reconciler pulls twice from a peer, the groups and then the members,
  with a cursor for each. A second clock goes with the second pull.
\<close>

definition group_round ::
    "'w client \<Rightarrow> string \<Rightarrow> 'w proposer \<Rightarrow> (string \<Rightarrow> nat \<Rightarrow> GoTime) \<Rightarrow> (GoTime \<times> GoTime, 'w) round" where
  "group_round client secret prop clock2 clock pid addr cur cw =
     (let (g, cw1) = pull_round client secret prop group_feed clock pid addr (fst cur) cw;
          (m, cw2) = pull_round client secret prop member_feed (clock2 pid) pid addr (snd cur) cw1
      in ((g, m), cw2))"

definition StartGroupReconciler ::
    "'w client \<Rightarrow> string \<Rightarrow> 'w proposer \<Rightarrow> (string \<Rightarrow> nat \<Rightarrow> GoTime) \<Rightarrow> (string \<Rightarrow> nat \<Rightarrow> GoTime)
     \<Rightarrow> (string \<Rightarrow> GoTime \<times> GoTime) \<Rightarrow> Node \<times> 'w \<Rightarrow> (string \<Rightarrow> GoTime \<times> GoTime) \<times> Node \<times> 'w" where
  "StartGroupReconciler client env prop clock2 clock cur cw =
     (let secret = TrimSpace env in if secret = [] then (cur, cw)
      else reconciler_tick (group_round client secret prop clock2) clock cur cw)"

end
