(* ===== verification/Server.thy ===== *)
theory Server
  imports ApiAppts Reconcilers
begin

text \<open>
  The routes of \<open>NewAPI\<close>, \<open>RegisterRaftHTTP\<close> and \<open>RegisterClusterHTTP\<close> and what a
  server does with a request: the middleware runs on a request that has a route.
  Which route a request has is decided by the router library, a parameter: it is
  given the methods and templates in order and yields a position with the values
  of the variables, or the response to a request without a route.
\<close>

type_synonym router = "(string \<times> string) list \<Rightarrow> Request \<Rightarrow> Response + nat \<times> (string \<times> string) list"

type_synonym 'w mux_route = "string \<times> string \<times> 'w handler"

definition on_node :: "(Request \<Rightarrow> Node \<Rightarrow> Response \<times> Node) \<Rightarrow> 'w handler" where
  "on_node h r cw = (let (resp, c) = h r (fst cw) in (resp, c, snd cw))"

definition public_routes :: "'w Api \<Rightarrow> GoTime \<Rightarrow> 'w mux_route list" where
  "public_routes api now =
     [(''POST'', ''/register'', handleRegister api now), (''POST'', ''/login'', handleLogin api now)]"

definition api_routes :: "'w Api \<Rightarrow> GoTime \<Rightarrow> 'w mux_route list" where
  "api_routes api now =
     [(''POST'', ''/api/groups'', handleCreateGroup api now),
      (''PUT'', ''/api/groups/{groupID}'', handleUpdateGroup api now),
      (''DELETE'', ''/api/groups/{groupID}'', handleDeleteGroup now),
      (''POST'', ''/api/groups/{groupID}/members'', handleAddMember api now),
      (''PUT'', ''/api/groups/{groupID}/members/{userID}'', handleUpdateMember api now),
      (''DELETE'', ''/api/groups/{groupID}/members/{userID}'', handleRemoveMember api now),
      (''POST'', ''/api/appointments'', handleCreateAppointment api now),
      (''PUT'', ''/api/appointments/{appointmentID}'', handleUpdateAppointment api now),
      (''DELETE'', ''/api/appointments/{appointmentID}'', handleDeleteAppointment api now),
      (''GET'', ''/api/agenda'', handleGetUserAgenda now),
      (''GET'', ''/api/groups/{groupID}/agenda'', handleGetGroupAgenda now),
      (''GET'', ''/api/notifications'', handleListNotifications),
      (''GET'', ''/api/notifications/unread'', handleListUnreadNotifications),
      (''POST'', ''/api/notifications/{id}/read'', handleMarkNotificationRead now),
      (''POST'', ''/api/appointments/{appointmentID}/accept'', handleAcceptInvitation api now),
      (''POST'', ''/api/appointments/{appointmentID}/reject'', handleRejectInvitation api now),
      (''GET'', ''/api/appointments/{appointmentID}/my-status'', handleGetMyParticipationStatus),
      (''GET'', ''/api/me'', handleMe),
      (''PUT'', ''/api/me/profile'', handleUpdateProfile api now),
      (''PUT'', ''/api/me/password'', handleUpdatePassword api now),
      (''GET'', ''/api/groups'', handleListMyGroups),
      (''GET'', ''/api/groups/{groupID}'', handleGetGroupDetail),
      (''GET'', ''/api/appointments/{appointmentID}'', handleGetAppointmentDetails)]
     @ (if api_audit_token api = [] then []
        else [(''GET'', ''/api/admin/audit/logs'', handleListAuditLogs api now)])"

definition raft_routes :: "string \<Rightarrow> GoTime \<Rightarrow> 'w mux_route list" where
  "raft_routes env now =
     [(''GET'', ''/raft/health'', on_node (\<lambda>r c. (raft_health c, c))),
      (''POST'', ''/raft/request-vote'', on_node (raft_request_vote env now)),
      (''POST'', ''/raft/append-entries'', on_node (raft_append_entries env now))]"

definition cluster_routes :: "string \<Rightarrow> GoTime \<Rightarrow> 'w mux_route list" where
  "cluster_routes env now =
     [(''POST'', ''/cluster/join'', on_node (clusterJoinHandler env now)),
      (''POST'', ''/cluster/leave'', on_node (clusterLeaveHandler env now)),
      (''GET'', ''/cluster/nodes'', on_node (clusterNodesHandler env)),
      (''GET'', ''/cluster/local-audit/users'', on_node (clusterLocalUserAuditHandler env)),
      (''GET'', ''/cluster/local-events/appointments'', on_node (clusterLocalAppointmentsHandler env)),
      (''GET'', ''/cluster/local-events/groups'', on_node (clusterLocalGroupsHandler env)),
      (''GET'', ''/cluster/local-events/group-members'', on_node (clusterLocalGroupMembersHandler env)),
      (''GET'', ''/cluster/local-events/invitations'', on_node (clusterLocalInvitationsHandler env)),
      (''GET'', ''/cluster/local-events/notifications'', on_node (clusterLocalNotificationsHandler env))]"

text \<open>The handlers of \<open>/api\<close> stand behind the check of the token.\<close>

definition server_routes :: "'w Api \<Rightarrow> string \<Rightarrow> GoTime \<Rightarrow> 'w mux_route list" where
  "server_routes api env now =
     public_routes api now
     @ map (\<lambda>(m, t, h). (m, t, protected (api_lib api) now h)) (api_routes api now)
     @ raft_routes env now @ cluster_routes env now"

text \<open>
  A request enters with the new request id; the middleware sends it to the leader
  or to its handler. The response carries the request id.
\<close>

definition serve ::
    "'w client \<Rightarrow> router \<Rightarrow> 'w Api \<Rightarrow> string \<Rightarrow> GoTime \<Rightarrow> string \<Rightarrow> Request \<Rightarrow> Node \<times> 'w
     \<Rightarrow> Response \<times> Node \<times> 'w" where
  "serve client route api env now rid r cw =
     (let rts = server_routes api env now
      in case route (map (\<lambda>(m, t, h). (m, t)) rts) r of
           Inl resp \<Rightarrow> (resp, cw)
         | Inr (i, vars) \<Rightarrow>
             if i < length rts
             then (let (resp, cw1) = LeaderWriteMiddleware client (snd (snd (rts ! i)))
                          (r\<lparr>rq_vars := vars, rq_id := rid, rq_user := None\<rparr>) cw
                   in (resp\<lparr>rp_headers := (''X-Request-Id'', rid) # rp_headers resp\<rparr>, cw1))
             else (http_error 404 ''404 page not found'', cw))"

end
