(* ===== verification/Writes.thy ===== *)
theory Writes
  imports StoreInv Services
begin

text \<open>
  What the API writes to the database of its own node: the tables of the log stay
  as they are and the constraints of the others keep holding. Every method of the
  storage and of the services is such a write; the lemmas follow the composition of
  the code, so that they apply from the last write back to the first.
\<close>

definition writes :: "Store \<Rightarrow> Store \<Rightarrow> bool" where
  "writes s t \<longleftrightarrow> raft_tables t = raft_tables s \<and> (store_ok s \<longrightarrow> store_ok t)"

named_theorems writing

lemma writes_refl [writing]: "writes s s"
  by (simp add: writes_def)

lemma writesI: "writes s t \<Longrightarrow> raft_tables u = raft_tables t \<Longrightarrow> (store_ok t \<Longrightarrow> store_ok u) \<Longrightarrow> writes s u"
  by (auto simp: writes_def)

lemma writes_users [writing]:
  "writes s t \<Longrightarrow> writes s (UpdatePassword now uid hash t)"
  "writes s t \<Longrightarrow> writes s (snd (CreateUser now u t))"
  "writes s t \<Longrightarrow> writes s (snd (UpdateUser now u t))"
  by (erule writesI; simp add: store_ok_users)+

lemma writes_groups [writing]:
  "writes s t \<Longrightarrow> writes s (snd (CreateGroup now g t))"
  "writes s t \<Longrightarrow> writes s (AddGroupMember now gid uid rank by t)"
  "writes s t \<Longrightarrow> writes s (UpdateGroup now g t)"
  "writes s t \<Longrightarrow> writes s (DeleteGroup gid t)"
  "writes s t \<Longrightarrow> writes s (UpdateGroupMember gid uid rank t)"
  "writes s t \<Longrightarrow> writes s (snd (RemoveGroupMember gid uid t))"
  by (erule writesI; simp add: store_ok_groups)+

lemma raft_tables_plain [simp]:
  "raft_tables (MarkNotificationRead now nid t) = raft_tables t"
  "raft_tables (AppendAudit now l t) = raft_tables t"
  "raft_tables (snd (UpsertClusterNode now n t)) = raft_tables t"
  "raft_tables (snd (RemoveClusterNode nid t)) = raft_tables t"
  by (simp_all add: MarkNotificationRead_def AppendAudit_def UpsertClusterNode_def RemoveClusterNode_def Let_def
      raft_tables_def)

lemma store_ok_plain:
  "store_ok t \<Longrightarrow> store_ok (AppendAudit now l t)"
  "store_ok t \<Longrightarrow> store_ok (snd (UpsertClusterNode now n t))"
  "store_ok t \<Longrightarrow> store_ok (snd (RemoveClusterNode nid t))"
  by (simp_all add: AppendAudit_def UpsertClusterNode_def RemoveClusterNode_def Let_def store_ok_def
      events_ok_def)

lemma writes_rest [writing]:
  "writes s t \<Longrightarrow> writes s (snd (AddParticipant now p t))"
  "writes s t \<Longrightarrow> writes s (snd (CreateAppointment now a t))"
  "writes s t \<Longrightarrow> writes s (UpdateAppointment now a t)"
  "writes s t \<Longrightarrow> writes s (DeleteAppointment now aid t)"
  "writes s t \<Longrightarrow> writes s (UpdateParticipantStatus now aid uid status t)"
  "writes s t \<Longrightarrow> writes s (snd (AddNotification now n t))"
  "writes s t \<Longrightarrow> writes s (MarkNotificationRead now nid t)"
  "writes s t \<Longrightarrow> writes s (snd (CreateGroupAppointment now a t))"
  "writes s t \<Longrightarrow> writes s (AppendAudit now l t)"
  "writes s t \<Longrightarrow> writes s (snd (UpsertClusterNode now m t))"
  "writes s t \<Longrightarrow> writes s (snd (RemoveClusterNode nid t))"
  by (erule writesI; simp add: store_ok_appts store_ok_notes store_ok_CreateGroupAppointment store_ok_plain)+

section \<open>The services\<close>

text \<open>A case distinction on a result with its state, with the state named by the call.\<close>

lemmas result_case = case_prod_beta

lemma writes_groupService [writing]:
  "writes s t \<Longrightarrow> writes s (snd (groupService_CreateGroup now owner name description t))"
  "writes s t \<Longrightarrow> writes s (snd (groupService_UpdateGroup now owner gid name description t))"
  "writes s t \<Longrightarrow> writes s (snd (groupService_DeleteGroup owner gid t))"
  "writes s t \<Longrightarrow> writes s (snd (groupService_AddMember now actor gid uid rank t))"
  "writes s t \<Longrightarrow> writes s (snd (groupService_UpdateMember actor gid uid rank t))"
  "writes s t \<Longrightarrow> writes s (snd (groupService_RemoveMember actor gid uid t))"
  by (auto simp: groupService_CreateGroup_def groupService_UpdateGroup_def groupService_DeleteGroup_def
      groupService_AddMember_def groupService_UpdateMember_def groupService_RemoveMember_def
      Let_def result_case intro!: writing split: sum.split option.split)

lemma writes_appointmentService [writing]:
  "writes s t \<Longrightarrow> writes s (snd (answer_invitation now status typ uid aid t))"
  "writes s t \<Longrightarrow> writes s (snd (create_directly now owner a t))"
  by (auto simp: answer_invitation_def create_directly_def Let_def result_case intro!: writing
      split: sum.split option.split)

end
