(* ===== verification/ProposeInv.thy ===== *)
theory ProposeInv
  imports ReplicaProps Writes ClusterHttp
begin

text \<open>
  What a proposal leaves of the rest of the node: the constraints of the tables and
  the length of the log. Together with \<open>node_ok\<close> this is the contract the API and the
  reconcilers rely on, stated as the locale \<open>consensus\<close>.
\<close>

section \<open>Tables and log under the moves of a leader\<close>

definition quiet :: "LogEntry list \<Rightarrow> Node \<Rightarrow> bool" where
  "quiet log c \<longleftrightarrow> store_ok (c_db c) \<and> c_log c = log"

lemma store_ok_raft [simp]:
  "store_ok (s\<lparr>tb_log := l\<rparr>) = store_ok s" "store_ok (s\<lparr>tb_meta := ms\<rparr>) = store_ok s"
  "store_ok (s\<lparr>tb_applied := as\<rparr>) = store_ok s"
  by (simp_all add: store_ok_def events_ok_def)

lemma store_ok_persist [simp]:
  "store_ok (persistMeta k v s) = store_ok s" "store_ok (persistMetaString k t s) = store_ok s"
  by (simp_all add: persistMeta_def persistMetaString_def)

lemma store_ok_audit [simp]: "store_ok (c_db (audit a m fs c)) = store_ok (c_db c)"
  by (simp add: audit_def RecordAudit_def AppendAudit_def store_ok_def events_ok_def)

lemma quiet_audit [simp]: "quiet log (audit a m fs c) = quiet log c"
  by (simp add: quiet_def)

lemma quiet_frames [simp]:
  "quiet log (set_term t c) = quiet log c" "quiet log (set_commit i c) = quiet log c"
  "quiet log (follow x c) = quiet log c" "quiet log (c\<lparr>c_role := r\<rparr>) = quiet log c"
  "quiet log (c\<lparr>c_hb_failures := n\<rparr>) = quiet log c" "quiet log (set_progress pid i c) = quiet log c"
  "quiet log (back_off pid c) = quiet log c"
  by (simp_all add: quiet_def set_term_def set_commit_def follow_def set_progress_def back_off_def Let_def)

lemma quiet_moves [simp]:
  "quiet log (stepDown own t c) = quiet log c" "quiet log (note_heartbeat b c) = quiet log c"
  "quiet log (recalculateCommitIndex c) = quiet log c"
  by (simp_all add: stepDown_def note_heartbeat_def recalculateCommitIndex_def advance_commit_def
      Let_def)

lemma quiet_peer:
  "quiet log (fst cw) \<Longrightarrow> quiet log (fst (snd (heartbeat_peer rpc req pid cw)))"
  by (auto simp: heartbeat_peer_def split: prod.splits option.splits)

lemma quiet_replicate_peer:
  "quiet log (fst cw) \<Longrightarrow> quiet log (fst (snd (replicate_peer n rpc term commit lastIdx pid cw)))"
proof (induction n arbitrary: cw)
  case 0
  then show ?case by (cases cw) simp
next
  case (Suc n)
  obtain c w where cw: "cw = (c, w)" by fastforce
  show ?case
    using Suc by (auto simp: cw Let_def split: prod.splits option.splits)
qed

lemma quiet_broadcast:
  assumes "quiet log (fst cw)"
  shows "quiet log (fst (snd (broadcast_heartbeat rpc order term commit cw)))"
    and "quiet log (fst (snd (broadcast_entries rpc order term commit cw)))"
proof -
  have h: "quiet log (fst (snd (run_peers (heartbeat_peer rpc req) order cw)))" for req
    by (rule run_peers_inv [where I = "\<lambda>s. quiet log (fst s)"]) (use assms quiet_peer in auto)
  have r: "quiet log (fst (snd (run_peers (replicate_peer 5 rpc term commit lastIdx) order cw)))" for lastIdx
    by (rule run_peers_inv [where I = "\<lambda>s. quiet log (fst s)"]) (use assms quiet_replicate_peer in auto)
  show "quiet log (fst (snd (broadcast_heartbeat rpc order term commit cw)))"
    "quiet log (fst (snd (broadcast_entries rpc order term commit cw)))"
    using h r by (simp_all add: broadcast_heartbeat_def broadcast_entries_def Let_def case_prod_beta)
qed

lemma quiet_retry: "quiet log (fst cw) \<Longrightarrow> quiet log (fst (replicate_retry rpc orders term cw))"
proof (induction orders arbitrary: cw)
  case (Cons order orders)
  have "quiet log (fst (snd (broadcast_entries rpc order term (c_commit (fst cw)) cw)))"
    using Cons.prems by (rule quiet_broadcast)
  with Cons show ?case by (auto split: prod.splits bool.splits)
qed simp

lemma quiet_apply_entry: "quiet log c \<Longrightarrow> quiet log (snd (apply_entry (NewRaftApplier now) e c))"
proof -
  assume q: "quiet log c"
  obtain r s where f: "NewRaftApplier now e (c_db c) = (r, s)" by fastforce
  have "store_ok s" "tb_log s = log"
    using q store_ok_applier [of "c_db c" now e] raft_tables_applier [of now e "c_db c"] f
    by (simp_all add: quiet_def raft_tables_def)
  then show ?thesis
    using q f by (auto simp: apply_entry_def record_applied_def RecordAppliedEvent_def mark_applied_def
        clear_apply_err_def set_applied_def quiet_def split: sum.splits bool.splits)
qed

lemma quiet_apply_entries: "quiet log c \<Longrightarrow> quiet log (snd (apply_entries (NewRaftApplier now) es c))"
proof (induction es arbitrary: c)
  case (Cons e es)
  then show ?case
    using quiet_apply_entry [OF Cons.prems, of now e] by (auto split: prod.splits option.splits)
qed simp

lemma quiet_applyCommitted: "quiet log c \<Longrightarrow> quiet log (snd (applyCommitted (Some (NewRaftApplier now)) c))"
  by (simp add: applyCommitted_def quiet_apply_entries)

lemma quiet_heartbeat_case:
  "quiet log c \<Longrightarrow> quiet log (fst (heartbeat_case rpc (Some (NewRaftApplier now)) order (c, w)))"
  using quiet_broadcast(1) [of log "(c, w)" rpc order "c_term c" "c_commit c"]
  by (auto simp: heartbeat_case_def Let_def quiet_applyCommitted split: prod.splits)

section \<open>Room in the log\<close>

text \<open>A node in a good state that can take \<open>n\<close> more proposals before its index is used up.\<close>

definition room :: "nat \<Rightarrow> Node \<Rightarrow> bool" where
  "room n c \<longleftrightarrow> node_ok c \<and> store_ok (c_db c) \<and> max_index (c_log c) + int n \<le> max64"

lemma room_audit [simp]: "room n (audit a m fs c) = room n c"
  by (simp add: room_def)

lemma max_index_append: "max_index (appendLog e log) \<le> max (max_index log) (le_index e)"
proof -
  have "le_index x \<le> max (max_index log) (le_index e)" if "x \<in> set (appendLog e log)" for x
    using that max_index_bound [of x log] by (auto simp: appendLog_def)
  moreover have "appendLog e log \<noteq> []" by (simp add: appendLog_def)
  ultimately show ?thesis by (simp add: max_index_def [of "appendLog e log"])
qed

text \<open>A proposal takes up one index.\<close>

lemma room_replicateAndCommit:
  assumes "ae_rpc_ok rpc" "room (Suc n) c"
  shows "room n (fst (replicateAndCommit rpc (Some (NewRaftApplier now)) orders
           (e\<lparr>le_term := c_term c, le_index := nextIndex (c_log c)\<rparr>) (c, w)))"
proof -
  let ?e = "e\<lparr>le_term := c_term c, le_index := nextIndex (c_log c)\<rparr>"
  let ?c1 = "set_log (appendLog ?e (c_log c)) c"
  have ok: "node_ok c" and wf: "wf_log (c_log c)" and max: "max_index (c_log c) < max64"
    using assms(2) by (simp_all add: room_def node_ok_def)
  have node: "node_ok (fst (replicateAndCommit rpc (Some (NewRaftApplier now)) orders ?e (c, w)))"
    using assms(1) ok nextIndex_fresh [OF wf max] by (intro raft_applier.node_ok_replicateAndCommit) simp_all
  have "quiet (appendLog ?e (c_log c)) ?c1"
    using assms(2) by (simp add: quiet_def set_log_def room_def)
  then have "quiet (appendLog ?e (c_log c)) (fst (replicate_retry rpc (take 5 orders) (le_term ?e) (?c1, w)))"
    by (intro quiet_retry) simp
  then have q: "quiet (appendLog ?e (c_log c)) (fst (replicateAndCommit rpc (Some (NewRaftApplier now)) orders ?e (c, w)))"
    by (auto simp: replicateAndCommit_def Let_def quiet_applyCommitted split: prod.splits)
  have "max_index (appendLog ?e (c_log c)) \<le> max_index (c_log c) + 1"
    using max_index_append [of ?e "c_log c"] nextIndex_fresh(1) [OF wf max] by simp
  with node q assms(2) show ?thesis by (simp add: room_def quiet_def)
qed

lemma room_less: "room (Suc n) c \<Longrightarrow> room n c"
  by (simp add: room_def)

lemma room_heartbeat_case:
  assumes "ae_rpc_ok rpc" "room n c"
  shows "room n (fst (heartbeat_case rpc (Some (NewRaftApplier now)) order (c, w)))"
proof -
  let ?c = "fst (heartbeat_case rpc (Some (NewRaftApplier now)) order (c, w))"
  have "node_ok (fst (snd (broadcast_heartbeat rpc order (c_term c) (c_commit c) (c, w))))"
    using assms by (intro node_ok_broadcast) (simp_all add: room_def)
  then have "node_ok ?c"
    using assms by (auto simp: heartbeat_case_def Let_def room_def raft_applier.node_ok_applyCommitted
        node_ok_note_heartbeat split: prod.splits)
  moreover have "quiet (c_log c) ?c"
    using assms(2) by (intro quiet_heartbeat_case) (simp add: quiet_def room_def)
  ultimately show ?thesis using assms(2) by (simp add: room_def quiet_def)
qed

lemma room_waitForApplied:
  assumes "\<And>f c. f \<in> set background \<Longrightarrow> room n c \<Longrightarrow> room n (f c)" "room n c"
  shows "room n (snd (waitForApplied target background c))"
  using assms
proof (induction background arbitrary: c)
  case Nil
  then show ?case by (subst waitForApplied.simps) (simp split: option.splits)
next
  case (Cons g gs)
  then show ?case by (subst waitForApplied.simps) (simp split: option.splits)
qed

section \<open>The contract of a proposal\<close>

text \<open>
  What the API and the reconcilers may rely on: a node that does not lead refuses and
  stays as it is, a proposal keeps the node in a good state and takes one index, an
  acknowledged one left the node leading, and the node's own writes keep it good too.
\<close>

locale consensus =
  fixes propose :: "'w proposer" and good :: "nat \<Rightarrow> Node \<Rightarrow> bool"
  assumes less: "good (Suc n) c \<Longrightarrow> good n c"
    and submit: "good (Suc n) (fst cw) \<Longrightarrow> good n (fst (snd (propose e cw)))"
    and refuses: "c_role (fst cw) \<noteq> Leader \<Longrightarrow> propose e cw = (Inl (ErrMsg ''not leader''), cw)"
    and acknowledged: "fst (propose e cw) = Inr () \<Longrightarrow> c_role (fst (snd (propose e cw))) = Leader"
    and local_write: "good n c \<Longrightarrow> writes (c_db c) s \<Longrightarrow> good n (c\<lparr>c_db := s\<rparr>)"
    and gossip: "good n c \<Longrightarrow> (peers_ok (c_peers c) \<Longrightarrow> peers_ok p) \<Longrightarrow> good n (c\<lparr>c_peers := p\<rparr>)"

text \<open>The network is HTTP; between two polls of \<open>waitForApplied\<close> the main loop sends heartbeats.\<close>

definition heartbeats ::
    "'w ae_rpc \<Rightarrow> GoTime \<Rightarrow> (string list \<times> 'w) list \<Rightarrow> (Node \<Rightarrow> Node) list" where
  "heartbeats rpc now turns =
     map (\<lambda>(order, w) c. fst (heartbeat_case rpc (Some (NewRaftApplier now)) order (c, w))) turns"

definition propose_over_http ::
    "'w client \<Rightarrow> string \<Rightarrow> PeerStore \<Rightarrow> GoTime \<Rightarrow> string list list \<Rightarrow> (string list \<times> 'w) list \<Rightarrow> 'w proposer" where
  "propose_over_http client secret peers now orders turns =
     (let rpc = append_over_http client secret peers
      in Propose rpc (Some (NewRaftApplier now)) orders (heartbeats rpc now turns))"

lemma as_int_int64: "as_int j old = Some v \<Longrightarrow> is_int64 old \<Longrightarrow> is_int64 v"
  by (auto simp: as_int_def parseInt64_def split: json.splits option.splits if_splits)

lemma int_field_int64: "int_field k ms = Some v \<Longrightarrow> is_int64 v"
proof -
  have "field as_int k old ms = Some v \<Longrightarrow> is_int64 old \<Longrightarrow> is_int64 v" for old
    by (induction as_int k old ms rule: field.induct) (auto split: if_splits option.splits dest: as_int_int64)
  moreover have "is_int64 0" by (simp add: is_int64_def min64_def max64_def)
  ultimately show "int_field k ms = Some v \<Longrightarrow> is_int64 v" by (simp add: int_field_def)
qed

text \<open>Whatever a peer answers, the numbers that were decoded are 64-bit integers.\<close>

lemma ae_rpc_ok_http: "ae_rpc_ok (append_over_http client secret peers)"
  by (auto simp: ae_rpc_ok_def append_over_http_def dec_append_resp_def case_prod_beta bind_eq_Some_conv
      dest: int_field_int64 split: option.splits)

lemma waitForApplied_leads: "fst (waitForApplied target background c) = Inr () \<Longrightarrow>
    c_role (snd (waitForApplied target background c)) = Leader"
proof (induction background arbitrary: c)
  case Nil
  then show ?case
    by (subst (asm) waitForApplied.simps, subst waitForApplied.simps)
      (auto simp: poll_applied_def split: if_splits)
next
  case (Cons g gs)
  then show ?case
    by (subst (asm) waitForApplied.simps, subst waitForApplied.simps)
      (auto simp: poll_applied_def split: if_splits)
qed

lemma room_Propose:
  assumes "room (Suc n) (fst cw)"
  shows "room n (fst (snd (propose_over_http client secret peers now orders turns e cw)))"
proof -
  let ?rpc = "append_over_http client secret peers"
  let ?e = "e\<lparr>le_term := c_term (fst cw), le_index := nextIndex (c_log (fst cw))\<rparr>"
  have "room n (fst (replicateAndCommit ?rpc (Some (NewRaftApplier now)) orders ?e cw))"
    using room_replicateAndCommit [OF ae_rpc_ok_http assms, of client secret peers now orders e "snd cw"] by simp
  then have "room n (snd (waitForApplied (le_index ?e) (heartbeats ?rpc now turns)
      (fst (replicateAndCommit ?rpc (Some (NewRaftApplier now)) orders ?e cw))))"
    by (rule room_waitForApplied [rotated]) (auto simp: heartbeats_def intro: room_heartbeat_case ae_rpc_ok_http)
  then show ?thesis
    using room_less [OF assms] by (auto simp: propose_over_http_def Propose_def Let_def split: prod.splits)
qed

lemma meta_ok_tables: "raft_tables s = raft_tables (c_db c) \<Longrightarrow> meta_ok (c\<lparr>c_db := s\<rparr>) = meta_ok c"
  by (simp add: meta_ok_def raft_tables_def)

interpretation raft_consensus: consensus "propose_over_http client secret peers now orders turns" room
proof
  fix n c and s :: Store
  assume "room n c" "writes (c_db c) s"
  then show "room n (c\<lparr>c_db := s\<rparr>)"
    by (simp add: room_def writes_def node_ok_def indices_ok_def meta_ok_tables counters_ok_def progress_ok_def)
      (simp add: raft_tables_def)
next
  fix n c p
  assume "room n c" "peers_ok (c_peers c) \<Longrightarrow> peers_ok p"
  then show "room n (c\<lparr>c_peers := p\<rparr>)"
    by (simp add: room_def node_ok_def indices_ok_def meta_ok_def counters_ok_def progress_ok_def)
next
  fix e cw
  assume "fst (propose_over_http client secret peers now orders turns e cw) = Inr ()"
  then show "c_role (fst (snd (propose_over_http client secret peers now orders turns e cw))) = Leader"
    using waitForApplied_leads
    by (auto simp: propose_over_http_def Propose_def Let_def case_prod_beta split: if_splits)
next
  show "c_role (fst cw) \<noteq> Leader \<Longrightarrow>
      propose_over_http client secret peers now orders turns e cw = (Inl (ErrMsg ''not leader''), cw)" for e cw
    by (simp add: propose_over_http_def Propose_def Let_def)
qed (erule room_less, erule room_Propose)

end
