(* ===== verification/ApiInv.thy ===== *)
theory ApiInv
  imports ProposeInv Server
begin

text \<open>
  Every request of the API keeps the node in a good state and takes at most one index
  of the log. The lemmas follow the code: one for each way the handlers go on, one
  for each service that proposes, one for each handler, and the routes together.
\<close>

lemma set_db_parts [simp]: "fst (set_db s cw) = (fst cw)\<lparr>c_db := s\<rparr>" "snd (set_db s cw) = snd cw"
  by (simp_all add: set_db_def)

lemma RecordAudit_write:
  "RecordAudit now rid actor component action message info c
   = c\<lparr>c_db := c_db (RecordAudit now rid actor component action message info c)\<rparr>"
  "writes s (c_db c) \<Longrightarrow> writes s (c_db (RecordAudit now rid actor component action message info c))"
  by (simp_all add: RecordAudit_def writing)

text \<open>A server wired to the proposer, or to none.\<close>

definition wired :: "'w proposer \<Rightarrow> 'w proposer option \<Rightarrow> bool" where
  "wired propose prop \<longleftrightarrow> prop = None \<or> prop = Some propose"

text \<open>Behind the middleware, the routes other than those of Raft.\<close>

definition node_routes :: "'w Api \<Rightarrow> string \<Rightarrow> GoTime \<Rightarrow> 'w mux_route list" where
  "node_routes api env now =
     public_routes api now @ map (\<lambda>(m, t, h). (m, t, protected (api_lib api) now h)) (api_routes api now)
     @ cluster_routes env now"

context consensus
begin

section \<open>The ways a handler goes on\<close>

definition keeps :: "nat \<Rightarrow> 'r \<times> Node \<times> 'w \<Rightarrow> bool" where
  "keeps n x \<longleftrightarrow> good n (fst (snd x))"

lemma keeps_pair: "good n (fst cw) \<Longrightarrow> keeps n (r, cw)"
  by (simp add: keeps_def)

lemma keeps_if: "keeps n a \<Longrightarrow> keeps n b \<Longrightarrow> keeps n (if c then a else b)"
  by simp

lemma keeps_option: "keeps n a \<Longrightarrow> (\<And>y. keeps n (f y)) \<Longrightarrow> keeps n (case x of None \<Rightarrow> a | Some y \<Rightarrow> f y)"
  by (simp split: option.split)

lemma keeps_sum: "(\<And>e. keeps n (f e)) \<Longrightarrow> (\<And>y. keeps n (g y)) \<Longrightarrow> keeps n (case x of Inl e \<Rightarrow> f e | Inr y \<Rightarrow> g y)"
  by (simp split: sum.split)

lemma keeps_bind:
  "keeps n x \<Longrightarrow> (\<And>r cw1. good n (fst cw1) \<Longrightarrow> keeps n (f r cw1)) \<Longrightarrow> keeps n (case x of (r, cw1) \<Rightarrow> f r cw1)"
  by (simp add: keeps_def case_prod_beta)

lemma keeps_made:
  "(\<And>a ps. keeps n (f a ps)) \<Longrightarrow> keeps n (case x of (a :: Appointment, ps :: Participant list option) \<Rightarrow> f a ps)"
  by (simp add: case_prod_beta)

lemma keeps_stored:
  "writes s0 (snd x) \<Longrightarrow> (\<And>r s. writes s0 s \<Longrightarrow> keeps n (f r s)) \<Longrightarrow> keeps n (case x of (r, s) \<Rightarrow> f r s)"
  by (simp add: case_prod_beta)

lemma good_RecordAudit: "good n c \<Longrightarrow> good n (RecordAudit now rid actor component action message info c)"
  by (subst RecordAudit_write(1)) (intro local_write RecordAudit_write(2) writes_refl)

lemma good_audited: "good n (fst cw) \<Longrightarrow> good n (fst (audited now rid actor component action message info cw))"
  by (simp add: audited_def good_RecordAudit)

lemma good_set_db: "good n (fst cw) \<Longrightarrow> writes (db_of cw) s \<Longrightarrow> good n (fst (set_db s cw))"
  by (simp add: local_write)

lemma keeps_with_body: "good n (fst cw) \<Longrightarrow> (\<And>x. keeps n (k x)) \<Longrightarrow> keeps n (with_body rd r cw k)"
  by (simp add: with_body_def keeps_pair split: option.split)

lemma keeps_with_user: "good n (fst cw) \<Longrightarrow> (\<And>x. keeps n (k x)) \<Longrightarrow> keeps n (with_user r cw k)"
  by (simp add: with_user_def keeps_pair split: option.split)

lemma keeps_with_appt: "good n (fst cw) \<Longrightarrow> (\<And>x y. keeps n (k x y)) \<Longrightarrow> keeps n (with_appt r cw k)"
  by (simp add: with_appt_def Let_def keeps_with_user keeps_pair)

lemma good_propose_built:
  assumes "good (Suc n) (fst cw)" "wired propose prop"
  shows "good n (fst (snd (propose_built prop built cw)))"
  using assms(2) unfolding wired_def
  by (elim disjE) (simp_all add: propose_built_def submit [OF assms(1)] less [OF assms(1)] split: sum.split)

lemma keeps_via_log:
  assumes "good (Suc n) (fst cw)" "wired propose (api_prop api)" "\<And>cw1. good n (fst cw1) \<Longrightarrow> keeps n (k cw1)"
  shows "keeps n (via_log api built failed cw k)"
  using assms(3) good_propose_built [OF assms(1,2)] less [OF assms(1)]
  by (simp add: via_log_def case_prod_beta keeps_pair split: sum.split)

lemmas keeps_rules = keeps_pair keeps_if keeps_option keeps_sum keeps_with_body keeps_with_user keeps_with_appt
  keeps_via_log good_audited good_set_db writing

text \<open>A value of the state with room for one proposal also has a place for none.\<close>

lemma keepsI: "good (Suc n) (fst cw) \<Longrightarrow> (good n (fst cw) \<Longrightarrow> keeps n x) \<Longrightarrow> keeps n x"
  using less by blast

section \<open>Services that propose\<close>

lemma keeps_services:
  assumes "good (Suc n) (fst cw)" "wired propose prop"
  shows "keeps n (CreateGroupAppointment_service prop now owner a cw)"
    and "keeps n (CreatePersonalAppointment prop now owner a cw)"
    and "keeps n (UpdateAppointment_service prop now owner a cw)"
    and "keeps n (DeleteAppointment_service prop now owner aid cw)"
proof -
  note g = less [OF assms(1)] and p = good_propose_built [OF assms]
  have built: "keeps n (propose_built prop built cw)" for built
    using p by (simp add: keeps_def)
  show "keeps n (CreateGroupAppointment_service prop now owner a cw)"
    unfolding CreateGroupAppointment_service_def Let_def case_prod_beta
    by (intro keeps_rules g p)
  show "keeps n (UpdateAppointment_service prop now owner a cw)"
    unfolding UpdateAppointment_service_def Let_def case_prod_beta
    by (intro keeps_rules g p)
  show "keeps n (DeleteAppointment_service prop now owner aid cw)"
    unfolding DeleteAppointment_service_def Let_def
    by (intro keeps_rules g built)
  show "keeps n (CreatePersonalAppointment prop now owner a cw)"
    unfolding CreatePersonalAppointment_def Let_def
    by (intro keeps_if keeps_pair keeps_sum keeps_bind built g
        keeps_stored [OF writes_appointmentService(2) [OF writes_refl]] good_set_db
        keeps_stored [OF writes_rest(6) [OF writes_refl]]; assumption)
qed

section \<open>The handlers\<close>

lemma keeps_accounts:
  assumes "good (Suc n) (fst cw)" "wired propose (api_prop api)"
  shows "keeps n (handleRegister api now r cw)" "keeps n (handleLogin api now r cw)"
    "keeps n (handleMe r cw)" "keeps n (handleUpdateProfile api now r cw)"
    "keeps n (handleUpdatePassword api now r cw)"
  unfolding handleRegister_def handleLogin_def handleMe_def handleUpdateProfile_def handleUpdatePassword_def
    registered_def profile_done_def password_done_def Let_def case_prod_beta
  by (intro keeps_rules assms less [OF assms(1)]; assumption)+

lemma keeps_group_handlers:
  assumes "good (Suc n) (fst cw)" "wired propose (api_prop api)"
  shows "keeps n (handleCreateGroup api now r cw)" "keeps n (handleUpdateGroup api now r cw)"
    "keeps n (handleDeleteGroup now r cw)" "keeps n (handleAddMember api now r cw)"
    "keeps n (handleUpdateMember api now r cw)" "keeps n (handleRemoveMember api now r cw)"
    "keeps n (handleListMyGroups r cw)" "keeps n (handleGetGroupDetail r cw)"
  unfolding handleCreateGroup_def handleUpdateGroup_def handleDeleteGroup_def handleAddMember_def
    handleUpdateMember_def handleRemoveMember_def handleListMyGroups_def handleGetGroupDetail_def
    Let_def case_prod_beta
  by (intro keeps_rules assms less [OF assms(1)]; assumption)+

lemma keeps_appointment_handlers:
  assumes "good (Suc n) (fst cw)" "wired propose (api_prop api)"
  shows "keeps n (handleCreateAppointment api now r cw)" "keeps n (handleUpdateAppointment api now r cw)"
    "keeps n (handleDeleteAppointment api now r cw)"
    "keeps n (handleAcceptInvitation api now r cw)" "keeps n (handleRejectInvitation api now r cw)"
proof -
  note g = less [OF assms(1)] and s = keeps_services [OF assms]
  show "keeps n (handleAcceptInvitation api now r cw)" "keeps n (handleRejectInvitation api now r cw)"
    unfolding handleAcceptInvitation_def handleRejectInvitation_def answer_handler_def appt_audit_def
      AcceptInvitation_def RejectInvitation_def Let_def case_prod_beta
    by (intro keeps_rules assms g; assumption)+
  show "keeps n (handleUpdateAppointment api now r cw)" "keeps n (handleDeleteAppointment api now r cw)"
    unfolding handleUpdateAppointment_def handleDeleteAppointment_def appt_audit_def
    by (intro keeps_bind keeps_sum keeps_pair keeps_with_appt keeps_with_body good_audited g s; assumption)+
  show "keeps n (handleCreateAppointment api now r cw)"
    unfolding handleCreateAppointment_def Let_def
    by (intro keeps_bind keeps_sum keeps_made keeps_if keeps_pair keeps_with_body good_audited g s; assumption)
qed

lemma keeps_readers:
  assumes "good n (fst cw)"
  shows "keeps n (handleGetUserAgenda now r cw)" "keeps n (handleGetGroupAgenda now r cw)"
    "keeps n (handleListNotifications r cw)" "keeps n (handleListUnreadNotifications r cw)"
    "keeps n (handleMarkNotificationRead now r cw)" "keeps n (handleGetAppointmentDetails r cw)"
    "keeps n (handleGetMyParticipationStatus r cw)" "keeps n (handleListAuditLogs api now r cw)"
  unfolding handleGetUserAgenda_def handleGetGroupAgenda_def handleListNotifications_def
    handleListUnreadNotifications_def handleMarkNotificationRead_def handleGetAppointmentDetails_def
    handleGetMyParticipationStatus_def handleListAuditLogs_def Let_def case_prod_beta
  by (intro keeps_rules assms)+

section \<open>The routes\<close>

lemma keeps_api_routes:
  assumes "good (Suc n) (fst cw)" "wired propose (api_prop api)" "(m, t, h) \<in> set (api_routes api now)"
  shows "keeps n (h r cw)"
  using assms(3)
  by (auto simp: api_routes_def keeps_accounts [OF assms(1,2)] keeps_group_handlers [OF assms(1,2)]
      keeps_appointment_handlers [OF assms(1,2)] keeps_readers [OF less [OF assms(1)]] split: if_splits)

lemma keeps_protected: "good n (fst cw) \<Longrightarrow> (\<And>r. keeps n (h r cw)) \<Longrightarrow> keeps n (protected lib now h r cw)"
  by (simp add: protected_def Let_def keeps_pair split: option.split sum.split)

lemma keeps_guarded:
  "good n c \<Longrightarrow> (\<And>r. good n (snd (h r c))) \<Longrightarrow> good n (snd (guarded env h r c))"
  by (simp add: guarded_def split: option.split)

lemma keeps_on_node: "good n (snd (h r (fst cw))) \<Longrightarrow> keeps n (on_node h r cw)"
  by (simp add: on_node_def keeps_def case_prod_beta Let_def)

lemma keeps_cluster_routes:
  assumes "good n (fst cw)" "(m, t, h) \<in> set (cluster_routes env now)"
  shows "keeps n (h r cw)"
proof -
  let ?c = "fst cw"
  have up: "good n (?c\<lparr>c_db := s, c_peers := p\<rparr>)"
    if "writes (c_db ?c) s" "peers_ok (c_peers ?c) \<Longrightarrow> peers_ok p" for s p
    using gossip [OF local_write [OF assms(1) that(1)], of p] that(2) by simp
  have join: "good n (snd (clusterJoinHandler env now r ?c))" and leave: "good n (snd (clusterLeaveHandler env now r ?c))" for r
    unfolding clusterJoinHandler_def clusterLeaveHandler_def
    by (rule keeps_guarded [OF assms(1)];
        auto simp: assms(1) Let_def case_prod_beta peers_ok_ops split: option.split sum.split
          intro!: good_RecordAudit local_write [OF assms(1)] up writing)+
  have events: "good n (snd (local_events e a env r ?c))" for e a r
    unfolding local_events_def by (rule keeps_guarded [OF assms(1)]) (simp add: assms(1))
  have audits: "good n (snd (clusterLocalUserAuditHandler env r ?c))"
    and nodes: "good n (snd (clusterNodesHandler env r ?c))" for r
    unfolding clusterLocalUserAuditHandler_def clusterNodesHandler_def
    by (rule keeps_guarded [OF assms(1)]; simp add: assms(1))+
  note locals = clusterLocalAppointmentsHandler_def clusterLocalGroupsHandler_def
    clusterLocalGroupMembersHandler_def clusterLocalInvitationsHandler_def clusterLocalNotificationsHandler_def
  have "list_all (\<lambda>(m, t, h). \<forall>r. keeps n (h r cw)) (cluster_routes env now)"
    by (simp add: cluster_routes_def locals keeps_on_node join leave events audits nodes)
  with assms(2) show ?thesis by (auto simp only: list_all_iff)
qed

lemma keeps_middleware:
  "good n (fst cw) \<Longrightarrow> (\<And>r. keeps n (h r cw)) \<Longrightarrow> keeps n (LeaderWriteMiddleware client h r cw)"
  by (simp add: LeaderWriteMiddleware_def keeps_def Let_def case_prod_beta split: route.split)

lemma keeps_routes:
  assumes "good (Suc n) (fst cw)" "wired propose (api_prop api)" "(m, t, h) \<in> set (node_routes api env now)"
  shows "keeps n (LeaderWriteMiddleware client h r cw)"
proof (rule keeps_middleware [OF less [OF assms(1)]])
  fix r
  consider "(m, t, h) \<in> set (public_routes api now)"
    | h' where "(m, t, h') \<in> set (api_routes api now)" "h = protected (api_lib api) now h'"
    | "(m, t, h) \<in> set (cluster_routes env now)"
    using assms(3) by (auto simp: node_routes_def)
  then show "keeps n (h r cw)"
  proof cases
    case 1
    then show ?thesis by (auto simp: public_routes_def keeps_accounts [OF assms(1,2)])
  next
    case 2
    then show ?thesis by (simp add: keeps_protected less [OF assms(1)] keeps_api_routes [OF assms(1,2)])
  next
    case 3
    then show ?thesis by (rule keeps_cluster_routes [OF less [OF assms(1)]])
  qed
qed

section \<open>The reconcilers\<close>

text \<open>A reconciler takes one index for every event it repairs.\<close>

lemma good_repair_one:
  assumes "good (Suc n) (fst cw)"
  shows "good n (fst (repair_one propose repair now ev cw))"
  by (simp add: repair_one_def submit [OF assms] less [OF assms] split: option.split sum.split)

lemma good_repair_all: "good (length evs + n) (fst cw) \<Longrightarrow> good n (fst (repair_all propose repair clock evs cw))"
proof (induction evs arbitrary: cw clock)
  case (Cons ev evs)
  then show ?case by (simp add: good_repair_one)
qed simp

end

end
