(* ===== verification/StoreProps.thy ===== *)
theory StoreProps
  imports StoreInv
begin

text \<open>
  What the methods of the database promise: the constraints under the log, conflicts
  as overlaps, group appointments with a participation for every member, what
  deletion leaves behind, and the form of the ids.
\<close>

section \<open>Constraints\<close>

text \<open>
  C11. Whatever sequence of log entries a node applies to a new database, at whatever
  times, no two users share an id, a username or an address, no two groups an id, no
  user is twice a member of a group or twice a participant of an appointment, and the
  ids of appointments and notifications are unique.
\<close>

theorem applied_log_keeps_constraints:
  "store_ok (fold apply_op ops migrate)
   \<and> distinct (map u_id (tb_users (fold apply_op ops migrate)))
   \<and> distinct (map u_username (tb_users (fold apply_op ops migrate)))
   \<and> distinct (map member_key (tb_members (fold apply_op ops migrate)))
   \<and> distinct (map part_key (tb_parts (fold apply_op ops migrate)))
   \<and> distinct (map a_id (tb_appts (fold apply_op ops migrate)))"
proof -
  have "store_ok (fold apply_op ops migrate)"
    by (rule log_ops.run_inv) (rule store_ok_migrate)
  then show ?thesis
    by (simp add: store_ok_def users_ok_def unique_on_def)
qed

section \<open>Ids\<close>

definition lower_hex :: "char \<Rightarrow> bool" where
  "lower_hex c \<longleftrightarrow> is_digit c \<or> 97 \<le> byte_of c \<and> byte_of c \<le> 102"

lemma lower_hex_char: "n < 16 \<Longrightarrow> lower_hex (hex_char n)"
  by (auto simp: lower_hex_def hex_char_def is_digit_def byte_of_def)

lemma lower_hex_encode: "\<forall>b \<in> set bs. 0 \<le> b \<and> b < 256 \<Longrightarrow> list_all lower_hex (hex_encode bs)"
proof (induction bs)
  case (Cons b bs)
  then have "nat (b div 16) < 16" "nat (b mod 16) < 16" by auto
  with Cons show ?case by (simp add: hex_encode_def hex_byte_def lower_hex_char)
qed (simp add: hex_encode_def)

text \<open>
  C19. Every derived id is 32 lower-case hexadecimal digits, and user names that
  differ in letter case or in surrounding space get the same id.
\<close>

theorem ids_are_hex:
  "length (stableID kind key) = 32 \<and> list_all lower_hex (stableID kind key)
   \<and> UserIDFromUsername (ToLower (TrimSpace name)) = UserIDFromUsername name"
proof -
  have "list_all lower_hex (stableID kind key)"
    unfolding stableID_def Let_def
    by (rule lower_hex_encode) (auto dest: in_set_takeD sha1_sum_bound)
  moreover have "lower_char (lower_char c) = lower_char c" for c
    by (simp add: lower_char_def byte_of_def)
  then have "ToLower (ToLower s) = ToLower s" for s by (simp add: ToLower_def)
  moreover have "is_space (lower_char c) = is_space c" for c
    by (simp add: lower_char_def is_space_def byte_of_def)
  then have drop: "dropWhile is_space (map lower_char s) = map lower_char (dropWhile is_space s)" for s
    by (induction s) simp_all
  have "TrimSpace (ToLower s) = ToLower (TrimSpace s)" for s
    by (simp add: TrimSpace_def ToLower_def drop rev_map)
  moreover have "TrimSpace (TrimSpace s) = TrimSpace s" for s
  proof -
    have "dropWhile is_space (rev (dropWhile is_space (rev (dropWhile is_space s))))
        = rev (dropWhile is_space (rev (dropWhile is_space s)))"
    proof (cases "dropWhile is_space s")
      case (Cons c cs)
      then have c: "\<not> is_space c" by (metis hd_dropWhile list.distinct(1) list.sel(1))
      then have "rev (dropWhile is_space (rev (c # cs))) = c # rev (dropWhile is_space (rev cs))
          \<or> rev (dropWhile is_space (rev (c # cs))) = [c]"
        by (auto simp: dropWhile_append)
      with c Cons show ?thesis by auto
    qed (simp only: rev.simps dropWhile.simps)
    then show ?thesis by (simp add: TrimSpace_def dropWhile_idem comp_def)
  qed
  ultimately show ?thesis by (simp add: UserIDFromUsername_def stableID_def)
qed

section \<open>Conflicts\<close>

lemma join_parts_nonempty:
  "join_parts P Q s \<noteq> [] \<longleftrightarrow>
     (\<exists>a \<in> set (tb_appts s). P a \<and> (\<exists>p \<in> set (tb_parts s). p_appointment_id p = a_id a \<and> Q p))"
  by (auto simp: join_parts_def filter_empty_conv)

text \<open>
  C20. \<open>HasConflict\<close> answers exactly whether the user takes part, accepted or
  automatically, in an appointment that is not deleted and whose half-open interval
  of seconds meets the one asked for; touching intervals are no conflict.
\<close>

theorem HasConflict_iff_overlap:
  "HasConflict uid start fin s \<longleftrightarrow>
     (\<exists>a p. a \<in> set (tb_appts s) \<and> p \<in> set (tb_parts s) \<and> \<not> a_deleted a
        \<and> p_appointment_id p = a_id a \<and> p_user_id p = uid \<and> p_status p \<in> {StatusAccepted, StatusAuto}
        \<and> Unix start < a_end a \<and> a_start a < Unix fin)"
proof -
  have "HasConflict uid start fin s \<longleftrightarrow> join_parts (\<lambda>a. \<not> a_deleted a \<and> overlaps a start fin) (busy uid) s \<noteq> []"
    by (simp only: HasConflict_def length_greater_0_conv)
  then show ?thesis by (auto simp only: join_parts_nonempty busy_def overlaps_def not_le insert_iff empty_iff de_Morgan_disj)
qed

section \<open>Groups\<close>


text \<open>What the loop over the members adds to the tables.\<close>

lemma invite_member_adds:
  "invite_member now g a m s tx = Inr (p, tx') \<Longrightarrow>
     p_user_id p = m_user_id m \<and> p_appointment_id p = a_id a \<and> invite_status g a m s = Inr (p_status p)
     \<and> tb_parts tx' = tb_parts tx @ [p] \<and> tb_appts tx' = tb_appts tx
     \<and> (\<exists>n. tb_notes tx' = tb_notes tx @ [n] \<and> n_user_id n = m_user_id m)"
  by (auto simp: invite_member_def insert_participant_def insert_notification_def Let_def
      split: sum.splits if_splits)

lemma invite_members_adds:
  "invite_members now g a ms s tx = Inr (ps, tx') \<Longrightarrow>
     map p_user_id ps = map m_user_id ms \<and> map p_appointment_id ps = replicate (length ms) (a_id a)
     \<and> map (\<lambda>p. Inr (p_status p)) ps = map (\<lambda>m. invite_status g a m s) ms
     \<and> tb_parts tx' = tb_parts tx @ ps \<and> tb_appts tx' = tb_appts tx
     \<and> (\<exists>ns. tb_notes tx' = tb_notes tx @ ns \<and> map n_user_id ns = map m_user_id ms)"
proof (induction ms arbitrary: tx ps)
  case (Cons m ms)
  from Cons.prems obtain p tx1 qs where p: "invite_member now g a m s tx = Inr (p, tx1)"
    and qs: "invite_members now g a ms s tx1 = Inr (qs, tx')" and ps: "ps = p # qs"
    by (auto split: sum.splits)
  obtain ns where "tb_notes tx' = tb_notes tx1 @ ns \<and> map n_user_id ns = map m_user_id ms"
    using Cons.IH [OF qs] by blast
  moreover obtain n where "tb_notes tx1 = tb_notes tx @ [n] \<and> n_user_id n = m_user_id m"
    using invite_member_adds [OF p] by blast
  ultimately have "tb_notes tx' = tb_notes tx @ n # ns \<and> map n_user_id (n # ns) = map m_user_id (m # ms)"
    by simp
  then show ?case using Cons.IH [OF qs] invite_member_adds [OF p] by (auto simp: ps)
qed simp

text \<open>
  C22. A group appointment is created whole or not at all: an error leaves the database
  as it was; otherwise the appointment is added with exactly one participation and
  one notification for each member of the group, in the order of the members, each
  with the status the rank rules give it.
\<close>

theorem CreateGroupAppointment_whole:
  "case CreateGroupAppointment now a s of
     (Inl e, t) \<Rightarrow> t = s
   | (Inr (b, ps), t) \<Rightarrow>
       (\<exists>gid g ns. a_group_id a = Some gid \<and> GetGroupByID gid s = Inr g
          \<and> b = a\<lparr>a_id := appointment_id a s, a_created_at := now, a_updated_at := now\<rparr>
          \<and> tb_appts t = tb_appts s @ [appt_row now b] \<and> tb_parts t = tb_parts s @ ps
          \<and> tb_notes t = tb_notes s @ ns
          \<and> map p_user_id ps = map m_user_id (GetGroupMembers gid s)
          \<and> map n_user_id ns = map m_user_id (GetGroupMembers gid s)
          \<and> map p_appointment_id ps = replicate (length ps) (a_id b)
          \<and> map (\<lambda>p. Inr (p_status p)) ps = map (\<lambda>m. invite_status g b m s) (GetGroupMembers gid s))"
proof -
  have append: "tb_appts (AppendEvent now e s') = tb_appts s'" "tb_parts (AppendEvent now e s') = tb_parts s'"
    "tb_notes (AppendEvent now e s') = tb_notes s'" for e s'
    by (simp_all add: AppendEvent_def)
  have len: "length ps = length ms" if "map p_user_id ps = map m_user_id ms" for ps and ms :: "GroupMember list"
    using that by (metis length_map)
  show ?thesis
    by (auto simp: CreateGroupAppointment_def Let_def append dest!: invite_members_adds split: option.split sum.split)
      (metis len)
qed

section \<open>Creating an appointment from the log\<close>

lemma find_new_appt:
  assumes "filter P (tb_appts s) = []" "P r"
  shows "filter P (tb_appts s @ [r]) = [r]"
  using assms by simp

lemma appt_rows_AppendEvent [simp]: "tb_appts (AppendEvent now e s) = tb_appts s" "tb_users (AppendEvent now e s) = tb_users s"
  "tb_parts (AppendEvent now e s) = tb_parts s"
  by (simp_all add: AppendEvent_def)

text \<open>The owner joins once: a second time the participation is there, or the same constraint is in the way.\<close>

lemma join_owner_again:
  assumes "join_owner now aid owner s = (Inr (), s1)"
  shows "join_owner now' aid owner s1 = (Inr (), s1)"
proof (cases "ok (GetParticipantByAppointmentAndUser aid owner s)")
  case True
  with assms show ?thesis by (auto simp: join_owner_def done_ok_def)
next
  case False
  then have none: "find (\<lambda>p. part_key p = (aid, owner)) (tb_parts s) = None"
    by (auto simp: GetParticipantByAppointmentAndUser_def split: option.splits)
  let ?p = "\<lambda>t. (participant aid owner StatusAccepted False)
      \<lparr>p_id := participant_id aid owner, p_created_at := t, p_updated_at := t\<rparr>"
  have key: "part_key (?p t) = (aid, owner)" for t by (simp add: part_key_def participant_def)
  have blank: "blank (p_id (participant aid owner StatusAccepted False))" by (simp add: participant_def)
  have add: "AddParticipant t (participant aid owner StatusAccepted False) s = insert_participant (?p t) s" for t
    using blank by (simp add: AddParticipant_def participant_def)
  show ?thesis
  proof (cases "taken p_id (participant_id aid owner) (tb_parts s)")
    case True
    then have "insert_participant (?p t) s = (Inl (ErrUnique ''participants.id''), s)" for t
      by (simp add: insert_participant_def)
    with False assms add show ?thesis by (auto simp: join_owner_def tolerate_def)
  next
    case fresh: False
    have "\<not> taken part_key (aid, owner) (tb_parts s)"
      using none by (auto simp: taken_def find_None_iff)
    with fresh key have "insert_participant (?p now) s = (Inr (), s\<lparr>tb_parts := tb_parts s @ [?p now]\<rparr>)"
      by (simp add: insert_participant_def)
    with False assms add have "s1 = s\<lparr>tb_parts := tb_parts s @ [?p now]\<rparr>"
      by (simp add: join_owner_def tolerate_def)
    then have "find (\<lambda>p. part_key p = (aid, owner)) (tb_parts s1) \<noteq> None"
      using key [of now] by (auto simp: find_None_iff simp del: part_key_def)
    then have "ok (GetParticipantByAppointmentAndUser aid owner s1)"
      by (auto simp: GetParticipantByAppointmentAndUser_def)
    then show ?thesis by (simp add: join_owner_def done_ok_def)
  qed
qed

text \<open>The rows that match a payload, and the row its creation adds.\<close>

definition same_signature :: "apptCreatePayload \<Rightarrow> ApptRow \<Rightarrow> bool" where
  "same_signature p a \<longleftrightarrow> a_owner_id a = ac_owner_id p \<and> a_group_id a = None \<and> a_start a = Unix (ac_start p)
     \<and> a_end a = Unix (ac_end p) \<and> a_title a = ac_title p \<and> \<not> a_deleted a"

definition payload_appt :: "apptCreatePayload \<Rightarrow> Appointment" where
  "payload_appt p = new_appt (ac_title p) (ac_description p) (ac_owner_id p) None (ac_start p) (ac_end p)
     (ac_privacy p) StatusAccepted"

definition created_row :: "GoTime \<Rightarrow> apptCreatePayload \<Rightarrow> Store \<Rightarrow> ApptRow" where
  "created_row now p s = appt_row now ((payload_appt p)\<lparr>a_id := appointment_id (payload_appt p) s,
     a_created_at := now, a_updated_at := now\<rparr>)"

lemma find_signature:
  "FindAppointmentBySignature (ac_owner_id p) None (ac_start p) (ac_end p) (ac_title p) s
   = (case sort_key (\<lambda>a. - t_ns (a_created_at a)) (filter (same_signature p) (tb_appts s)) of
        [] \<Rightarrow> [] | a # _ \<Rightarrow> a_id a)"
  by (simp add: FindAppointmentBySignature_def same_signature_def [abs_def])

lemma derived_id_not_Nil [simp]: "AppointmentIDFromSignature u g t1 t2 title \<noteq> []"
  by (simp add: AppointmentIDFromSignature_def)

lemma payload_appt_id [simp]: "appointment_id (payload_appt p) s \<noteq> []"
proof -
  have "blank (a_id (payload_appt p))" by (simp add: payload_appt_def new_appt_def)
  then show ?thesis by (simp add: appointment_id_def Let_def)
qed

lemma created_row_props [simp]:
  "same_signature p (created_row now p s)" "a_id (created_row now p s) = appointment_id (payload_appt p) s"
proof -
  show "same_signature p (created_row now p s)" "a_id (created_row now p s) = appointment_id (payload_appt p) s"
    by (simp_all add: same_signature_def created_row_def appt_row_def payload_appt_def new_appt_def)
qed

text \<open>A creation without a matching row adds one, or fails on the id.\<close>

lemma create_personal_fresh:
  assumes "filter (same_signature p) (tb_appts s) = []" and "\<not> taken a_id (appointment_id (payload_appt p) s) (tb_appts s)"
  shows "\<exists>s1. tb_appts s1 = tb_appts s @ [created_row now p s] \<and> tb_users s1 = tb_users s
     \<and> tb_parts s1 = tb_parts s \<and> apply_create_personal now p s = join_owner now (appointment_id (payload_appt p) s) (ac_owner_id p) s1"
proof -
  define a' where "a' = (payload_appt p)\<lparr>a_id := appointment_id (payload_appt p) s, a_created_at := now, a_updated_at := now\<rparr>"
  define s1 where "s1 = snd (CreateAppointment now (payload_appt p) s)"
  have "CreateAppointment now (payload_appt p) s = (Inr a', s1)"
    using assms(2) by (simp add: CreateAppointment_def Let_def a'_def s1_def)
  moreover have "tb_appts s1 = tb_appts s @ [created_row now p s]" "tb_users s1 = tb_users s" "tb_parts s1 = tb_parts s"
    using assms(2) by (simp_all add: s1_def CreateAppointment_def Let_def created_row_def)
  ultimately show ?thesis
    using assms(1)
    by (intro exI [of _ s1]) (simp add: apply_create_personal_def find_signature payload_appt_def a'_def)
qed

lemma join_owner_appts [simp]: "tb_appts (snd (join_owner now aid owner s)) = tb_appts s"
  "tb_users (snd (join_owner now aid owner s)) = tb_users s"
  by (auto simp: join_owner_def done_ok_def tolerate_def AddParticipant_def insert_participant_def Let_def
      split: prod.splits sum.splits if_splits)

text \<open>
  Creating an appointment from the log is idempotent: applied a second time, at any
  later time, the same payload succeeds and changes nothing.
\<close>

theorem create_personal_idempotent:
  assumes "\<not> taken a_id [] (tb_appts s)" and "apply_create_personal now p s = (Inr (), s1)"
  shows "apply_create_personal now' p s1 = (Inr (), s1)"
proof -
  define found where "found t = FindAppointmentBySignature (ac_owner_id p) None (ac_start p) (ac_end p) (ac_title p) t" for t
  have again: "apply_create_personal now' p s1 = (Inr (), s1)"
    if "found s1 \<noteq> []" "join_owner now (found s1) (ac_owner_id p) t = (Inr (), s1)" for t
    using that join_owner_again [OF that(2)] by (simp add: apply_create_personal_def found_def)
  show ?thesis
  proof (cases "found s = []")
    case False
    then have "join_owner now (found s) (ac_owner_id p) s = (Inr (), s1)"
      using assms(2) by (simp add: apply_create_personal_def found_def)
    moreover from this have "tb_appts s1 = tb_appts s" by (metis join_owner_appts(1) snd_conv)
    then have "found s1 = found s" by (simp add: found_def find_signature)
    ultimately show ?thesis using again False by metis
  next
    case True
    have none: "filter (same_signature p) (tb_appts s) = []"
    proof (rule ccontr)
      assume "filter (same_signature p) (tb_appts s) \<noteq> []"
      then obtain a as where as: "sort_key (\<lambda>a. - t_ns (a_created_at a)) (filter (same_signature p) (tb_appts s)) = a # as"
        by (metis list.exhaust set_empty set_sort)
      then have "a \<in> set (filter (same_signature p) (tb_appts s))" by (metis list.set_intros(1) set_sort)
      moreover have "a_id a = []" using True as by (simp add: found_def find_signature)
      ultimately show False using assms(1) by (force simp: taken_def)
    qed
    have fresh: "\<not> taken a_id (appointment_id (payload_appt p) s) (tb_appts s)"
    proof
      assume "taken a_id (appointment_id (payload_appt p) s) (tb_appts s)"
      then have "fst (apply_create_personal now p s) = Inl (ErrUnique ''appointments.id'')"
        using none by (simp add: apply_create_personal_def find_signature CreateAppointment_def Let_def payload_appt_def)
      with assms(2) show False by simp
    qed
    obtain s2 where s2: "tb_appts s2 = tb_appts s @ [created_row now p s]"
      "apply_create_personal now p s = join_owner now (appointment_id (payload_appt p) s) (ac_owner_id p) s2"
      using create_personal_fresh [OF none fresh] by blast
    then have "tb_appts s1 = tb_appts s @ [created_row now p s]"
      using assms(2) by (metis join_owner_appts(1) snd_conv)
    then have "found s1 = appointment_id (payload_appt p) s"
      using none by (simp add: found_def find_signature)
    then show ?thesis
      using again [of s2] s2(2) assms(2) payload_appt_id by metis
  qed
qed

lemma update_where_append: "update_where P f (xs @ ys) = update_where P f xs @ update_where P f ys"
  by (simp add: update_where_def)

definition sample_payload :: apptCreatePayload where
  "sample_payload = \<lparr>ac_title = ''standup'', ac_description = [], ac_owner_id = ''u1'',
     ac_start = unixTime 1000, ac_end = unixTime 1600, ac_privacy = ''full''\<rparr>"

definition sample_tables :: Store where
  "sample_tables = migrate\<lparr>
     tb_appts := [appt_row zeroTime ((payload_appt sample_payload)\<lparr>a_id := ''a1''\<rparr>)],
     tb_parts := [(participant ''a1'' ''u1'' StatusAccepted False)\<lparr>p_id := ''p1''\<rparr>]\<rparr>"

theorem create_personal_idempotent_witness:
  "apply_create_personal (unixTime 7) sample_payload sample_tables = (Inr (), sample_tables)"
proof (rule create_personal_idempotent [of sample_tables "unixTime 5"])
  show "\<not> taken a_id [] (tb_appts sample_tables)" by code_simp
  show "apply_create_personal (unixTime 5) sample_payload sample_tables = (Inr (), sample_tables)" by code_simp
qed

text \<open>
  A deleted appointment cannot be created again. The row stays under its id, which
  depends on the owner's name, the times and the title alone: a later creation with
  the same data fails on the id, the node takes that error for harmless and counts
  the entry as applied, and the user still has no such appointment.
\<close>

theorem deleted_appointment_blocks_creation:
  assumes "filter (same_signature p) (tb_appts s) = []"
    and "\<not> taken a_id (appointment_id (payload_appt p) s) (tb_appts s)"
    and "apply_create_personal now p s = (Inr (), s1)"
    and "s2 = DeleteAppointment now1 (appointment_id (payload_appt p) s) s1"
    and "le_op e = OpApptCreatePersonal"
  shows "apply_create_personal now2 p s2 = (Inl (ErrUnique ''appointments.id''), s2)
    \<and> isIgnorableApplyError e (ErrUnique ''appointments.id'')
    \<and> \<not> ok (GetAppointmentByID (appointment_id (payload_appt p) s) s2)"
proof -
  let ?id = "appointment_id (payload_appt p) s"
  obtain s0 where s0: "tb_appts s0 = tb_appts s @ [created_row now p s]" "tb_users s0 = tb_users s"
    and run: "apply_create_personal now p s = join_owner now ?id (ac_owner_id p) s0"
    using create_personal_fresh [OF assms(1,2)] by blast
  have appts: "tb_appts s1 = tb_appts s @ [created_row now p s]" and users: "tb_users s1 = tb_users s"
    using run assms(3) s0 by (metis join_owner_appts snd_conv)+
  let ?r = "(created_row now p s)\<lparr>a_deleted := True, a_updated_at := now1,
    a_version := a_version (created_row now p s) + 1\<rparr>"
  have rest: "update_where (\<lambda>r. a_id r = ?id) f (tb_appts s) = tb_appts s" for f
    using assms(2) by (intro update_where_none) (force simp: taken_def)
  have del: "tb_appts s2 = tb_appts s @ [?r]"
    by (simp add: assms(4) DeleteAppointment_def appts update_where_append rest)
  have users2: "tb_users s2 = tb_users s"
    by (simp add: assms(4) DeleteAppointment_def users)
  then have same: "appointment_id (payload_appt p) s2 = ?id"
    by (simp add: appointment_id_def GetUserByID_def query_user_def)
  have "\<not> same_signature p ?r" by (simp add: same_signature_def)
  then have "filter (same_signature p) (tb_appts s2) = []" using assms(1) by (simp add: del)
  then have create: "apply_create_personal now2 p s2 = (Inl (ErrUnique ''appointments.id''), s2)"
    using same by (simp add: apply_create_personal_def find_signature CreateAppointment_def Let_def del taken_def
        flip: payload_appt_def)
  have "find (\<lambda>a. a_id a = ?id \<and> \<not> a_deleted a) (tb_appts s2) = None"
    using assms(2) by (force simp: find_None_iff del taken_def)
  then have "\<not> ok (GetAppointmentByID ?id s2)" by (simp add: GetAppointmentByID_def)
  then show ?thesis using create assms(5) by (simp add: isIgnorableApplyError_def ignorable_ops_def)
qed

lemma join_owner_first: "tb_parts s = [] \<Longrightarrow> fst (join_owner now aid owner s) = Inr ()"
  by (simp add: join_owner_def GetParticipantByAppointmentAndUser_def AddParticipant_def insert_participant_def
      tolerate_def participant_def taken_def Let_def)

theorem deleted_appointment_blocks_creation_witness:
  "fst (apply_create_personal (unixTime 9) sample_payload
     (DeleteAppointment (unixTime 7) (appointment_id (payload_appt sample_payload) migrate)
        (snd (apply_create_personal (unixTime 5) sample_payload migrate)))) = Inl (ErrUnique ''appointments.id'')"
proof -
  define e :: LogEntry where "e = \<lparr>le_term = 1, le_index = 1, le_event_id = ''1'', le_aggregate = ''appointment'',
    le_aggregate_id = ''u1'', le_op = OpApptCreatePersonal, le_payload = [], le_ts = zeroTime\<rparr>"
  have none: "filter (same_signature sample_payload) (tb_appts migrate) = []"
    "\<not> taken a_id (appointment_id (payload_appt sample_payload) migrate) (tb_appts migrate)"
    by (simp_all add: migrate_def taken_def)
  have "fst (apply_create_personal (unixTime 5) sample_payload migrate) = Inr ()"
    using create_personal_fresh [OF none, of "unixTime 5"] join_owner_first by (auto simp: migrate_def)
  then have "apply_create_personal (unixTime 5) sample_payload migrate
      = (Inr (), snd (apply_create_personal (unixTime 5) sample_payload migrate))"
    by (metis prod.collapse)
  from deleted_appointment_blocks_creation [OF none this refl, of e "unixTime 9" "unixTime 7"]
  show ?thesis by (simp add: e_def)
qed

section \<open>Users without an address\<close>

lemma find_update_where:
  assumes "find P rows = Some r" "Q r" "\<And>x. P (f x) = P x"
  shows "find P (update_where Q f rows) = Some (f r)"
  using assms(1,2) by (induction rows) (auto simp: assms(3) split: if_splits)

lemma find_keyed: "distinct (map k xs) \<Longrightarrow> r \<in> set xs \<Longrightarrow> find (\<lambda>x. k x = k r) xs = Some r"
  by (induction xs) auto

text \<open>
  Clearing the address of a user writes NULL, which the queries cannot scan: from
  then on the user is found neither by id nor by name, so they cannot log in and
  their name is still taken.
\<close>

theorem cleared_email_hides_user:
  assumes "find (\<lambda>r. u_id r = uid) (tb_users s) = Some r" and "u_email r = Some email"
    and "unique_on u_username (tb_users s)"
  shows "GetUserByID uid (ClearUserEmailIfMatches now uid email s) = Inl ErrScanNull
    \<and> GetUserByUsername (u_username r) (ClearUserEmailIfMatches now uid email s) = Inl ErrScanNull
    \<and> taken u_username (u_username r) (tb_users (ClearUserEmailIfMatches now uid email s))"
proof -
  let ?Q = "\<lambda>r. u_id r = uid \<and> u_email r = Some email"
  let ?f = "\<lambda>r :: UserRow. r\<lparr>u_email := None, u_updated_at := now\<rparr>"
  have r: "r \<in> set (tb_users s)" "?Q r"
    using assms(1,2) by (auto simp: find_Some_iff in_set_conv_nth)
  have byid: "find (\<lambda>r. u_id r = uid) (update_where ?Q ?f (tb_users s)) = Some (?f r)"
    by (rule find_update_where) (use assms(1) r in simp_all)
  have "find (\<lambda>x. u_username x = u_username r) (tb_users s) = Some r"
    using assms(3) r(1) find_keyed by (metis unique_on_def)
  then have byname: "find (\<lambda>x. u_username x = u_username r) (update_where ?Q ?f (tb_users s)) = Some (?f r)"
    by (rule find_update_where) (use r in simp_all)
  have "?f r \<in> set (update_where ?Q ?f (tb_users s))"
    using r by (auto simp: set_update_where)
  from imageI [OF this, of u_username] have "u_username r \<in> u_username ` set (update_where ?Q ?f (tb_users s))"
    by simp
  then show ?thesis
    using byid byname
    by (simp add: ClearUserEmailIfMatches_def GetUserByID_def GetUserByUsername_def query_user_def scan_user_def taken_def)
qed

definition one_user :: Store where
  "one_user = migrate\<lparr>tb_users := [user_row \<lparr>u_id = ''u1'', u_username = ''ana'', u_email = ''a@x'',
     u_password_hash = ''h'', u_display_name = ''Ana'', u_created_at = zeroTime, u_updated_at = zeroTime\<rparr>]\<rparr>"

theorem cleared_email_hides_user_witness:
  "ok (GetUserByUsername ''ana'' one_user)
   \<and> GetUserByUsername ''ana'' (ClearUserEmailIfMatches zeroTime ''u1'' ''a@x'' one_user) = Inl ErrScanNull"
proof -
  have "find (\<lambda>r. u_id r = ''u1'') (tb_users one_user) = Some (hd (tb_users one_user))"
    "u_email (hd (tb_users one_user)) = Some ''a@x''" "unique_on u_username (tb_users one_user)"
    by (simp_all add: one_user_def user_row_def unique_on_def)
  from cleared_email_hides_user [OF this, of zeroTime]
  show ?thesis by (simp add: one_user_def GetUserByUsername_def query_user_def scan_user_def user_row_def)
qed

section \<open>Bounds\<close>

text \<open>
  A listing of audit records has at most 1000 records, and at most 100 when no
  limit is given, newest first; a listing of events has at most as many as its limit.
\<close>

theorem listings_bounded:
  "length (ListAuditLogs f s) \<le> 1000
   \<and> length (ListAuditLogs (f\<lparr>af_limit := 0\<rparr>) s) \<le> 100
   \<and> sorted (map (\<lambda>a. - t_ns (al_occurred_at a)) (ListAuditLogs f s))
   \<and> length (ListEvents (g\<lparr>ef_limit := 1000\<rparr>) s) \<le> 1000"
proof -
  have "sorted (map k (take n (sort_key k xs)))" for k :: "AuditLog \<Rightarrow> int" and n xs
    by (metis sorted_sort_key sorted_wrt_take take_map)
  moreover have "length (take (nat (if l \<le> 0 then 100 else if l > 1000 then 1000 else l)) xs) \<le> 1000" for l :: int and xs :: "AuditLog list"
    by (auto simp: min_le_iff_disj)
  ultimately show ?thesis
    by (simp only: ListAuditLogs_def ListEvents_def Let_def) simp
qed

end
