(* ===== verification/Samples.thy ===== *)
theory Samples
  imports ApiInv StoreProps
begin

text \<open>
  A small concrete cluster for the examples: a node with two users, a group of two
  ranks and an open invitation, a request, the libraries and a client without network.
\<close>

definition sample_user :: "string \<Rightarrow> string \<Rightarrow> string \<Rightarrow> User" where
  "sample_user uid name hash = \<lparr>u_id = uid, u_username = name, u_email = name, u_password_hash = hash,
     u_display_name = name, u_created_at = zeroTime, u_updated_at = zeroTime\<rparr>"

definition sample_appt :: "string option \<Rightarrow> Appointment" where
  "sample_appt gid = \<lparr>a_id = ''a1'', a_title = ''standup'', a_description = [], a_owner_id = ''u1'', a_group_id = gid,
     a_start = unixTime 1000, a_end = unixTime 1600, a_privacy = ''full'', a_status = StatusAccepted,
     a_created_at = zeroTime, a_updated_at = zeroTime, a_version = 1, a_origin_node = [], a_deleted = False\<rparr>"

definition sample_store :: Store where
  "sample_store = migrate\<lparr>
     tb_users := [user_row (sample_user ''u1'' ''ana'' ''hpw''), user_row (sample_user ''u2'' ''bob'' ''hpw'')],
     tb_members := [\<lparr>m_group_id = ''g1'', m_user_id = ''u1'', m_rank = 10, m_added_by = None,
                     m_created_at = zeroTime, m_username = []\<rparr>,
                    \<lparr>m_group_id = ''g1'', m_user_id = ''u2'', m_rank = 1, m_added_by = None,
                     m_created_at = zeroTime, m_username = []\<rparr>],
     tb_appts := [appt_row zeroTime (sample_appt None)],
     tb_parts := [(participant ''a1'' ''u1'' StatusAccepted False)\<lparr>p_id := ''p1''\<rparr>,
                  (participant ''a1'' ''u2'' StatusPending False)\<lparr>p_id := ''p2''\<rparr>]\<rparr>"

definition sample_claims :: Claims where
  "sample_claims = \<lparr>cl_user_id = ''u1'', cl_username = ''ana'', cl_expires = 86400, cl_issued = 0\<rparr>"

definition sample_tokens :: TokenLib where
  "sample_tokens = \<lparr>jwt_sign = (\<lambda>cl. if cl = sample_claims then Inr ''t1'' else Inl (ErrMsg ''no key'')),
     jwt_parse = (\<lambda>now t. if t = ''t1'' then Some sample_claims else None)\<rparr>"

definition sample_passwords :: PasswordLib where
  "sample_passwords = \<lparr>pw_hash = (\<lambda>p. Inr (CHR ''h'' # p)), pw_check = (\<lambda>p h. h = CHR ''h'' # p)\<rparr>"

definition sample_api :: "unit Api" where
  "sample_api = \<lparr>api_pw = sample_passwords, api_lib = sample_tokens, api_email = (\<lambda>e. e \<noteq> []),
     api_prop = None, api_audit_token = []\<rparr>"

definition sample_request :: "string \<Rightarrow> json \<Rightarrow> Request" where
  "sample_request path body = \<lparr>rq_method = ''POST'', rq_path = path, rq_uri = path, rq_headers = [], rq_query = [],
     rq_vars = [(''groupID'', ''g1''), (''userID'', ''u1''), (''appointmentID'', ''a1'')],
     rq_body = jprint body, rq_user = Some ''u2'', rq_id = ''r1''\<rparr>"

definition no_network :: "'w client" where
  "no_network url r w = (Inl (Unreachable ''refused''), w)"

definition sample_node :: Node where
  "sample_node = (boot ''n1'' [])\<lparr>c_db := sample_store\<rparr>"

lemma sample_node_db [simp]: "c_db sample_node = sample_store"
  by (simp add: sample_node_def)

text \<open>The body of a sample request decodes to the members it was printed from.\<close>

lemma decode_sample: "jwf (JObj ms) \<Longrightarrow> decode_body (rq_body (sample_request path (JObj ms))) = Some ms"
  using first_json_jprint [of "JObj ms" "[]"]
  by (simp add: decode_body_def sample_request_def struct_of_def stops_def)

text \<open>The times of the samples are in the first day of 1970.\<close>

lemma civil_epoch: "civil_of_days 719528 = (1970, 1, 1)"
  by code_simp

lemma year_1970 [simp]: "0 \<le> s \<Longrightarrow> s < 86400 \<Longrightarrow> year_of (unixTime s) = 1970"
  by (simp add: year_of_def local_ns_def unixTime_def second_def civil_epoch)

lemma UTC_unixTime [simp]: "UTC (unixTime s) = unixTime s" "t_off (unixTime s) = 0"
  by (simp_all add: UTC_def unixTime_def)

end
