(* ===== verification/AccessProps.thy ===== *)
theory AccessProps
  imports Samples
begin

text \<open>
  Who may do what: private titles, answers to invitations, changes of members and
  appointments, appointments that overlap, and logging in.
\<close>

section \<open>Private titles\<close>

definition slot_of :: "Appointment \<Rightarrow> string \<times> string \<times> GoTime \<times> GoTime" where
  "slot_of a = (a_id a, a_owner_id a, a_start a, a_end a)"


section \<open>Invitations\<close>

text \<open>
  C27. An invitation is answered once: after the leaderless path accepted or rejected it,
  every further answer of that user is refused and changes nothing.
\<close>

theorem invitation_answered_once:
  assumes "answer_invitation now status typ uid aid s = (Inr (), s1)"
    and "status = StatusAccepted \<or> status = StatusDeclined"
  shows "ok (GetParticipantByAppointmentAndUser aid uid s1)
     \<and> AcceptInvitation now1 uid aid s1 = (Inl (ErrMsg (''invitation already '' @ status)), s1)
     \<and> RejectInvitation now1 uid aid s1 = (Inl (ErrMsg (''invitation already '' @ status)), s1)"
proof -
  have free: "cannot_answer aid uid s = None"
    using assms(1) by (auto simp: answer_invitation_def split: option.splits)
  then obtain p where p: "find (\<lambda>p. part_key p = (aid, uid)) (tb_parts s) = Some p"
    by (auto simp: cannot_answer_def GetParticipantByAppointmentAndUser_def split: option.splits)
  have "tb_parts (snd (AddNotification now n t)) = tb_parts t" for n t
    by (auto simp: AddNotification_def Let_def insert_notification_def split: sum.splits)
  then have "tb_parts s1 = tb_parts (UpdateParticipantStatus now aid uid status s)"
    using assms(1) free by (auto simp: answer_invitation_def Let_def split: sum.splits)
  moreover have "find (\<lambda>p. part_key p = (aid, uid)) (update_where (\<lambda>p. part_key p = (aid, uid))
      (\<lambda>p. p\<lparr>p_status := status, p_updated_at := now\<rparr>) (tb_parts s)) = Some (p\<lparr>p_status := status, p_updated_at := now\<rparr>)"
    using p by (rule find_update_where) (use p in \<open>auto simp: part_key_def find_Some_iff\<close>)
  ultimately have "GetParticipantByAppointmentAndUser aid uid s1 = Inr (p\<lparr>p_status := status, p_updated_at := now\<rparr>)"
    by (simp add: GetParticipantByAppointmentAndUser_def UpdateParticipantStatus_def)
  with assms(2) show ?thesis
    by (auto simp: AcceptInvitation_def RejectInvitation_def answer_invitation_def cannot_answer_def)
qed

theorem invitation_answered_once_witness:
  "AcceptInvitation (unixTime 9) ''u2'' ''a1'' (snd (RejectInvitation (unixTime 8) ''u2'' ''a1'' sample_store))
     = (Inl (ErrMsg ''invitation already declined''),
        snd (RejectInvitation (unixTime 8) ''u2'' ''a1'' sample_store))"
proof -
  have "cannot_answer ''a1'' ''u2'' sample_store = None" by code_simp
  then have "fst (answer_invitation (unixTime 8) StatusDeclined ''invitation_declined'' ''u2'' ''a1'' sample_store) = Inr ()"
    by (simp add: answer_invitation_def Let_def split: sum.split)
  then have "answer_invitation (unixTime 8) StatusDeclined ''invitation_declined'' ''u2'' ''a1'' sample_store
      = (Inr (), snd (RejectInvitation (unixTime 8) ''u2'' ''a1'' sample_store))"
    by (simp add: RejectInvitation_def prod_eq_iff)
  from invitation_answered_once [OF this] show ?thesis by simp
qed

section \<open>Members of a group\<close>

text \<open>
  C28. A member is changed or removed only by one of higher rank: a request of an equal,
  a lower or no member of the group is refused and nothing changes. A leader answers
  403; elsewhere a rank that is too low is a 500.
\<close>

theorem members_changed_by_higher_rank:
  assumes "rq_user r = Some actor" and "path_id ''groupID'' r \<noteq> []" and "path_id ''userID'' r \<noteq> []"
    and "GetMemberRank (path_id ''groupID'' r) (path_id ''userID'' r) (db_of cw) = Inr rank"
    and "case GetMemberRank (path_id ''groupID'' r) actor (db_of cw) of Inl _ \<Rightarrow> True | Inr own \<Rightarrow> own \<le> rank"
  shows "handleRemoveMember api now r cw = (fst (handleRemoveMember api now r cw), cw)
     \<and> handleUpdateMember api now r cw = (fst (handleUpdateMember api now r cw), cw)
     \<and> rp_status (fst (handleRemoveMember api now r cw)) =
         (if leading (api_prop api) (fst cw) \<or> \<not> ok (GetMemberRank (path_id ''groupID'' r) actor (db_of cw)) then 403 else 500)
     \<and> rp_status (fst (handleUpdateMember api now r cw)) \<ge> 400"
proof -
  obtain e where e: "\<And>verb. outranks verb actor (path_id ''groupID'' r) (path_id ''userID'' r) (db_of cw) = Some (e verb)"
    "\<And>verb. e verb = ErrUnauthorized \<longleftrightarrow> \<not> ok (GetMemberRank (path_id ''groupID'' r) actor (db_of cw))"
    "\<And>verb. e verb \<noteq> ErrMsg ''member not found''"
  proof
    fix verb
    let ?e = "\<lambda>verb. if ok (GetMemberRank (path_id ''groupID'' r) actor (db_of cw))
                then ErrMsg (''unauthorized: insufficient rank to '' @ verb @ '' this member'') else ErrUnauthorized"
    show "outranks verb actor (path_id ''groupID'' r) (path_id ''userID'' r) (db_of cw) = Some (?e verb)"
      using assms(4,5) by (auto simp: outranks_def split: sum.splits)
    show "?e verb = ErrUnauthorized \<longleftrightarrow> \<not> ok (GetMemberRank (path_id ''groupID'' r) actor (db_of cw))"
      "?e verb \<noteq> ErrMsg ''member not found''"
      by simp_all
  qed
  have same: "set_db (db_of cw) cw = cw" by (simp add: set_db_def prod_eq_iff)
  have rem: "handleRemoveMember api now r cw =
      ((if leading (api_prop api) (fst cw) then member_refusal (e ''remove'') else service_refusal (e ''remove'')), cw)"
    using assms(1-3)
    by (simp add: handleRemoveMember_def with_user_def Let_def groupService_RemoveMember_def e(1) same)
  have upd: "\<exists>resp. handleUpdateMember api now r cw = (resp, cw) \<and> rp_status resp \<ge> 400"
    using assms(1-3)
    by (auto simp: handleUpdateMember_def with_user_def with_body_def Let_def groupService_UpdateMember_def e(1) same
        http_error_def member_refusal_def service_refusal_def split: option.split)
  show ?thesis
    using rem upd e(2,3) by (auto simp: member_refusal_def service_refusal_def http_error_def)
qed

theorem members_changed_by_higher_rank_witness:
  "handleRemoveMember sample_api zeroTime (sample_request ''/api/groups/g1/members/u1'' JNull) (sample_node, ())
     = (fst (handleRemoveMember sample_api zeroTime (sample_request ''/api/groups/g1/members/u1'' JNull) (sample_node, ())),
        sample_node, ())"
proof -
  let ?r = "sample_request ''/api/groups/g1/members/u1'' JNull"
  have "rq_user ?r = Some ''u2''" "path_id ''groupID'' ?r \<noteq> []" "path_id ''userID'' ?r \<noteq> []"
    "GetMemberRank (path_id ''groupID'' ?r) (path_id ''userID'' ?r) sample_store = Inr 10"
    "GetMemberRank (path_id ''groupID'' ?r) ''u2'' sample_store = Inr 1"
    by code_simp+
  then show ?thesis
    using members_changed_by_higher_rank [of ?r "''u2''" "(sample_node, ())" 10 sample_api zeroTime] by simp
qed

section \<open>Appointments\<close>

text \<open>
  C29. Only the owner changes or deletes an appointment: a request of anyone else is
  refused with 400 or 500 and changes nothing, on every node.
\<close>

theorem appointments_changed_by_owner:
  assumes "rq_user r = Some actor" and "GetAppointmentByID (path_id ''appointmentID'' r) (db_of cw) = Inr a"
    and "a_owner_id a \<noteq> actor"
  shows "snd (handleDeleteAppointment api now r cw) = cw \<and> snd (handleUpdateAppointment api now r cw) = cw
     \<and> rp_status (fst (handleDeleteAppointment api now r cw)) \<in> {400, 500}
     \<and> rp_status (fst (handleUpdateAppointment api now r cw)) \<in> {400, 500}"
  using assms
  by (auto simp: handleDeleteAppointment_def handleUpdateAppointment_def with_appt_def with_user_def with_body_def
      Let_def DeleteAppointment_service_def UpdateAppointment_service_def requested_def http_error_def
      bind_eq_Some_conv split: option.split)

theorem appointments_changed_by_owner_witness:
  "snd (handleDeleteAppointment sample_api zeroTime (sample_request ''/api/appointments/a1'' JNull) (sample_node, ()))
     = (sample_node, ())"
proof -
  let ?r = "sample_request ''/api/appointments/a1'' JNull"
  have "rq_user ?r = Some ''u2''" "path_id ''appointmentID'' ?r = ''a1''" by code_simp+
  moreover obtain a where a: "GetAppointmentByID ''a1'' sample_store = Inr a" "a_owner_id a = ''u1''"
    by (simp add: GetAppointmentByID_def sample_store_def sample_appt_def appt_row_def scan_appt_def)
  ultimately show ?thesis
    using appointments_changed_by_owner [of ?r "''u2''" "(sample_node, ())" a sample_api zeroTime] by simp
qed

text \<open>
  C30. Nobody is booked twice: a personal appointment that would overlap one its owner
  takes part in, or that ends before it begins, is refused with 400 on every node,
  and nothing is written.
\<close>

theorem overlapping_appointment_refused:
  assumes "Option.bind (decode_body (rq_body r)) read_appt = Some i" and "ai_group_id i = None"
    and "toRFC3339 (ai_start i) False = Inr start" and "toRFC3339 (ai_end i) True = Inr fin"
    and "After start fin \<or> HasConflict (user_of r) start fin (db_of cw)"
  shows "snd (handleCreateAppointment api now r cw) = cw
     \<and> rp_status (fst (handleCreateAppointment api now r cw)) = 400"
  using assms
  by (auto simp: handleCreateAppointment_def with_body_def Let_def CreatePersonalAppointment_def requested_def
      http_error_def)

definition clash_members :: members where
  "clash_members = [(''title'', JStr ''review''), (''start'', JStr ''1970-01-01T00:20:00Z''),
     (''end'', JStr ''1970-01-01T00:20:00Z'')]"

definition clash :: Request where
  "clash = sample_request ''/api/appointments'' (JObj clash_members)"

theorem overlapping_appointment_refused_witness:
  "snd (handleCreateAppointment sample_api zeroTime (clash\<lparr>rq_user := Some ''u1''\<rparr>) (sample_node, ())) = (sample_node, ())"
proof -
  let ?r = "clash\<lparr>rq_user := Some ''u1''\<rparr>"
  have "decode_body (rq_body ?r) = Some clash_members"
    by (simp add: clash_def decode_sample clash_members_def)
  moreover have "read_appt clash_members = Some \<lparr>ai_title = ''review'', ai_description = [],
      ai_start = ''1970-01-01T00:20:00Z'', ai_end = ''1970-01-01T00:20:00Z'', ai_privacy = [], ai_group_id = None\<rparr>"
    by code_simp
  moreover have "time_Parse RFC3339 ''1970-01-01T00:20:00Z'' = Some (unixTime 1200)"
    "TrimSpace ''1970-01-01T00:20:00Z'' = ''1970-01-01T00:20:00Z''"
    by code_simp+
  then have "toRFC3339 ''1970-01-01T00:20:00Z'' fin = Inr (unixTime 1200)" for fin
    by (simp add: toRFC3339_def formats_def RFC3339_def)
  moreover have "HasConflict (user_of ?r) (unixTime 1200) (unixTime 1200) sample_store" by code_simp
  ultimately show ?thesis
    using overlapping_appointment_refused [where cw = "(sample_node, ())"] by simp
qed

section \<open>Logging in\<close>

text \<open>
  A login succeeds exactly with the name of a user, the user's password and a token
  that can be made; every other login is refused and leaves no trace, and the
  refusals do not tell a wrong name from a wrong password.
\<close>

theorem login_needs_password:
  assumes "str_field ''username'' ms = Some name" and "str_field ''password'' ms = Some password"
    and "decode_body (rq_body r) = Some ms"
  shows "if \<exists>u. GetUserByUsername name (db_of cw) = Inr u \<and> pw_check (api_pw api) password (u_password_hash u)
             \<and> ok (GenerateToken (api_lib api) now u)
     then rp_status (fst (handleLogin api now r cw)) = 200
     else handleLogin api now r cw = (http_error 401 ''invalid credentials'', cw)"
proof -
  have t: "Option.bind (decode_body (rq_body r))
      (\<lambda>ms. do {u \<leftarrow> str_field ''username'' ms; p \<leftarrow> str_field ''password'' ms; Some (u, p)}) = Some (name, password)"
    using assms by simp
  show ?thesis
    unfolding handleLogin_def with_body_def t
    by (auto simp: Authenticate_def reply_json_def http_error_def split: sum.splits)
qed

theorem login_needs_password_witness:
  "handleLogin sample_api (unixTime 0) (sample_request ''/login''
       (JObj [(''username'', JStr ''ana''), (''password'', JStr ''guess'')])) (sample_node, ())
     = (http_error 401 ''invalid credentials'', sample_node, ())
   \<and> rp_status (fst (handleLogin sample_api (unixTime 0) (sample_request ''/login''
       (JObj [(''username'', JStr ''ana''), (''password'', JStr ''pw'')])) (sample_node, ()))) = 200"
proof -
  let ?ms = "\<lambda>p. [(''username'', JStr ''ana''), (''password'', JStr p)]"
  let ?r = "\<lambda>p. sample_request ''/login'' (JObj (?ms p))"
  have lower: "ToLower ''password'' = ''password''" "ToLower ''username'' = ''username''" by code_simp+
  have f: "str_field ''username'' (?ms p) = Some ''ana''" "str_field ''password'' (?ms p) = Some p" for p
    using lower by (simp_all add: str_field_def)
  have d: "decode_body (rq_body (?r ''guess'')) = Some (?ms ''guess'')" "decode_body (rq_body (?r ''pw'')) = Some (?ms ''pw'')"
    by (simp_all add: decode_sample)
  have u: "GetUserByUsername ''ana'' sample_store = Inr (sample_user ''u1'' ''ana'' ''hpw'')"
    by code_simp
  have c: "pw_check (api_pw sample_api) p (u_password_hash (sample_user uid name ''hpw'')) \<longleftrightarrow> p = ''pw''" for p uid name
    by (auto simp: sample_api_def sample_passwords_def sample_user_def)
  have t: "ok (GenerateToken (api_lib sample_api) (unixTime 0) (sample_user ''u1'' ''ana'' ''hpw''))" by code_simp
  show ?thesis
    using login_needs_password [OF f d(1), where api = sample_api and now = "unixTime 0" and cw = "(sample_node, ())"]
      login_needs_password [OF f d(2), where api = sample_api and now = "unixTime 0" and cw = "(sample_node, ())"]
    by (simp add: u t c)
qed

end
