(* ===== verification/NetProps.thy ===== *)
theory NetProps
  imports Samples
begin

text \<open>
  What two nodes get from each other over HTTP: the calls of \<open>consensus.go\<close> on one
  side and the handlers of \<open>raft_http.go\<close> on the other are together the handler of
  the message; a pull of a reconciler yields the events its peer lists.
\<close>

section \<open>Reading times\<close>

lemma take_any_frac_strict:
  assumes "take_frac s = Some (n, r)" and "take_zone r = Some z"
  shows "take_any_frac s = Some (n, r)"
proof (cases s)
  case Nil
  with assms show ?thesis by (simp add: take_frac_def take_any_frac_def)
next
  case (Cons c t)
  show ?thesis
  proof (cases "c = CHR ''.''")
    case True
    with assms(1) Cons obtain d t' where "t = d # t'" "is_digit d"
      by (cases t) (auto simp: take_frac_def Let_def split: if_splits)
    with assms(1) Cons True show ?thesis by (simp add: take_any_frac_def)
  next
    case False
    with assms(1) Cons have r: "n = 0" "r = s" by (simp_all add: take_frac_def)
    with assms(2) Cons have "c \<noteq> CHR '',''" by (auto simp: take_zone_def)
    with Cons False r show ?thesis by (auto simp: take_any_frac_def split: list.splits)
  qed
qed

lemma take_offset_strict: "take_zone r = Some z \<Longrightarrow> take_offset r = Some (z, [])"
  by (auto simp: take_zone_def take_offset_def bind_eq_Some_conv split: list.splits if_splits)

lemma lenient_of_strict:
  assumes "parseRFC3339 s = Some t"
  shows "time_Parse RFC3339 s = Some t"
proof -
  obtain y mo d h mi se ns z s1 s2 s3 s4 s5 s6 s7 s8 s9 s10 s11 s12 where
    s: "number 4 s = Some (y, s1)" "literal CHR ''-'' s1 = Some s2" "number 2 s2 = Some (mo, s3)"
      "literal CHR ''-'' s3 = Some s4" "number 2 s4 = Some (d, s5)" "literal CHR ''T'' s5 = Some s6"
      "number 2 s6 = Some (h, s7)" "literal CHR '':'' s7 = Some s8" "number 2 s8 = Some (mi, s9)"
      "literal CHR '':'' s9 = Some s10" "number 2 s10 = Some (se, s11)" "take_frac s11 = Some (ns, s12)"
      "take_zone s12 = Some z"
    and b: "valid_date y mo d" "h \<le> 23" "mi \<le> 59" "se \<le> 59"
    and t: "t = \<lparr>t_ns = ((days_of_civil y mo d - 719528) * 86400
                 + (3600 * h + 60 * mi + se) - z * 60) * second + ns, t_off = z\<rparr>"
    using assms unfolding parseRFC3339_def
    by (auto simp: bind_eq_Some_conv simp del: left_diff_distrib_numeral split: if_splits)
  have "take_clock RFC3339 s5 = Some ((3600 * h + 60 * mi + se) * second + ns, s12)"
    using s b by (simp add: take_clock_def take_hour_def RFC3339_def take_any_frac_strict)
  then show ?thesis
    using s b take_offset_strict [OF s(13)]
    by (simp add: time_Parse_def take_date_def RFC3339_def t algebra_simps)
qed

text \<open>
  A time is read alike wherever it comes in: what the strict reader of JSON bodies
  accepts is the same time for the handler that creates appointments, as the start of
  a range of an agenda, and as the cursor of a pull.
\<close>

theorem times_are_read_alike:
  assumes "parseRFC3339 s = Some t" and "TrimSpace s = s"
  shows "toRFC3339 s fin = Inr t
     \<and> (query_of ''since'' r = s \<longrightarrow> since_of r = t)
     \<and> (query_of ''start'' r = s \<longrightarrow> fst (parseTimeRange now r) = t)"
proof -
  have "s \<noteq> []" using assms(1) by (auto simp: parseRFC3339_def number_def numeral_eq_Suc)
  with assms(2) lenient_of_strict [OF assms(1)] show ?thesis
    by (auto simp: toRFC3339_def formats_def RFC3339_def since_of_def parseTimeRange_def query_time_def Let_def)
qed

theorem times_are_read_alike_witness:
  "toRFC3339 (fmtRFC3339 (unixTime 0)) False = Inr (unixTime 0)"
proof -
  have "parseRFC3339 (fmtRFC3339 (unixTime 0)) = Some (unixTime 0)"
    using parse_fmt_seconds [of "unixTime 0"] year_1970 [of 0] by simp (simp add: unixTime_def)
  moreover have "TrimSpace (fmtRFC3339 (unixTime 0)) = fmtRFC3339 (unixTime 0)" by code_simp
  ultimately show ?thesis using times_are_read_alike by blast
qed

section \<open>Raft messages\<close>

text \<open>A network that brings every request to the one handler of a peer, with the peer's state.\<close>

definition reach :: "(Request \<Rightarrow> Node \<Rightarrow> Response \<times> Node) \<Rightarrow> Node client" where
  "reach h url r c = (let (resp, c1) = h r c in (Inr resp, c1))"

lemma append_response_fine:
  assumes "node_ok c" and "append_fine req"
  shows "append_resp_fine (fst (HandleAppendEntries req c))"
proof (cases "ae_term req < c_term c")
  case True
  with assms show ?thesis by (simp add: HandleAppendEntries_def append_resp_fine_def node_ok_def meta_ok_def)
next
  case False
  have i: "is_int64 (c_applied c)" "is_int64 (ae_term req)" "is_int64 (ae_prev_index req)"
    using assms by (simp_all add: node_ok_def meta_ok_def append_fine_def)
  then have "is_int64 (c_applied (rollback (ae_prev_index req) (reset_timer req (adopt_leader req c))))"
    if "ae_prev_index req > 0"
    using that by (auto simp: rollback_indices is_int64_def min64_def)
  moreover have "is_int64 (last_installed req)"
    using assms(2) i(3) by (auto simp: last_installed_def append_fine_def entry_fine_def list_all_iff)
  ultimately show ?thesis
    using False i(2) by (auto simp: HandleAppendEntries_def append_resp_fine_def Let_def adopt_term)
qed

lemma vote_response_fine:
  assumes "node_ok c" and "vote_fine req"
  shows "is_int64 (rvr_term (fst (HandleRequestVote req c)))"
  using assms by (auto simp: HandleRequestVote_def node_ok_def meta_ok_def vote_fine_def Let_def)

lemma newline_ends: "stops newline" "skip_ws newline = []"
  by (simp_all add: newline_def stops_def skip_ws_def is_ws_def is_num_char_def is_digit_def byte_of_def)

lemma dec_json_append_resp:
  "append_resp_fine r \<Longrightarrow> dec_append_resp (jprint (json_append_resp r) @ newline) = Some r"
  using jparse_jprint_ws [OF _ newline_ends, of "json_append_resp r"]
  by (cases r) (simp add: dec_append_resp_def unmarshal_def json_append_resp_def struct_of_def append_resp_fine_def
      fields del: jprint.simps)

lemma dec_json_vote_resp:
  "is_int64 (rvr_term r) \<Longrightarrow> dec_vote_resp (jprint (json_vote_resp r) @ newline) = Some r"
  using jparse_jprint_ws [OF _ newline_ends, of "json_vote_resp r"]
  by (cases r) (simp add: dec_vote_resp_def unmarshal_def json_vote_resp_def struct_of_def
      fields del: jprint.simps)

text \<open>A request that carries the signature of its body passes the guard of a node with the same secret.\<close>

lemma signed_passes:
  assumes "secret \<noteq> []" and "TrimSpace secret = secret"
    and "header_of ''X-Cluster-Signature'' r = computeHMACSHA256Hex (rq_body r) secret"
  shows "guarded secret h r s = h r s"
proof -
  have "computeHMACSHA256Hex (rq_body r) secret \<noteq> []"
    using length_computeHMAC [of "rq_body r" secret] by (metis list.size(3) zero_neq_numeral)
  with assms show ?thesis by (simp add: guarded_def validateClusterHMAC_def verifyHMACSHA256Hex_def Let_def)
qed

lemma post_request_signed:
  "secret \<noteq> [] \<Longrightarrow> header_of ''X-Cluster-Signature'' (post_request secret body) = computeHMACSHA256Hex body secret"
  by (simp add: post_request_def first_value_def)

text \<open>
  C31. A Raft message that one node sends over HTTP, encoded, signed, verified, decoded
  and answered, does what its handler does: the sender gets the response of
  \<open>HandleAppendEntries\<close> or \<open>HandleRequestVote\<close> and the receiver gets its state, with
  the sender noted as seen.
\<close>

theorem raft_messages_arrive:
  assumes "node_ok c" and "secret \<noteq> []" and "TrimSpace secret = secret"
    and "enc_append req \<noteq> None" and "enc_vote vreq \<noteq> None"
  shows "append_over_http (reach (raft_append_entries secret now)) secret peers pid req c
      = (Some (fst (HandleAppendEntries req c)), touch_sender now (ae_leader req) (snd (HandleAppendEntries req c)))
    \<and> vote_over_http (reach (raft_request_vote secret now)) secret peers pid vreq c
      = (Some (fst (HandleRequestVote vreq c)), touch_sender now (rv_candidate vreq) (snd (HandleRequestVote vreq c)))"
proof -
  note signed = signed_passes [OF assms(2,3)] post_request_signed [OF assms(2)]
  have body: "rq_body (post_request secret t) = t" for t by (simp add: post_request_def)
  obtain t where t: "enc_append req = Some t" using assms(4) by blast
  note arrived = read_enc_append [OF t]
  have "raft_append_entries secret now (post_request secret t) c
      = (reply_json 200 (json_append_resp (fst (HandleAppendEntries req c))),
         touch_sender now (ae_leader req) (snd (HandleAppendEntries req c)))"
    using arrived(2) by (simp add: raft_append_entries_def signed body case_prod_beta)
  then have "append_over_http (reach (raft_append_entries secret now)) secret peers pid req c
      = (Some (fst (HandleAppendEntries req c)), touch_sender now (ae_leader req) (snd (HandleAppendEntries req c)))"
    using append_response_fine [OF assms(1) arrived(1)]
    by (simp add: append_over_http_def postJSONWithResponse_def reach_def t or_nil_def reply_json_def
        success_status_def dec_json_append_resp)
  moreover
  obtain v where v: "enc_vote vreq = Some v" using assms(5) by blast
  note arrived = read_enc_vote [OF v]
  have "raft_request_vote secret now (post_request secret v) c
      = (reply_json 200 (json_vote_resp (fst (HandleRequestVote vreq c))),
         touch_sender now (rv_candidate vreq) (snd (HandleRequestVote vreq c)))"
    using arrived(2) by (simp add: raft_request_vote_def signed body case_prod_beta)
  then have "vote_over_http (reach (raft_request_vote secret now)) secret peers pid vreq c
      = (Some (fst (HandleRequestVote vreq c)), touch_sender now (rv_candidate vreq) (snd (HandleRequestVote vreq c)))"
    using vote_response_fine [OF assms(1) arrived(1)]
    by (simp add: vote_over_http_def postJSONWithResponse_def reach_def v or_nil_def reply_json_def
        success_status_def dec_json_vote_resp)
  ultimately show ?thesis by blast
qed

theorem raft_messages_arrive_witness:
  "fst (vote_over_http (reach (raft_request_vote ''key'' zeroTime)) ''key'' (NewEnvPeerStore ''a'' [''b'']) ''b''
      \<lparr>rv_term = 1, rv_candidate = ''a'', rv_last_index = 0, rv_last_term = 0, rv_prevote = False\<rparr> (boot ''b'' [''a'']))
   = Some \<lparr>rvr_term = 1, rvr_granted = True\<rparr>"
proof -
  let ?v = "\<lparr>rv_term = 1, rv_candidate = ''a'', rv_last_index = 0, rv_last_term = 0, rv_prevote = False\<rparr>"
  let ?a = "\<lparr>ae_term = 1, ae_leader = ''a'', ae_prev_index = 0, ae_prev_term = 0, ae_entries = [], ae_commit = 0\<rparr>"
  have "enc_append ?a \<noteq> None" "enc_vote ?v \<noteq> None" "TrimSpace ''key'' = ''key''"
    "fst (HandleRequestVote ?v (boot ''b'' [''a''])) = \<lparr>rvr_term = 1, rvr_granted = True\<rparr>"
    by code_simp+
  then show ?thesis
    using raft_messages_arrive [OF node_ok_boot, where secret = "''key''" and req = ?a and vreq = ?v] by simp
qed

section \<open>Pulling events\<close>

text \<open>The query of a URL, as far as the reconcilers use it, and a peer that answers it.\<close>

definition url_query :: "string \<Rightarrow> (string \<times> string) list" where
  "url_query url =
     (let q = drop 1 (dropWhile (\<lambda>c. c \<noteq> CHR ''?'') url)
      in if HasPrefix q ''since='' then [(''since'', drop 6 q)] else [])"

definition reach_query :: "(Request \<Rightarrow> Node \<Rightarrow> Response \<times> Node) \<Rightarrow> Node client" where
  "reach_query h url r c = reach h url (r\<lparr>rq_query := url_query url\<rparr>) c"

text \<open>The cursor loses the fraction of its second on the way.\<close>

definition cut :: "GoTime \<Rightarrow> GoTime" where
  "cut since = (if IsZero since then zeroTime else \<lparr>t_ns = Unix since * second, t_off = 0\<rparr>)"

lemma url_query_since:
  assumes "CHR ''?'' \<notin> set base"
  shows "url_query (base @ since_suffix since) = (if IsZero since then [] else [(''since'', fmtRFC3339 (UTC since))])"
proof -
  have "dropWhile (\<lambda>c. c \<noteq> CHR ''?'') (base @ t) = dropWhile (\<lambda>c. c \<noteq> CHR ''?'') t" for t
    using assms by (induction base) auto
  then show ?thesis by (simp add: url_query_def since_suffix_def HasPrefix_iff)
qed

text \<open>
  C32. What a reconciler pulls from a peer with the same secret is exactly the list of
  events the peer has of that kind since the cursor, cut to seconds, at most 1000
  of them and the oldest first; the peer's state does not change.
\<close>

theorem pull_yields_peer_events:
  assumes "secret \<noteq> []" and "TrimSpace secret = secret" and "CHR ''?'' \<notin> set (addr @ path)"
    and "0 \<le> year_of (UTC since)" and "year_of (UTC since) \<le> 9999"
    and "enc_events (ListEvents \<lparr>ef_entity = entity, ef_action = action, ef_since = cut since, ef_limit = 1000\<rparr>
           (c_db peer)) \<noteq> None"
  shows "fst (pull (reach_query (local_events entity action secret)) secret dec_events path now pid addr since (c, peer))
      = Some (ListEvents \<lparr>ef_entity = entity, ef_action = action, ef_since = cut since, ef_limit = 1000\<rparr> (c_db peer))
    \<and> snd (snd (pull (reach_query (local_events entity action secret)) secret dec_events path now pid addr since (c, peer)))
      = peer"
proof -
  let ?es = "ListEvents \<lparr>ef_entity = entity, ef_action = action, ef_since = cut since, ef_limit = 1000\<rparr> (c_db peer)"
  let ?url = "''http://'' @ addr @ path @ since_suffix since"
  let ?r = "(get_request secret)\<lparr>rq_query := url_query ?url\<rparr>"
  obtain t where t: "enc_events ?es = Some t" using assms(6) by blast
  have q: "url_query ?url = (if IsZero since then [] else [(''since'', fmtRFC3339 (UTC since))])"
    using url_query_since [of "''http://'' @ addr @ path" since] assms(3) by simp
  have parse: "time_Parse RFC3339 (fmtRFC3339 (UTC since)) = Some \<lparr>t_ns = Unix since * second, t_off = 0\<rparr>"
    if "\<not> IsZero since"
    using lenient_of_strict [OF parse_fmt_seconds [OF assms(4,5)]] by (simp add: UTC_def Unix_def)
  have "time_Parse RFC3339 [] = None" by code_simp
  with parse q have since: "since_of ?r = cut since"
    by (auto simp: since_of_def cut_def first_value_def Let_def)
  have "header_of ''X-Cluster-Signature'' ?r = computeHMACSHA256Hex (rq_body ?r) secret"
    by (simp add: get_request_def first_value_def)
  then have "local_events entity action secret ?r peer = (reply_encoded (Some t), peer)"
    by (simp only: local_events_def signed_passes [OF assms(1,2)] since t)
  moreover have "dec_events (t @ newline) = Some ?es"
    by (rule dec_enc_events [OF t newline_ends(1)])
  ultimately show ?thesis
    by (simp add: pull_def reach_query_def reach_def reply_encoded_def success_status_def)
qed

definition sample_event :: Event where
  "sample_event = (event ''group'' ''g1'' ''create'' ''{}'' [] 1)\<lparr>e_id := 1, e_created_at := unixTime 60\<rparr>"

definition sample_peer :: Node where
  "sample_peer = sample_node\<lparr>c_db := sample_store\<lparr>tb_events := [sample_event]\<rparr>\<rparr>"

theorem pull_yields_peer_events_witness:
  "fst (pull (reach_query (clusterLocalGroupsHandler ''key'')) ''key'' dec_events ''/cluster/local-events/groups''
     zeroTime ''n2'' ''n2:8080'' (unixTime 30) (sample_node, sample_peer)) = Some [sample_event]"
proof -
  let ?f = "\<lparr>ef_entity = ''group'', ef_action = ''create'', ef_since = cut (unixTime 30), ef_limit = 1000\<rparr>"
  have l: "ListEvents ?f (c_db sample_peer) = [sample_event]" by code_simp
  have "enc_events [sample_event] \<noteq> None"
    by (simp add: enc_events_def enc_list_fine event_fine_def json_time_ok_def sample_event_def event_def
        is_int64_def min64_def max64_def)
  moreover have "TrimSpace ''key'' = ''key''" by code_simp
  moreover have "CHR ''?'' \<notin> set (''n2:8080'' @ ''/cluster/local-events/groups'')" by simp
  ultimately show ?thesis
    using pull_yields_peer_events [of "''key''" "''n2:8080''" "''/cluster/local-events/groups''" "unixTime 30"
        "''group''" "''create''" sample_peer zeroTime "''n2''" sample_node] l
    by (simp add: clusterLocalGroupsHandler_def)
qed

end
