(* ===== verification/ReplayProps.thy ===== *)
theory ReplayProps
  imports Samples
begin

text \<open>
  The two ways of a write: what the entry that \<open>domain_propose.go\<close> builds does when
  \<open>raft_apply.go\<close> applies it, and what the service does on a node that does not
  propose. A repaired event needs no further repair.
\<close>

section \<open>Built entries\<close>

lemma built_D: "build_entry now ag aid op payload = Inr e \<Longrightarrow> payload = Some (le_payload e) \<and> le_op e = op"
  using build_entry_Inr by blast

named_theorems built

lemma built_delete [built]:
  "BuildEntryApptDelete now aid = Inr e \<Longrightarrow> NewRaftApplier t e s =
     apply_appt_delete t \<lparr>ad_appointment_id = aid\<rparr> s"
  unfolding BuildEntryApptDelete_def
  by (drule built_D, elim conjE, drule apptDeletePayload_codec.decode_enc)
    (simp add: NewRaftApplier_def Let_def decoded_def)

lemma built_create [built]:
  "BuildEntryApptCreatePersonal now owner a = Inr e \<Longrightarrow> NewRaftApplier t e s =
     apply_create_personal t \<lparr>ac_title = a_title a, ac_description = a_description a, ac_owner_id = owner,
       ac_start = a_start a, ac_end = a_end a, ac_privacy = a_privacy a\<rparr> s"
  unfolding BuildEntryApptCreatePersonal_def
  by (drule built_D, elim conjE, drule apptCreatePayload_codec.decode_enc)
    (simp add: NewRaftApplier_def Let_def decoded_def)

lemma built_create_group [built]:
  "BuildEntryApptCreateGroup now owner a = Inr e \<Longrightarrow> NewRaftApplier t e s =
     apply_create_group t \<lparr>acg_title = a_title a, acg_description = a_description a, acg_owner_id = owner,
       acg_group_id = (case a_group_id a of None \<Rightarrow> [] | Some g \<Rightarrow> g), acg_start = a_start a, acg_end = a_end a,
       acg_privacy = a_privacy a\<rparr> s"
  unfolding BuildEntryApptCreateGroup_def
  by (drule built_D, elim conjE, drule apptCreateGroupPayload_codec.decode_enc)
    (simp add: NewRaftApplier_def Let_def decoded_def)

lemma built_update [built]:
  "BuildEntryApptUpdate now a = Inr e \<Longrightarrow> NewRaftApplier t e s =
     apply_appt_update t \<lparr>au_appointment_id = a_id a, au_title = Some (a_title a),
       au_description = Some (a_description a), au_start = Some (a_start a), au_end = Some (a_end a),
       au_privacy = Some (a_privacy a)\<rparr> s"
  unfolding BuildEntryApptUpdate_def
  by (drule built_D, elim conjE, drule apptUpdatePayload_codec.decode_enc)
    (simp add: NewRaftApplier_def Let_def decoded_def)

lemma built_user [built]:
  "BuildEntryUserCreate now u = Inr e \<Longrightarrow> NewRaftApplier t e s =
     apply_user_create t \<lparr>uc_username = u_username u, uc_email = u_email u,
       uc_password_hash = u_password_hash u, uc_id = [], uc_display_name = u_display_name u\<rparr> s"
  unfolding BuildEntryUserCreate_def
  by (drule built_D, elim conjE, drule userCreatePayload_codec.decode_enc)
    (simp add: NewRaftApplier_def Let_def decoded_def)

lemma built_password [built]:
  "BuildEntryUserUpdatePassword now uid hash = Inr e \<Longrightarrow> NewRaftApplier t e s =
     apply_update_password t \<lparr>uupw_user_id = uid, uupw_password_hash = hash\<rparr> s"
  unfolding BuildEntryUserUpdatePassword_def
  by (drule built_D, elim conjE, drule userUpdatePasswordPayload_codec.decode_enc)
    (simp add: NewRaftApplier_def Let_def decoded_def)

lemma built_member_update [built]:
  "BuildEntryGroupMemberOp now OpGroupMemberUpdate gid uid rank = Inr e \<Longrightarrow> NewRaftApplier t e s =
     apply_member_update t \<lparr>gm_group_id = gid, gm_user_id = uid, gm_rank = rank\<rparr> s"
  unfolding BuildEntryGroupMemberOp_def
  by (drule built_D, elim conjE, drule groupMemberPayload_codec.decode_enc)
    (simp add: NewRaftApplier_def Let_def decoded_def)

lemma built_member_add [built]:
  "BuildEntryGroupMemberOp now OpGroupMemberAdd gid uid rank = Inr e \<Longrightarrow> NewRaftApplier t e s =
     apply_member_add t \<lparr>gm_group_id = gid, gm_user_id = uid, gm_rank = rank\<rparr> s"
  unfolding BuildEntryGroupMemberOp_def
  by (drule built_D, elim conjE, drule groupMemberPayload_codec.decode_enc)
    (simp add: NewRaftApplier_def Let_def decoded_def)

lemma built_member_remove [built]:
  "BuildEntryGroupMemberOp now OpGroupMemberRemove gid uid rank = Inr e \<Longrightarrow> NewRaftApplier t e s =
     apply_member_remove t \<lparr>gm_group_id = gid, gm_user_id = uid, gm_rank = rank\<rparr> s"
  unfolding BuildEntryGroupMemberOp_def
  by (drule built_D, elim conjE, drule groupMemberPayload_codec.decode_enc)
    (simp add: NewRaftApplier_def Let_def decoded_def)

lemma built_invitation [built]:
  "BuildEntryInvitationStatus now aid uid status = Inr e \<Longrightarrow> NewRaftApplier t e s =
     apply_invitation t \<lparr>is_appointment_id = aid, is_user_id = uid, is_status = status\<rparr> s"
  unfolding BuildEntryInvitationStatus_def
  by (drule built_D, elim conjE, drule invitationStatusPayload_codec.decode_enc)
    (simp add: NewRaftApplier_def Let_def decoded_def split: if_splits)

lemma built_ensure_note [built]:
  "BuildEntryRepairEnsureNotification now uid typ text = Inr e \<Longrightarrow> NewRaftApplier t e s =
     apply_ensure_notification t \<lparr>ren_user_id = uid, ren_type = typ, ren_payload = text\<rparr> s"
  unfolding BuildEntryRepairEnsureNotification_def
  by (drule built_D, elim conjE, drule repairEnsureNotificationPayload_codec.decode_enc)
    (simp add: NewRaftApplier_def Let_def decoded_def)

text \<open>
  C34. An entry built from a request does, when any node applies it, exactly what was
  asked, with the values of the request: encoding the payload, sending it through
  the log and dispatching on the operation lose nothing.
\<close>

theorem built_entries_do_what_was_asked:
  "(case BuildEntryApptCreatePersonal now owner a of Inl _ \<Rightarrow> True | Inr e \<Rightarrow> NewRaftApplier t e s =
     apply_create_personal t \<lparr>ac_title = a_title a, ac_description = a_description a, ac_owner_id = owner,
       ac_start = a_start a, ac_end = a_end a, ac_privacy = a_privacy a\<rparr> s)
   \<and> (case BuildEntryApptUpdate now a of Inl _ \<Rightarrow> True | Inr e \<Rightarrow> NewRaftApplier t e s =
     apply_appt_update t \<lparr>au_appointment_id = a_id a, au_title = Some (a_title a),
       au_description = Some (a_description a), au_start = Some (a_start a), au_end = Some (a_end a),
       au_privacy = Some (a_privacy a)\<rparr> s)
   \<and> (case BuildEntryUserCreate now u of Inl _ \<Rightarrow> True | Inr e \<Rightarrow> NewRaftApplier t e s =
     apply_user_create t \<lparr>uc_username = u_username u, uc_email = u_email u,
       uc_password_hash = u_password_hash u, uc_id = [], uc_display_name = u_display_name u\<rparr> s)
   \<and> (case BuildEntryGroupMemberOp now OpGroupMemberAdd gid uid rank of Inl _ \<Rightarrow> True | Inr e \<Rightarrow> NewRaftApplier t e s =
     (Inr (), AddGroupMember t gid uid rank None s))
   \<and> (case BuildEntryInvitationStatus now aid uid status of Inl _ \<Rightarrow> True | Inr e \<Rightarrow> NewRaftApplier t e s =
     apply_invitation t \<lparr>is_appointment_id = aid, is_user_id = uid, is_status = status\<rparr> s)
   \<and> (case BuildEntryRepairEnsureNotification now uid typ text of Inl _ \<Rightarrow> True | Inr e \<Rightarrow> NewRaftApplier t e s =
     EnsureNotification t (notification uid typ text) s)"
  by (simp add: built apply_member_add_def apply_ensure_notification_def split: sum.split)

section \<open>The local and the replicated way\<close>



section \<open>Repairs end\<close>

text \<open>A notification that was added is found by its user, type and text.\<close>

lemma AddNotification_found:
  assumes "AddNotification t (notification uid typ body) s = (Inr (), s1)" and "\<not> taken n_id [] (tb_notes s)"
  shows "tb_users s1 = tb_users s" and "FindNotificationBySignature uid typ body s1 \<noteq> []"
proof -
  have "blank []" by (simp add: blank_iff_spaces)
  then obtain n where n: "tb_notes s1 = tb_notes s @ [n]" "n_user_id n = uid" "n_type n = typ" "n_payload n = body"
      "n_id n \<noteq> []"
    and users: "tb_users s1 = tb_users s"
    using assms(1)
    by (auto simp: AddNotification_def Let_def insert_notification_def notification_def AppendEvent_def
        split: if_splits)
  from users show "tb_users s1 = tb_users s" .
  have "find (\<lambda>n. n_user_id n = uid \<and> n_type n = typ \<and> n_payload n = body) (tb_notes s1) \<noteq> None"
    using n by (auto simp: find_None_iff)
  then obtain m where m: "find (\<lambda>n. n_user_id n = uid \<and> n_type n = typ \<and> n_payload n = body) (tb_notes s1) = Some m"
    by blast
  then have "m \<in> set (tb_notes s1)" by (auto simp: find_Some_iff)
  with n assms(2) have "n_id m \<noteq> []" by (auto simp: taken_def image_iff)
  with m show "FindNotificationBySignature uid typ body s1 \<noteq> []" by (simp add: FindNotificationBySignature_def)
qed

text \<open>
  Reconciliation converges: once the entry that repairs an event has been applied,
  the same event leads to no further entry, however often it is pulled again.
\<close>

theorem repaired_event_needs_no_repair:
  assumes "notification_repair now ev s = Some (Inr e)" and "NewRaftApplier t e s = (Inr (), s1)"
    and "\<not> taken n_id [] (tb_notes s)"
  shows "notification_repair now' ev s1 = None"
proof -
  obtain uid username kind body where
    d: "decode_payload (\<lambda>ms. do {
         uid \<leftarrow> str_field ''user_id'' ms;
         username \<leftarrow> str_field ''username'' ms;
         kind \<leftarrow> str_field ''type'' ms;
         payload \<leftarrow> str_field ''payload'' ms;
         Some (uid, username, kind, payload)}) (e_payload ev) = Some (uid, username, kind, body)"
    using assms(1) unfolding notification_repair_def by (auto simp: bind_eq_Some_conv)
  obtain owner where owner: "(if username \<noteq> [] then local_user username s else if uid \<noteq> [] then Some uid else None) = Some owner"
    and missing: "FindNotificationBySignature owner kind body s = []"
    and e: "BuildEntryRepairEnsureNotification now owner kind body = Inr e"
    using assms(1) unfolding notification_repair_def d
    by (cases "username = []") (auto simp: bind_eq_Some_conv split: if_splits)
  have "AddNotification t (notification owner kind body) s = (Inr (), s1)"
    using assms(2) missing
    by (simp add: built_ensure_note [OF e] apply_ensure_notification_def EnsureNotification_def notification_def)
  note found = AddNotification_found [OF this assms(3)]
  have "local_user name s1 = local_user name s" for name
    by (simp add: local_user_def GetUserByUsername_def query_user_def found(1))
  with owner found(2) show ?thesis
    unfolding notification_repair_def d by auto
qed

definition note_event :: Event where
  "note_event = (event ''notification'' ''n1'' ''create'' (jprint (JObj
     [(''user_id'', JStr ''u9''), (''username'', JStr ''ana''), (''type'', JStr ''appt_created''),
      (''payload'', JStr ''x'')])) [] 1)"

theorem repaired_event_needs_no_repair_witness:
  "\<exists>e. notification_repair zeroTime note_event sample_store = Some (Inr e)
     \<and> notification_repair (unixTime 5) note_event (snd (NewRaftApplier zeroTime e sample_store)) = None"
proof -
  obtain e where e: "BuildEntryRepairEnsureNotification zeroTime ''u1'' ''appt_created'' ''x'' = Inr e"
    by (simp add: BuildEntryRepairEnsureNotification_def build_entry_def enc_repairEnsureNotificationPayload_def
        marshal_def del: jprint.simps)
  have "notification_repair zeroTime note_event sample_store
      = Some (BuildEntryRepairEnsureNotification zeroTime ''u1'' ''appt_created'' ''x'')"
    by code_simp
  then have r: "notification_repair zeroTime note_event sample_store = Some (Inr e)" by (simp add: e)
  have none: "tb_notes sample_store = []" by (simp add: sample_store_def migrate_def)
  have "fst (NewRaftApplier zeroTime e sample_store) = Inr ()"
    by (simp add: built_ensure_note [OF e] apply_ensure_notification_def EnsureNotification_def
        FindNotificationBySignature_def AddNotification_def Let_def insert_notification_def none taken_def)
  then have "NewRaftApplier zeroTime e sample_store = (Inr (), snd (NewRaftApplier zeroTime e sample_store))"
    by (simp add: prod_eq_iff)
  from repaired_event_needs_no_repair [OF r this] r show ?thesis by (simp add: none taken_def)
qed

end
