(* ===== verification/LivenessProps.thy ===== *)
theory LivenessProps
  imports Samples ConsensusProps
begin

text \<open>
  Progress: a proposal of a leader that reaches a majority is replicated, committed,
  applied and acknowledged. The calls that one proposal makes are bounded.
\<close>

section \<open>The log after a new entry\<close>

lemma last_sort_key:
  assumes "x \<in> set xs" and "\<And>y. y \<in> set xs \<Longrightarrow> y = x \<or> (k y :: int) < k x"
  shows "last (sort_key k xs) = x"
proof -
  let ?s = "sort_key k xs"
  have ne: "?s \<noteq> []" using assms(1) by (metis empty_iff list.set(1) set_sort)
  obtain i where i: "i < length ?s" "?s ! i = x" using assms(1) by (metis in_set_conv_nth set_sort)
  have "map k ?s ! i \<le> map k ?s ! (length ?s - 1)"
    using i(1) by (intro sorted_nth_mono) (simp_all add: sorted_sort_key)
  then have "k x \<le> k (last ?s)" using i ne by (simp add: last_conv_nth)
  moreover have "last ?s \<in> set xs" using ne by (metis last_in_set set_sort)
  ultimately show ?thesis using assms(2) by fastforce
qed

lemma max_index_ge: "e \<in> set log \<Longrightarrow> le_index e \<le> max_index log"
  by (auto simp: max_index_def)

text \<open>An entry with the next index is the last of the log, and the only one above the old end.\<close>

lemma append_next:
  assumes "max_index log < max64" and "le_index e = nextIndex log"
  shows "lastIndexTerm (appendLog e log) = (le_index e, le_term e)"
    and "max_index log \<le> a \<Longrightarrow> a < le_index e \<Longrightarrow> entries_between a (le_index e) (appendLog e log) = [e]"
    and "n \<le> le_index e \<Longrightarrow> loadLogEntriesFrom n (appendLog e log) \<noteq> []
           \<and> last (loadLogEntriesFrom n (appendLog e log)) = e"
proof -
  have below: "d \<in> set log \<Longrightarrow> le_index d < le_index e" for d
    using max_index_ge [of d log] assms by (simp add: nextIndex_def inc64_below)
  then have cases: "d \<in> set (appendLog e log) \<Longrightarrow> d = e \<or> le_index d < le_index e" for d
    by (auto simp: appendLog_def delete_where_def)
  have e: "e \<in> set (appendLog e log)" by (simp add: appendLog_def)
  show "lastIndexTerm (appendLog e log) = (le_index e, le_term e)"
    using last_sort_key [OF e, of le_index] cases e by (auto simp: lastIndexTerm_def Let_def)
  show "entries_between a (le_index e) (appendLog e log) = [e]" if "max_index log \<le> a" "a < le_index e"
  proof -
    have "filter (\<lambda>d. a < le_index d \<and> le_index d \<le> le_index e) (delete_where P log) = []" for P
      using that(1) max_index_ge [of _ log] by (fastforce simp: filter_empty_conv delete_where_def)
    with that(2) show ?thesis by (simp add: entries_between_def appendLog_def)
  qed
  show "loadLogEntriesFrom n (appendLog e log) \<noteq> [] \<and> last (loadLogEntriesFrom n (appendLog e log)) = e"
    if "n \<le> le_index e"
  proof -
    have in_f: "e \<in> set (filter (\<lambda>d. n \<le> le_index d) (appendLog e log))" using e that by simp
    then have "loadLogEntriesFrom n (appendLog e log) \<noteq> []"
      unfolding loadLogEntriesFrom_def by (metis empty_iff list.set(1) set_sort)
    moreover have "last (loadLogEntriesFrom n (appendLog e log)) = e"
      unfolding loadLogEntriesFrom_def by (rule last_sort_key [OF in_f]) (use cases in auto)
    ultimately show ?thesis by blast
  qed
qed

section \<open>A majority that accepts\<close>

text \<open>A peer that answers every request as a follower does that accepts it (\<open>AppendEntries_match\<close>).\<close>

definition accepting :: "'w ae_rpc \<Rightarrow> string \<Rightarrow> bool" where
  "accepting rpc pid \<longleftrightarrow> (\<forall>req w. \<exists>w1. rpc pid req w
     = (Some \<lparr>aer_term = ae_term req, aer_success = True, aer_match = last_installed req\<rparr>, w1))"

lemma replicate_peer_accepting:
  assumes "accepting rpc pid" and "c_log c = appendLog e log"
    and "max_index log < max64" and "le_index e = nextIndex log" and "0 < le_index e"
  shows "\<exists>w1. replicate_peer (Suc n) rpc t commit (le_index e) pid (c, w) = (True, set_progress pid (le_index e) c, w1)"
proof -
  define ni where "ni = next_for (le_index e) pid c"
  define ents where "ents = (if ni > le_index e then [] else loadLogEntriesFrom ni (c_log c))"
  define prev where "prev = (if ni > le_index e then le_index e else ni - 1)"
  have ents: "ents \<noteq> [] \<and> last ents = e" if "ni \<le> le_index e"
    using append_next(3) [OF assms(3,4) that] that by (simp add: ents_def assms(2))
  have last: "last_installed (append_request t commit prev ents c) = le_index e"
  proof (cases "ni \<le> le_index e")
    case True
    with ents show ?thesis by (simp add: last_installed_def append_request_def)
  next
    case False
    then show ?thesis by (simp add: last_installed_def append_request_def ents_def prev_def)
  qed
  obtain w1 where "rpc pid (append_request t commit prev ents c) w
      = (Some \<lparr>aer_term = t, aer_success = True, aer_match = le_index e\<rparr>, w1)"
    using assms(1) last unfolding accepting_def by (metis append_request_def AppendEntriesRequest.select_convs(1))
  then show ?thesis
    using ents assms(5)
    by (auto simp: Let_def ni_def [symmetric] ents_def [symmetric] prev_def [symmetric])
qed

lemma run_accepting:
  assumes "\<And>pid. pid \<in> set order \<Longrightarrow> accepting rpc pid" and "c_log c = appendLog e log"
    and "max_index log < max64" and "le_index e = nextIndex log" and "0 < le_index e"
  shows "\<exists>w1. run_peers (replicate_peer (Suc n) rpc t commit (le_index e)) order (c, w)
    = (replicate (length order) True, fold (\<lambda>pid. set_progress pid (le_index e)) order c, w1)"
  using assms(1,2)
proof (induction order arbitrary: c w)
  case (Cons pid order)
  obtain w1 where w1: "replicate_peer (Suc n) rpc t commit (le_index e) pid (c, w)
      = (True, set_progress pid (le_index e) c, w1)"
    using replicate_peer_accepting [OF Cons.prems(1) Cons.prems(2) assms(3-5)] by fastforce
  have "c_log (set_progress pid (le_index e) c) = appendLog e log"
    using Cons.prems(2) by (simp add: set_progress_def)
  then obtain w2 where "run_peers (replicate_peer (Suc n) rpc t commit (le_index e)) order
      (set_progress pid (le_index e) c, w1)
    = (replicate (length order) True, fold (\<lambda>pid. set_progress pid (le_index e)) order (set_progress pid (le_index e) c), w2)"
    using Cons.IH Cons.prems(1) by fastforce
  with w1 show ?case by (simp del: replicate_peer.simps)
qed simp

lemma collect_replicate:
  "maj \<le> s + k \<Longrightarrow> k \<le> pending \<Longrightarrow> 0 < k \<or> pending = 0 \<Longrightarrow> collect maj (replicate k True) pending s"
proof (induction k arbitrary: pending s)
  case (Suc k)
  then obtain p where "pending = Suc p" by (cases pending) auto
  with Suc show ?case by (cases "k = 0") (auto simp: Let_def)
qed simp

lemma fold_progress:
  "c_db (fold (\<lambda>pid. set_progress pid i) order c) = c_db c"
  "c_state (fold (\<lambda>pid. set_progress pid i) order c) = c_state c"
  "c_role (fold (\<lambda>pid. set_progress pid i) order c) = c_role c"
  "c_id (fold (\<lambda>pid. set_progress pid i) order c) = c_id c"
  "c_peers (fold (\<lambda>pid. set_progress pid i) order c) = c_peers c"
  "c_apply_err (fold (\<lambda>pid. set_progress pid i) order c) = c_apply_err c"
  "c_match (fold (\<lambda>pid. set_progress pid i) order c) pid = (if pid \<in> set order then Some i else c_match c pid)"
  by (induction order arbitrary: c) (simp_all add: set_progress_def)

section \<open>A proposal goes through\<close>

text \<open>The commit index goes to an index that a majority of the nodes holds and none exceeds.\<close>

lemma commit_reaches:
  assumes "c_role c = Leader" and "fst (lastIndexTerm (c_log c)) = i" and "0 < i" and "c_commit c < i"
    and "distinct order" and "set order \<subseteq> set (activePeers c)"
    and "majority (length (activePeers c) + 1) \<le> length order + 1"
    and "\<And>pid. pid \<in> set order \<Longrightarrow> c_match c pid = Some i"
    and "\<And>pid v. c_match c pid = Some v \<Longrightarrow> v \<le> i"
  shows "recalculateCommitIndex c = set_commit i c"
proof -
  define val where "val pid = (case c_match c pid of Some v \<Rightarrow> v | None \<Rightarrow> 0)" for pid
  have idxs: "match_indexes c = i # map val (activePeers c)"
    by (simp add: match_indexes_def assms(2) val_def [abs_def])
  have val: "val pid \<le> i" for pid
    using assms(3) assms(9) [of pid] by (simp add: val_def split: option.split)
  have "length order \<le> length (filter (\<lambda>pid. i \<le> val pid) (activePeers c))"
  proof -
    have "set order \<subseteq> set (filter (\<lambda>pid. i \<le> val pid) (activePeers c))"
      using assms(6,8) by (auto simp: val_def)
    then have "card (set order) \<le> card (set (filter (\<lambda>pid. i \<le> val pid) (activePeers c)))"
      by (intro card_mono) simp_all
    then show ?thesis
      using distinct_card [OF assms(5)] card_length le_trans by metis
  qed
  then have "majority (length (match_indexes c)) \<le> length (filter (\<lambda>k. i \<le> k) (match_indexes c))"
    using assms(7) by (simp add: idxs filter_map comp_def)
  then have "i \<le> commit_candidate (match_indexes c)"
    using commit_candidate_majority(2) [of "match_indexes c" i] idxs by fastforce
  moreover have "commit_candidate (match_indexes c) \<in> set (match_indexes c)"
    by (rule commit_candidate_in) (simp add: idxs)
  then have "commit_candidate (match_indexes c) \<le> i" using val by (auto simp: idxs)
  ultimately have "commit_candidate (match_indexes c) = i" by simp
  then show ?thesis using assms(1-4) by (simp add: recalculateCommitIndex_def advance_commit_def)
qed

lemma majority_replicates:
  assumes "max_index (c_log c) < max64" and "0 \<le> max_index (c_log c)" and "le_index e = nextIndex (c_log c)"
    and "distinct order" and "set order \<subseteq> set (activePeers c)"
    and "majority (length (activePeers c) + 1) \<le> length order + 1"
    and "\<And>pid. pid \<in> set order \<Longrightarrow> accepting rpc pid"
  shows "\<exists>w1. replicate_retry rpc (take 5 (order # orders)) t (set_log (appendLog e (c_log c)) c, w)
    = (fold (\<lambda>pid. set_progress pid (le_index e)) order (set_log (appendLog e (c_log c)) c), w1)"
proof -
  define c1 where "c1 = set_log (appendLog e (c_log c)) c"
  have log1: "c_log c1 = appendLog e (c_log c)" by (simp add: c1_def)
  have pos: "0 < le_index e" using assms(1-3) by (simp add: nextIndex_def inc64_below)
  have active: "activePeers c1 = activePeers c" by (simp add: activePeers_def c1_def set_log_def)
  obtain w1 where run: "run_peers (replicate_peer 5 rpc t (c_commit c1) (le_index e)) order (c1, w)
      = (replicate (length order) True, fold (\<lambda>pid. set_progress pid (le_index e)) order c1, w1)"
    using run_accepting [OF assms(7) log1 assms(1,3) pos, of order 4 t "c_commit c1" w]
    by (auto simp: eval_nat_numeral)
  have "collect (majority (length (activePeers c) + 1)) (replicate (length order) True) (length (activePeers c)) 1"
  proof (rule collect_replicate)
    show "length order \<le> length (activePeers c)"
      using assms(4,5) by (metis card_length card_mono distinct_card finite_set le_trans)
    show "0 < length order \<or> length (activePeers c) = 0"
      using assms(6) by (cases order; cases "activePeers c") (auto simp: majority_def)
  qed (use assms(6) in simp)
  then have "broadcast_entries rpc order t (c_commit c1) (c1, w)
      = (True, fold (\<lambda>pid. set_progress pid (le_index e)) order c1, w1)"
    using run append_next(1) [OF assms(1,3)] by (simp add: broadcast_entries_def Let_def active log1)
  then show ?thesis by (simp add: c1_def)
qed

definition committed_store :: "LogEntry \<Rightarrow> Node \<Rightarrow> Store" where
  "committed_store e c = persistMeta ''commitIndex'' (le_index e) ((c_db c)\<lparr>tb_log := appendLog e (c_log c)\<rparr>)"

lemma committed_store_log [simp]: "tb_log (committed_store e c) = appendLog e (c_log c)"
  by (simp add: committed_store_def persistMeta_def)

lemma committed_store_applied: "tb_applied (committed_store e c) = tb_applied (c_db c)"
  by (simp add: committed_store_def persistMeta_def)

text \<open>One new committed entry: the loop has one round, and with it the polling is over.\<close>

lemma one_round:
  assumes "entries_between (c_applied c) (c_commit c) (c_log c) = [e]" and "c_applied c < c_commit c"
  shows "snd (applyCommitted (Some F) c) = snd (apply_entry F e c)"
  using assms by (simp add: applyCommitted_def split: prod.split option.split)

lemma round_acknowledged:
  assumes "fst (apply_entry (NewRaftApplier now) e c) = None" and "c_role c = Leader" and "c_apply_err c = None"
  shows "waitForApplied (le_index e) background (snd (apply_entry (NewRaftApplier now) e c))
    = (Inr (), snd (apply_entry (NewRaftApplier now) e c))"
proof -
  have "c_apply_err (snd (apply_entry (NewRaftApplier now) e c)) = None"
    using assms(1,3) by (cases rule: raft_applier.apply_entry_cases [of e c now])
      (simp_all add: mark_applied_def clear_apply_err_def set_applied_def)
  moreover have "c_role (snd (apply_entry (NewRaftApplier now) e c)) = Leader"
    "c_applied (snd (apply_entry (NewRaftApplier now) e c)) = le_index e"
    using assms(1,2) raft_applier.apply_entry_frames(2) [of now e c] raft_applier.apply_entry_applied [of now e c] by simp_all
  ultimately show ?thesis by (subst waitForApplied.simps) (simp add: poll_applied_def)
qed

text \<open>
  A leader that has applied its log and reaches a majority commits what it is given and hands
  it to the applier; when that is no error, the proposal is acknowledged.
\<close>

lemma majority_commits:
  assumes "c_role c = Leader" and "c_apply_err c = None" and "max_index (c_log c) < max64"
    and "0 \<le> max_index (c_log c)" and "c_commit c = max_index (c_log c)" and "c_applied c = max_index (c_log c)"
    and "\<forall>pid v. c_match c pid = Some v \<longrightarrow> v \<le> max_index (c_log c)"
    and "distinct order" and "set order \<subseteq> set (activePeers c)"
    and "majority (length (activePeers c) + 1) \<le> length order + 1"
    and "\<forall>pid \<in> set order. accepting rpc pid"
    and "e1 = e\<lparr>le_term := c_term c, le_index := nextIndex (c_log c)\<rparr>"
  shows "\<exists>c3 w1. c_db c3 = committed_store e1 c \<and> c_commit c3 = le_index e1 \<and> c_role c3 = Leader \<and> c_apply_err c3 = None
    \<and> (fst (apply_entry (NewRaftApplier now) e1 c3) = None \<longrightarrow>
        Propose rpc (Some (NewRaftApplier now)) (order # orders) background e (c, w)
          = (Inr (), audit_proposed e1 (snd (apply_entry (NewRaftApplier now) e1 c3)), w1))"
proof -
  define i where "i = nextIndex (c_log c)"
  have i: "i = max_index (c_log c) + 1" "0 < i" using assms(3,4) by (simp_all add: i_def nextIndex_def inc64_below)
  have e1: "le_index e1 = i" "le_term e1 = c_term c" "le_event_id e1 = le_event_id e"
    by (simp_all add: assms(12) i_def)
  note new = append_next [OF assms(3), of e1, unfolded e1(1), OF i_def]
  define c1 where "c1 = set_log (appendLog e1 (c_log c)) c"
  define c2 where "c2 = fold (\<lambda>pid. set_progress pid i) order c1"
  have acc: "accepting rpc pid" if "pid \<in> set order" for pid using that assms(11) by blast
  obtain w1 where retry: "replicate_retry rpc (take 5 (order # orders)) (le_term e1) (c1, w) = (c2, w1)"
    using majority_replicates [OF assms(3,4) e1(1) [unfolded i_def] assms(8-10) acc]
    unfolding c1_def c2_def e1(1) by blast
  have c2: "c_db c2 = (c_db c)\<lparr>tb_log := appendLog e1 (c_log c)\<rparr>" "c_state c2 = c_state c" "c_role c2 = Leader"
    "c_apply_err c2 = None" "activePeers c2 = activePeers c"
    using assms(1,2) by (simp_all add: c2_def fold_progress activePeers_def c1_def set_log_def)
  have commit: "recalculateCommitIndex c2 = set_commit i c2"
  proof (rule commit_reaches [of c2 i order])
    show "c_match c2 pid = Some i" if "pid \<in> set order" for pid using that by (simp add: c2_def fold_progress)
    show "v \<le> i" if "c_match c2 pid = Some v" for pid v
      using that spec [OF spec [OF assms(7)], of pid v] i(1) by (auto simp: c2_def fold_progress c1_def set_log_def split: if_splits)
  qed (use assms(5,8-10) c2 i new(1) in simp_all)
  define c3 where "c3 = set_commit i c2"
  have c3: "c_db c3 = committed_store e1 c" "c_applied c3 = c_applied c" "c_commit c3 = i" "c_role c3 = Leader"
    "c_apply_err c3 = None"
    using c2 by (simp_all add: c3_def set_commit_def committed_store_def e1(1))
  have "snd (applyCommitted (Some (NewRaftApplier now)) c3) = snd (apply_entry (NewRaftApplier now) e1 c3)"
    using new(2) [of "c_applied c"] assms(6) i(1) c3 by (intro one_round) simp_all
  then have "replicateAndCommit rpc (Some (NewRaftApplier now)) (order # orders) e1 (c, w)
      = (snd (apply_entry (NewRaftApplier now) e1 c3), w1)"
    by (simp only: replicateAndCommit_def Let_def prod.case c1_def [symmetric] retry commit c3_def [symmetric])
  then have "fst (apply_entry (NewRaftApplier now) e1 c3) = None \<longrightarrow>
      Propose rpc (Some (NewRaftApplier now)) (order # orders) background e (c, w)
        = (Inr (), audit_proposed e1 (snd (apply_entry (NewRaftApplier now) e1 c3)), w1)"
    using assms(1,2) round_acknowledged [of now e1 c3 background] c3(4,5)
    by (simp add: Propose_def Let_def assms(12) [symmetric])
  then show ?thesis using c3 by (intro exI [of _ c3] exI [of _ w1]) (simp add: e1(1))
qed

lemma majority_applies:
  assumes "c_role c = Leader" and "c_apply_err c = None" and "max_index (c_log c) < max64"
    and "0 \<le> max_index (c_log c)" and "c_commit c = max_index (c_log c)" and "c_applied c = max_index (c_log c)"
    and "\<forall>pid v. c_match c pid = Some v \<longrightarrow> v \<le> max_index (c_log c)"
    and "distinct order" and "set order \<subseteq> set (activePeers c)"
    and "majority (length (activePeers c) + 1) \<le> length order + 1"
    and "\<forall>pid \<in> set order. accepting rpc pid"
    and "HasAppliedEvent (le_event_id e) (c_db c) = Inr False"
    and "e1 = e\<lparr>le_term := c_term c, le_index := nextIndex (c_log c)\<rparr>"
    and "fst (NewRaftApplier now e1 (committed_store e1 c)) = Inr ()"
  shows "\<exists>c' w'. Propose rpc (Some (NewRaftApplier now)) (order # orders) background e (c, w) = (Inr (), audit_proposed e1 c', w')
     \<and> c_role c' = Leader \<and> c_commit c' = le_index e1 \<and> c_applied c' = le_index e1
     \<and> c_db c' = persistMeta ''lastApplied'' (le_index e1) (snd (RecordAppliedEvent (le_event_id e1) (le_index e1)
         (snd (NewRaftApplier now e1 (committed_store e1 c)))))"
proof -
  obtain c3 w1 where c3: "c_db c3 = committed_store e1 c" "c_commit c3 = le_index e1" "c_role c3 = Leader" "c_apply_err c3 = None"
    and go: "fst (apply_entry (NewRaftApplier now) e1 c3) = None \<Longrightarrow>
      Propose rpc (Some (NewRaftApplier now)) (order # orders) background e (c, w)
        = (Inr (), audit_proposed e1 (snd (apply_entry (NewRaftApplier now) e1 c3)), w1)"
    using majority_commits [OF assms(1-11,13), of now orders background w] by metis
  have fresh: "HasAppliedEvent (le_event_id e1) s = Inr False" if "tb_applied s = tb_applied (c_db c)" for s
    using assms(12) HasApplied_cong [OF that] by (simp add: assms(13))
  obtain s where ran: "NewRaftApplier now e1 (c_db c3) = (Inr (), s)"
    using assms(14) by (metis c3(1) prod.collapse)
  have "tb_applied s = tb_applied (c_db c)"
    using raft_applier.keeps_applied [of now e1 "c_db c3"] ran by (simp add: c3(1) committed_store_def persistMeta_def)
  then obtain s1 where rec: "RecordAppliedEvent (le_event_id e1) (le_index e1) s = (Inr (), s1)"
    using raft_applied.record_known [OF fresh] by (metis prod.collapse)
  have "apply_entry (NewRaftApplier now) e1 c3 = (None, mark_applied (le_index e1) (c3\<lparr>c_db := s1\<rparr>))"
    using fresh [of "c_db c3"] c3(1) by (simp add: apply_entry_def ran [unfolded c3(1)] record_applied_def rec committed_store_applied)
  moreover have "c_db (mark_applied (le_index e1) (c3\<lparr>c_db := s1\<rparr>)) = persistMeta ''lastApplied'' (le_index e1) s1"
    by (simp add: mark_applied_def clear_apply_err_def set_applied_def)
  ultimately show ?thesis
    using go ran rec c3 by (intro exI [of _ "mark_applied (le_index e1) (c3\<lparr>c_db := s1\<rparr>)"] exI [of _ w1]) simp
qed

text \<open>
  C9. A leader that has applied its log and reaches a majority commits what it is
  given: the call returns success; the entry is the one at the next index, committed
  and applied; the database is what the applier made of it, with the event
  recorded and the two indices stored; and an audit record of the proposal is left.
\<close>

theorem majority_commits_and_applies:
  assumes "c_role c = Leader" and "c_apply_err c = None" and "max_index (c_log c) < max64"
    and "0 \<le> max_index (c_log c)" and "c_commit c = max_index (c_log c)" and "c_applied c = max_index (c_log c)"
    and "\<And>pid v. c_match c pid = Some v \<Longrightarrow> v \<le> max_index (c_log c)"
    and "distinct order" and "set order \<subseteq> set (activePeers c)"
    and "majority (length (activePeers c) + 1) \<le> length order + 1"
    and "\<And>pid. pid \<in> set order \<Longrightarrow> accepting rpc pid"
    and "HasAppliedEvent (le_event_id e) (c_db c) = Inr False"
    and "e1 = e\<lparr>le_term := c_term c, le_index := nextIndex (c_log c)\<rparr>"
    and "fst (NewRaftApplier now e1 (committed_store e1 c)) = Inr ()"
  shows "\<exists>c' w'. Propose rpc (Some (NewRaftApplier now)) (order # orders) background e (c, w) = (Inr (), audit_proposed e1 c', w')
     \<and> c_role c' = Leader \<and> c_commit c' = le_index e1 \<and> c_applied c' = le_index e1
     \<and> c_db c' = persistMeta ''lastApplied'' (le_index e1) (snd (RecordAppliedEvent (le_event_id e1) (le_index e1)
         (snd (NewRaftApplier now e1 (committed_store e1 c)))))"
proof -
  have "\<forall>pid v. c_match c pid = Some v \<longrightarrow> v \<le> max_index (c_log c)" using assms(7) by blast
  moreover have "\<forall>pid \<in> set order. accepting rpc pid" using assms(11) by blast
  ultimately show ?thesis by (rule majority_applies [OF assms(1-6) _ assms(8-10) _ assms(12-14)])
qed

text \<open>A leader of three nodes, one of whose followers answers, deletes an appointment.\<close>

definition three_leader :: Node where
  "three_leader = becomeLeader [''b'', ''c''] (stand (boot ''a'' [''b'', ''c'']))"

definition only_b :: "unit ae_rpc" where
  "only_b pid req w = (if pid = ''b''
     then Some \<lparr>aer_term = ae_term req, aer_success = True, aer_match = last_installed req\<rparr> else None, w)"

definition delete_entry :: LogEntry where
  "delete_entry = \<lparr>le_term = 0, le_index = 0, le_event_id = ''7'', le_aggregate = ''appointment'',
     le_aggregate_id = ''a1'', le_op = OpApptDelete,
     le_payload = jprint (JObj [(''appointment_id'', JStr ''a1'')]), le_ts = zeroTime\<rparr>"

theorem majority_commits_and_applies_witness:
  "\<exists>c' w'. Propose only_b (Some (NewRaftApplier zeroTime)) [[''b'']] [] delete_entry (three_leader, ()) = (Inr (), c', w')
     \<and> c_applied c' = 1"
proof -
  let ?e = "delete_entry\<lparr>le_term := c_term three_leader, le_index := nextIndex (c_log three_leader)\<rparr>"
  have h: "c_role three_leader = Leader" "c_apply_err three_leader = None" "max_index (c_log three_leader) < max64"
    "0 \<le> max_index (c_log three_leader)" "c_commit three_leader = max_index (c_log three_leader)"
    "c_applied three_leader = max_index (c_log three_leader)"
    "distinct [''b'']" "set [''b''] \<subseteq> set (activePeers three_leader)"
    "majority (length (activePeers three_leader) + 1) \<le> length [''b''] + 1"
    "HasAppliedEvent (le_event_id delete_entry) (c_db three_leader) = Inr False"
    "fst (NewRaftApplier zeroTime ?e (committed_store ?e three_leader)) = Inr ()" "nextIndex (c_log three_leader) = 1"
    by code_simp+
  have m: "c_match three_leader pid = Some v \<Longrightarrow> v \<le> max_index (c_log three_leader)" for pid v
    using h(4) by (auto simp: three_leader_def becomeLeader_def Let_def follow_def split: if_splits)
  have acc: "pid \<in> set [''b''] \<Longrightarrow> accepting only_b pid" for pid
    by (simp add: accepting_def only_b_def)
  show ?thesis
  proof (rule exE [OF majority_commits_and_applies [OF h(1-6) _ h(7-9) _ h(10) refl h(11)]])
    show "v \<le> max_index (c_log three_leader)" if "c_match three_leader pid = Some v" for pid v
      using that by (rule m)
    show "accepting only_b pid" if "pid \<in> set [''b'']" for pid
      using that by (rule acc)
  qed (elim exE conjE, intro exI conjI, assumption, simp_all add: h(12))
qed

section \<open>The calls of a proposal\<close>

definition counted :: "'w ae_rpc \<Rightarrow> (nat \<times> 'w) ae_rpc" where
  "counted rpc pid req nw = (let (r, w1) = rpc pid req (snd nw) in (r, Suc (fst nw), w1))"

abbreviation calls :: "'a \<times> Node \<times> nat \<times> 'w \<Rightarrow> nat" where
  "calls x \<equiv> fst (snd (snd x))"

lemma replicate_peer_calls:
  "calls (replicate_peer n (counted rpc) t commit lastIdx pid cw) \<le> fst (snd cw) + n"
proof (induction n arbitrary: cw)
  case (Suc n)
  obtain c k w where cw: "cw = (c, k, w)" by (metis prod_cases3)
  have rec: "calls (replicate_peer n (counted rpc) t commit lastIdx pid (back_off pid c, Suc k, w1)) \<le> Suc (k + n)" for w1
    using Suc [of "(back_off pid c, Suc k, w1)"] by simp
  define ni where "ni = next_for lastIdx pid c"
  define req where "req = append_request t commit (if lastIdx < ni then lastIdx else ni - 1)
    (if lastIdx < ni then [] else loadLogEntriesFrom ni (c_log c)) c"
  obtain r w1 where "counted rpc pid req (k, w) = (r, Suc k, w1)"
    by (simp add: counted_def case_prod_beta)
  with rec show ?case
    by (auto simp: cw Let_def ni_def [symmetric] req_def [symmetric] le_SucI split: option.split)
qed simp

lemma run_peers_calls:
  assumes "\<And>pid s. fst (snd (snd (f pid s))) \<le> fst (snd s) + n"
  shows "calls (run_peers f order s) \<le> fst (snd s) + n * length order"
proof (induction order arbitrary: s)
  case (Cons pid order)
  obtain r s1 where s1: "f pid s = (r, s1)" by (cases "f pid s")
  have "calls (run_peers f order s1) \<le> fst (snd s1) + n * length order" by (rule Cons)
  moreover have "fst (snd s1) \<le> fst (snd s) + n" using assms [of pid s] s1 by simp
  ultimately show ?case by (simp add: s1 case_prod_beta)
qed simp

lemma replicate_retry_calls:
  "fst (snd (replicate_retry (counted rpc) orders t cw)) \<le> fst (snd cw) + 5 * sum_list (map length orders)"
proof (induction orders arbitrary: cw)
  case (Cons order orders)
  obtain b cw1 where b: "broadcast_entries (counted rpc) order t (c_commit (fst cw)) cw = (b, cw1)"
    by (cases "broadcast_entries (counted rpc) order t (c_commit (fst cw)) cw")
  moreover have "calls (run_peers (replicate_peer 5 (counted rpc) t (c_commit (fst cw)) lastIdx) order cw)
      \<le> fst (snd cw) + 5 * length order" for lastIdx
    by (rule run_peers_calls) (rule replicate_peer_calls)
  ultimately have "fst (snd cw1) \<le> fst (snd cw) + 5 * length order"
    by (simp add: broadcast_entries_def Let_def case_prod_beta) (metis snd_conv)
  with Cons [of cw1] show ?case by (cases b) (simp_all add: b)
qed simp

text \<open>
  C33. A proposal ends after a bounded number of requests: at most five rounds, in each
  of them at most five attempts for every peer that answers in time.
\<close>

theorem proposal_requests_bounded:
  "calls (Propose (counted rpc) applier orders background e (c, k, w))
     \<le> k + 25 * Max (insert 0 (set (map length orders)))"
proof -
  let ?m = "Max (insert 0 (set (map length orders)))"
  have "sum_list (map length (take 5 orders)) \<le> length (take 5 orders) * ?m"
  proof -
    have "x \<le> ?m" if "x \<in> set (map length (take 5 orders))" for x
      using that by (intro Max_ge) (auto dest: in_set_takeD)
    then have "sum_list (map length (take 5 orders)) \<le> sum_list (map (\<lambda>_. ?m) (take 5 orders))"
      by (intro sum_list_mono) simp
    then show ?thesis by (simp add: sum_list_triv)
  qed
  also have "\<dots> \<le> 5 * ?m" by (intro mult_right_mono) simp_all
  finally have m: "sum_list (map length (take 5 orders)) \<le> 5 * ?m" .
  have "fst (snd (replicateAndCommit (counted rpc) applier orders e1 (c, k, w))) \<le> k + 25 * ?m" for e1
    using replicate_retry_calls [of rpc "take 5 orders" "le_term e1" "(set_log (appendLog e1 (c_log c)) c, k, w)"] m
    by (auto simp: replicateAndCommit_def Let_def case_prod_beta)
  then show ?thesis
    by (simp add: Propose_def Let_def case_prod_beta)
qed

end
