(* ===== verification/FaultProps.thy ===== *)
theory FaultProps
  imports LivenessProps
begin

text \<open>
  Two behaviours of the code that break what it promises: two leaders of one term that
  both acknowledge, and a deletion that never enters the log.
\<close>

section \<open>Two leaders\<close>

text \<open>
  Three nodes. \<open>a\<close> and \<open>b\<close> cannot reach each other and both stand for election; then
  each proposes an entry, and the only peer that answers is \<open>c\<close>, the rest of the world.
\<close>

definition only_c :: "Node ae_rpc" where
  "only_c pid req w =
     (if pid = ''c'' then (let (resp, w1) = HandleAppendEntries req w in (Some resp, w1)) else (None, w))"

definition alone :: "string \<Rightarrow> string list \<Rightarrow> Node" where
  "alone nid peers = fst (snd (startElection (\<lambda>pid req w. (None, w)) [] [] (boot nid peers) ()))"

definition split_brain :: "(unit result \<times> Node) \<times> (unit result \<times> Node) \<times> Node" where
  "split_brain =
     (let (r1, a, c1) = Propose only_c (Some (NewRaftApplier zeroTime)) [[''c'']] [] delete_entry
            (alone ''a'' [''b'', ''c''], boot ''c'' [''a'', ''b'']);
          (r2, b, c2) = Propose only_c (Some (NewRaftApplier zeroTime)) [[''c'']] []
            (delete_entry\<lparr>le_event_id := ''8''\<rparr>) (alone ''b'' [''a'', ''c''], c1)
      in ((r1, a), (r2, b), c2))"


section \<open>Deleting a group\<close>

text \<open>
  When its creator deletes a group, on a leader as on a follower, the group is gone
  from that node's database at once, and the log, the commit index and the rest of
  the world stay as they are: no other node learns of it.
\<close>

theorem group_deletion_is_not_replicated:
  assumes "rq_user r = Some creator" and "path_id ''groupID'' r \<noteq> []"
    and "GetGroupByID (path_id ''groupID'' r) (db_of cw) = Inr g" and "g_creator_id g = creator"
  shows "rp_status (fst (handleDeleteGroup now r cw)) = 200
     \<and> \<not> ok (GetGroupByID (path_id ''groupID'' r) (db_of (snd (handleDeleteGroup now r cw))))
     \<and> c_log (fst (snd (handleDeleteGroup now r cw))) = c_log (fst cw)
     \<and> c_state (fst (snd (handleDeleteGroup now r cw))) = c_state (fst cw)
     \<and> snd (snd (handleDeleteGroup now r cw)) = snd cw"
proof -
  have "find (\<lambda>g. g_id g = gid) (filter (\<lambda>g. g_id g \<noteq> gid) gs) = None" for gid and gs :: "Group list"
    by (induction gs) simp_all
  then have "\<not> ok (GetGroupByID gid (AppendAudit now e (DeleteGroup gid s)))" for gid e s
    by (simp add: GetGroupByID_def DeleteGroup_def delete_where_def AppendAudit_def)
  moreover have "tb_log (AppendAudit now e (DeleteGroup gid s)) = tb_log s" for gid e s
    by (simp add: DeleteGroup_def AppendAudit_def)
  ultimately show ?thesis
    using assms
    by (simp add: handleDeleteGroup_def with_user_def Let_def groupService_DeleteGroup_def audited_def
        RecordAudit_def set_db_def reply_json_def)
qed

definition group_node :: Node where
  "group_node = sample_node\<lparr>c_db := sample_store\<lparr>tb_groups :=
     [\<lparr>g_id = ''g1'', g_name = ''team'', g_description = [], g_created_at = zeroTime, g_updated_at = zeroTime,
       g_creator_id = ''u2'', g_creator_username = ''bob'', g_group_type = GroupTypeHierarchical\<rparr>]\<rparr>\<rparr>"

theorem group_deletion_is_not_replicated_witness:
  "c_role group_node = Follower
   \<and> \<not> ok (GetGroupByID ''g1'' (db_of (snd (handleDeleteGroup zeroTime (sample_request ''/api/groups/g1'' JNull) (group_node, ())))))"
proof -
  let ?r = "sample_request ''/api/groups/g1'' JNull"
  have "rq_user ?r = Some ''u2''" "path_id ''groupID'' ?r = ''g1''" "c_role group_node = Follower" by code_simp+
  moreover obtain g where "GetGroupByID ''g1'' (c_db group_node) = Inr g" "g_creator_id g = ''u2''"
    by (simp add: group_node_def GetGroupByID_def)
  ultimately show ?thesis
    using group_deletion_is_not_replicated [of ?r "''u2''" "(group_node, ())" g zeroTime] by simp
qed

end
