(* ===== verification/WebSocket.thy ===== *)
theory WebSocket
  imports Http StoreEvents "HOL-Library.AList"
begin

text \<open>
  \<open>websocket.go\<close>: the manager of the open connections, the loop that registers and
  unregisters them, broadcasting, the two pumps of a connection and \<open>ServeWS\<close>.
  A connection is named by its place in the list of all connections ever made, as
  a Go pointer names it. Deadlines, limits and pongs belong to the connection
  library and are left out; what the library answers is an argument.
\<close>

section \<open>Connections\<close>

datatype frame = TextFrame string | PingFrame | CloseFrame

text \<open>
  How far \<open>ServeWS\<close> is with a connection: blocked at \<open>manager.register\<close>, about to
  read the notifications, in the loop with the messages still to broadcast, done.
  A message is \<open>None\<close> when \<open>json.Marshal\<close> fails on it.
\<close>

datatype stage = Entering | Loading | Sending "json option list" | Served

text \<open>
  \<open>WSClient\<close>: \<open>k_send\<close> and \<open>k_closed\<close> are the buffer of the channel \<open>send\<close> and
  whether it is closed, \<open>k_conn\<close> and \<open>k_out\<close> the connection and the frames written to it,
  \<open>k_held\<close> a message \<open>writePump\<close> has received and not written yet.
\<close>

record WSClient =
  k_userID :: string
  k_send :: "string list"
  k_closed :: bool
  k_conn :: bool
  k_out :: "frame list"
  k_held :: "string option"
  k_writer :: bool
  k_reader :: bool
  k_stage :: stage

definition newWSClient :: "string \<Rightarrow> WSClient" where
  "newWSClient uid = \<lparr>k_userID = uid, k_send = [], k_closed = False, k_conn = True, k_out = [], k_held = None,
     k_writer = False, k_reader = False, k_stage = Entering\<rparr>"

text \<open>
  Sending in a \<open>select\<close> with a \<open>default\<close>: whether the message went into the buffer. Sending
  on a closed channel and closing it again panic; a panic is \<open>None\<close>.
\<close>

definition chan_cap :: nat where
  "chan_cap = 256"

definition chan_send :: "string \<Rightarrow> WSClient \<Rightarrow> (bool \<times> WSClient) option" where
  "chan_send data c =
     (if k_closed c then None
      else if length (k_send c) < chan_cap then Some (True, c\<lparr>k_send := k_send c @ [data]\<rparr>)
      else Some (False, c))"

definition chan_close :: "WSClient \<Rightarrow> WSClient option" where
  "chan_close c = (if k_closed c then None else Some (c\<lparr>k_closed := True\<rparr>))"

section \<open>The manager\<close>

text \<open>
  \<open>WSManager\<close> with the goroutines around it: \<open>ws_clients\<close> are all connections,
  \<open>ws_unregister\<close> the goroutines blocked on \<open>manager.unregister\<close>, \<open>ws_closing\<close> those that
  got through and close the connection next. A handler blocked on \<open>manager.register\<close> is
  a connection that is \<open>Entering\<close>. \<open>ws_closed\<close> says whether the channel \<open>closed\<close> is closed and
  \<open>ws_running\<close> whether \<open>Run\<close> has not returned.
\<close>

record Hub =
  ws_conns :: "(string \<times> nat list) list"
  ws_clients :: "WSClient list"
  ws_unregister :: "nat list"
  ws_closing :: "nat list"
  ws_closed :: bool
  ws_running :: bool

definition NewWSManager :: Hub where
  "NewWSManager = \<lparr>ws_conns = [], ws_clients = [], ws_unregister = [], ws_closing = [],
     ws_closed = False, ws_running = True\<rparr>"

abbreviation client :: "Hub \<Rightarrow> nat \<Rightarrow> WSClient" where
  "client h k \<equiv> ws_clients h ! k"

definition put_client :: "nat \<Rightarrow> WSClient \<Rightarrow> Hub \<Rightarrow> Hub" where
  "put_client k c h = h\<lparr>ws_clients := (ws_clients h)[k := c]\<rparr>"

definition conns_of :: "Hub \<Rightarrow> string \<Rightarrow> nat list" where
  "conns_of h uid = (case map_of (ws_conns h) uid of Some ks \<Rightarrow> ks | None \<Rightarrow> [])"

text \<open>The three cases of \<open>Run\<close>.\<close>

definition run_register :: "nat \<Rightarrow> Hub \<Rightarrow> Hub" where
  "run_register k h =
     (let uid = k_userID (client h k)
      in put_client k ((client h k)\<lparr>k_stage := Loading\<rparr>)
           (h\<lparr>ws_conns := AList.update uid (List.insert k (conns_of h uid)) (ws_conns h)\<rparr>))"

definition run_unregister :: "nat \<Rightarrow> Hub \<Rightarrow> Hub option" where
  "run_unregister k h =
     (let uid = k_userID (client h k); ks = conns_of h uid; rest = removeAll k ks
      in if k \<notin> set ks then Some h
         else case chan_close (client h k) of
           None \<Rightarrow> None
         | Some c \<Rightarrow> Some (put_client k c
             (h\<lparr>ws_conns := (if rest = [] then AList.delete uid (ws_conns h)
                             else AList.update uid rest (ws_conns h))\<rparr>)))"

fun close_each :: "nat list \<Rightarrow> Hub \<Rightarrow> Hub option" where
  "close_each [] h = Some h"
| "close_each (k # ks) h =
     (case chan_close ((client h k)\<lparr>k_conn := False\<rparr>) of
        None \<Rightarrow> None | Some c \<Rightarrow> close_each ks (put_client k c h))"

definition run_closed :: "Hub \<Rightarrow> Hub option" where
  "run_closed h =
     map_option (\<lambda>h1. h1\<lparr>ws_conns := [], ws_running := False\<rparr>) (close_each (concat (map snd (ws_conns h))) h)"

definition Stop :: "Hub \<Rightarrow> Hub option" where
  "Stop h = (if ws_closed h then None else Some (h\<lparr>ws_closed := True\<rparr>))"

section \<open>Broadcasting\<close>

text \<open>A connection whose buffer is full gets a goroutine that unregisters it.\<close>

fun send_each :: "nat list \<Rightarrow> string \<Rightarrow> Hub \<Rightarrow> Hub option" where
  "send_each [] data h = Some h"
| "send_each (k # ks) data h =
     (case chan_send data (client h k) of
        None \<Rightarrow> None
      | Some (True, c) \<Rightarrow> send_each ks data (put_client k c h)
      | Some (False, _) \<Rightarrow> send_each ks data (h\<lparr>ws_unregister := ws_unregister h @ [k]\<rparr>))"

definition BroadcastToUser :: "string \<Rightarrow> json option \<Rightarrow> Hub \<Rightarrow> Hub option" where
  "BroadcastToUser uid msg h =
     (case msg of None \<Rightarrow> Some h | Some j \<Rightarrow> send_each (conns_of h uid) (jprint j) h)"

fun BroadcastToUsers :: "string list \<Rightarrow> json option \<Rightarrow> Hub \<Rightarrow> Hub option" where
  "BroadcastToUsers [] msg h = Some h"
| "BroadcastToUsers (uid # uids) msg h = Option.bind (BroadcastToUser uid msg h) (BroadcastToUsers uids msg)"

section \<open>The pumps\<close>

text \<open>The deferred calls of \<open>writePump\<close>\<close>

definition writer_ends :: "WSClient \<Rightarrow> WSClient" where
  "writer_ends c = c\<lparr>k_writer := False, k_held := None, k_conn := False\<rparr>"

text \<open>
  \<open>writePump\<close> receives: a message of the buffer, or the end of a closed channel, which it
  answers with a close frame; \<open>sent\<close> says whether that frame was written.
\<close>

definition writer_receives :: "bool \<Rightarrow> WSClient \<Rightarrow> WSClient" where
  "writer_receives sent c =
     (case k_send c of
        m # ms \<Rightarrow> c\<lparr>k_send := ms, k_held := Some m\<rparr>
      | [] \<Rightarrow>
          if k_closed c
          then writer_ends (if sent then c\<lparr>k_out := k_out c @ [CloseFrame]\<rparr> else c)
          else c)"

fun joined :: "string list \<Rightarrow> string" where
  "joined [] = []"
| "joined [m] = m"
| "joined (m # ms) = m @ newline @ joined ms"

text \<open>
  The message received and all that wait in the buffer make one text frame, one to a line.
  \<open>opened\<close> and \<open>flushed\<close> say whether \<open>NextWriter\<close> and \<open>Close\<close> succeed.
\<close>

definition writer_writes :: "bool \<Rightarrow> bool \<Rightarrow> WSClient \<Rightarrow> WSClient" where
  "writer_writes opened flushed c =
     (case k_held c of
        None \<Rightarrow> c
      | Some m \<Rightarrow>
          if \<not> opened then writer_ends c
          else if \<not> flushed then writer_ends (c\<lparr>k_send := []\<rparr>)
          else c\<lparr>k_send := [], k_held := None, k_out := k_out c @ [TextFrame (joined (m # k_send c))]\<rparr>)"

definition writer_pings :: "bool \<Rightarrow> WSClient \<Rightarrow> WSClient" where
  "writer_pings sent c = (if sent then c\<lparr>k_out := k_out c @ [PingFrame]\<rparr> else writer_ends c)"

text \<open>\<open>readPump\<close> ends when reading fails, and then unregisters the connection and closes it.\<close>

definition reader_ends :: "nat \<Rightarrow> Hub \<Rightarrow> Hub" where
  "reader_ends k h =
     put_client k ((client h k)\<lparr>k_reader := False\<rparr>) (h\<lparr>ws_unregister := ws_unregister h @ [k]\<rparr>)"

text \<open>A goroutine blocked on \<open>manager.unregister\<close> is served, and closes the connection later.\<close>

definition unregister_served :: "nat \<Rightarrow> Hub \<Rightarrow> Hub option" where
  "unregister_served k h =
     run_unregister k (h\<lparr>ws_unregister := remove1 k (ws_unregister h), ws_closing := ws_closing h @ [k]\<rparr>)"

definition conn_closes :: "nat \<Rightarrow> Hub \<Rightarrow> Hub" where
  "conn_closes k h =
     put_client k ((client h k)\<lparr>k_conn := False\<rparr>) (h\<lparr>ws_closing := remove1 k (ws_closing h)\<rparr>)"

section \<open>ServeWS\<close>

definition extractTokenFromRequest :: "Request \<Rightarrow> string result" where
  "extractTokenFromRequest r =
     (let auth = header_of ''Authorization'' r; q = query_of ''token'' r
      in case (if auth = [] then None else bearer auth) of
           Some token \<Rightarrow> Inr token
         | None \<Rightarrow> if q \<noteq> [] then Inr q else Inl (ErrMsg ''no token provided''))"

text \<open>Who may connect, or the response that refuses.\<close>

definition ws_user :: "TokenLib \<Rightarrow> GoTime \<Rightarrow> Request \<Rightarrow> Store \<Rightarrow> Response + User" where
  "ws_user lib now r s =
     (case extractTokenFromRequest r of
        Inl _ \<Rightarrow> Inl (http_error 401 ''missing token'')
      | Inr token \<Rightarrow>
          (case ParseToken lib now token of
             Inl _ \<Rightarrow> Inl (http_error 401 ''invalid token'')
           | Inr claims \<Rightarrow>
               (case GetUserByUsername (cl_username claims) s of
                  Inl _ \<Rightarrow> Inl (http_error 401 ''user not found'')
                | Inr u \<Rightarrow> Inr u)))"

text \<open>
  The handler up to \<open>manager.register <- client\<close>. The library upgrades the connection or answers
  the request itself; what it does is the argument \<open>upgrade\<close>.
\<close>

definition ws_enter ::
    "(Request \<Rightarrow> Response option) \<Rightarrow> TokenLib \<Rightarrow> GoTime \<Rightarrow> Request \<Rightarrow> Store \<Rightarrow> Hub \<Rightarrow> Response + Hub" where
  "ws_enter upgrade lib now r s h =
     (case ws_user lib now r s of
        Inl resp \<Rightarrow> Inl resp
      | Inr u \<Rightarrow>
          (case upgrade r of
             Some resp \<Rightarrow> Inl resp
           | None \<Rightarrow> Inr (h\<lparr>ws_clients := ws_clients h @ [newWSClient (u_id u)]\<rparr>)))"

text \<open>A notification as it is sent on connecting\<close>

definition note_message :: "Notification \<Rightarrow> json option" where
  "note_message n =
     (if json_time_ok (n_created_at n)
      then Some (json_map [(''type'', JStr (n_type n)), (''payload'', JStr (n_payload n)),
             (''id'', JStr (n_id n)), (''created'', json_time (n_created_at n))])
      else None)"

definition ws_load :: "Store \<Rightarrow> nat \<Rightarrow> Hub \<Rightarrow> Hub" where
  "ws_load s k h =
     put_client k ((client h k)\<lparr>k_stage :=
       Sending (map note_message (GetUserNotifications (k_userID (client h k)) s))\<rparr>) h"

text \<open>One round of the loop, or the end of it with the two \<open>go\<close> statements.\<close>

definition ws_round :: "nat \<Rightarrow> Hub \<Rightarrow> Hub option" where
  "ws_round k h =
     (case k_stage (client h k) of
        Sending (m # ms) \<Rightarrow>
          BroadcastToUser (k_userID (client h k)) m (put_client k ((client h k)\<lparr>k_stage := Sending ms\<rparr>) h)
      | Sending [] \<Rightarrow> Some (put_client k ((client h k)\<lparr>k_stage := Served, k_writer := True, k_reader := True\<rparr>) h)
      | _ \<Rightarrow> Some h)"

fun ws_rounds :: "nat \<Rightarrow> nat \<Rightarrow> Hub \<Rightarrow> Hub option" where
  "ws_rounds 0 k h = Some h"
| "ws_rounds (Suc n) k h = Option.bind (ws_round k h) (ws_rounds n k)"

text \<open>
  The whole handler when nothing else runs meanwhile but \<open>Run\<close>, which takes the connection from
  it: one round for each notification and one for the end.
\<close>

definition ServeWS ::
    "(Request \<Rightarrow> Response option) \<Rightarrow> TokenLib \<Rightarrow> GoTime \<Rightarrow> Request \<Rightarrow> Store \<Rightarrow> Hub \<Rightarrow> (Response + Hub) option" where
  "ServeWS upgrade lib now r s h =
     (case ws_enter upgrade lib now r s h of
        Inl resp \<Rightarrow> Some (Inl resp)
      | Inr h1 \<Rightarrow>
          (let k = length (ws_clients h); uid = k_userID (client h1 k)
           in map_option Inr (ws_rounds (Suc (length (GetUserNotifications uid s))) k
                (ws_load s k (run_register k h1)))))"

section \<open>What can happen\<close>

text \<open>
  The moves of all goroutines, in any order; the result \<open>None\<close> is a panic. A message is any
  value that encodes, or one that does not. \<open>Stop\<close> belongs to the owner of the
  manager, who calls it once at most.
\<close>

definition sound_message :: "json option \<Rightarrow> bool" where
  "sound_message m = (case m of None \<Rightarrow> True | Some j \<Rightarrow> jwf j)"

inductive ws_step :: "Hub \<Rightarrow> Hub option \<Rightarrow> bool" where
  enters: "ws_enter upgrade lib now r s h = Inr h1 \<Longrightarrow> ws_step h (Some h1)"
| registers: "ws_running h \<Longrightarrow> k < length (ws_clients h) \<Longrightarrow> k_stage (client h k) = Entering
    \<Longrightarrow> ws_step h (Some (run_register k h))"
| loads: "k < length (ws_clients h) \<Longrightarrow> k_stage (client h k) = Loading \<Longrightarrow> ws_step h (Some (ws_load s k h))"
| round: "k < length (ws_clients h) \<Longrightarrow> k_stage (client h k) = Sending ms \<Longrightarrow> ws_step h (ws_round k h)"
| broadcasts: "sound_message m \<Longrightarrow> ws_step h (BroadcastToUser uid m h)"
| receives: "k < length (ws_clients h) \<Longrightarrow> k_writer (client h k) \<Longrightarrow> k_held (client h k) = None
    \<Longrightarrow> ws_step h (Some (put_client k (writer_receives sent (client h k)) h))"
| writes: "k < length (ws_clients h) \<Longrightarrow> k_writer (client h k)
    \<Longrightarrow> ws_step h (Some (put_client k (writer_writes opened flushed (client h k)) h))"
| pings: "k < length (ws_clients h) \<Longrightarrow> k_writer (client h k) \<Longrightarrow> k_held (client h k) = None
    \<Longrightarrow> ws_step h (Some (put_client k (writer_pings sent (client h k)) h))"
| reads: "k < length (ws_clients h) \<Longrightarrow> k_reader (client h k) \<Longrightarrow> ws_step h (Some (reader_ends k h))"
| unregisters: "ws_running h \<Longrightarrow> k \<in> set (ws_unregister h) \<Longrightarrow> ws_step h (unregister_served k h)"
| closes: "k \<in> set (ws_closing h) \<Longrightarrow> ws_step h (Some (conn_closes k h))"
| stops: "\<not> ws_closed h \<Longrightarrow> ws_step h (Stop h)"
| ends: "ws_running h \<Longrightarrow> ws_closed h \<Longrightarrow> ws_step h (run_closed h)"

inductive_cases ws_stepE: "ws_step h r"

inductive ws_run :: "Hub \<Rightarrow> Hub \<Rightarrow> bool" where
  refl: "ws_run h h"
| step: "ws_run h h1 \<Longrightarrow> ws_step h1 (Some h2) \<Longrightarrow> ws_run h h2"

end
