(* ===== verification/Router.thy ===== *)
theory Router
  imports ApiAppts WebSocket
begin

text \<open>
  \<open>handlers.go\<close> and the rest of \<open>auth.go\<close>: the first set of handlers of the program, on the
  database and the connection manager alone, and the router made of them. The server
  of \<open>cmd/server\<close> uses the API in its place. A handler is given the user of the context
  and the database, and yields the response, the database and the messages it
  broadcasts, in order. Where the API has a function of the same name the definition
  here ends in \<open>_old\<close>.
\<close>

section \<open>auth.go\<close>

definition AuthenticateUser ::
    "PasswordLib \<Rightarrow> TokenLib \<Rightarrow> GoTime \<Rightarrow> Store \<Rightarrow> string \<Rightarrow> string \<Rightarrow> (User \<times> string) result" where
  "AuthenticateUser pw lib now s username password =
     (case GetUserByUsername username s of
        Inl _ \<Rightarrow> Inl (ErrMsg ''invalid username or password'')
      | Inr u \<Rightarrow>
          if \<not> pw_check pw password (u_password_hash u) then Inl (ErrMsg ''invalid username or password'')
          else (case GenerateToken lib now u of Inl e \<Rightarrow> Inl e | Inr token \<Rightarrow> Inr (u, token)))"

type_synonym broadcasts = "(string \<times> json option) list"

type_synonym old_handler = "Request \<Rightarrow> User option \<Rightarrow> Store \<Rightarrow> Response \<times> Store \<times> broadcasts"

text \<open>The user of the token goes into the context.\<close>

definition AuthMiddleware :: "TokenLib \<Rightarrow> GoTime \<Rightarrow> old_handler \<Rightarrow> old_handler" where
  "AuthMiddleware lib now next_handler r ctx s =
     (let auth = header_of ''Authorization'' r
      in if auth = [] then (http_error 401 ''Missing Authorization header'', s, [])
         else case SplitOn CHR '' '' auth of
           [scheme, token] \<Rightarrow>
             if scheme \<noteq> ''Bearer'' then (http_error 401 ''Invalid Authorization format'', s, [])
             else (case ParseToken lib now token of
                Inl _ \<Rightarrow> (http_error 401 ''Invalid or expired token'', s, [])
              | Inr claims \<Rightarrow>
                  (case GetUserByUsername (cl_username claims) s of
                     Inl _ \<Rightarrow> (http_error 401 ''User not found'', s, [])
                   | Inr u \<Rightarrow> next_handler r (Some u) s))
         | _ \<Rightarrow> (http_error 401 ''Invalid Authorization format'', s, []))"

definition GetUserFromContext :: "User option \<Rightarrow> User result" where
  "GetUserFromContext ctx = (case ctx of None \<Rightarrow> Inl (ErrMsg ''no user in context'') | Some u \<Rightarrow> Inr u)"

section \<open>Helpers\<close>

definition respondError :: "int \<Rightarrow> string \<Rightarrow> Response" where
  "respondError status msg = reply_json status (json_map [(''error'', JStr msg)])"

text \<open>The user of the context or 401; the body read with the given reader or 400.\<close>

definition for_user ::
    "User option \<Rightarrow> Store \<Rightarrow> (User \<Rightarrow> Response \<times> Store \<times> broadcasts) \<Rightarrow> Response \<times> Store \<times> broadcasts" where
  "for_user ctx s k =
     (case GetUserFromContext ctx of Inl _ \<Rightarrow> (respondError 401 ''Unauthorized'', s, []) | Inr u \<Rightarrow> k u)"

definition for_body ::
    "(members \<Rightarrow> 'a option) \<Rightarrow> Request \<Rightarrow> Store \<Rightarrow> ('a \<Rightarrow> Response \<times> Store \<times> broadcasts)
     \<Rightarrow> Response \<times> Store \<times> broadcasts" where
  "for_body read r s k =
     (case Option.bind (decode_body (rq_body r)) read of
        None \<Rightarrow> (respondError 400 ''Invalid request'', s, []) | Some x \<Rightarrow> k x)"

definition for_appt ::
    "Request \<Rightarrow> Store \<Rightarrow> (string \<Rightarrow> Response \<times> Store \<times> broadcasts) \<Rightarrow> Response \<times> Store \<times> broadcasts" where
  "for_appt r s k =
     (let aid = path_id ''appointmentID'' r
      in if aid = [] then (respondError 400 ''Invalid appointment ID'', s, []) else k aid)"

section \<open>Users\<close>

definition handleRegister_old :: "PasswordLib \<Rightarrow> GoTime \<Rightarrow> old_handler" where
  "handleRegister_old pw now r ctx s =
     for_body (\<lambda>ms. do {
         u \<leftarrow> str_field ''username'' ms;
         e \<leftarrow> str_field ''email'' ms;
         p \<leftarrow> str_field ''password'' ms;
         n \<leftarrow> str_field ''name'' ms;
         Some (u, e, p, n)}) r s
       (\<lambda>(username, email, password, name).
          (case pw_hash pw password of
             Inl _ \<Rightarrow> (respondError 500 ''Error hashing password'', s, [])
           | Inr hash \<Rightarrow>
               (case CreateUser now \<lparr>u_id = [], u_username = username, u_email = email, u_password_hash = hash,
                        u_display_name = name, u_created_at = zeroTime, u_updated_at = zeroTime\<rparr> s of
                  (Inl _, s1) \<Rightarrow> (respondError 400 ''User already exists'', s1, [])
                | (Inr u, s1) \<Rightarrow> (reply_json 201 (json_user u), s1, []))))"

definition handleLogin_old :: "PasswordLib \<Rightarrow> TokenLib \<Rightarrow> GoTime \<Rightarrow> old_handler" where
  "handleLogin_old pw lib now r ctx s =
     for_body (\<lambda>ms. do {u \<leftarrow> str_field ''username'' ms; p \<leftarrow> str_field ''password'' ms; Some (u, p)}) r s
       (\<lambda>(username, password).
          (case AuthenticateUser pw lib now s username password of
             Inl _ \<Rightarrow> (respondError 401 ''Invalid credentials'', s, [])
           | Inr (u, token) \<Rightarrow>
               (reply_json 200 (json_map [(''token'', JStr token), (''user'', json_user u)]), s, [])))"

section \<open>Groups\<close>

definition handleCreateGroup_old :: "GoTime \<Rightarrow> old_handler" where
  "handleCreateGroup_old now r ctx s = for_user ctx s (\<lambda>u.
     for_body (\<lambda>ms. do {n \<leftarrow> str_field ''name'' ms; d \<leftarrow> str_field ''description'' ms;
                        t \<leftarrow> str_field ''group_type'' ms; Some (n, d, t)}) r s
       (\<lambda>(name, description, gtype).
          (case CreateGroup now \<lparr>g_id = [], g_name = name, g_description = description, g_created_at = zeroTime,
                   g_updated_at = zeroTime, g_creator_id = u_id u, g_creator_username = u_username u,
                   g_group_type = (if gtype = [] then GroupTypeHierarchical else gtype)\<rparr> s of
             (Inl _, s1) \<Rightarrow> (respondError 500 ''Could not create group'', s1, [])
           | (Inr g, s1) \<Rightarrow> (reply_json 201 (json_group g), AddGroupMember now (g_id g) (u_id u) 10 None s1, []))))"

definition handleListMyGroups_old :: old_handler where
  "handleListMyGroups_old r ctx s = for_user ctx s (\<lambda>u.
     (reply_json 200 (json_list json_group (GetGroupsForUser (u_id u) s)), s, []))"

text \<open>Whoever asks may add anyone: nothing looks at the user of the context.\<close>

definition handleAddGroupMember :: "GoTime \<Rightarrow> old_handler" where
  "handleAddGroupMember now r ctx s =
     for_body (\<lambda>ms. do {u \<leftarrow> str_field ''username'' ms; k \<leftarrow> int_field ''rank'' ms; Some (u, k)}) r s
       (\<lambda>(username, asked).
          (let gid = path_id ''groupID'' r
           in if username = [] then (respondError 400 ''Username is required'', s, [])
              else if asked < 0 then (respondError 400 ''Rank must be a positive number'', s, [])
              else case GetUserByUsername username s of
                Inl _ \<Rightarrow> (respondError 400 ''User not found'', s, [])
              | Inr u \<Rightarrow>
                  if ok (GetMemberRank gid (u_id u) s) then (respondError 400 ''User is already a member'', s, [])
                  else (case GetGroupByID gid s of
                          Inl _ \<Rightarrow> (respondError 404 ''Group not found'', s, [])
                        | Inr g \<Rightarrow>
                            (let rank = (if g_group_type g = GroupTypeNonHierarchical then 0 else asked)
                             in (reply_json 201 (json_map [(''status'', JStr ''member added''), (''group_id'', JStr gid),
                                   (''user_id'', JStr (u_id u)), (''username'', JStr (u_username u)),
                                   (''rank'', json_int rank), (''group_type'', JStr (g_group_type g))]),
                                 AddGroupMember now gid (u_id u) rank None s, [])))))"

section \<open>Appointments\<close>

definition read_appt_old :: "members \<Rightarrow> Appointment option" where
  "read_appt_old ms = do {
     t \<leftarrow> str_field ''title'' ms;
     d \<leftarrow> str_field ''description'' ms;
     s \<leftarrow> time_field ''start'' ms;
     e \<leftarrow> time_field ''end'' ms;
     p \<leftarrow> str_field ''privacy'' ms;
     g \<leftarrow> str_pointer ''group_id'' ms;
     Some (requested [] t d [] s e p g)}"

text \<open>One participant is notified in the database and over the open connections.\<close>

definition invite_old :: "GoTime \<Rightarrow> string \<Rightarrow> Participant \<Rightarrow> Store \<Rightarrow> Store" where
  "invite_old now aid p s =
     snd (AddNotification now (notification (p_user_id p) ''invite''
       (''{'' @ [CHR 0x22] @ ''appointment_id'' @ [CHR 0x22] @ '': '' @ [CHR 0x22] @ aid @ [CHR 0x22] @ '', ''
        @ [CHR 0x22] @ ''status'' @ [CHR 0x22] @ '': '' @ [CHR 0x22] @ p_status p @ [CHR 0x22] @ ''}'')) s)"

definition invite_message :: "string \<Rightarrow> Participant \<Rightarrow> string \<times> json option" where
  "invite_message aid p = (p_user_id p, Some (json_map [(''type'', JStr ''invite''),
     (''appointment_id'', JStr aid), (''status'', JStr (p_status p))]))"

definition about_appt :: "string \<Rightarrow> string \<Rightarrow> string \<Rightarrow> string \<times> json option" where
  "about_appt uid typ aid = (uid, Some (json_map [(''type'', JStr typ), (''appointment_id'', JStr aid)]))"

definition handleCreateAppointment_old :: "GoTime \<Rightarrow> old_handler" where
  "handleCreateAppointment_old now r ctx s = for_user ctx s (\<lambda>u.
     for_body read_appt_old r s (\<lambda>a0.
       (let a = a0\<lparr>a_owner_id := u_id u, a_status := StatusPending\<rparr>
        in if a_group_id a \<noteq> None
           then (case CreateGroupAppointment now a s of
                   (Inl _, s1) \<Rightarrow> (respondError 500 ''Could not create group appointment'', s1, [])
                 | (Inr (created, ps), s1) \<Rightarrow>
                     (reply_json 201 (json_map [(''appointment'', json_appointment created),
                        (''participants'', JArr (map json_participant ps))]),
                      fold (invite_old now (a_id created)) ps s1,
                      map (invite_message (a_id created)) ps))
           else if HasConflict (u_id u) (a_start a) (a_end a) s
           then (respondError 409 ''Time conflict with existing appointment'', s, [])
           else (case CreateAppointment now a s of
                   (Inl _, s1) \<Rightarrow> (respondError 500 ''Could not create appointment'', s1, [])
                 | (Inr created, s1) \<Rightarrow>
                     (let s2 = snd (AddParticipant now (participant (a_id created) (u_id u) StatusAccepted False) s1);
                          s3 = snd (AddNotification now (notification (u_id u) ''created''
                            (''{'' @ [CHR 0x22] @ ''appointment_id'' @ [CHR 0x22] @ '': '' @ [CHR 0x22]
                             @ a_id created @ [CHR 0x22] @ ''}'')) s2)
                      in (reply_json 201 (json_appointment created), s3,
                          [about_appt (u_id u) ''created'' (a_id created)]))))))"

section \<open>Agendas\<close>

definition filterAppointmentForViewer_old :: "Store \<Rightarrow> Appointment \<Rightarrow> User \<Rightarrow> string option \<Rightarrow> Appointment" where
  "filterAppointmentForViewer_old s a viewer gid =
     (if a_owner_id a = u_id viewer then a
      else if (case (gid, a_group_id a) of
                 (Some _, Some g) \<Rightarrow> superior_in g (u_id viewer) (a_owner_id a) s | _ \<Rightarrow> False)
      then a
      else if a_privacy a = PrivacyFreeBusy then busy_only a
      else a)"

text \<open>A time that does not parse is the zero time.\<close>

definition query_time_old :: "string \<Rightarrow> Request \<Rightarrow> GoTime" where
  "query_time_old k r = (case time_Parse RFC3339 (query_of k r) of Some t \<Rightarrow> t | None \<Rightarrow> zeroTime)"

definition handleGetUserAgenda_old :: old_handler where
  "handleGetUserAgenda_old r ctx s = for_user ctx s (\<lambda>viewer.
     (reply_json 200 (json_list json_appointment
        (GetUserAgenda (u_id viewer) (query_time_old ''start'' r) (query_time_old ''end'' r) s)), s, []))"

definition handleGetGroupAgenda_old :: old_handler where
  "handleGetGroupAgenda_old r ctx s = for_user ctx s (\<lambda>viewer.
     (let gid = path_id ''groupID'' r
      in (reply_json 200 (json_list json_appointment
            (map (\<lambda>a. filterAppointmentForViewer_old s a viewer (Some gid))
               (GetGroupAgenda gid (query_time_old ''start'' r) (query_time_old ''end'' r) s))), s, [])))"

definition may_view_old :: "User \<Rightarrow> Appointment \<Rightarrow> string \<Rightarrow> Store \<Rightarrow> bool" where
  "may_view_old u a aid s \<longleftrightarrow> a_owner_id a = u_id u
     \<or> (case a_group_id a of
          None \<Rightarrow> False
        | Some g \<Rightarrow> list_ex (\<lambda>p. p_user_id p = u_id u) (GetAppointmentParticipants aid s)
            \<or> superior_in g (u_id u) (a_owner_id a) s)"

definition handleGetAppointmentDetails_old :: old_handler where
  "handleGetAppointmentDetails_old r ctx s = for_user ctx s (\<lambda>u. for_appt r s (\<lambda>aid.
     (case GetAppointmentByID aid s of
        Inl _ \<Rightarrow> (respondError 404 ''Appointment not found'', s, [])
      | Inr a \<Rightarrow>
          if \<not> may_view_old u a aid s then (respondError 403 ''Access denied'', s, [])
          else (reply_json 200 (json_map
            [(''appointment'', json_appointment (filterAppointmentForViewer_old s a u (a_group_id a))),
             (''participants'', json_list json_details (GetAppointmentParticipants aid s))]), s, []))))"

section \<open>Changing and deleting\<close>

definition handleUpdateAppointment_old :: "GoTime \<Rightarrow> old_handler" where
  "handleUpdateAppointment_old now r ctx s = for_user ctx s (\<lambda>u. for_appt r s (\<lambda>aid.
     for_body read_appt_old r s (\<lambda>a0.
       (let a = a0\<lparr>a_id := aid, a_owner_id := u_id u\<rparr>
        in (reply_json 200 (json_appointment (a\<lparr>a_updated_at := now\<rparr>)), UpdateAppointment now a s,
            [about_appt (u_id u) ''appointment_updated'' aid])))))"

definition handleDeleteAppointment_old :: "GoTime \<Rightarrow> old_handler" where
  "handleDeleteAppointment_old now r ctx s = for_user ctx s (\<lambda>u. for_appt r s (\<lambda>aid.
     (case GetAppointmentByID aid s of
        Inl _ \<Rightarrow> (respondError 404 ''Appointment not found'', s, [])
      | Inr existing \<Rightarrow>
          if a_owner_id existing \<noteq> u_id u
          then (respondError 403 ''Only appointment owner can delete'', s, [])
          else (reply_json 200 (json_map [(''status'', JStr ''deleted'')]), DeleteAppointment now aid s,
                [about_appt (u_id u) ''appointment_deleted'' aid]))))"

section \<open>The router\<close>

definition NewRouter :: "PasswordLib \<Rightarrow> TokenLib \<Rightarrow> GoTime \<Rightarrow> (string \<times> string \<times> old_handler) list" where
  "NewRouter pw lib now =
     [(''POST'', ''/register'', handleRegister_old pw now),
      (''POST'', ''/login'', handleLogin_old pw lib now)]
     @ map (\<lambda>(m, t, h). (m, t, AuthMiddleware lib now h))
     [(''POST'', ''/api/groups'', handleCreateGroup_old now),
      (''GET'', ''/api/groups'', handleListMyGroups_old),
      (''POST'', ''/api/groups/{groupID}/members'', handleAddGroupMember now),
      (''POST'', ''/api/appointments'', handleCreateAppointment_old now),
      (''PUT'', ''/api/appointments/{appointmentID}'', handleUpdateAppointment_old now),
      (''DELETE'', ''/api/appointments/{appointmentID}'', handleDeleteAppointment_old now),
      (''GET'', ''/api/agenda'', handleGetUserAgenda_old),
      (''GET'', ''/api/groups/{groupID}/agenda'', handleGetGroupAgenda_old),
      (''GET'', ''/api/appointments/{appointmentID}'', handleGetAppointmentDetails_old)]"

text \<open>A handler runs, and its messages go to the connection manager.\<close>

fun carry_out :: "broadcasts \<Rightarrow> Hub \<Rightarrow> Hub option" where
  "carry_out [] h = Some h"
| "carry_out ((uid, msg) # bs) h = Option.bind (BroadcastToUser uid msg h) (carry_out bs)"

definition run_old :: "old_handler \<Rightarrow> Request \<Rightarrow> Store \<Rightarrow> Hub \<Rightarrow> (Response \<times> Store \<times> Hub) option" where
  "run_old handler r s h =
     (let (resp, s1, bs) = handler r None s in map_option (\<lambda>h1. (resp, s1, h1)) (carry_out bs h))"

end
