(* ===== verification/SocketInv.thy ===== *)
theory SocketInv
  imports WebSocket
begin

text \<open>
  What every move of the connection manager keeps: the table lists exactly the open
  connections that were registered, so no message goes to a closed channel and no
  channel is closed twice; and what a connection was told only grows.
\<close>

section \<open>Lines\<close>

lemma nl_not_num: "\<not> is_num_char (CHR 0x0A)"
  by code_simp

lemma nl_not_hex: "d < 16 \<Longrightarrow> hex_char d \<noteq> CHR 0x0A"
proof
  assume d: "d < 16" "hex_char d = CHR 0x0A"
  have "hex_val (CHR 0x0A) = None" by code_simp
  with hex_val_hex_char [OF d(1)] d(2) show False by simp
qed

lemma nl_not_json_char: "CHR 0x0A \<notin> set (json_char c)"
proof -
  have "byte_of c div 16 < 16" "byte_of c mod 16 < 16"
    by (simp_all add: byte_of_def less_mult_imp_div_less)
  then have "CHR 0x0A \<notin> set (hex2 (byte_of c))" by (auto simp: hex2_def nl_not_hex [THEN not_sym])
  moreover have "byte_of (CHR 0x0A) = 10" by code_simp
  ultimately show ?thesis by (auto simp: json_char_def Let_def)
qed

lemma nl_not_quoted: "CHR 0x0A \<notin> set (json_quote s)"
  by (auto simp: json_quote_def nl_not_json_char)

lemma nl_commas: "CHR 0x0A \<notin> set (commas xs)" if "\<forall>x \<in> set xs. CHR 0x0A \<notin> set x"
  using that by (induction xs rule: commas.induct) auto

text \<open>The text of a value is one line.\<close>

lemma jprint_one_line: "jwf j \<Longrightarrow> CHR 0x0A \<notin> set (jprint j)"
proof (induction j rule: jprint.induct)
  case (3 s)
  then show ?case using nl_not_num by (auto simp: list_all_iff)
next
  case (5 xs)
  then have "CHR 0x0A \<notin> set (commas (map jprint xs))" by (intro nl_commas) (auto simp: list_all_iff)
  then show ?case by simp
next
  case (6 ms)
  then have "CHR 0x0A \<notin> set (commas (map (\<lambda>(k, v). json_quote k @ CHR '':'' # jprint v) ms))"
    by (intro nl_commas) (fastforce simp: list_all_iff nl_not_quoted)
  then show ?case by simp
qed (simp_all add: nl_not_quoted)

lemma SplitOn_none: "d \<notin> set s \<Longrightarrow> SplitOn d s = [s]"
  by (induction s) auto

lemma SplitOn_first: "d \<notin> set s \<Longrightarrow> SplitOn d (s @ d # r) = s # SplitOn d r"
  by (induction s) auto

lemma lines_joined:
  "ms \<noteq> [] \<Longrightarrow> \<forall>m \<in> set ms. CHR 0x0A \<notin> set m \<Longrightarrow> SplitOn (CHR 0x0A) (joined ms) = ms"
  by (induction ms rule: joined.induct) (auto simp: newline_def SplitOn_none SplitOn_first)

section \<open>Broadcasting and closing in closed form\<close>

lemma put_client_simps [simp]:
  "ws_conns (put_client k c h) = ws_conns h" "ws_unregister (put_client k c h) = ws_unregister h"
  "ws_closing (put_client k c h) = ws_closing h" "ws_closed (put_client k c h) = ws_closed h"
  "ws_running (put_client k c h) = ws_running h"
  "length (ws_clients (put_client k c h)) = length (ws_clients h)"
  "conns_of (put_client k c h) = conns_of h"
  by (simp_all add: put_client_def conns_of_def fun_eq_iff)

lemma client_put: "k < length (ws_clients h) \<Longrightarrow> client (put_client k c h) j = (if j = k then c else client h j)"
  by (simp add: put_client_def nth_list_update)

definition got :: "string \<Rightarrow> WSClient \<Rightarrow> WSClient" where
  "got data c = (if length (k_send c) < chan_cap then c\<lparr>k_send := k_send c @ [data]\<rparr> else c)"

definition on_each :: "nat list \<Rightarrow> (WSClient \<Rightarrow> WSClient) \<Rightarrow> WSClient list \<Rightarrow> WSClient list" where
  "on_each ks f cs = map (\<lambda>k. if k \<in> set ks then f (cs ! k) else cs ! k) [0..<length cs]"

lemma on_each_simps [simp]:
  "length (on_each ks f cs) = length cs"
  "k < length cs \<Longrightarrow> on_each ks f cs ! k = (if k \<in> set ks then f (cs ! k) else cs ! k)"
  "on_each [] f cs = cs"
  by (simp_all add: on_each_def map_nth)

lemma on_each_Cons:
  "k \<notin> set ks \<Longrightarrow> k < length cs \<Longrightarrow> on_each ks f (cs[k := f (cs ! k)]) = on_each (k # ks) f cs"
  by (rule nth_equalityI) (auto simp: nth_list_update)

definition all_open :: "Hub \<Rightarrow> nat list \<Rightarrow> bool" where
  "all_open h ks \<longleftrightarrow> distinct ks \<and> (\<forall>k \<in> set ks. k < length (ws_clients h) \<and> \<not> k_closed (client h k))"

lemma send_each_open:
  assumes "all_open h ks"
  shows "send_each ks data h = Some (h\<lparr>ws_clients := on_each ks (got data) (ws_clients h),
    ws_unregister := ws_unregister h @ filter (\<lambda>k. \<not> length (k_send (client h k)) < chan_cap) ks\<rparr>)"
  using assms
proof (induction ks arbitrary: h)
  case (Cons k ks)
  let ?c = "client h k"
  have k: "k < length (ws_clients h)" "\<not> k_closed ?c" "k \<notin> set ks" using Cons.prems by (auto simp: all_open_def)
  show ?case
  proof (cases "length (k_send ?c) < chan_cap")
    case True
    let ?h = "put_client k (got data ?c) h"
    have "all_open ?h ks"
      using Cons.prems k by (auto simp: all_open_def client_put got_def)
    from Cons.IH [OF this] have "send_each ks data ?h = Some (?h\<lparr>ws_clients := on_each ks (got data) (ws_clients ?h),
      ws_unregister := ws_unregister ?h @ filter (\<lambda>k. \<not> length (k_send (client ?h k)) < chan_cap) ks\<rparr>)" .
    moreover have "filter (\<lambda>j. \<not> length (k_send (client ?h j)) < chan_cap) ks
        = filter (\<lambda>j. \<not> length (k_send (client h j)) < chan_cap) ks"
      using k by (auto simp: client_put intro: filter_cong)
    moreover have "send_each (k # ks) data h = send_each ks data ?h"
      using k True by (simp add: chan_send_def got_def)
    ultimately show ?thesis using k True by (simp add: put_client_def on_each_Cons)
  next
    case False
    let ?h = "h\<lparr>ws_unregister := ws_unregister h @ [k]\<rparr>"
    have "all_open ?h ks" using Cons.prems by (auto simp: all_open_def)
    from Cons.IH [OF this] have "send_each ks data ?h = Some (?h\<lparr>ws_clients := on_each ks (got data) (ws_clients ?h),
      ws_unregister := ws_unregister ?h @ filter (\<lambda>k. \<not> length (k_send (client ?h k)) < chan_cap) ks\<rparr>)" .
    moreover have "on_each (k # ks) (got data) (ws_clients h) = on_each ks (got data) (ws_clients h)"
      using k False by (intro nth_equalityI) (auto simp: got_def)
    ultimately show ?thesis using k False by (simp add: chan_send_def)
  qed
qed simp

lemma close_each_open:
  assumes "all_open h ks"
  shows "close_each ks h = Some (h\<lparr>ws_clients := on_each ks (\<lambda>c. c\<lparr>k_conn := False, k_closed := True\<rparr>) (ws_clients h)\<rparr>)"
  using assms
proof (induction ks arbitrary: h)
  case (Cons k ks)
  let ?f = "\<lambda>c. c\<lparr>k_conn := False, k_closed := True\<rparr>"
  let ?h = "put_client k (?f (client h k)) h"
  have k: "k < length (ws_clients h)" "\<not> k_closed (client h k)" "k \<notin> set ks"
    using Cons.prems by (auto simp: all_open_def)
  have "all_open ?h ks" using Cons.prems k by (auto simp: all_open_def client_put)
  from Cons.IH [OF this] show ?case
    using k on_each_Cons [of k ks "ws_clients h" ?f] by (simp add: chan_close_def put_client_def)
qed simp

section \<open>The invariant of the manager\<close>

text \<open>The connections under a user are the open ones \<open>Run\<close> has taken from their handlers.\<close>

definition listed :: "Hub \<Rightarrow> nat \<Rightarrow> bool" where
  "listed h k \<longleftrightarrow> k < length (ws_clients h) \<and> \<not> k_closed (client h k) \<and> k_stage (client h k) \<noteq> Entering"

definition table_ok :: "(string \<times> nat list) list \<Rightarrow> bool" where
  "table_ok al \<longleftrightarrow> distinct (map fst al) \<and> (\<forall>uid ks. map_of al uid = Some ks \<longrightarrow> ks \<noteq> [] \<and> distinct ks)"

definition well_listed :: "Hub \<Rightarrow> bool" where
  "well_listed h \<longleftrightarrow> table_ok (ws_conns h)
     \<and> (\<forall>uid k. k \<in> set (conns_of h uid) \<longleftrightarrow> listed h k \<and> k_userID (client h k) = uid)"

definition one_line :: "string \<Rightarrow> bool" where
  "one_line m \<longleftrightarrow> CHR 0x0A \<notin> set m"

definition client_ok :: "WSClient \<Rightarrow> bool" where
  "client_ok c \<longleftrightarrow> length (k_send c) \<le> chan_cap
     \<and> list_all one_line (k_send c) \<and> (case k_held c of None \<Rightarrow> True | Some m \<Rightarrow> one_line m)
     \<and> (k_stage c = Entering \<longrightarrow> \<not> k_closed c \<and> k_send c = [])
     \<and> (k_stage c \<noteq> Served \<longrightarrow> \<not> k_writer c \<and> \<not> k_reader c \<and> k_held c = None)
     \<and> (case k_stage c of Sending ms \<Rightarrow> list_all sound_message ms | _ \<Rightarrow> True)"

definition hub_ok :: "Hub \<Rightarrow> bool" where
  "hub_ok h \<longleftrightarrow> well_listed h \<and> list_all client_ok (ws_clients h)
     \<and> (\<forall>k \<in> set (ws_unregister h) \<union> set (ws_closing h). k < length (ws_clients h))"

text \<open>
  What the browser has been told or will be: the lines of the frames written, the message in
  hand and the buffer. While the pump has not ended nothing is lost from it.
\<close>

fun frame_lines :: "frame \<Rightarrow> string list" where
  "frame_lines (TextFrame s) = SplitOn (CHR 0x0A) s"
| "frame_lines PingFrame = []"
| "frame_lines CloseFrame = []"

definition told :: "WSClient \<Rightarrow> string list" where
  "told c = concat (map frame_lines (k_out c)) @ (case k_held c of None \<Rightarrow> [] | Some m \<Rightarrow> [m]) @ k_send c"

definition alive :: "WSClient \<Rightarrow> bool" where
  "alive c \<longleftrightarrow> k_writer c \<or> k_stage c \<noteq> Served"

definition grows :: "WSClient \<Rightarrow> WSClient \<Rightarrow> bool" where
  "grows c d \<longleftrightarrow> k_userID d = k_userID c \<and> (alive d \<longrightarrow> alive c \<and> prefix (told c) (told d))"

definition hub_grows :: "Hub \<Rightarrow> Hub \<Rightarrow> bool" where
  "hub_grows h h1 \<longleftrightarrow> length (ws_clients h) \<le> length (ws_clients h1)
     \<and> (\<forall>k < length (ws_clients h). grows (client h k) (client h1 k))"

lemma grows_refl [simp]: "grows c c"
  by (simp add: grows_def)

lemma grows_trans: "grows a b \<Longrightarrow> grows b c \<Longrightarrow> grows a c"
  unfolding grows_def by (metis prefix_order.order_trans)

lemma hub_grows_refl [simp]: "hub_grows h h"
  by (simp add: hub_grows_def)

lemma hub_grows_trans: "hub_grows a b \<Longrightarrow> hub_grows b c \<Longrightarrow> hub_grows a c"
  unfolding hub_grows_def by (auto intro: grows_trans)

lemma hub_okI:
  assumes "well_listed h" and "\<And>k. k < length (ws_clients h) \<Longrightarrow> client_ok (client h k)"
    and "\<And>k. k \<in> set (ws_unregister h) \<or> k \<in> set (ws_closing h) \<Longrightarrow> k < length (ws_clients h)"
  shows "hub_ok h"
  using assms unfolding hub_ok_def list_all_length by blast

lemma hub_okD:
  assumes "hub_ok h"
  shows "well_listed h" and "k < length (ws_clients h) \<Longrightarrow> client_ok (client h k)"
    and "k \<in> set (ws_unregister h) \<or> k \<in> set (ws_closing h) \<Longrightarrow> k < length (ws_clients h)"
  using assms unfolding hub_ok_def list_all_length by blast+

lemma well_listed_open: "well_listed h \<Longrightarrow> all_open h (conns_of h uid)"
proof -
  assume w: "well_listed h"
  have "distinct (conns_of h uid)"
    using w by (auto simp: well_listed_def table_ok_def conns_of_def split: option.splits)
  then show ?thesis using w by (auto simp: all_open_def well_listed_def listed_def)
qed

text \<open>A move that touches neither the table nor what makes a connection registered.\<close>

lemma well_listed_keep:
  assumes "well_listed h" and "ws_conns h1 = ws_conns h" and "length (ws_clients h1) = length (ws_clients h)"
    and "\<And>k. k < length (ws_clients h) \<Longrightarrow> k_userID (client h1 k) = k_userID (client h k)
      \<and> k_closed (client h1 k) = k_closed (client h k)
      \<and> (k_stage (client h1 k) = Entering \<longleftrightarrow> k_stage (client h k) = Entering)"
  shows "well_listed h1"
proof -
  have "listed h1 k = listed h k" for k using assms(3,4) by (auto simp: listed_def)
  moreover have "conns_of h1 = conns_of h" using assms(2) by (simp add: conns_of_def fun_eq_iff)
  moreover have "listed h k \<Longrightarrow> k_userID (client h1 k) = k_userID (client h k)" for k
    using assms(4) by (simp add: listed_def)
  ultimately show ?thesis using assms(1,2) unfolding well_listed_def by metis
qed

text \<open>A change of one connection within its goroutine.\<close>

definition local_change :: "WSClient \<Rightarrow> WSClient \<Rightarrow> bool" where
  "local_change c d \<longleftrightarrow> k_closed d = k_closed c \<and> (k_stage d = Entering \<longleftrightarrow> k_stage c = Entering)
     \<and> (client_ok c \<longrightarrow> client_ok d) \<and> (client_ok c \<longrightarrow> grows c d)"

lemma put_local:
  assumes "hub_ok h" and "k < length (ws_clients h)" and "local_change (client h k) d"
  shows "hub_ok (put_client k d h)" and "hub_grows h (put_client k d h)"
proof -
  let ?h = "put_client k d h"
  have c: "client_ok (client h k)" "k_userID d = k_userID (client h k)"
    using hub_okD(2) [OF assms(1,2)] assms(3) by (auto simp: local_change_def grows_def)
  have same: "k_closed (client ?h j) = k_closed (client h j)
      \<and> (k_stage (client ?h j) = Entering \<longleftrightarrow> k_stage (client h j) = Entering)" for j
    using assms by (auto simp: client_put local_change_def)
  have "well_listed ?h"
    using assms c same by (intro well_listed_keep [OF hub_okD(1)]) (auto simp: client_put)
  moreover have "client_ok (client ?h j)" if "j < length (ws_clients ?h)" for j
    using that assms c hub_okD(2) by (auto simp: client_put local_change_def)
  moreover have "j < length (ws_clients ?h)" if "j \<in> set (ws_unregister ?h) \<or> j \<in> set (ws_closing ?h)" for j
    using hub_okD(3) [OF assms(1), of j] that by simp
  ultimately show "hub_ok ?h" by (rule hub_okI)
  show "hub_grows h ?h"
    using assms c by (auto simp: hub_grows_def client_put local_change_def)
qed

section \<open>The moves keep the invariant\<close>

lemma conns_of_simps [simp]:
  "conns_of (h\<lparr>ws_conns := AList.update u ks (ws_conns h)\<rparr>) v = (if v = u then ks else conns_of h v)"
  "conns_of (h\<lparr>ws_conns := AList.delete u (ws_conns h)\<rparr>) v = (if v = u then [] else conns_of h v)"
  "conns_of (h\<lparr>ws_conns := []\<rparr>) v = []"
  "conns_of (h\<lparr>ws_unregister := us\<rparr>) = conns_of h"
  "conns_of (h\<lparr>ws_closing := us\<rparr>) = conns_of h"
  "conns_of (h\<lparr>ws_clients := cs\<rparr>) = conns_of h"
  "conns_of (h\<lparr>ws_closed := b\<rparr>) = conns_of h"
  "conns_of (h\<lparr>ws_running := b\<rparr>) = conns_of h"
  by (auto simp: conns_of_def update_conv' delete_conv' fun_eq_iff)

lemma table_ok_update: "table_ok al \<Longrightarrow> ks \<noteq> [] \<Longrightarrow> distinct ks \<Longrightarrow> table_ok (AList.update u ks al)"
  by (auto simp: table_ok_def update_conv' distinct_update)

lemma table_ok_delete: "table_ok al \<Longrightarrow> table_ok (AList.delete u al)"
  by (auto simp: table_ok_def delete_conv' distinct_delete)

lemma table_ok_Nil: "table_ok []"
  by (simp add: table_ok_def)

lemma distinct_conns_of: "well_listed h \<Longrightarrow> distinct (conns_of h uid)"
  using well_listed_open by (simp add: all_open_def)

text \<open>Changes to the lists of goroutines and the flags only.\<close>

lemma lists_keep:
  assumes "hub_ok h" and "ws_conns h1 = ws_conns h" and "ws_clients h1 = ws_clients h"
    and "set (ws_unregister h1) \<union> set (ws_closing h1) \<subseteq> {k. k < length (ws_clients h)}"
  shows "hub_ok h1" and "hub_grows h h1"
proof -
  have "well_listed h1" using hub_okD(1) [OF assms(1)] by (rule well_listed_keep) (simp_all add: assms)
  then show "hub_ok h1" using assms by (auto simp: hub_ok_def)
  show "hub_grows h h1" using assms by (simp add: hub_grows_def)
qed

lemma waiting_valid:
  "hub_ok h \<Longrightarrow> set (ws_unregister h) \<subseteq> {k. k < length (ws_clients h)}"
  "hub_ok h \<Longrightarrow> set (ws_closing h) \<subseteq> {k. k < length (ws_clients h)}"
  by (auto simp: hub_ok_def)

lemma note_message_sound: "sound_message (note_message n)"
  by (simp add: note_message_def sound_message_def json_map_def list_all_iff json_time_def)

lemma local_conn: "local_change c (c\<lparr>k_conn := b\<rparr>)"
  by (simp add: local_change_def client_ok_def grows_def alive_def told_def)

lemma local_reader: "local_change c (c\<lparr>k_reader := False\<rparr>)"
  by (simp add: local_change_def client_ok_def grows_def alive_def told_def)

lemma local_load:
  "k_stage c = Loading \<Longrightarrow> local_change c (c\<lparr>k_stage := Sending (map note_message ns)\<rparr>)"
  by (simp add: local_change_def client_ok_def grows_def alive_def told_def list_all_iff note_message_sound)

lemma local_next: "k_stage c = Sending (m # ms) \<Longrightarrow> local_change c (c\<lparr>k_stage := Sending ms\<rparr>)"
  by (simp add: local_change_def client_ok_def grows_def alive_def told_def)

lemma local_served:
  "k_stage c = Sending ms \<Longrightarrow> local_change c (c\<lparr>k_stage := Served, k_writer := True, k_reader := True\<rparr>)"
  by (auto simp: local_change_def client_ok_def grows_def alive_def told_def)

lemma local_receives:
  "k_writer c \<Longrightarrow> k_held c = None \<Longrightarrow> local_change c (writer_receives sent c)"
  by (auto simp: local_change_def client_ok_def grows_def alive_def told_def writer_receives_def writer_ends_def
      split: list.splits stage.splits)

lemma local_pings:
  "k_writer c \<Longrightarrow> k_held c = None \<Longrightarrow> local_change c (writer_pings sent c)"
  by (auto simp: local_change_def client_ok_def grows_def alive_def told_def writer_pings_def writer_ends_def
      split: list.splits stage.splits)

lemma told_written:
  assumes "client_ok c" and "k_held c = Some m"
  shows "told (c\<lparr>k_send := [], k_held := None, k_out := k_out c @ [TextFrame (joined (m # k_send c))]\<rparr>) = told c"
proof -
  have "SplitOn (CHR 0x0A) (joined (m # k_send c)) = m # k_send c"
    using assms by (intro lines_joined) (auto simp: client_ok_def list_all_iff one_line_def)
  then show ?thesis using assms(2) by (simp add: told_def del: joined.simps)
qed

lemma local_writes:
  assumes "k_writer c"
  shows "local_change c (writer_writes opened flushed c)"
proof (cases "k_held c")
  case None
  then show ?thesis by (simp add: writer_writes_def local_change_def)
next
  case (Some m)
  show ?thesis
  proof (cases "opened \<and> flushed")
    case True
    then have w: "writer_writes opened flushed c
        = c\<lparr>k_send := [], k_held := None, k_out := k_out c @ [TextFrame (joined (m # k_send c))]\<rparr>"
      using Some by (simp add: writer_writes_def)
    show ?thesis
      unfolding w using told_written [OF _ Some]
      by (auto simp: local_change_def client_ok_def grows_def alive_def split: stage.splits)
  next
    case False
    then show ?thesis
      using assms Some
      by (auto simp: local_change_def client_ok_def grows_def alive_def writer_writes_def writer_ends_def
          split: stage.splits)
  qed
qed

text \<open>Broadcasting: every open connection of the user is offered the message.\<close>

lemma broadcast_form:
  assumes "hub_ok h"
  shows "BroadcastToUser uid (Some j) h = Some (h\<lparr>ws_clients := on_each (conns_of h uid) (got (jprint j)) (ws_clients h),
    ws_unregister := ws_unregister h @ filter (\<lambda>k. \<not> length (k_send (client h k)) < chan_cap) (conns_of h uid)\<rparr>)"
  using send_each_open [OF well_listed_open [OF hub_okD(1) [OF assms]]] by (simp add: BroadcastToUser_def)

lemma got_ok: "client_ok c \<Longrightarrow> k_stage c \<noteq> Entering \<Longrightarrow> one_line m \<Longrightarrow> client_ok (got m c)"
  by (auto simp: client_ok_def got_def split: stage.splits)

lemma got_simps [simp]:
  "k_userID (got m c) = k_userID c" "k_closed (got m c) = k_closed c" "k_stage (got m c) = k_stage c"
  "grows c (got m c)"
  by (auto simp: got_def grows_def alive_def told_def)

lemma broadcast_keeps:
  assumes "hub_ok h" and "sound_message m"
  obtains h1 where "BroadcastToUser uid m h = Some h1" "hub_ok h1" "hub_grows h h1"
proof (cases m)
  case None
  then show ?thesis using that [of h] assms(1) by (simp add: BroadcastToUser_def)
next
  case (Some j)
  let ?ks = "conns_of h uid"
  let ?h = "h\<lparr>ws_clients := on_each ?ks (got (jprint j)) (ws_clients h),
    ws_unregister := ws_unregister h @ filter (\<lambda>k. \<not> length (k_send (client h k)) < chan_cap) ?ks\<rparr>"
  have line: "one_line (jprint j)"
    using assms(2) Some jprint_one_line by (simp add: sound_message_def one_line_def)
  have reg: "listed h k" if "k \<in> set ?ks" for k
    using hub_okD(1) [OF assms(1)] that by (auto simp: well_listed_def)
  have "well_listed ?h" using hub_okD(1) [OF assms(1)] by (rule well_listed_keep) auto
  moreover have "client_ok (client ?h k)" if "k < length (ws_clients ?h)" for k
    using that hub_okD(2) [OF assms(1)] reg line by (auto simp: listed_def intro: got_ok)
  moreover have "k < length (ws_clients ?h)" if "k \<in> set (ws_unregister ?h) \<or> k \<in> set (ws_closing ?h)" for k
    using that hub_okD(3) [OF assms(1)] reg by (auto simp: listed_def)
  ultimately have "hub_ok ?h" by (rule hub_okI)
  moreover have "hub_grows h ?h" by (simp add: hub_grows_def)
  moreover have "BroadcastToUser uid m h = Some ?h" using broadcast_form [OF assms(1)] Some by simp
  ultimately show ?thesis using that by blast
qed

lemma conns_of_register:
  "conns_of (run_register k h) u = (if u = k_userID (client h k) then List.insert k (conns_of h u) else conns_of h u)"
  by (simp add: run_register_def Let_def)

lemma register_keeps:
  assumes ok: "hub_ok h" and k: "k < length (ws_clients h)" "k_stage (client h k) = Entering"
  shows "hub_ok (run_register k h)" and "hub_grows h (run_register k h)"
proof -
  let ?uid = "k_userID (client h k)"
  let ?c = "(client h k)\<lparr>k_stage := Loading\<rparr>"
  let ?h = "run_register k h"
  note w = hub_okD(1) [OF ok]
  have c: "client_ok (client h k)" "\<not> k_closed (client h k)"
    using hub_okD(2) [OF ok k(1)] k(2) by (auto simp: client_ok_def)
  have cl: "client ?h j = (if j = k then ?c else client h j)" "length (ws_clients ?h) = length (ws_clients h)"
    for j using k(1) by (simp_all add: run_register_def put_client_def nth_list_update Let_def)
  have "List.insert k (conns_of h ?uid) \<noteq> []" by (auto simp: List.insert_def)
  moreover have "table_ok (ws_conns h)" using w by (simp add: well_listed_def)
  ultimately have "table_ok (ws_conns ?h)"
    using table_ok_update distinct_conns_of [OF w] by (simp add: run_register_def Let_def)
  moreover have "listed ?h j \<longleftrightarrow> listed h j \<or> j = k" for j
    using k c by (auto simp: listed_def cl)
  ultimately have "well_listed ?h" using w by (auto simp: well_listed_def conns_of_register cl)
  moreover have "client_ok (client ?h j)" if "j < length (ws_clients ?h)" for j
    using that hub_okD(2) [OF ok] k(2) c by (auto simp: cl client_ok_def)
  moreover have "ws_unregister ?h = ws_unregister h" "ws_closing ?h = ws_closing h"
    by (simp_all add: run_register_def Let_def)
  ultimately show "hub_ok ?h" using hub_okD(3) [OF ok] by (intro hub_okI) (auto simp: cl)
  show "hub_grows h ?h" using k(2) by (auto simp: hub_grows_def cl grows_def alive_def told_def)
qed

lemma unregister_keeps:
  assumes ok: "hub_ok h"
  obtains h1 where "run_unregister k h = Some h1" "hub_ok h1" "hub_grows h h1"
proof (cases "k \<in> set (conns_of h (k_userID (client h k)))")
  case False
  then show ?thesis using that [of h] ok by (simp add: run_unregister_def)
next
  case True
  let ?uid = "k_userID (client h k)"
  let ?rest = "removeAll k (conns_of h ?uid)"
  let ?c = "(client h k)\<lparr>k_closed := True\<rparr>"
  let ?h = "put_client k ?c (h\<lparr>ws_conns := (if ?rest = [] then AList.delete ?uid (ws_conns h)
                             else AList.update ?uid ?rest (ws_conns h))\<rparr>)"
  note w = hub_okD(1) [OF ok]
  have k: "k < length (ws_clients h)" "\<not> k_closed (client h k)" "k_stage (client h k) \<noteq> Entering"
    using w True by (auto simp: well_listed_def listed_def)
  have cl: "client ?h j = (if j = k then ?c else client h j)" for j
    using k(1) by (simp add: put_client_def nth_list_update)
  have cs: "conns_of ?h u = (if u = ?uid then ?rest else conns_of h u)" for u
    by simp
  have "table_ok (ws_conns ?h)"
    using w distinct_conns_of [OF w]
    by (auto simp: well_listed_def distinct_removeAll intro!: table_ok_update table_ok_delete)
  moreover have "listed ?h j \<longleftrightarrow> listed h j \<and> j \<noteq> k" for j
    by (auto simp: listed_def cl)
  ultimately have "well_listed ?h" using w unfolding well_listed_def cs by (auto simp: cl)
  moreover have "client_ok (client ?h j)" if "j < length (ws_clients ?h)" for j
    using that hub_okD(2) [OF ok] k by (auto simp: cl client_ok_def)
  ultimately have "hub_ok ?h" using hub_okD(3) [OF ok] by (intro hub_okI) auto
  moreover have "hub_grows h ?h" by (auto simp: hub_grows_def cl grows_def alive_def told_def)
  moreover have "run_unregister k h = Some ?h"
    using True k by (simp add: run_unregister_def chan_close_def Let_def)
  ultimately show ?thesis using that by blast
qed

lemma distinct_concat_snd:
  assumes "distinct (map fst al)"
    and "\<And>u ks k. (u, ks) \<in> set al \<Longrightarrow> distinct ks \<and> (k \<in> set ks \<longrightarrow> f k = u)"
  shows "distinct (concat (map snd al))"
  using assms
proof (induction al)
  case (Cons p al)
  obtain u ks where p: "p = (u, ks)" by fastforce
  have "k \<notin> set ks" if "(v, ls) \<in> set al" "k \<in> set ls" for v ls k
  proof
    assume "k \<in> set ks"
    then have "v = u" using Cons.prems(2) [of u ks k] Cons.prems(2) [of v ls k] that p by simp
    then show False using Cons.prems(1) that(1) p by (force simp: image_iff)
  qed
  then have "set ks \<inter> set (concat (map snd al)) = {}" by fastforce
  moreover have "distinct (concat (map snd al))" using Cons.prems by (intro Cons.IH) auto
  moreover have "distinct ks" using Cons.prems(2) [of u ks] p by simp
  ultimately show ?case by (simp add: p)
qed simp

lemma closed_keeps:
  assumes ok: "hub_ok h"
  obtains h1 where "run_closed h = Some h1" "hub_ok h1" "hub_grows h h1"
proof -
  let ?ks = "concat (map snd (ws_conns h))"
  let ?cs = "on_each ?ks (\<lambda>c. c\<lparr>k_conn := False, k_closed := True\<rparr>) (ws_clients h)"
  let ?h = "h\<lparr>ws_clients := ?cs, ws_conns := [], ws_running := False\<rparr>"
  note w = hub_okD(1) [OF ok]
  have d: "distinct (map fst (ws_conns h))" using w by (simp add: well_listed_def table_ok_def)
  have mem: "conns_of h u = ks" if "(u, ks) \<in> set (ws_conns h)" for u ks
    using map_of_is_SomeI [OF d that] by (simp add: conns_of_def)
  have "distinct ks \<and> (k \<in> set ks \<longrightarrow> k_userID (client h k) = u)" if "(u, ks) \<in> set (ws_conns h)" for u ks k
    using mem [OF that] distinct_conns_of [OF w, of u] w by (auto simp: well_listed_def)
  then have dis: "distinct ?ks" by (rule distinct_concat_snd [OF d])
  have reg: "k \<in> set ?ks \<longleftrightarrow> listed h k" for k
  proof
    assume "k \<in> set ?ks"
    then obtain u ks where "(u, ks) \<in> set (ws_conns h)" "k \<in> set ks" by auto
    then show "listed h k" using mem w by (auto simp: well_listed_def)
  next
    assume "listed h k"
    then have "k \<in> set (conns_of h (k_userID (client h k)))" using w by (simp add: well_listed_def)
    then obtain ks where "map_of (ws_conns h) (k_userID (client h k)) = Some ks" "k \<in> set ks"
      by (cases "map_of (ws_conns h) (k_userID (client h k))") (auto simp: conns_of_def)
    then show "k \<in> set ?ks" by (force dest: map_of_SomeD)
  qed
  have "all_open h ?ks" using dis reg by (auto simp: all_open_def listed_def)
  from close_each_open [OF this] have run: "run_closed h = Some ?h" by (simp add: run_closed_def)
  have "\<not> listed ?h k" for k using reg [of k] by (auto simp: listed_def)
  then have "well_listed ?h" by (simp add: well_listed_def table_ok_Nil)
  moreover have "client_ok (client ?h k)" if "k < length (ws_clients ?h)" for k
    using that hub_okD(2) [OF ok, of k] reg [of k] by (auto simp: client_ok_def listed_def)
  ultimately have "hub_ok ?h" using hub_okD(3) [OF ok] by (intro hub_okI) auto
  moreover have "hub_grows h ?h" by (auto simp: hub_grows_def grows_def alive_def told_def)
  ultimately show ?thesis using run that by blast
qed

lemma enter_keeps:
  assumes ok: "hub_ok h" and "ws_enter upgrade lib now r s h = Inr h1"
  shows "hub_ok h1" and "hub_grows h h1"
proof -
  obtain uid where h1: "h1 = h\<lparr>ws_clients := ws_clients h @ [newWSClient uid]\<rparr>"
    using assms(2) by (auto simp: ws_enter_def split: sum.splits option.splits)
  have "listed h1 k = listed h k" for k
    by (auto simp: h1 listed_def nth_append newWSClient_def)
  then have "well_listed h1"
    using hub_okD(1) [OF ok] by (auto simp: well_listed_def h1 listed_def nth_append)
  moreover have "client_ok (client h1 k)" if "k < length (ws_clients h1)" for k
    using that hub_okD(2) [OF ok] by (auto simp: h1 nth_append client_ok_def newWSClient_def)
  ultimately show "hub_ok h1" using hub_okD(3) [OF ok] by (intro hub_okI) (auto simp: h1 less_SucI)
  show "hub_grows h h1" by (simp add: h1 hub_grows_def nth_append)
qed

lemma round_keeps:
  assumes ok: "hub_ok h" and k: "k < length (ws_clients h)" "k_stage (client h k) = Sending ms"
  obtains h1 where "ws_round k h = Some h1" "hub_ok h1" "hub_grows h h1"
proof (cases ms)
  case Nil
  then show ?thesis
    using that put_local [OF ok k(1) local_served [OF k(2)]] k by (simp add: ws_round_def)
next
  case (Cons m rest)
  let ?h = "put_client k ((client h k)\<lparr>k_stage := Sending rest\<rparr>) h"
  have "hub_ok ?h" "hub_grows h ?h"
    using put_local [OF ok k(1) local_next] k Cons by simp_all
  moreover have "sound_message m" using hub_okD(2) [OF ok k(1)] k Cons by (simp add: client_ok_def)
  ultimately obtain h1 where "BroadcastToUser (k_userID (client h k)) m ?h = Some h1" "hub_ok h1" "hub_grows ?h h1"
    using broadcast_keeps by metis
  then show ?thesis
    using that k Cons hub_grows_trans [OF \<open>hub_grows h ?h\<close>] by (simp add: ws_round_def)
qed

lemma load_keeps:
  assumes "hub_ok h" and "k < length (ws_clients h)" and "k_stage (client h k) = Loading"
  shows "hub_ok (ws_load s k h)" and "hub_grows h (ws_load s k h)"
  using put_local [OF assms(1,2) local_load [OF assms(3)]] by (simp_all add: ws_load_def)

lemma reader_keeps:
  assumes ok: "hub_ok h" and k: "k < length (ws_clients h)"
  shows "hub_ok (reader_ends k h)" and "hub_grows h (reader_ends k h)"
proof -
  let ?h = "h\<lparr>ws_unregister := ws_unregister h @ [k]\<rparr>"
  have "hub_ok ?h" "hub_grows h ?h"
    using lists_keep [OF ok, of ?h] waiting_valid [OF ok] k by auto
  moreover have "client ?h k = client h k" "k < length (ws_clients ?h)" using k by simp_all
  ultimately show "hub_ok (reader_ends k h)" "hub_grows h (reader_ends k h)"
    using put_local [of ?h k, OF _ _ local_reader] hub_grows_trans by (auto simp: reader_ends_def)
qed

lemma conn_keeps:
  assumes ok: "hub_ok h" and k: "k \<in> set (ws_closing h)"
  shows "hub_ok (conn_closes k h)" and "hub_grows h (conn_closes k h)"
proof -
  let ?h = "h\<lparr>ws_closing := remove1 k (ws_closing h)\<rparr>"
  have "set (remove1 k (ws_closing h)) \<subseteq> set (ws_closing h)" by (rule set_remove1_subset)
  then have "hub_ok ?h" "hub_grows h ?h"
    using lists_keep [OF ok, of ?h] waiting_valid [OF ok] by auto
  moreover have "client ?h k = client h k" "k < length (ws_clients ?h)"
    using k waiting_valid [OF ok] by auto
  ultimately show "hub_ok (conn_closes k h)" "hub_grows h (conn_closes k h)"
    using put_local [of ?h k, OF _ _ local_conn] hub_grows_trans by (auto simp: conn_closes_def)
qed

lemma served_keeps:
  assumes ok: "hub_ok h" and k: "k \<in> set (ws_unregister h)"
  obtains h1 where "unregister_served k h = Some h1" "hub_ok h1" "hub_grows h h1"
proof -
  let ?h = "h\<lparr>ws_unregister := remove1 k (ws_unregister h), ws_closing := ws_closing h @ [k]\<rparr>"
  have "set (remove1 k (ws_unregister h)) \<subseteq> set (ws_unregister h)" by (rule set_remove1_subset)
  then have h: "hub_ok ?h" "hub_grows h ?h"
    using lists_keep [OF ok, of ?h] waiting_valid [OF ok] k by auto
  obtain h1 where "run_unregister k ?h = Some h1" "hub_ok h1" "hub_grows ?h h1"
    by (rule unregister_keeps [OF h(1)])
  then show ?thesis using that hub_grows_trans [OF h(2)] by (auto simp: unregister_served_def)
qed

text \<open>Every move of a sound manager ends without a panic in a sound manager.\<close>

lemma step_keeps:
  assumes "ws_step h r" and ok: "hub_ok h"
  obtains h1 where "r = Some h1" "hub_ok h1" "hub_grows h h1"
  using assms(1)
proof cases
  case (enters upgrade lib now q s h1)
  then show ?thesis using that enter_keeps [OF ok] by blast
next
  case (registers k)
  then show ?thesis using that register_keeps [OF ok] by blast
next
  case (loads k s)
  then show ?thesis using that load_keeps [OF ok] by blast
next
  case (round k ms)
  then show ?thesis using that round_keeps [OF ok] by metis
next
  case (broadcasts m uid)
  then show ?thesis using that broadcast_keeps [OF ok] by metis
next
  case (receives k sent)
  then show ?thesis using that put_local [OF ok _ local_receives] by blast
next
  case (writes k opened flushed)
  then show ?thesis using that put_local [OF ok _ local_writes] by blast
next
  case (pings k sent)
  then show ?thesis using that put_local [OF ok _ local_pings] by blast
next
  case (reads k)
  then show ?thesis using that reader_keeps [OF ok] by blast
next
  case (unregisters k)
  then show ?thesis using that served_keeps [OF ok] by metis
next
  case (closes k)
  then show ?thesis using that conn_keeps [OF ok] by blast
next
  case stops
  have "hub_ok (h\<lparr>ws_closed := True\<rparr>)" "hub_grows h (h\<lparr>ws_closed := True\<rparr>)"
    using lists_keep [OF ok, of "h\<lparr>ws_closed := True\<rparr>"] waiting_valid [OF ok] by auto
  then show ?thesis using that stops by (simp add: Stop_def)
next
  case ends
  then show ?thesis using that closed_keeps [OF ok] by metis
qed

lemma hub_ok_new: "hub_ok NewWSManager"
  by (auto simp: hub_ok_def well_listed_def table_ok_def listed_def NewWSManager_def conns_of_def)

lemma run_keeps: "ws_run h h1 \<Longrightarrow> hub_ok h \<Longrightarrow> hub_ok h1 \<and> hub_grows h h1"
proof (induction rule: ws_run.induct)
  case (step h h1 h2)
  obtain h3 where "Some h2 = Some h3" "hub_ok h3" "hub_grows h1 h3"
    using step_keeps [OF step.hyps(2)] step by metis
  then show ?case using step hub_grows_trans by auto
qed simp

end
