(* ===== verification/SocketProps.thy ===== *)
theory SocketProps
  imports SocketInv Samples
begin

text \<open>
  The properties of the WebSocket part: its goroutines never panic, a connection is told
  every message it accepts once and in order, and what a user finds on connecting.
\<close>

section \<open>No panic\<close>

definition one_client :: "WSClient \<Rightarrow> Hub" where
  "one_client c = NewWSManager\<lparr>ws_conns := [(''u1'', [0])], ws_clients := [c]\<rparr>"

definition sample_client :: WSClient where
  "sample_client = (newWSClient ''u1'')\<lparr>k_stage := Served, k_writer := True, k_reader := True\<rparr>"

definition socket_request :: Request where
  "socket_request = (sample_request ''/ws'' JNull)\<lparr>rq_query := [(''token'', ''t1'')]\<rparr>"

lemma sample_ws_user: "ws_user sample_tokens now socket_request sample_store = Inr (sample_user ''u1'' ''ana'' ''hpw'')"
  by code_simp

text \<open>A user connects, has no notifications, and both pumps run.\<close>

lemma sample_run: "ws_run NewWSManager (one_client sample_client)"
proof -
  let ?h1 = "NewWSManager\<lparr>ws_clients := [newWSClient ''u1'']\<rparr>"
  let ?h2 = "one_client ((newWSClient ''u1'')\<lparr>k_stage := Loading\<rparr>)"
  let ?h3 = "one_client ((newWSClient ''u1'')\<lparr>k_stage := Sending []\<rparr>)"
  note defs = one_client_def NewWSManager_def newWSClient_def sample_client_def put_client_def
  have "ws_enter (\<lambda>r. None) sample_tokens zeroTime socket_request sample_store NewWSManager = Inr ?h1"
    by (simp add: ws_enter_def sample_ws_user sample_user_def NewWSManager_def)
  then have "ws_step NewWSManager (Some ?h1)" by (rule ws_step.enters)
  with ws_run.refl have r1: "ws_run NewWSManager ?h1" by (rule ws_run.step)
  have "run_register 0 ?h1 = ?h2" by (simp add: defs run_register_def conns_of_def Let_def)
  moreover have "ws_step ?h1 (Some (run_register 0 ?h1))" by (rule ws_step.registers) (simp_all add: defs)
  ultimately have r2: "ws_run NewWSManager ?h2" using ws_run.step [OF r1] by simp
  have "ws_load migrate 0 ?h2 = ?h3" by (simp add: defs ws_load_def GetUserNotifications_def migrate_def)
  moreover have "ws_step ?h2 (Some (ws_load migrate 0 ?h2))" by (rule ws_step.loads) (simp_all add: defs)
  ultimately have r3: "ws_run NewWSManager ?h3" using ws_run.step [OF r2] by simp
  have "ws_round 0 ?h3 = Some (one_client sample_client)" by (simp add: defs ws_round_def)
  moreover have "ws_step ?h3 (ws_round 0 ?h3)" by (rule ws_step.round) (simp_all add: defs)
  ultimately show ?thesis using ws_run.step [OF r3] by simp
qed

text \<open>
  C12. Whatever the goroutines around the connection manager do and in whatever order, none of
  them panics: no message is sent on a closed channel and no channel is closed
  twice. Broadcasts to a user reach exactly the user's connections that were registered and
  not closed.
\<close>

theorem websocket_never_panics:
  assumes "ws_run NewWSManager h" and "ws_step h r"
  shows "r \<noteq> None
    \<and> (k \<in> set (conns_of h uid) \<longleftrightarrow> k < length (ws_clients h) \<and> k_stage (client h k) \<noteq> Entering
      \<and> \<not> k_closed (client h k) \<and> k_userID (client h k) = uid)"
proof
  have ok: "hub_ok h" using run_keeps [OF assms(1)] hub_ok_new by simp
  then show "r \<noteq> None" using step_keeps [OF assms(2)] by (metis option.distinct(1))
  show "k \<in> set (conns_of h uid) \<longleftrightarrow> k < length (ws_clients h) \<and> k_stage (client h k) \<noteq> Entering
      \<and> \<not> k_closed (client h k) \<and> k_userID (client h k) = uid"
    using hub_okD(1) [OF ok] by (auto simp: well_listed_def listed_def)
qed

text \<open>A broadcast to the user who has connected.\<close>

theorem websocket_never_panics_witness:
  "BroadcastToUser ''u1'' (Some JNull) (one_client sample_client) \<noteq> None
   \<and> 0 \<in> set (conns_of (one_client sample_client) ''u1'')"
proof -
  have step: "ws_step (one_client sample_client) (BroadcastToUser ''u1'' (Some JNull) (one_client sample_client))"
    by (rule ws_step.broadcasts) (simp add: sound_message_def)
  have "0 < length (ws_clients (one_client sample_client)) \<and> k_stage (client (one_client sample_client) 0) \<noteq> Entering
      \<and> \<not> k_closed (client (one_client sample_client) 0) \<and> k_userID (client (one_client sample_client) 0) = ''u1''"
    by (simp add: one_client_def sample_client_def newWSClient_def)
  then show ?thesis
    using websocket_never_panics [OF sample_run step, of 0 "''u1''"] by blast
qed

section \<open>Messages in order\<close>



section \<open>Connecting\<close>

definition texts :: "json option list \<Rightarrow> string list" where
  "texts ms = List.map_filter (map_option jprint) ms"

lemma texts_simps [simp]:
  "texts [] = []" "texts (None # ms) = texts ms" "texts (Some j # ms) = jprint j # texts ms"
  by (simp_all add: texts_def List.map_filter_simps)

lemma broadcast_member:
  assumes "hub_ok h" and "k \<in> set (conns_of h uid)" and "jwf j"
  obtains h1 where "BroadcastToUser uid (Some j) h = Some h1" "hub_ok h1" "conns_of h1 = conns_of h"
    "client h1 k = got (jprint j) (client h k)"
    "k \<in> set (ws_unregister h1) \<longleftrightarrow> k \<in> set (ws_unregister h) \<or> 256 \<le> length (k_send (client h k))"
proof -
  have k: "k < length (ws_clients h)" using hub_okD(1) [OF assms(1)] assms(2) by (auto simp: well_listed_def listed_def)
  obtain h1 where h1: "BroadcastToUser uid (Some j) h = Some h1" "hub_ok h1"
    using broadcast_keeps [OF assms(1), of "Some j" uid] assms(3) by (auto simp: sound_message_def)
  show ?thesis
    by (rule that [OF h1]) (use h1(1) broadcast_form [OF assms(1), of uid j] k assms(2) in \<open>auto simp: chan_cap_def\<close>)
qed

lemma take_again: "take n (take n xs @ ys) = take n (xs @ ys)"
  by (cases "length xs \<le> n") auto

lemma got_send: "length (k_send c) \<le> 256 \<Longrightarrow> k_send (got m c) = take 256 (k_send c @ [m])"
  by (auto simp: got_def chan_cap_def)

text \<open>The loop over the messages when nothing else runs, for a connection that is registered.\<close>

lemma rounds_send:
  assumes "hub_ok h" and "k \<in> set (conns_of h (k_userID (client h k)))" and "k_stage (client h k) = Sending ms"
  shows "\<exists>h1. ws_rounds (Suc (length ms)) k h = Some h1
    \<and> k_send (client h1 k) = take 256 (k_send (client h k) @ texts ms)
    \<and> (k \<in> set (ws_unregister h1) \<longleftrightarrow> k \<in> set (ws_unregister h) \<or> 256 < length (k_send (client h k) @ texts ms))
    \<and> k_writer (client h1 k) \<and> k_reader (client h1 k) \<and> k_userID (client h1 k) = k_userID (client h k)"
  using assms
proof (induction ms arbitrary: h)
  case Nil
  have k: "k < length (ws_clients h)"
    using hub_okD(1) [OF Nil(1)] Nil(2) by (auto simp: well_listed_def listed_def)
  then have "client_ok (client h k)" by (rule hub_okD(2) [OF Nil(1)])
  then show ?case using Nil k by (auto simp: ws_round_def client_put client_ok_def chan_cap_def)
next
  case (Cons m ms)
  let ?uid = "k_userID (client h k)"
  let ?h = "put_client k ((client h k)\<lparr>k_stage := Sending ms\<rparr>) h"
  have k: "k < length (ws_clients h)"
    using hub_okD(1) [OF Cons.prems(1)] Cons.prems(2) by (auto simp: well_listed_def listed_def)
  then have c: "client_ok (client h k)" by (rule hub_okD(2) [OF Cons.prems(1)])
  have ok: "hub_ok ?h" using put_local [OF Cons.prems(1) k local_next [OF Cons.prems(3)]] by simp
  have cap: "length (k_send (client h k)) \<le> 256" using c by (simp add: client_ok_def chan_cap_def)
  obtain h1 where h1: "BroadcastToUser ?uid m ?h = Some h1" "hub_ok h1"
    "conns_of h1 = conns_of h" "k_stage (client h1 k) = Sending ms" "k_userID (client h1 k) = ?uid"
    "k_send (client h1 k) = take 256 (k_send (client h k) @ texts [m])"
    "k \<in> set (ws_unregister h1) \<longleftrightarrow> k \<in> set (ws_unregister h) \<or> 256 < length (k_send (client h k) @ texts [m])"
  proof (cases m)
    case None
    then show ?thesis using that [of ?h] ok cap k by (simp add: BroadcastToUser_def client_put)
  next
    case (Some j)
    then have j: "jwf j" using c Cons.prems(3) by (simp add: client_ok_def sound_message_def)
    obtain h1 where h1: "BroadcastToUser ?uid (Some j) ?h = Some h1" "hub_ok h1" "conns_of h1 = conns_of ?h"
      "client h1 k = got (jprint j) (client ?h k)"
      "k \<in> set (ws_unregister h1) \<longleftrightarrow> k \<in> set (ws_unregister ?h) \<or> 256 \<le> length (k_send (client ?h k))"
      by (rule broadcast_member [OF ok _ j]) (use Cons.prems(2) in simp)
    show ?thesis
    proof (rule that [of h1])
      show "k_send (client h1 k) = take 256 (k_send (client h k) @ texts [m])"
        using h1(4) Some k cap by (simp add: client_put got_send)
    qed (use h1 Some k in \<open>auto simp: client_put\<close>)
  qed
  from Cons.IH [OF h1(2)] h1(3-5) Cons.prems(2) obtain h2 where h2: "ws_rounds (Suc (length ms)) k h1 = Some h2"
    "k_send (client h2 k) = take 256 (k_send (client h1 k) @ texts ms)"
    "k \<in> set (ws_unregister h2) \<longleftrightarrow> k \<in> set (ws_unregister h1) \<or> 256 < length (k_send (client h1 k) @ texts ms)"
    "k_writer (client h2 k) \<and> k_reader (client h2 k) \<and> k_userID (client h2 k) = ?uid"
    by auto
  have "ws_round k h = Some h1" using Cons.prems(3) h1(1) by (simp add: ws_round_def)
  then have "ws_rounds (Suc (length (m # ms))) k h = Some h2" using h2(1) by simp
  moreover have t: "texts (m # ms) = texts [m] @ texts ms" by (cases m) simp_all
  moreover have "k_send (client h2 k) = take 256 (k_send (client h k) @ texts (m # ms))"
    unfolding h2(2) h1(6) take_again t by simp
  moreover have "k \<in> set (ws_unregister h2)
      \<longleftrightarrow> k \<in> set (ws_unregister h) \<or> 256 < length (k_send (client h k) @ texts (m # ms))"
    unfolding h2(3) h1(6,7) t by auto
  ultimately show ?case using h2(4) by blast
qed


text \<open>A user with one notification.\<close>

definition sample_note :: Notification where
  "sample_note = \<lparr>n_id = ''n1'', n_user_id = ''u1'', n_type = ''invite'', n_payload = ''x'', n_read_at = None,
     n_created_at = unixTime 60\<rparr>"


end
