(* ===== verification/RouterProps.thy ===== *)
theory RouterProps
  imports Router SocketProps
begin

text \<open>
  The properties of the first router: it works with the connection manager without a
  panic, shows the details of an appointment as the API does, and lets anyone change it.
\<close>

section \<open>Requests and connections\<close>

lemma sound_messages [simp]:
  "sound_message (snd (invite_message aid p))" "sound_message (snd (about_appt uid typ aid))"
  by (simp_all add: invite_message_def about_appt_def sound_message_def json_map_def list_all_iff)

definition sound :: "Response \<times> Store \<times> broadcasts \<Rightarrow> bool" where
  "sound x \<longleftrightarrow> list_all (\<lambda>b. sound_message (snd b)) (snd (snd x))"

lemma sound_flow:
  "(\<And>u. sound (k1 u)) \<Longrightarrow> sound (for_user ctx s k1)"
  "(\<And>x. sound (k2 x)) \<Longrightarrow> sound (for_body read r s k2)"
  "(\<And>aid. sound (k3 aid)) \<Longrightarrow> sound (for_appt r s k3)"
  by (simp_all add: for_user_def for_body_def for_appt_def Let_def sound_def split: sum.split option.split)

lemma sound_accounts: "sound (handleRegister_old pw now r ctx s)" "sound (handleLogin_old pw lib now r ctx s)"
  unfolding handleRegister_old_def handleLogin_old_def
  by (intro sound_flow; simp add: sound_def split: prod.split sum.split)+

lemma sound_groups:
  "sound (handleCreateGroup_old now r ctx s)" "sound (handleListMyGroups_old r ctx s)"
  "sound (handleAddGroupMember now r ctx s)"
  unfolding handleCreateGroup_old_def handleListMyGroups_old_def handleAddGroupMember_def
  by (intro sound_flow; simp add: sound_def Let_def split: prod.split sum.split)+

lemma sound_create: "sound (handleCreateAppointment_old now r ctx s)"
  unfolding handleCreateAppointment_old_def
  by (intro sound_flow) (simp add: sound_def Let_def list_all_iff split: prod.split sum.split)

lemma sound_rest:
  "sound (handleGetUserAgenda_old r ctx s)" "sound (handleGetGroupAgenda_old r ctx s)"
  "sound (handleGetAppointmentDetails_old r ctx s)" "sound (handleUpdateAppointment_old now r ctx s)"
  "sound (handleDeleteAppointment_old now r ctx s)"
  unfolding handleGetUserAgenda_old_def handleGetGroupAgenda_old_def handleGetAppointmentDetails_old_def
    handleUpdateAppointment_old_def handleDeleteAppointment_old_def
  by (intro sound_flow; simp add: sound_def Let_def split: sum.split)+

lemma sound_protected: "(\<And>u. sound (handler r (Some u) s)) \<Longrightarrow> sound (AuthMiddleware lib now handler r ctx s)"
  by (auto simp: AuthMiddleware_def Let_def sound_def split: list.split sum.split)

lemma sound_router: "(m, t, handler) \<in> set (NewRouter pw lib now) \<Longrightarrow> sound (handler r ctx s)"
  unfolding NewRouter_def
  by (auto intro!: sound_protected sound_accounts sound_groups sound_create sound_rest)

lemma ws_run_front: "ws_run h1 h2 \<Longrightarrow> ws_step h (Some h1) \<Longrightarrow> ws_run h h2"
proof (induction rule: ws_run.induct)
  case (refl k)
  then show ?case using ws_run.step [OF ws_run.refl] by simp
next
  case (step k k1 k2)
  then show ?case using ws_run.step by simp
qed

lemma carried_out:
  "ws_run NewWSManager h \<Longrightarrow> list_all (\<lambda>b. sound_message (snd b)) bs \<Longrightarrow> \<exists>h1. carry_out bs h = Some h1 \<and> ws_run h h1"
proof (induction bs arbitrary: h)
  case Nil
  then show ?case by (simp add: ws_run.refl)
next
  case (Cons b bs)
  obtain uid m where b: "b = (uid, m)" by fastforce
  have ok: "hub_ok h" using run_keeps [OF Cons.prems(1)] hub_ok_new by simp
  have m: "sound_message m" using Cons.prems(2) b by simp
  obtain h1 where h1: "BroadcastToUser uid m h = Some h1" by (rule broadcast_keeps [OF ok m])
  have "ws_step h (Some h1)" using ws_step.broadcasts [OF m, of h uid] h1 by simp
  then have "ws_run NewWSManager h1" using ws_run.step [OF Cons.prems(1)] by simp
  then obtain h2 where h2: "carry_out bs h1 = Some h2" "ws_run h1 h2" using Cons by auto
  then show ?case using b h1 ws_run_front [OF _ \<open>ws_step h (Some h1)\<close>] by simp
qed

text \<open>
  Whatever request any handler of the router is given, over whatever database, and whatever the
  connections have done so far: the handler answers without a panic, and what it broadcasts are
  moves of the connection manager.
\<close>

theorem requests_and_connections_compose:
  assumes "(m, t, handler) \<in> set (NewRouter pw lib now)" and "ws_run NewWSManager h"
  shows "\<exists>resp s1 h1. run_old handler r s h = Some (resp, s1, h1) \<and> ws_run h h1"
proof -
  obtain resp s1 bs where x: "handler r None s = (resp, s1, bs)" using prod_cases3 by blast
  then have "list_all (\<lambda>b. sound_message (snd b)) bs"
    using sound_router [OF assms(1), of r None s] by (simp add: sound_def)
  then show ?thesis using carried_out [OF assms(2)] x by (fastforce simp: run_old_def)
qed

theorem requests_and_connections_compose_witness:
  "\<exists>resp s1 h1. run_old (handleLogin_old sample_passwords sample_tokens zeroTime) (sample_request ''/login'' JNull)
      sample_store (one_client sample_client) = Some (resp, s1, h1) \<and> ws_run (one_client sample_client) h1"
  by (rule requests_and_connections_compose [of "''POST''" "''/login''" _ sample_passwords sample_tokens zeroTime, OF _ sample_run])
    (simp add: NewRouter_def)

section \<open>The two routers\<close>

text \<open>
  C39. The details of an appointment are the same over both routers: both answer a known user with the
  same status, and when they show the appointment, with the same body.
\<close>

theorem routers_show_the_same_details:
  assumes "GetUserByID (u_id u) (db_of cw) = Inr u"
  shows "rp_status (fst (handleGetAppointmentDetails_old r (Some u) (db_of cw)))
      = rp_status (fst (handleGetAppointmentDetails (r\<lparr>rq_user := Some (u_id u)\<rparr>) cw))
    \<and> (rp_status (fst (handleGetAppointmentDetails_old r (Some u) (db_of cw))) = 200 \<longrightarrow>
        fst (handleGetAppointmentDetails_old r (Some u) (db_of cw))
        = fst (handleGetAppointmentDetails (r\<lparr>rq_user := Some (u_id u)\<rparr>) cw))"
proof -
  let ?aid = "path_id ''appointmentID'' r"
  have view: "may_view_old u a ?aid (db_of cw) = may_view (u_id u) a ?aid (db_of cw)" for a
    by (auto simp: may_view_old_def may_view_def list_ex_iff split: option.split)
  have filter: "filterAppointmentForViewer_old (db_of cw) a u g = filterAppointmentForViewer a u g (db_of cw)" for a g
    by (auto simp: filterAppointmentForViewer_old_def filterAppointmentForViewer_def split: option.split)
  show ?thesis
    using assms
    by (auto simp: handleGetAppointmentDetails_old_def handleGetAppointmentDetails_def for_user_def for_appt_def
        GetUserFromContext_def user_of_def Let_def view filter respondError_def reply_json_def http_error_def
        split: sum.split)
qed

theorem routers_show_the_same_details_witness:
  "rp_status (fst (handleGetAppointmentDetails_old (sample_request ''/'' JNull) (Some (sample_user ''u1'' ''ana'' ''hpw'')) sample_store)) = 200
   \<and> fst (handleGetAppointmentDetails_old (sample_request ''/'' JNull) (Some (sample_user ''u1'' ''ana'' ''hpw'')) sample_store)
     = fst (handleGetAppointmentDetails ((sample_request ''/'' JNull)\<lparr>rq_user := Some ''u1''\<rparr>) (sample_node, ()))"
proof -
  let ?u = "sample_user ''u1'' ''ana'' ''hpw''" and ?cw = "(sample_node, ())" and ?r = "sample_request ''/'' JNull"
  have id: "u_id ?u = ''u1''" and user: "GetUserByID (u_id ?u) (db_of ?cw) = Inr ?u"
    by (simp_all add: sample_user_def sample_store_def GetUserByID_def query_user_def scan_user_def user_row_def)
  have a: "GetAppointmentByID ''a1'' sample_store = Inr ((sample_appt None)\<lparr>a_created_at := zeroTime, a_updated_at := zeroTime\<rparr>)"
    by (simp add: sample_store_def GetAppointmentByID_def sample_appt_def appt_row_def scan_appt_def migrate_def)
  have aid: "path_id ''appointmentID'' ?r = ''a1''" by code_simp
  have "rp_status (fst (handleGetAppointmentDetails_old ?r (Some ?u) sample_store)) = 200"
    using a aid id
    by (simp add: handleGetAppointmentDetails_old_def for_user_def for_appt_def GetUserFromContext_def Let_def
        may_view_old_def sample_appt_def reply_json_def)
  then show ?thesis using routers_show_the_same_details [OF user, of ?r] id by simp
qed

lemma appointment_updated:
  assumes "GetAppointmentByID aid s = Inr a" and "a_id b = aid"
  shows "\<exists>c. GetAppointmentByID aid (UpdateAppointment now b s) = Inr c \<and> a_title c = a_title b \<and> a_owner_id c = a_owner_id a"
proof -
  let ?P = "\<lambda>x. a_id x = aid \<and> \<not> a_deleted x"
  let ?f = "\<lambda>x. x\<lparr>a_title := a_title b, a_description := a_description b, a_start := Unix (a_start b),
    a_end := Unix (a_end b), a_privacy := a_privacy b, a_updated_at := now, a_version := a_version x + 1\<rparr>"
  obtain row where row: "find ?P (tb_appts s) = Some row" "a = scan_appt row"
    using assms(1) by (auto simp: GetAppointmentByID_def split: option.splits)
  have "?P row" using row(1) unfolding find_Some_iff by blast
  then have "find ?P (update_where ?P ?f (tb_appts s)) = Some (?f row)"
    by (rule find_update_where [OF row(1)]) simp
  moreover have "GetAppointmentByID aid (UpdateAppointment now b s)
      = (case find ?P (update_where ?P ?f (tb_appts s)) of None \<Rightarrow> Inl ErrNoRows | Some r \<Rightarrow> Inr (scan_appt r))"
    by (simp add: GetAppointmentByID_def UpdateAppointment_def assms(2))
  ultimately show ?thesis by (simp add: scan_appt_def row(2))
qed

text \<open>
  The router changes an appointment for anyone: a user who does not own it gives it another title
  and leaves its owner in place, although the same user may not delete it.
\<close>

theorem old_update_ignores_owner:
  assumes "GetAppointmentByID (path_id ''appointmentID'' r) s = Inr a" and "a_owner_id a \<noteq> u_id u"
    and "path_id ''appointmentID'' r \<noteq> []" and "Option.bind (decode_body (rq_body r)) read_appt_old = Some b"
  shows "(\<exists>c. GetAppointmentByID (path_id ''appointmentID'' r)
        (fst (snd (handleUpdateAppointment_old now r (Some u) s))) = Inr c
      \<and> a_title c = a_title b \<and> a_owner_id c = a_owner_id a)
    \<and> handleDeleteAppointment_old now r (Some u) s = (respondError 403 ''Only appointment owner can delete'', s, [])"
proof -
  let ?aid = "path_id ''appointmentID'' r"
  let ?b = "b\<lparr>a_id := ?aid, a_owner_id := u_id u\<rparr>"
  have up: "fst (snd (handleUpdateAppointment_old now r (Some u) s)) = UpdateAppointment now ?b s"
    using assms(3,4)
    by (simp add: handleUpdateAppointment_old_def for_user_def for_appt_def for_body_def GetUserFromContext_def Let_def)
  have "\<exists>c. GetAppointmentByID ?aid (UpdateAppointment now ?b s) = Inr c
      \<and> a_title c = a_title b \<and> a_owner_id c = a_owner_id a"
    using appointment_updated [OF assms(1), of ?b now] by simp
  moreover have "handleDeleteAppointment_old now r (Some u) s
      = (respondError 403 ''Only appointment owner can delete'', s, [])"
    using assms(1-3) by (simp add: handleDeleteAppointment_old_def for_user_def for_appt_def GetUserFromContext_def Let_def)
  ultimately show ?thesis by (simp add: up)
qed

text \<open>Bob renames an appointment of Ana.\<close>

theorem old_update_ignores_owner_witness:
  "\<exists>c. GetAppointmentByID ''a1'' (fst (snd (handleUpdateAppointment_old zeroTime
        (sample_request ''/'' (JObj [(''title'', JStr ''mine'')])) (Some (sample_user ''u2'' ''bob'' ''hpw'')) sample_store))) = Inr c
     \<and> a_title c = ''mine'' \<and> a_owner_id c = ''u1''"
proof -
  let ?r = "sample_request ''/'' (JObj [(''title'', JStr ''mine'')])"
  have aid: "path_id ''appointmentID'' ?r = ''a1''"
    using decode_sample by (simp add: sample_request_def first_value_def parseID_def) code_simp
  obtain a where a: "GetAppointmentByID ''a1'' sample_store = Inr a" "a_owner_id a = ''u1''"
    by (simp add: sample_store_def GetAppointmentByID_def sample_appt_def appt_row_def scan_appt_def migrate_def)
  obtain b where b: "Option.bind (decode_body (rq_body ?r)) read_appt_old = Some b" "a_title b = ''mine''"
  proof -
    have "read_appt_old [(''title'', JStr ''mine'')]
        = Some (requested [] ''mine'' [] [] zeroTime zeroTime [] None)" by code_simp
    then show ?thesis using that decode_sample [of "[(''title'', JStr ''mine'')]" "''/''"] by (simp add: requested_def)
  qed
  show ?thesis
    using old_update_ignores_owner [of ?r sample_store a "sample_user ''u2'' ''bob'' ''hpw''" b zeroTime] a b aid
    by (simp add: sample_user_def)
qed

end
