(* ===== verification/Startup.thy ===== *)
theory Startup
  imports ProposeInv Server WebSocket
begin

text \<open>
  \<open>cmd/server/main.go\<close> and \<open>logging.go\<close>: how a server reads its environment, how it puts
  its parts together, and the moves of the goroutines it starts. The driver of the
  database, the look-up of host names and the HTTP client are arguments.
\<close>

section \<open>The environment\<close>

text \<open>\<open>os.Getenv\<close>: a variable that is not set reads as empty.\<close>

type_synonym environment = "string \<Rightarrow> string"

definition or_default :: "string \<Rightarrow> string \<Rightarrow> string" where
  "or_default v d = (if v = [] then d else v)"

record Settings =
  st_dsn :: string
  st_secret :: string
  st_node_id :: string
  st_advertise :: string
  st_peers :: "string list"
  st_addr :: string
  st_tls :: "(string \<times> string) option"

definition settings :: "environment \<Rightarrow> Settings" where
  "settings env =
     \<lparr>st_dsn = or_default (TrimSpace (env ''DATABASE_DSN'')) ''file:agenda.db?cache=shared&_fk=1'',
      st_secret = TrimSpace (env ''CLUSTER_HMAC_SECRET''),
      st_node_id = or_default (env ''NODE_ID'') ''node-unknown'',
      st_advertise = or_default (env ''ADVERTISE_ADDR'') ''localhost:8080'',
      st_peers = (if env ''PEERS'' = [] then [] else SplitOn CHR '','' (env ''PEERS'')),
      st_addr = or_default (TrimSpace (env ''HTTP_ADDR'')) '':8080'',
      st_tls = (let cert = TrimSpace (env ''TLS_CERT_FILE''); key = TrimSpace (env ''TLS_KEY_FILE'')
                in if cert \<noteq> [] \<and> key \<noteq> [] then Some (cert, key) else None)\<rparr>"

section \<open>Constructors\<close>

text \<open>\<open>NewStorage\<close>: the driver opens the database or fails, and the migration makes all tables anew.\<close>

definition NewStorage :: "(string \<Rightarrow> gerr option) \<Rightarrow> string \<Rightarrow> Store result" where
  "NewStorage opens dsn = (case opens dsn of Some e \<Rightarrow> Inl e | None \<Rightarrow> Inr migrate)"

definition NewDiscoveryManager :: "environment \<Rightarrow> string \<Rightarrow> string \<Rightarrow> DiscoveryManager" where
  "NewDiscoveryManager env self addr =
     \<lparr>d_local = self, d_advertise = addr,
      d_dns_name = env ''DISCOVERY_DNS_NAME'', d_dns_port = fallback (env ''DISCOVERY_DNS_PORT'') ''8080'',
      d_swarm_service = env ''SWARM_SERVICE_NAME'', d_swarm_port = fallback (env ''SWARM_SERVICE_PORT'') ''8080'',
      d_seeds = parseCSV (env ''DISCOVERY_SEEDS''), d_max_peer_age = 120 * second\<rparr>"

text \<open>The goroutines \<open>Start\<close> of the discovery begins.\<close>

datatype loop = SyncLoop | DnsLoop | DockerDNSLoop | SeedLoop

definition discovery_loops :: "DiscoveryManager \<Rightarrow> loop list" where
  "discovery_loops d =
     SyncLoop # (if d_dns_name d \<noteq> [] then [DnsLoop] else [])
     @ (if d_swarm_service d \<noteq> [] then [DockerDNSLoop] else []) @ (if d_seeds d \<noteq> [] then [SeedLoop] else [])"

definition NewAPI ::
    "PasswordLib \<Rightarrow> TokenLib \<Rightarrow> (string \<Rightarrow> bool) \<Rightarrow> 'w proposer \<Rightarrow> environment \<Rightarrow> 'w Api" where
  "NewAPI pw lib email prop env =
     \<lparr>api_pw = pw, api_lib = lib, api_email = email, api_prop = Some prop,
      api_audit_token = env ''AUDIT_API_TOKEN''\<rparr>"

section \<open>main\<close>

datatype fatal = StorageInit gerr | NoSecret

text \<open>A server that listens: its node with the database, its discovery and its open connections.\<close>

record Process =
  pr_node :: Node
  pr_discovery :: DiscoveryManager
  pr_hub :: Hub
  pr_listen :: "string \<times> (string \<times> string) option"

definition main ::
    "(string \<Rightarrow> gerr option) \<Rightarrow> environment \<Rightarrow> GoTime \<Rightarrow> string \<Rightarrow> (nat \<Rightarrow> GoTime \<times> string) \<Rightarrow> fatal + Process" where
  "main opens env now rid stamps =
     (let st = settings env
      in case NewStorage opens (st_dsn st) of
           Inl e \<Rightarrow> Inl (StorageInit e)
         | Inr s \<Rightarrow>
             if st_secret st = [] then Inl NoSecret
             else (let nid = st_node_id st;
                       ps = NewEnvPeerStore nid (st_peers st);
                       d = NewDiscoveryManager env nid (st_advertise st);
                       c = Start (NewConsensus stamps nid (register_local d now s) ps)
                   in Inr \<lparr>pr_node = RecordAudit now rid None ''node'' ''start'' ''node boot sequence''
                             [(''node_id'', JStr nid), (''peers'', json_list JStr (st_peers st)),
                              (''addr'', JStr (st_advertise st))] c,
                           pr_discovery = d, pr_hub = NewWSManager, pr_listen = (st_addr st, st_tls st)\<rparr>))"

section \<open>Rounds of the background loops\<close>

text \<open>\<open>syncLoop\<close> with the record its round leaves\<close>

definition syncLoop_round :: "DiscoveryManager \<Rightarrow> GoTime \<Rightarrow> string \<Rightarrow> Node \<Rightarrow> Node" where
  "syncLoop_round d now rid c =
     RecordAudit now rid None ''cluster'' ''peers_synced'' ''peer snapshot refreshed''
       [(''peer_count'', json_int (int (length (recent_peers d now (ListClusterNodes (c_db c))))))]
       (c\<lparr>c_peers := updatePeersFromStorage d now (c_db c) (c_peers c)\<rparr>)"

definition heartbeat_round :: "GoTime \<Rightarrow> (string \<Rightarrow> bool option) \<Rightarrow> Node \<Rightarrow> Node" where
  "heartbeat_round now health c =
     (let (p, s) = heartbeat_tick now health (c_peers c, c_db c) in c\<lparr>c_peers := p, c_db := s\<rparr>)"

section \<open>Request ids and log settings\<close>

text \<open>A context carries a request id or none; \<open>fresh\<close> is what \<open>newRequestID\<close> yields.\<close>

definition WithRequestID :: "string option \<Rightarrow> string \<Rightarrow> string option \<times> string" where
  "WithRequestID ctx fresh =
     (case ctx of
        Some rid \<Rightarrow> if rid \<noteq> [] then (ctx, rid) else (Some fresh, fresh)
      | None \<Rightarrow> (Some fresh, fresh))"

definition RequestIDFromContext :: "string option \<Rightarrow> string" where
  "RequestIDFromContext ctx = (case ctx of Some rid \<Rightarrow> rid | None \<Rightarrow> [])"

text \<open>\<open>newRequestID\<close> from the random bytes, or the time as text when there are none.\<close>

definition newRequestID :: "int list option \<Rightarrow> string \<Rightarrow> string" where
  "newRequestID random time_text = (case random of Some bytes \<Rightarrow> hex_encode bytes | None \<Rightarrow> time_text)"

datatype log_level = LevelDebug | LevelInfo | LevelWarn | LevelError

datatype log_writer = Stdout | Stderr | LogFile string

definition determineLevel :: "string \<Rightarrow> log_level" where
  "determineLevel raw =
     (let v = ToLower (TrimSpace raw)
      in if v = ''debug'' then LevelDebug else if v = ''warn'' then LevelWarn
         else if v = ''error'' then LevelError else LevelInfo)"

text \<open>\<open>creates\<close> says which files can be opened.\<close>

definition selectWriter :: "(string \<Rightarrow> bool) \<Rightarrow> string \<Rightarrow> log_writer" where
  "selectWriter creates dest =
     (let v = ToLower (TrimSpace dest)
      in if v = ''stderr'' then Stderr
         else if v = ''stdout'' \<or> v = [] then Stdout
         else if HasPrefix dest ''file:''
         then (let path = TrimPrefix dest ''file:'' in if creates path then LogFile path else Stderr)
         else Stdout)"

text \<open>Whether the handler writes text, and where to\<close>

definition buildHandler :: "(string \<Rightarrow> bool) \<Rightarrow> string \<Rightarrow> string \<Rightarrow> bool \<times> log_writer" where
  "buildHandler creates format dest = (ToLower (TrimSpace format) = ''text'', selectWriter creates dest)"

section \<open>What can happen\<close>

text \<open>
  Only nodes of the cluster hold its secret. What they send under it are messages of the
  protocol: the indices of the entries in a signed \<open>AppendEntries\<close> are positive.
\<close>

definition honest :: "string \<Rightarrow> Request \<Rightarrow> bool" where
  "honest secret r \<longleftrightarrow> validateClusterHMAC secret r = None \<longrightarrow>
     (case Option.bind (decode_body (rq_body r)) read_append of
        None \<Rightarrow> True | Some req \<Rightarrow> list_all (\<lambda>e. 0 < le_index e) (ae_entries req))"

text \<open>The API of a process, wired to the proposals of its node\<close>

definition process_api ::
    "PasswordLib \<Rightarrow> TokenLib \<Rightarrow> (string \<Rightarrow> bool) \<Rightarrow> nat client \<Rightarrow> environment \<Rightarrow> GoTime
     \<Rightarrow> string list list \<Rightarrow> (string list \<times> nat) list \<Rightarrow> Process \<Rightarrow> nat Api" where
  "process_api pw lib email net env now orders turns p =
     NewAPI pw lib email
       (propose_over_http net (env ''CLUSTER_HMAC_SECRET'') (c_peers (pr_node p)) now orders turns) env"

text \<open>The node after a reconciler has asked a peer, and after it has dealt with an event.\<close>

definition event_feeds :: "Event Feed list" where
  "event_feeds = [appointment_feed, group_feed, member_feed, invitation_feed, notification_feed]"

definition pulled ::
    "nat client \<Rightarrow> string \<Rightarrow> 'e Feed \<Rightarrow> GoTime \<Rightarrow> string \<Rightarrow> string \<Rightarrow> GoTime \<Rightarrow> Node \<times> nat \<Rightarrow> Node" where
  "pulled net env fd now pid addr since cw =
     fst (snd (pull net (TrimSpace env) (fd_decode fd) (fd_path fd) now pid addr since cw))"

definition repaired ::
    "nat client \<Rightarrow> string \<Rightarrow> 'e Feed \<Rightarrow> GoTime \<Rightarrow> string list list \<Rightarrow> (string list \<times> nat) list \<Rightarrow> 'e
     \<Rightarrow> Node \<times> nat \<Rightarrow> Node" where
  "repaired net secret fd now orders turns ev cw =
     fst (repair_one (propose_over_http net secret (c_peers (fst cw)) now orders turns) (fd_repair fd) now ev cw)"

text \<open>
  The moves of a server: it serves a request, a case of the loop of the consensus module
  fires, a goroutine of a proposal goes on after its leader has stopped waiting for it, a
  background loop has a round, a reconciler asks a peer or proposes a repair (between any
  two of them the others run), or something happens to the open connections. The world is
  a counter, so that the network may answer every request differently. A panic of the
  connection manager is \<open>None\<close>. Two premises keep 64-bit counters from wrapping: the index
  of a proposal and the term of an election.
\<close>

inductive server_step :: "environment \<Rightarrow> Process \<Rightarrow> Process option \<Rightarrow> bool" for env where
  request: "max_index (c_log (pr_node p)) < max64 \<Longrightarrow> honest (env ''CLUSTER_HMAC_SECRET'') r
    \<Longrightarrow> serve net route (process_api pw lib email net env now orders turns p) (env ''CLUSTER_HMAC_SECRET'') now rid r
           (pr_node p, w :: nat) = (resp, c, w')
    \<Longrightarrow> server_step env p (Some (p\<lparr>pr_node := c\<rparr>))"
| heartbeat: "server_step env p (Some (p\<lparr>pr_node := fst (heartbeat_case
      (append_over_http net (env ''CLUSTER_HMAC_SECRET'') (c_peers (pr_node p))) (Some (NewRaftApplier now)) order
      (pr_node p, w :: nat))\<rparr>))"
| elect: "c_term (pr_node p) < max64 \<Longrightarrow> server_step env p (Some (p\<lparr>pr_node := fst (election_case
      (vote_over_http net (env ''CLUSTER_HMAC_SECRET'') (c_peers (pr_node p))) preorder order (pr_node p, w :: nat))\<rparr>))"
| timer: "server_step env p (Some (p\<lparr>pr_node := reset_case (pr_node p)\<rparr>))"
| late: "is_int64 lastIdx \<Longrightarrow> server_step env p (Some (p\<lparr>pr_node := fst (snd (replicate_peer n
      (append_over_http net (env ''CLUSTER_HMAC_SECRET'') (c_peers (pr_node p))) term commit lastIdx pid
      (pr_node p, w :: nat)))\<rparr>))"
| syncs: "server_step env p (Some (p\<lparr>pr_node := syncLoop_round (pr_discovery p) now rid (pr_node p)\<rparr>))"
| dns: "DnsLoop \<in> set (discovery_loops (pr_discovery p)) \<Longrightarrow> server_step env p (Some (p\<lparr>pr_node :=
      (pr_node p)\<lparr>c_db := dnsLoop_round (pr_discovery p) lookup now (c_db (pr_node p))\<rparr>\<rparr>))"
| docker: "DockerDNSLoop \<in> set (discovery_loops (pr_discovery p)) \<Longrightarrow> server_step env p (Some (p\<lparr>pr_node :=
      (pr_node p)\<lparr>c_db := dockerDNSLoop_round (pr_discovery p) lookup now (c_db (pr_node p))\<rparr>\<rparr>))"
| seeds: "SeedLoop \<in> set (discovery_loops (pr_discovery p)) \<Longrightarrow> server_step env p (Some (p\<lparr>pr_node :=
      (pr_node p)\<lparr>c_db := announceToSeeds (pr_discovery p) now answer (c_db (pr_node p))\<rparr>\<rparr>))"
| beats: "server_step env p (Some (p\<lparr>pr_node := heartbeat_round now health (pr_node p)\<rparr>))"
| pulls_users: "server_step env p (Some (p\<lparr>pr_node := pulled net (env ''CLUSTER_HMAC_SECRET'') user_feed
      now pid addr since (pr_node p, w)\<rparr>))"
| pulls_events: "fd \<in> set event_feeds \<Longrightarrow> server_step env p (Some (p\<lparr>pr_node := pulled net
      (env ''CLUSTER_HMAC_SECRET'') fd now pid addr since (pr_node p, w)\<rparr>))"
| repairs_user: "max_index (c_log (pr_node p)) < max64 \<Longrightarrow> server_step env p (Some (p\<lparr>pr_node := repaired net
      (env ''CLUSTER_HMAC_SECRET'') user_feed now orders turns ev (pr_node p, w)\<rparr>))"
| repairs_event: "max_index (c_log (pr_node p)) < max64 \<Longrightarrow> fd \<in> set event_feeds
    \<Longrightarrow> server_step env p (Some (p\<lparr>pr_node := repaired net
      (env ''CLUSTER_HMAC_SECRET'') fd now orders turns ev (pr_node p, w)\<rparr>))"
| sockets: "ws_step (pr_hub p) r \<Longrightarrow> server_step env p (map_option (\<lambda>h. p\<lparr>pr_hub := h\<rparr>) r)"

inductive server_run :: "environment \<Rightarrow> Process \<Rightarrow> bool" for env where
  starts: "main opens env now rid stamps = Inr p \<Longrightarrow> server_run env p"
| moves: "server_run env p \<Longrightarrow> server_step env p (Some q) \<Longrightarrow> server_run env q"

end
