(* ===== verification/ServerInv.thy ===== *)
theory ServerInv
  imports Startup ApiInv SocketInv
begin

text \<open>
  Every move of a running server keeps the invariant of its node, the constraints of
  its tables and the invariant of its open connections.
\<close>

section \<open>Writes of the background loops\<close>

lemma writes_upsert [writing]: "writes s t \<Longrightarrow> writes s (upsert_node now nid addr source seen t)"
  by (simp add: upsert_node_def writing)

lemma writes_fold: "(\<And>x t. writes s t \<Longrightarrow> writes s (f x t)) \<Longrightarrow> writes s t \<Longrightarrow> writes s (fold f xs t)"
  by (induction xs arbitrary: t) simp_all

lemma writes_discovery [writing]:
  "writes s t \<Longrightarrow> writes s (register_local d now t)"
  "writes s t \<Longrightarrow> writes s (dnsLoop_round d lookup now t)"
  "writes s t \<Longrightarrow> writes s (dockerDNSLoop_round d lookup now t)"
  "writes s t \<Longrightarrow> writes s (announceToSeeds d now answer t)"
proof -
  have dns: "writes s t \<Longrightarrow> writes s (dns_round d port kind source now hosts t)" for port kind source hosts
    unfolding dns_round_def by (intro writes_fold) (auto simp: Let_def intro: writing)
  show "writes s t \<Longrightarrow> writes s (register_local d now t)"
    "writes s t \<Longrightarrow> writes s (dnsLoop_round d lookup now t)"
    "writes s t \<Longrightarrow> writes s (dockerDNSLoop_round d lookup now t)"
    by (simp_all add: register_local_def dnsLoop_round_def dockerDNSLoop_round_def dns writing split: option.split)
  have seed: "writes s t \<Longrightarrow> writes s (announce_seed now answer seed t)" for seed t
    by (auto simp: announce_seed_def Let_def merge_node_def intro!: writing writes_fold split: option.split)
  show "writes s t \<Longrightarrow> writes s (announceToSeeds d now answer t)"
    unfolding announceToSeeds_def by (intro writes_fold seed)
qed

lemma heartbeat_peers_keep:
  assumes "peers_ok p" "writes s0 s"
  shows "peers_ok (fst (heartbeat_peers now health ids (p, s)))
    \<and> writes s0 (snd (heartbeat_peers now health ids (p, s)))"
  using assms
  by (induction now health ids "(p, s)" arbitrary: s rule: heartbeat_peers.induct)
    (auto simp: Let_def peers_ok_ops writing split: option.split)

section \<open>Messages of Raft\<close>

lemma store_ok_AppendEntries: "store_ok (c_db c) \<Longrightarrow> store_ok (c_db (snd (HandleAppendEntries req c)))"
proof -
  have follows: "store_ok (c_db (fold install_entry es c)) = store_ok (c_db c)" for es c
    by (induction es arbitrary: c) (simp_all add: install_entry_def set_log_def)
  show "store_ok (c_db c) \<Longrightarrow> ?thesis"
    by (cases req c rule: AppendEntries_cases)
      (simp_all add: AppendEntries_stale AppendEntries_mismatch AppendEntries_match follows
        reset_timer_def adopt_leader_def rollback_def advance_commit_def follow_def set_term_def set_voted_def set_commit_def
        set_applied_def set_log_def clear_apply_err_def Let_def)
qed

lemma store_ok_RequestVote: "store_ok (c_db c) \<Longrightarrow> store_ok (c_db (snd (HandleRequestVote req c)))"
  by (simp add: HandleRequestVote_def Let_def set_term_def set_voted_def)

lemma read_vote_int64: "read_vote ms = Some req \<Longrightarrow> is_int64 (rv_term req)"
  by (auto simp: read_vote_def bind_eq_Some_conv dest: int_field_int64)

lemma entries_int64: "as_entries j old = Some es \<Longrightarrow> \<forall>e \<in> set old. is_int64 (le_index e)
  \<Longrightarrow> \<forall>e \<in> set es. is_int64 (le_index e)"
proof -
  have one: "dec_entry ms = Some e \<Longrightarrow> is_int64 (le_index e)" for ms e
    by (auto simp: dec_entry_def bind_eq_Some_conv dest: int_field_int64)
  have all: "those (map (\<lambda>x. Option.bind (struct_of x) dec_entry) js) = Some es
      \<Longrightarrow> \<forall>e \<in> set es. is_int64 (le_index e)" for js es
    by (induction js arbitrary: es) (auto simp: bind_eq_Some_conv split: option.splits dest: one)
  show "as_entries j old = Some es \<Longrightarrow> \<forall>e \<in> set old. is_int64 (le_index e) \<Longrightarrow> ?thesis"
    by (auto simp: as_entries_def split: json.splits dest: all)
qed

lemma read_append_int64:
  assumes "read_append ms = Some req"
  shows "is_int64 (ae_term req)" "is_int64 (ae_prev_index req)" "is_int64 (ae_commit req)"
    "\<forall>e \<in> set (ae_entries req). is_int64 (le_index e)"
proof -
  have "field as_entries k old ms = Some es \<Longrightarrow> \<forall>e \<in> set old. is_int64 (le_index e)
      \<Longrightarrow> \<forall>e \<in> set es. is_int64 (le_index e)" for k old es
    by (induction as_entries k old ms rule: field.induct) (auto split: if_splits option.splits dest: entries_int64)
  from this [of _ "[]"] show "\<forall>e \<in> set (ae_entries req). is_int64 (le_index e)"
    using assms by (auto simp: read_append_def bind_eq_Some_conv)
qed (use assms in \<open>auto simp: read_append_def bind_eq_Some_conv dest: int_field_int64\<close>)

lemma honest_append_ok:
  assumes "honest env r" "validateClusterHMAC env r = None"
    and "Option.bind (decode_body (rq_body r)) read_append = Some req"
  shows "ae_request_ok req"
  using assms read_append_int64
  by (auto simp: honest_def ae_request_ok_def index_ok_def list_all_iff bind_eq_Some_conv is_int64_def)

section \<open>Requests\<close>

lemma room_0: "room 0 c \<longleftrightarrow> node_ok c \<and> store_ok (c_db c)"
proof -
  have "max_index log \<le> max64" if "wf_log log" for log
    using that by (auto simp: max_index_def wf_log_def index_ok_def max64_def)
  then show ?thesis by (auto simp: room_def node_ok_def)
qed

lemma room_write:
  "room n c \<Longrightarrow> writes (c_db c) s \<Longrightarrow> (peers_ok (c_peers c) \<Longrightarrow> peers_ok p) \<Longrightarrow> room n (c\<lparr>c_peers := p, c_db := s\<rparr>)"
  using raft_consensus.local_write [OF raft_consensus.gossip, of n c p s] by simp

lemma room_touch: "room 0 c \<Longrightarrow> room 0 (touch_sender now nid c)"
  by (simp add: touch_sender_def raft_consensus.local_write writing)

lemma room_raft:
  assumes "room 0 c" "honest env r"
  shows "room 0 (snd (raft_request_vote env now r c))" "room 0 (snd (raft_append_entries env now r c))"
proof -
  show "room 0 (snd (raft_request_vote env now r c))"
    using assms(1)
    by (auto simp: raft_request_vote_def guarded_def Let_def case_prod_beta bind_eq_Some_conv room_0 node_ok_RequestVote
        store_ok_RequestVote intro!: room_touch [unfolded room_0] dest: read_vote_int64 split: option.split)
  show "room 0 (snd (raft_append_entries env now r c))"
    using assms(1) honest_append_ok [OF assms(2)]
    by (auto simp: raft_append_entries_def guarded_def Let_def case_prod_beta room_0 node_ok_AppendEntries
        store_ok_AppendEntries intro!: room_touch [unfolded room_0] split: option.split)
qed

lemma honest_vars: "honest env (r\<lparr>rq_vars := vars, rq_id := rid, rq_user := u\<rparr>) = honest env r"
  by (simp add: honest_def validateClusterHMAC_def Let_def)

lemma room_middleware:
  "room 0 (fst cw) \<Longrightarrow> room 0 (fst (snd (h r cw))) \<Longrightarrow> room 0 (fst (snd (LeaderWriteMiddleware net h r cw)))"
  by (simp add: LeaderWriteMiddleware_def Let_def case_prod_beta split: route.split)

lemma room_route:
  assumes "room 1 (fst cw)" "honest env r" "(m, t, h) \<in> set (server_routes api env now)"
    and "wired (propose_over_http net secret peers clock orders turns) (api_prop api)"
  shows "room 0 (fst (snd (LeaderWriteMiddleware net h r cw)))"
proof -
  have room: "room (Suc 0) (fst cw)" "room 0 (fst cw)" using assms(1) room_less by simp_all
  consider "(m, t, h) \<in> set (node_routes api env now)" | "(m, t, h) \<in> set (raft_routes env now)"
    using assms(3) unfolding server_routes_def node_routes_def set_append by blast
  then show ?thesis
  proof cases
    case 1
    then show ?thesis
      using raft_consensus.keeps_routes [OF room(1) assms(4)] by (simp add: raft_consensus.keeps_def)
  next
    case 2
    then show ?thesis
      using room_raft [OF room(2) assms(2)] room(2)
      by (intro room_middleware) (auto simp: raft_routes_def on_node_def case_prod_beta Let_def)
  qed
qed

lemma room_serve:
  assumes "room 1 c" "honest env r"
    and "wired (propose_over_http net secret peers clock orders turns) (api_prop api)"
  shows "room 0 (fst (snd (serve net route api env now rid r (c, w))))"
proof -
  have rooms: "room 1 (fst (c, w))" "room 0 c" using assms(1) room_less by simp_all
  have "room 0 (fst (snd (LeaderWriteMiddleware net (snd (snd rt))
      (r\<lparr>rq_vars := vars, rq_id := rid, rq_user := None\<rparr>) (c, w))))"
    if "rt \<in> set (server_routes api env now)" for rt vars
    using room_route [OF rooms(1) _ _ assms(3), of env _ "fst rt" "fst (snd rt)" "snd (snd rt)" now] assms(2) that
    by (simp add: honest_vars)
  then show ?thesis
    using rooms(2) by (simp add: serve_def Let_def case_prod_beta split: sum.split)
qed

section \<open>Every move\<close>

definition process_ok :: "Process \<Rightarrow> bool" where
  "process_ok p \<longleftrightarrow> room 0 (pr_node p) \<and> hub_ok (pr_hub p)"

lemma room_pulled: "room 0 (fst cw) \<Longrightarrow> room 0 (pulled net env fd now pid addr since cw)"
  by (auto simp: pulled_def pull_def case_prod_beta raft_consensus.local_write writing split: sum.split)

lemma room_repaired: "room (Suc 0) (fst cw) \<Longrightarrow> room 0 (repaired net secret fd now orders turns ev cw)"
  unfolding repaired_def by (rule raft_consensus.good_repair_one)

lemma room_loops:
  assumes "room 0 c"
  shows "room 0 (syncLoop_round d now rid c)" "room 0 (heartbeat_round now health c)"
proof -
  have "room 0 (c\<lparr>c_peers := updatePeersFromStorage d now (c_db c) (c_peers c)\<rparr>)"
    by (intro raft_consensus.gossip assms) (simp add: updatePeersFromStorage_def peers_ok_ops)
  then show "room 0 (syncLoop_round d now rid c)"
    unfolding syncLoop_round_def by (rule raft_consensus.good_RecordAudit)
  have p: "peers_ok (c_peers c)" using assms by (simp add: room_def node_ok_def)
  show "room 0 (heartbeat_round now health c)"
    using heartbeat_peers_keep [OF p writes_refl] assms
    by (auto simp: heartbeat_round_def heartbeat_tick_def Let_def case_prod_beta intro!: room_write)
qed

lemma store_ok_startElection: "store_ok (c_db c) \<Longrightarrow> store_ok (c_db (fst (snd (startElection rpc preorder order c w))))"
  by (auto simp: startElection_def Let_def count_failure_def becomeLeader_def stand_def follow_def set_term_def
      split: prod.splits bool.splits option.splits)

lemma room_consensus_moves:
  assumes "room 0 c"
  shows "c_term c < max64 \<Longrightarrow> room 0 (fst (election_case rpc preorder order (c, w)))"
    and "room 0 (reset_case c)"
    and "ae_rpc_ok arpc \<Longrightarrow> is_int64 lastIdx
      \<Longrightarrow> room 0 (fst (snd (replicate_peer n arpc term commit lastIdx pid (c, w))))"
proof -
  have node: "node_ok c" and quiet: "quiet (c_log c) c" using assms by (simp_all add: room_0 quiet_def)
  show "ae_rpc_ok arpc \<Longrightarrow> is_int64 lastIdx
      \<Longrightarrow> room 0 (fst (snd (replicate_peer n arpc term commit lastIdx pid (c, w))))"
    using node_ok_replicate_peer [of arpc lastIdx "(c, w)" n] quiet_replicate_peer [of "c_log c" "(c, w)"] node quiet
    by (simp add: room_0 quiet_def)
  show "room 0 (reset_case c)"
    using assms by (simp add: room_0 reset_case_def node_ok_def indices_ok_def meta_ok_def counters_ok_def progress_ok_def)
  show "c_term c < max64 \<Longrightarrow> room 0 (fst (election_case rpc preorder order (c, w)))"
    using assms by (simp add: room_0 election_case_def node_ok_startElection store_ok_startElection)
qed

lemma process_node: "process_ok p \<Longrightarrow> room 0 c \<Longrightarrow> \<exists>q. Some (p\<lparr>pr_node := c\<rparr>) = Some q \<and> process_ok q"
  by (simp add: process_ok_def)

theorem process_step: "server_step env p r \<Longrightarrow> process_ok p \<Longrightarrow> \<exists>q. r = Some q \<and> process_ok q"
proof (induction rule: server_step.induct)
  case (request p r net route pw lib email now orders turns rid w resp c w')
  have "room 1 (pr_node p)" using request by (simp add: process_ok_def room_def)
  then have "room 0 (fst (snd (serve net route (process_api pw lib email net env now orders turns p)
      (env ''CLUSTER_HMAC_SECRET'') now rid r (pr_node p, w))))"
    by (rule room_serve [where net = net]) (use request in \<open>auto simp: process_api_def NewAPI_def wired_def\<close>)
  with request show ?case by (intro process_node) simp_all
next
  case (repairs_user p net now orders turns ev w)
  then have "room (Suc 0) (pr_node p)" by (simp add: process_ok_def room_def)
  with repairs_user show ?case by (intro process_node room_repaired) simp_all
next
  case (repairs_event p fd net now orders turns ev w)
  then have "room (Suc 0) (pr_node p)" by (simp add: process_ok_def room_def)
  with repairs_event show ?case by (intro process_node room_repaired) simp_all
next
  case (sockets p r)
  obtain h where "r = Some h" "hub_ok h" using step_keeps [OF sockets(1)] sockets(2) by (auto simp: process_ok_def)
  with sockets(2) show ?case by (simp add: process_ok_def)
qed (intro process_node; simp add: process_ok_def room_heartbeat_case ae_rpc_ok_http room_consensus_moves
    room_loops room_pulled raft_consensus.local_write writes_discovery writes_refl)+

lemma room_start:
  assumes "writes migrate s"
  shows "room 0 (Start (NewConsensus st nid s (NewEnvPeerStore nid ids)))"
proof -
  let ?c = "\<lambda>s. (NewConsensus st nid s (NewEnvPeerStore nid ids))\<lparr>c_state := loadState s\<rparr>"
  have start: "Start (NewConsensus st nid s (NewEnvPeerStore nid ids))
      = audit ''start'' ''consensus loop started'' [(''term'', json_int (c_term (?c s)))] (?c s)" for s
    by (simp add: Start_def NewConsensus_def Let_def)
  have "node_ok (?c migrate)"
    using node_ok_boot [of st nid ids] by (simp add: boot_at_def start)
  then have "room 0 (?c migrate)" using store_ok_migrate by (simp add: room_0 NewConsensus_def)
  then have "room 0 ((?c migrate)\<lparr>c_db := s\<rparr>)"
    by (rule raft_consensus.local_write) (simp add: assms NewConsensus_def)
  moreover have "loadState s = loadState migrate"
    using assms by (simp add: writes_def raft_tables_def loadState_def)
  ultimately show ?thesis by (simp add: start) (simp add: NewConsensus_def)
qed

theorem process_start: "main opens env now rid stamps = Inr p \<Longrightarrow> process_ok p"
  by (auto simp: main_def NewStorage_def Let_def process_ok_def hub_ok_new writing
      intro!: raft_consensus.good_RecordAudit room_start split: option.splits if_splits)

theorem server_run_ok: "server_run env p \<Longrightarrow> process_ok p"
proof (induction rule: server_run.induct)
  case (starts opens now rid stamps p)
  then show ?case by (rule process_start)
next
  case (moves p q)
  then show ?case using process_step [of env p "Some q"] by auto
qed

end
