(* ===== verification/ServerProps.thy ===== *)
theory ServerProps
  imports ServerInv Samples
begin

text \<open>
  The properties of a whole server: how it starts, and that no order of its moves takes
  it out of its invariant.
\<close>

section \<open>Starting\<close>

lemma keys_update: "fst ` set (AList.update k v al) = insert k (fst ` set al)"
  by (induction al) auto

lemma store_peers:
  "fst ` set (fold (store_peer self) es ps) = fst ` set ps \<union> (fst ` set es - {[], self})"
proof (induction es arbitrary: ps)
  case (Cons e es)
  have "fst ` set (store_peer self e ps) = fst ` set ps \<union> ({fst e} - {[], self})"
    by (cases e) (auto simp: store_peer_def keys_update)
  with Cons show ?case by auto
qed simp

lemma snapshot_ids:
  "fst ` set (fold (\<lambda>nid snap. if nid = [] \<or> nid = self then snap else AList.update nid nid snap) ids al)
   = fst ` set al \<union> (set ids - {[], self})"
  by (induction ids arbitrary: al) (auto simp: keys_update)

lemma ListPeers_new: "set (ListPeers (NewEnvPeerStore self ids)) = set ids - {[], self}"
  using snapshot_ids [of self ids "[]"] store_peers [of self _ "[]"]
  by (auto simp: NewEnvPeerStore_def SetPeers_def SetSnapshot_def ListPeers_def)

text \<open>
  C37. A server gives up when the database does not open or the cluster has no secret, and
  starts otherwise: as a follower in term 0 with an empty log and empty tables, whatever
  the database held before, knowing the peers of \<open>PEERS\<close> without the empty name and itself
  and registered as the only node of the cluster.
\<close>

theorem server_starts_afresh:
  "case main opens env now rid stamps of
     Inl (StorageInit e) \<Rightarrow> opens (st_dsn (settings env)) = Some e
   | Inl NoSecret \<Rightarrow> opens (st_dsn (settings env)) = None \<and> TrimSpace (env ''CLUSTER_HMAC_SECRET'') = []
   | Inr p \<Rightarrow> opens (st_dsn (settings env)) = None \<and> TrimSpace (env ''CLUSTER_HMAC_SECRET'') \<noteq> []
       \<and> c_role (pr_node p) = Follower \<and> c_state (pr_node p) = zero_state \<and> c_log (pr_node p) = []
       \<and> tb_users (c_db (pr_node p)) = [] \<and> tb_appts (c_db (pr_node p)) = [] \<and> tb_events (c_db (pr_node p)) = []
       \<and> set (ListPeers (c_peers (pr_node p))) = set (st_peers (settings env)) - {[], st_node_id (settings env)}
       \<and> map cn_node_id (ListClusterNodes (c_db (pr_node p))) = [st_node_id (settings env)]
       \<and> ws_clients (pr_hub p) = []"
proof -
  let ?st = "settings env"
  have nid: "st_node_id ?st \<noteq> []" by (simp add: settings_def or_default_def)
  have nodes: "map cn_node_id (ListClusterNodes (register_local (NewDiscoveryManager env (st_node_id ?st) addr) now migrate))
      = [st_node_id ?st]" for addr
    using nid by (simp add: register_local_def upsert_node_def UpsertClusterNode_def NewDiscoveryManager_def
        ListClusterNodes_def migrate_def taken_def Let_def)
  have rest: "tb_users (register_local d now migrate) = []" "tb_appts (register_local d now migrate) = []"
    "tb_events (register_local d now migrate) = []" "tb_log (register_local d now migrate) = []"
    "loadState (register_local d now migrate) = zero_state" for d
    using boot_state [of st "[]" "[]" for st]
    by (simp_all add: register_local_def upsert_node_def UpsertClusterNode_def migrate_def Let_def boot_at_def
        Start_def NewConsensus_def loadState_def)
  show ?thesis
    using nodes [of "st_advertise ?st"] rest [of "NewDiscoveryManager env (st_node_id ?st) (st_advertise ?st)"]
    by (simp add: main_def NewStorage_def Let_def Start_def NewConsensus_def RecordAudit_def AppendAudit_def
        audit_def ListPeers_new ListClusterNodes_def NewWSManager_def settings_def split: option.split)
qed

section \<open>Running\<close>

text \<open>
  C4. In every state a server reaches from its start, whatever requests, answers, timers and
  connections come in whatever order, its node keeps the invariant of Raft and the constraints of
  its tables hold, and no next move makes the connection manager panic.
\<close>

theorem server_stays_sound:
  assumes "server_run env p"
  shows "node_ok (pr_node p) \<and> store_ok (c_db (pr_node p)) \<and> \<not> server_step env p None"
  using server_run_ok [OF assms] process_step [of env p None]
  by (auto simp: process_ok_def room_0)

definition sample_env :: environment where
  "sample_env v = (if v = ''CLUSTER_HMAC_SECRET'' then ''key'' else if v = ''NODE_ID'' then ''n1''
     else if v = ''PEERS'' then ''n1,n2'' else [])"

definition sample_process :: Process where
  "sample_process = (case main (\<lambda>dsn. None) sample_env zeroTime ''r1'' unstamped of
     Inr p \<Rightarrow> p\<lparr>pr_node := fst (election_case (vote_over_http no_network ''key'' (c_peers (pr_node p)))
       [] [] (pr_node p, 0 :: nat))\<rparr>)"

theorem server_stays_sound_witness:
  "c_role (pr_node sample_process) = Leader \<and> node_ok (pr_node sample_process)
   \<and> \<not> server_step sample_env sample_process None"
proof -
  have "case main (\<lambda>dsn. None) sample_env zeroTime ''r1'' unstamped of Inl _ \<Rightarrow> False | Inr p \<Rightarrow> c_term (pr_node p) = 0"
    by code_simp
  then obtain p where p: "main (\<lambda>dsn. None) sample_env zeroTime ''r1'' unstamped = Inr p" and zero: "c_term (pr_node p) = 0"
    by (auto split: sum.splits)
  have key: "sample_env ''CLUSTER_HMAC_SECRET'' = ''key''" by (simp add: sample_env_def)
  have "server_step sample_env p (Some sample_process)"
    using server_step.elect [of p sample_env no_network "[]" "[]" 0] zero
    by (simp add: sample_process_def p key max64_def)
  with server_run.starts [OF p] have "server_run sample_env sample_process" by (rule server_run.moves)
  moreover have "c_role (pr_node sample_process) = Leader" by code_simp
  ultimately show ?thesis using server_stays_sound by blast
qed

end
