(* ===== verification/DenseLog.thy ===== *)
theory DenseLog
  imports ConsensusInv
begin

text \<open>
  Logs without a gap, kept in the order of their indices, as a leader that only
  appends builds them: on these the queries of \<open>consensus.go\<close> are \<open>take\<close> and \<open>drop\<close>, and
  what a follower installs from such a log is a part of it.
\<close>

definition dense :: "LogEntry list \<Rightarrow> bool" where
  "dense log \<longleftrightarrow> map le_index log = map (\<lambda>k. int k + 1) [0..<length log]
     \<and> distinct (map le_event_id log) \<and> (\<forall>e \<in> set log. 0 < le_term e)"

lemma dense_Nil [simp]: "dense []"
  by (simp add: dense_def)

lemma dense_snoc [simp]:
  "dense (log @ [e]) \<longleftrightarrow> dense log \<and> le_index e = int (length log) + 1
     \<and> le_event_id e \<notin> set (map le_event_id log) \<and> 0 < le_term e"
  by (auto simp: dense_def)

lemma dense_index: "dense log \<Longrightarrow> k < length log \<Longrightarrow> le_index (log ! k) = int k + 1"
  by (metis (no_types, lifting) dense_def add_0 diff_zero length_upt nth_map nth_upt)

lemma dense_term: "dense log \<Longrightarrow> k < length log \<Longrightarrow> 0 < le_term (log ! k)"
  by (simp add: dense_def)

lemma dense_take: "dense log \<Longrightarrow> dense (take k log)"
proof (induction log rule: rev_induct)
  case (snoc e log)
  then show ?case by (cases "k \<le> length log") auto
qed simp

lemma dense_at: "dense log \<Longrightarrow> e \<in> set log \<Longrightarrow> \<exists>k < length log. e = log ! k \<and> le_index e = int k + 1"
  by (metis dense_index in_set_conv_nth)

lemma dense_bound: "dense log \<Longrightarrow> e \<in> set log \<Longrightarrow> 0 < le_index e \<and> le_index e \<le> int (length log)"
  using dense_at by fastforce

lemma dense_filter_less: "dense log \<Longrightarrow> filter (\<lambda>e. le_index e < i) log = take (nat (i - 1)) log"
proof (induction log rule: rev_induct)
  case (snoc e log)
  show ?case
  proof (cases "i \<le> int (length log) + 1")
    case True
    with snoc show ?thesis by simp
  next
    case False
    then have "filter (\<lambda>r. le_index r < i) log = log"
      using snoc.prems by (intro filter_True) (auto dest!: dense_at)
    with False snoc.prems show ?thesis by simp
  qed
qed simp

lemma dense_filter_from: "dense log \<Longrightarrow> filter (\<lambda>e. i \<le> le_index e) log = drop (nat (i - 1)) log"
proof (induction log rule: rev_induct)
  case (snoc e log)
  show ?case
  proof (cases "i \<le> int (length log) + 1")
    case True
    then have "nat (i - 1) \<le> length log" by simp
    with True snoc show ?thesis by simp
  next
    case False
    then have "filter (\<lambda>r. i \<le> le_index r) log = []"
      using snoc.prems by (auto simp: filter_empty_conv dest!: dense_at)
    with False snoc.prems show ?thesis by simp
  qed
qed simp

lemma dense_sorted: "dense log \<Longrightarrow> sorted (map le_index log)"
  by (simp add: dense_def sorted_iff_nth_mono)

lemma sort_drop: "dense log \<Longrightarrow> sort_key le_index (drop k log) = drop k log"
  by (simp add: sort_key_id_if_sorted dense_sorted drop_map [symmetric] sorted_wrt_drop)

lemma dense_truncate: "dense log \<Longrightarrow> truncateLogFrom i log = (if i \<le> 0 then log else take (nat (i - 1)) log)"
  using dense_filter_less [of log i] by (simp add: truncateLogFrom_def delete_where_def not_le)

lemma dense_from: "dense log \<Longrightarrow> loadLogEntriesFrom i log = drop (nat (i - 1)) log"
  by (simp add: loadLogEntriesFrom_def dense_filter_from sort_drop)

lemma dense_between:
  assumes "dense log" "0 \<le> lo"
  shows "entries_between lo hi log = take (nat hi - nat lo) (drop (nat lo) log)"
proof -
  have "filter (\<lambda>e. lo < le_index e \<and> le_index e \<le> hi) log
      = filter (\<lambda>e. lo + 1 \<le> le_index e) (filter (\<lambda>e. le_index e < hi + 1) log)"
    unfolding filter_filter by (rule filter_cong) auto
  also have "\<dots> = drop (nat lo) (take (nat hi) log)"
    using assms by (simp only: dense_filter_less dense_filter_from dense_take) simp
  finally show ?thesis
    using sort_drop [OF dense_take [OF assms(1)], of "nat lo" "nat hi"] by (simp add: entries_between_def drop_take)
qed

lemma dense_entry: "dense log \<Longrightarrow> entry_at log i = (if 0 < i \<and> nat i \<le> length log then Some (log ! (nat i - 1)) else None)"
proof (induction log rule: rev_induct)
  case (snoc e log)
  then show ?case
    by (auto simp: entry_at_def find_append nth_append split: option.split)
next
  case Nil
  then show ?case by (simp add: entry_at_def)
qed

lemma dense_termAt:
  "dense log \<Longrightarrow> logTermAt i log = (if 0 < i \<and> nat i \<le> length log then le_term (log ! (nat i - 1)) else 0)"
  by (simp add: logTermAt_def dense_entry)

lemma dense_last: "dense log \<Longrightarrow> fst (lastIndexTerm log) = int (length log)"
proof (cases log rule: rev_cases)
  case (snoc xs e)
  moreover assume d: "dense log"
  ultimately have "sort_key le_index log = xs @ [e]" using sort_drop [OF d, of 0] by simp
  then show ?thesis using d snoc by (simp add: lastIndexTerm_def Let_def)
qed (simp add: lastIndexTerm_def)

lemma dense_max: "dense log \<Longrightarrow> max_index log = int (length log)"
proof (cases log rule: rev_cases)
  case (snoc xs e)
  assume d: "dense log"
  have "int (length log) \<in> set (map le_index log)" using d snoc by simp
  moreover have "y \<le> int (length log)" if "y \<in> set (map le_index log)" for y
    using that dense_bound [OF d] by auto
  ultimately have "Max (set (map le_index log)) = int (length log)" by (intro Max_eqI) simp_all
  with snoc show ?thesis by (simp add: max_index_def)
qed (simp add: max_index_def)

lemma dense_append:
  assumes "dense log" "le_index e = int (length log) + 1" "le_event_id e \<notin> set (map le_event_id log)"
  shows "appendLog e log = log @ [e]"
proof -
  have "entry_key r \<noteq> entry_key e \<and> le_event_id r \<noteq> le_event_id e" if "r \<in> set log" for r
    using that dense_bound [OF assms(1) that] assms(2,3) by (auto simp: entry_key_def rev_image_eqI)
  then show ?thesis by (simp add: appendLog_def delete_where_none)
qed

section \<open>Installing a part of such a log\<close>

lemma install_next:
  assumes "dense log" "k < length log" "k \<le> n"
  shows "appendLog (log ! k) (truncateLogFrom (le_index (log ! k)) (take n log)) = take (Suc k) log"
proof -
  have "le_event_id (log ! k) \<notin> set (map le_event_id (take k log))"
  proof -
    have "distinct (map le_event_id (take (Suc k) log))"
      using dense_take [OF assms(1), of "Suc k"] by (simp add: dense_def)
    then show ?thesis using assms(2) by (simp add: take_Suc_conv_app_nth)
  qed
  then have "appendLog (log ! k) (take k log) = take k log @ [log ! k]"
    using assms by (intro dense_append dense_take) (simp_all add: dense_index)
  then show ?thesis
    using assms by (simp add: dense_truncate dense_take dense_index min_absorb1 take_Suc_conv_app_nth)
qed

lemma install_part:
  assumes "dense log" "p \<le> k" "k \<le> length log"
  shows "raft_log.install (take n (drop p log)) (take k log)
     = (if take n (drop p log) = [] then take k log else take (p + n) log)"
  using assms(2,3)
proof (induction n arbitrary: p k)
  case (Suc n)
  show ?case
  proof (cases "p < length log")
    case True
    then have es: "take (Suc n) (drop p log) = log ! p # take n (drop (Suc p) log)"
      by (simp add: Cons_nth_drop_Suc [symmetric])
    have "raft_log.install (take (Suc n) (drop p log)) (take k log)
        = raft_log.install (take n (drop (Suc p) log)) (take (Suc p) log)"
      using install_next [OF assms(1) True, of k] Suc.prems
      by (simp add: es raft_log.install_def)
    also have "\<dots> = take (p + Suc n) log"
      using Suc.IH [of "Suc p" "Suc p"] True by auto
    finally show ?thesis using es by simp
  next
    case False
    with Suc.prems show ?thesis by (simp add: raft_log.install_def)
  qed
qed (simp add: raft_log.install_def)

end
