(* ===== verification/Determinism.thy ===== *)
theory Determinism
  imports StoreInv "HOL-Library.Multiset"
begin

text \<open>
  What the clock of a replica can change: the timestamps of the rows, and nothing else.
  \<open>erase\<close> takes them off, and with them the tables a replica fills on its own: log, metadata,
  applied events, known nodes and audit records. Every method of \<open>Storage\<close> the applier calls does the same to the
  rest of the tables whatever the time, as long as the clock never repeats or goes back.
\<close>

section \<open>Databases up to timestamps\<close>

definition strip_user :: "'e user \<Rightarrow> 'e user" where
  "strip_user u = u\<lparr>u_created_at := zeroTime, u_updated_at := zeroTime\<rparr>"

definition strip_group :: "Group \<Rightarrow> Group" where
  "strip_group g = g\<lparr>g_created_at := zeroTime, g_updated_at := zeroTime\<rparr>"

definition strip_member :: "GroupMember \<Rightarrow> GroupMember" where
  "strip_member m = m\<lparr>m_created_at := zeroTime\<rparr>"

definition strip_appt :: "'t appointment \<Rightarrow> 't appointment" where
  "strip_appt a = a\<lparr>a_created_at := zeroTime, a_updated_at := zeroTime\<rparr>"

definition strip_part :: "Participant \<Rightarrow> Participant" where
  "strip_part p = p\<lparr>p_created_at := zeroTime, p_updated_at := zeroTime\<rparr>"

definition strip_note :: "Notification \<Rightarrow> Notification" where
  "strip_note n = n\<lparr>n_created_at := zeroTime\<rparr>"

definition strip_event :: "Event \<Rightarrow> Event" where
  "strip_event e = e\<lparr>e_created_at := zeroTime\<rparr>"

lemmas strip_defs = strip_user_def strip_group_def strip_member_def strip_appt_def strip_part_def strip_note_def
  strip_event_def

definition erase :: "Store \<Rightarrow> Store" where
  "erase s = s\<lparr>tb_users := map strip_user (tb_users s), tb_groups := map strip_group (tb_groups s),
     tb_members := map strip_member (tb_members s), tb_appts := map strip_appt (tb_appts s),
     tb_parts := map strip_part (tb_parts s), tb_notes := map strip_note (tb_notes s),
     tb_events := map strip_event (tb_events s),
     tb_log := [], tb_meta := [], tb_applied := [], tb_nodes := [], tb_audit := [],
     seq_audit := 0\<rparr>"

lemma strip_strip [simp]:
  "strip_user (strip_user u) = strip_user u" "strip_group (strip_group g) = strip_group g"
  "strip_member (strip_member m) = strip_member m" "strip_appt (strip_appt a) = strip_appt a"
  "strip_part (strip_part p) = strip_part p" "strip_note (strip_note n) = strip_note n"
  "strip_event (strip_event e) = strip_event e"
  by (simp_all add: strip_defs)

lemma strip_comp [simp]:
  "strip_user \<circ> strip_user = strip_user" "strip_group \<circ> strip_group = strip_group"
  "strip_member \<circ> strip_member = strip_member" "strip_appt \<circ> strip_appt = strip_appt"
  "strip_part \<circ> strip_part = strip_part" "strip_note \<circ> strip_note = strip_note"
  "strip_event \<circ> strip_event = strip_event"
  by (simp_all add: fun_eq_iff)

lemma strip_fields [simp]:
  "u_id (strip_user u) = u_id u" "u_username (strip_user u) = u_username u" "u_email (strip_user u) = u_email u"
  "u_password_hash (strip_user u) = u_password_hash u" "u_display_name (strip_user u) = u_display_name u"
  "g_id (strip_group g) = g_id g" "g_name (strip_group g) = g_name g" "g_creator_id (strip_group g) = g_creator_id g"
  "g_creator_username (strip_group g) = g_creator_username g" "g_group_type (strip_group g) = g_group_type g"
  "g_description (strip_group g) = g_description g"
  "m_group_id (strip_member m) = m_group_id m" "m_user_id (strip_member m) = m_user_id m"
  "m_rank (strip_member m) = m_rank m" "member_key (strip_member m) = member_key m"
  "a_id (strip_appt a) = a_id a" "a_owner_id (strip_appt a) = a_owner_id a" "a_group_id (strip_appt a) = a_group_id a"
  "a_deleted (strip_appt a) = a_deleted a" "a_title (strip_appt a) = a_title a" "a_start (strip_appt a) = a_start a"
  "a_end (strip_appt a) = a_end a" "a_description (strip_appt a) = a_description a"
  "a_privacy (strip_appt a) = a_privacy a"
  "p_id (strip_part p) = p_id p" "part_key (strip_part p) = part_key p" "p_user_id (strip_part p) = p_user_id p"
  "p_appointment_id (strip_part p) = p_appointment_id p" "p_status (strip_part p) = p_status p"
  "n_id (strip_note n) = n_id n" "n_user_id (strip_note n) = n_user_id n" "n_type (strip_note n) = n_type n"
  "n_payload (strip_note n) = n_payload n"
  by (simp_all add: strip_defs member_key_def part_key_def)

lemma erase_fields [simp]:
  "tb_users (erase s) = map strip_user (tb_users s)" "tb_groups (erase s) = map strip_group (tb_groups s)"
  "tb_members (erase s) = map strip_member (tb_members s)" "tb_appts (erase s) = map strip_appt (tb_appts s)"
  "tb_parts (erase s) = map strip_part (tb_parts s)" "tb_notes (erase s) = map strip_note (tb_notes s)"
  "tb_events (erase s) = map strip_event (tb_events s)" "seq_events (erase s) = seq_events s"
  by (simp_all add: erase_def)

lemma erase_erase [simp]: "erase (erase s) = erase s"
  by (simp add: erase_def comp_def)

text \<open>Rows under a map that keeps what a query looks at.\<close>

lemma find_map_same: "(\<And>r. P (f r) = P r) \<Longrightarrow> find P (map f rows) = map_option f (find P rows)"
  by (induction rows) auto

lemma taken_map_same: "(\<And>r. key (f r) = key r) \<Longrightarrow> taken key k (map f rows) = taken key k rows"
  by (induction rows) auto

lemma update_map_same:
  "(\<And>r. P (f r) = P r) \<Longrightarrow> (\<And>r. f (g r) = f (h (f r))) \<Longrightarrow>
   map f (update_where P g rows) = map f (update_where P h (map f rows))"
  if "\<And>r. f (f r) = f r"
  using that by (induction rows) auto

lemma delete_map_same: "(\<And>r. P (f r) = P r) \<Longrightarrow> delete_where P (map f rows) = map f (delete_where P rows)"
  by (induction rows) auto

lemma filter_map_same: "(\<And>r. P (f r) = P r) \<Longrightarrow> filter P (map f rows) = map f (filter P rows)"
  by (induction rows) auto

section \<open>Queries\<close>

lemma scan_user_strip: "scan_user (strip_user r) = map_sum id strip_user (scan_user r)"
  by (simp add: scan_user_def strip_user_def split: option.split)

lemma query_erase:
  "(\<And>r. P (strip_user r) = P r) \<Longrightarrow> query_user P (erase s) = map_sum id strip_user (query_user P s)"
  by (simp add: query_user_def find_map_same scan_user_strip split: option.split)

lemma user_queries [simp]:
  "GetUserByUsername n (erase s) = map_sum id strip_user (GetUserByUsername n s)"
  "GetUserByEmail n (erase s) = map_sum id strip_user (GetUserByEmail n s)"
  "GetUserByID n (erase s) = map_sum id strip_user (GetUserByID n s)"
  by (simp_all add: GetUserByUsername_def GetUserByEmail_def GetUserByID_def query_erase)

lemma group_queries [simp]:
  "GetGroupByID gid (erase s) = map_sum id strip_group (GetGroupByID gid s)"
  "GetMemberRank gid uid (erase s) = GetMemberRank gid uid s"
  by (simp_all add: GetGroupByID_def GetMemberRank_def find_map_same split: option.split)

lemma scan_appt_strip: "scan_appt (strip_appt r) = strip_appt (scan_appt r)"
  by (simp add: scan_appt_def strip_appt_def)

lemma appt_queries [simp]:
  "GetAppointmentByID aid (erase s) = map_sum id strip_appt (GetAppointmentByID aid s)"
  "GetParticipantByAppointmentAndUser aid uid (erase s)
     = map_sum id strip_part (GetParticipantByAppointmentAndUser aid uid s)"
  "FindNotificationBySignature uid typ payload (erase s) = FindNotificationBySignature uid typ payload s"
  by (simp_all add: GetAppointmentByID_def GetParticipantByAppointmentAndUser_def FindNotificationBySignature_def
      find_map_same scan_appt_strip split: option.split)

lemma map_sum_simps [simp]:
  "ok (map_sum id f r) = ok r" "value_of (map_sum id f r) = map_option f (value_of r)"
  "case_sum a b (map_sum id f r) = case_sum a (\<lambda>x. b (f x)) r"
  by (simp_all add: ok_def value_of_def split: sum.split)

lemma name_queries [simp]:
  "username_of uid (erase s) = username_of uid s" "group_name_of gid (erase s) = group_name_of gid s"
  "group_creator_of gid (erase s) = group_creator_of gid s" "group_type_text gid (erase s) = group_type_text gid s"
  "appointment_id a (erase s) = appointment_id a s"
  by (simp_all add: username_of_def group_name_of_def group_creator_of_def group_type_text_def appointment_id_def
      Let_def cong: sum.case_cong if_cong)

lemma text_queries [simp]:
  "create_payload a (erase s) = create_payload a s"
  "invite_payload a status (erase s) = invite_payload a status s"
  "group_create_payload a gid (erase s) = group_create_payload a gid s"
  by (simp_all add: create_payload_def invite_payload_def group_create_payload_def Let_def cong: sum.case_cong)

lemma status_query [simp]: "status_payload aid uid status (erase s) = status_payload aid uid status s"
  by (simp add: status_payload_def Let_def cong: sum.case_cong)

text \<open>A text does not depend on the row just added.\<close>

lemma create_payload_appts [simp]: "create_payload a (s\<lparr>tb_appts := rows\<rparr>) = create_payload a s"
  by (simp add: create_payload_def username_of_def group_name_of_def group_creator_of_def group_type_text_def
      GetUserByID_def GetGroupByID_def query_user_def)

lemma create_payload_strip [simp]:
  "create_payload (a\<lparr>a_created_at := t\<rparr>) s = create_payload a s"
  "create_payload (a\<lparr>a_updated_at := t\<rparr>) s = create_payload a s"
  by (simp_all add: create_payload_def)

section \<open>Methods\<close>

text \<open>What is seen of an outcome: the error or success, and the database up to timestamps.\<close>

definition seen :: "'a result \<times> Store \<Rightarrow> unit result \<times> Store" where
  "seen rs = (map_sum id (\<lambda>_. ()) (fst rs), erase (snd rs))"

lemma seen_pair [simp]: "seen (r, s) = (map_sum id (\<lambda>_. ()) r, erase s)"
  by (simp add: seen_def)

lemma unit_sum [simp]: "map_sum id (\<lambda>_. ()) (r :: unit result) = r"
  by (cases r) simp_all

lemma erase_AppendEvent [simp]: "erase (AppendEvent t e s) = AppendEvent zeroTime (e\<lparr>e_created_at := zeroTime\<rparr>) (erase s)"
  by (simp add: erase_def AppendEvent_def strip_event_def)

lemma erase_sets [simp]:
  "erase (s\<lparr>tb_users := us\<rparr>) = (erase s)\<lparr>tb_users := map strip_user us\<rparr>"
  "erase (s\<lparr>tb_groups := gs\<rparr>) = (erase s)\<lparr>tb_groups := map strip_group gs\<rparr>"
  "erase (s\<lparr>tb_members := ms\<rparr>) = (erase s)\<lparr>tb_members := map strip_member ms\<rparr>"
  "erase (s\<lparr>tb_appts := as\<rparr>) = (erase s)\<lparr>tb_appts := map strip_appt as\<rparr>"
  "erase (s\<lparr>tb_parts := ps\<rparr>) = (erase s)\<lparr>tb_parts := map strip_part ps\<rparr>"
  "erase (s\<lparr>tb_notes := ns\<rparr>) = (erase s)\<lparr>tb_notes := map strip_note ns\<rparr>"
  by (simp_all add: erase_def)

text \<open>\<open>timeless\<close>: a method does the same up to timestamps whatever the time and the timestamps there are.\<close>

definition timeless :: "(GoTime \<Rightarrow> Store \<Rightarrow> 'a result \<times> Store) \<Rightarrow> bool" where
  "timeless f \<longleftrightarrow> (\<forall>t s. seen (f t s) = seen (f zeroTime (erase s)))"

lemma timelessI: "(\<And>t s. seen (f t s) = seen (f zeroTime (erase s))) \<Longrightarrow> timeless f"
  by (simp add: timeless_def)

lemma timelessD: "timeless f \<Longrightarrow> erase s = erase s' \<Longrightarrow> seen (f t s) = seen (f t' s')"
  unfolding timeless_def by metis

lemma user_conflict_strip [simp]: "user_conflict r (map strip_user rows) = user_conflict r rows"
  by (simp add: user_conflict_def taken_map_same)

lemma user_conflict_times:
  "user_conflict (user_row (u\<lparr>u_id := i, u_created_at := t, u_updated_at := v\<rparr>)) rows
   = user_conflict (user_row (u\<lparr>u_id := i\<rparr>)) rows"
  by (simp add: user_conflict_def user_row_def)

lemma timeless_CreateUser: "timeless (\<lambda>t. CreateUser t u)"
  by (rule timelessI)
    (simp add: CreateUser_def Let_def user_conflict_times split: option.split, simp add: user_row_def strip_user_def)

lemma timeless_UpdateUser: "timeless (\<lambda>t. UpdateUser t u)"
proof (rule timelessI)
  fix t and s :: Store
  let ?f = "\<lambda>t r. r\<lparr>u_username := u_username u, u_email := Some (u_email u),
                u_display_name := u_display_name u, u_updated_at := t\<rparr>"
  have "map strip_user (update_where (\<lambda>r. u_id r = u_id u) (?f t) (tb_users s))
      = map strip_user (update_where (\<lambda>r. u_id r = u_id u) (?f zeroTime) (map strip_user (tb_users s)))"
    by (rule update_map_same) (simp_all add: strip_user_def)
  then show "seen (UpdateUser t u s) = seen (UpdateUser zeroTime u (erase s))"
    by (simp add: UpdateUser_def Let_def taken_map_same filter_map_same split: option.split)
qed

lemma timeless_user_rest:
  "timeless (\<lambda>t s. (Inr (), UpdatePassword t uid hash s))"
  "timeless (\<lambda>t s. (Inr (), ClearUserEmailIfMatches t uid email s))"
proof -
  have "map strip_user (update_where (\<lambda>r. u_id r = uid) (\<lambda>r. r\<lparr>u_password_hash := hash, u_updated_at := t\<rparr>) rows)
      = map strip_user (update_where (\<lambda>r. u_id r = uid) (\<lambda>r. r\<lparr>u_password_hash := hash, u_updated_at := zeroTime\<rparr>)
          (map strip_user rows))" for t and rows :: "UserRow list"
    by (rule update_map_same) (simp_all add: strip_user_def)
  then show "timeless (\<lambda>t s. (Inr (), UpdatePassword t uid hash s))"
    by (intro timelessI) (simp add: UpdatePassword_def)
  have "map strip_user (update_where (\<lambda>r. u_id r = uid \<and> u_email r = Some email) (\<lambda>r. r\<lparr>u_email := None, u_updated_at := t\<rparr>) rows)
      = map strip_user (update_where (\<lambda>r. u_id r = uid \<and> u_email r = Some email) (\<lambda>r. r\<lparr>u_email := None, u_updated_at := zeroTime\<rparr>)
          (map strip_user rows))" for t and rows :: "UserRow list"
    by (rule update_map_same) (simp_all add: strip_user_def)
  then show "timeless (\<lambda>t s. (Inr (), ClearUserEmailIfMatches t uid email s))"
    by (intro timelessI) (simp add: ClearUserEmailIfMatches_def)
qed

text \<open>The new id is part of what a creation shows.\<close>

definition seen_id :: "('a \<Rightarrow> string) \<Rightarrow> 'a result \<times> Store \<Rightarrow> string result \<times> Store" where
  "seen_id f rs = (map_sum id f (fst rs), erase (snd rs))"

lemma seen_CreateGroup: "seen_id g_id (CreateGroup t g s) = seen_id g_id (CreateGroup zeroTime g (erase s))"
  by (simp add: seen_id_def CreateGroup_def Let_def taken_map_same strip_group_def)

lemma timeless_AddGroupMember: "timeless (\<lambda>t s. (Inr (), AddGroupMember t gid uid rank by s))"
  by (rule timelessI, simp add: AddGroupMember_def Let_def delete_map_same, simp add: strip_member_def)

lemma timeless_UpdateGroup: "timeless (\<lambda>t s. (Inr (), UpdateGroup t g s))"
proof (rule timelessI)
  fix t and s :: Store
  have "map strip_group (update_where (\<lambda>r. g_id r = g_id g)
        (\<lambda>r. r\<lparr>g_name := g_name g, g_description := g_description g, g_updated_at := t\<rparr>) (tb_groups s))
      = map strip_group (update_where (\<lambda>r. g_id r = g_id g)
        (\<lambda>r. r\<lparr>g_name := g_name g, g_description := g_description g, g_updated_at := zeroTime\<rparr>)
        (map strip_group (tb_groups s)))"
    by (rule update_map_same) (simp_all add: strip_group_def)
  then show "seen (Inr (), UpdateGroup t g s) = seen (Inr (), UpdateGroup zeroTime g (erase s))"
    by (simp add: UpdateGroup_def)
qed

lemma group_appts_erase [simp]: "group_appts gid (erase s) = group_appts gid s"
  by (simp add: group_appts_def filter_map_same comp_def)

lemma timeless_groups:
  "timeless (\<lambda>t s. (Inr (), DeleteGroup gid s))"
  "timeless (\<lambda>t. RemoveGroupMember gid uid)"
  "timeless (\<lambda>t s. (Inr (), UpdateGroupMember gid uid rank s))"
proof -
  show "timeless (\<lambda>t s. (Inr (), DeleteGroup gid s))"
    by (rule timelessI) (simp add: DeleteGroup_def delete_map_same)
  show "timeless (\<lambda>t. RemoveGroupMember gid uid)"
    by (rule timelessI) (simp add: RemoveGroupMember_def delete_map_same taken_map_same)
  have "map strip_member (update_where (\<lambda>m. member_key m = (gid, uid)) (\<lambda>m. m\<lparr>m_rank := rank\<rparr>) rows)
      = map strip_member (update_where (\<lambda>m. member_key m = (gid, uid)) (\<lambda>m. m\<lparr>m_rank := rank\<rparr>) (map strip_member rows))"
    for rows by (rule update_map_same) (simp_all add: strip_member_def member_key_def)
  then show "timeless (\<lambda>t s. (Inr (), UpdateGroupMember gid uid rank s))"
    by (intro timelessI) (simp add: UpdateGroupMember_def)
qed

lemma strip_appt_row: "strip_appt (appt_row t a) = strip_appt (appt_row zeroTime a)"
  by (simp add: appt_row_def strip_appt_def)

lemma appt_row_times [simp]:
  "appt_row t (a\<lparr>a_created_at := u\<rparr>) = appt_row t a" "appt_row t (a\<lparr>a_updated_at := u\<rparr>) = appt_row t a"
  by (simp_all add: appt_row_def)

lemma seen_CreateAppointment:
  "seen_id a_id (CreateAppointment t a s) = seen_id a_id (CreateAppointment zeroTime a (erase s))"
  by (simp add: seen_id_def CreateAppointment_def Let_def taken_map_same strip_appt_row [of t])

lemma timeless_appt_changes:
  "timeless (\<lambda>t s. (Inr (), UpdateAppointment t a s))" "timeless (\<lambda>t s. (Inr (), DeleteAppointment t aid s))"
proof -
  have "map strip_appt (update_where (\<lambda>r. a_id r = a_id a \<and> \<not> a_deleted r)
        (\<lambda>r. r\<lparr>a_title := a_title a, a_description := a_description a, a_start := Unix (a_start a),
               a_end := Unix (a_end a), a_privacy := a_privacy a, a_updated_at := t,
               a_version := a_version r + 1\<rparr>) rows)
      = map strip_appt (update_where (\<lambda>r. a_id r = a_id a \<and> \<not> a_deleted r)
        (\<lambda>r. r\<lparr>a_title := a_title a, a_description := a_description a, a_start := Unix (a_start a),
               a_end := Unix (a_end a), a_privacy := a_privacy a, a_updated_at := zeroTime,
               a_version := a_version r + 1\<rparr>) (map strip_appt rows))" for t and rows :: "ApptRow list"
    by (rule update_map_same) (simp_all add: strip_appt_def)
  then show "timeless (\<lambda>t s. (Inr (), UpdateAppointment t a s))"
    by (intro timelessI) (simp add: UpdateAppointment_def)
  have "map strip_appt (update_where (\<lambda>r. a_id r = aid)
        (\<lambda>r. r\<lparr>a_deleted := True, a_updated_at := t, a_version := a_version r + 1\<rparr>) rows)
      = map strip_appt (update_where (\<lambda>r. a_id r = aid)
        (\<lambda>r. r\<lparr>a_deleted := True, a_updated_at := zeroTime, a_version := a_version r + 1\<rparr>) (map strip_appt rows))"
    for t and rows :: "ApptRow list"
    by (rule update_map_same) (simp_all add: strip_appt_def)
  then show "timeless (\<lambda>t s. (Inr (), DeleteAppointment t aid s))"
    by (intro timelessI) (simp add: DeleteAppointment_def)
qed

lemma insert_participant_erase:
  "seen (insert_participant p s) = seen (insert_participant (strip_part p) (erase s))"
  by (simp add: insert_participant_def taken_map_same)

lemma insert_notification_erase:
  "seen (insert_notification n s) = seen (insert_notification (strip_note n) (erase s))"
  by (simp add: insert_notification_def taken_map_same)

lemma timeless_AddParticipant: "timeless (\<lambda>t. AddParticipant t p)"
proof (rule timelessI)
  fix t s
  have "strip_part (p\<lparr>p_id := i, p_created_at := t, p_updated_at := t\<rparr>)
      = strip_part (p\<lparr>p_id := i, p_created_at := zeroTime, p_updated_at := zeroTime\<rparr>)" for i
    by (simp add: strip_part_def)
  then show "seen (AddParticipant t p s) = seen (AddParticipant zeroTime p (erase s))"
    unfolding AddParticipant_def Let_def
    by (metis insert_participant_erase erase_erase)
qed

lemma timeless_status: "timeless (\<lambda>t s. (Inr (), UpdateParticipantStatus t aid uid status s))"
proof (rule timelessI)
  fix t and s :: Store
  have "map strip_part (update_where (\<lambda>p. part_key p = (aid, uid)) (\<lambda>p. p\<lparr>p_status := status, p_updated_at := t\<rparr>) (tb_parts s))
      = map strip_part (update_where (\<lambda>p. part_key p = (aid, uid)) (\<lambda>p. p\<lparr>p_status := status, p_updated_at := zeroTime\<rparr>)
          (map strip_part (tb_parts s)))"
    by (rule update_map_same) (simp_all add: strip_part_def part_key_def)
  then show "seen (Inr (), UpdateParticipantStatus t aid uid status s)
      = seen (Inr (), UpdateParticipantStatus zeroTime aid uid status (erase s))"
    by (simp add: UpdateParticipantStatus_def)
qed

lemma timeless_EnsureParticipant: "timeless (\<lambda>t. EnsureParticipant t aid uid status opt)"
proof (rule timelessI)
  fix t s
  show "seen (EnsureParticipant t aid uid status opt s) = seen (EnsureParticipant zeroTime aid uid status opt (erase s))"
    using timelessD [OF timeless_status, of s "erase s" t aid uid status zeroTime]
      timelessD [OF timeless_AddParticipant, of s "erase s" t "participant aid uid status opt" zeroTime]
    by (simp add: EnsureParticipant_def split: sum.split)
qed

lemma timeless_AddNotification: "timeless (\<lambda>t. AddNotification t n)"
  by (rule timelessI) (simp add: AddNotification_def insert_notification_def Let_def taken_map_same strip_note_def)

lemma timeless_EnsureNotification: "timeless (\<lambda>t. EnsureNotification t n)"
  using timeless_AddNotification by (simp add: timeless_def EnsureNotification_def)

lemma unit_sum_eq:
  "map_sum id (\<lambda>_. ()) a = map_sum id (\<lambda>_. ()) b
   \<longleftrightarrow> (\<exists>e. a = Inl e \<and> b = Inl e) \<or> (\<exists>v w. a = Inr v \<and> b = Inr w)"
  by (cases a; cases b) auto

lemma id_sum_eq:
  "map_sum id f a = map_sum id f b \<longleftrightarrow> (\<exists>e. a = Inl e \<and> b = Inl e) \<or> (\<exists>v w. a = Inr v \<and> b = Inr w \<and> f v = f w)"
  by (cases a; cases b) auto

lemma seen_cases:
  assumes "seen x = seen y"
  obtains (failed) e s s' where "x = (Inl e, s)" "y = (Inl e, s')" "erase s = erase s'"
  | (succeeded) v w s s' where "x = (Inr v, s)" "y = (Inr w, s')" "erase s = erase s'"
  using assms by (cases x; cases y) (auto simp: unit_sum_eq)

lemma seen_id_cases:
  assumes "seen_id f x = seen_id f y"
  obtains (failed) e s s' where "x = (Inl e, s)" "y = (Inl e, s')" "erase s = erase s'"
  | (succeeded) v w s s' where "x = (Inr v, s)" "y = (Inr w, s')" "f v = f w" "erase s = erase s'"
  using assms by (cases x; cases y) (auto simp: seen_id_def id_sum_eq)

lemma checks_erase:
  "map_option (map_sum id (\<lambda>_. ())) (ensure_user_checks lead u (erase s))
   = map_option (map_sum id (\<lambda>_. ())) (ensure_user_checks lead u s)"
  by (auto simp: ensure_user_checks_def Let_def same_data_def split: option.splits)

lemma unit_option_eq:
  "map_option (map_sum id (\<lambda>_. ())) a = map_option (map_sum id (\<lambda>_. ())) b
   \<longleftrightarrow> (a = None \<and> b = None) \<or> (\<exists>e. a = Some (Inl e) \<and> b = Some (Inl e)) \<or> (\<exists>v w. a = Some (Inr v) \<and> b = Some (Inr w))"
  by (cases a; cases b) (auto simp: unit_sum_eq)

lemma checks_cases:
  assumes "erase s = erase s'"
  obtains (none) "ensure_user_checks lead u s = None" "ensure_user_checks lead u s' = None"
  | (failed) e where "ensure_user_checks lead u s = Some (Inl e)" "ensure_user_checks lead u s' = Some (Inl e)"
  | (found) v w where "ensure_user_checks lead u s = Some (Inr v)" "ensure_user_checks lead u s' = Some (Inr w)"
proof -
  have "map_option (map_sum id (\<lambda>_. ())) (ensure_user_checks lead u s)
      = map_option (map_sum id (\<lambda>_. ())) (ensure_user_checks lead u s')"
    using checks_erase [of lead u s] checks_erase [of lead u s'] assms by simp
  then show ?thesis using that unfolding unit_option_eq by blast
qed

lemma timeless_EnsureUser: "timeless (\<lambda>t. EnsureUser t u)"
proof (rule timelessI)
  fix t s
  let ?u = "u\<lparr>u_id := [], u_created_at := zeroTime, u_updated_at := zeroTime\<rparr>"
  have "seen (CreateUser t ?u s) = seen (CreateUser zeroTime ?u (erase s))"
    by (rule timelessD [OF timeless_CreateUser]) simp
  note created = this
  have first: "erase s = erase (erase s)" by simp
  show "seen (EnsureUser t u s) = seen (EnsureUser zeroTime u (erase s))"
    using created
  proof (cases rule: seen_cases)
    case (failed e s1 s2)
    show ?thesis
      by (rule checks_cases [OF first, of "''ensure_user conflict: ''" u];
        rule checks_cases [OF failed(3), of "''ensure_user conflict after insert race: ''" u])
        (simp_all add: EnsureUser_def failed)
  next
    case (succeeded v w s1 s2)
    show ?thesis
      by (rule checks_cases [OF first, of "''ensure_user conflict: ''" u]) (simp_all add: EnsureUser_def succeeded)
  qed
qed

section \<open>Group appointments\<close>

lemma invite_payload_strip [simp]: "invite_payload (strip_appt a) status s = invite_payload a status s"
  by (simp add: invite_payload_def strip_appt_def)

lemma invite_status_erase [simp]:
  "invite_status (strip_group g) (strip_appt a) (strip_member m) (erase s) = invite_status g a m s"
  by (simp add: invite_status_def cong: sum.case_cong)

lemma GetGroupMembers_erase [simp]: "GetGroupMembers gid (erase s) = map strip_member (GetGroupMembers gid s)"
  by (auto simp: GetGroupMembers_def filter_map_same find_map_same comp_def strip_member_def split: option.split)

lemma invite_member_erase:
  "map_sum id (\<lambda>(p, tx). erase tx) (invite_member t g a m s tx)
   = map_sum id (\<lambda>(p, tx). erase tx) (invite_member zeroTime (strip_group g) (strip_appt a) (strip_member m) (erase s) (erase tx))"
proof (cases "invite_status g a m s")
  case (Inr status)
  have keys: "part_key \<lparr>p_id = i, p_appointment_id = x, p_user_id = y, p_status = z, p_is_optional = b,
      p_created_at = c, p_updated_at = d\<rparr> = (x, y)" for i x y z b c d by (simp add: part_key_def)
  show ?thesis
    unfolding invite_member_def invite_status_erase Inr sum.case Let_def insert_participant_def insert_notification_def
    by (simp add: taken_map_same keys, simp add: strip_part_def strip_note_def)
qed (simp add: invite_member_def)

lemma invite_members_erase:
  "erase tx = erase tx' \<Longrightarrow> map_sum id (\<lambda>(ps, tx). erase tx) (invite_members t g a ms s tx)
   = map_sum id (\<lambda>(ps, tx). erase tx) (invite_members zeroTime (strip_group g) (strip_appt a) (map strip_member ms) (erase s) tx')"
proof (induction ms arbitrary: tx tx')
  case (Cons m ms)
  have "map_sum id (\<lambda>(p, tx). erase tx) (invite_member t g a m s tx)
   = map_sum id (\<lambda>(p, tx). erase tx) (invite_member zeroTime (strip_group g) (strip_appt a) (strip_member m) (erase s) tx')"
    using invite_member_erase [of t g a m s tx] Cons.prems
      invite_member_erase [of zeroTime "strip_group g" "strip_appt a" "strip_member m" "erase s" tx'] by simp
  then consider e where "invite_member t g a m s tx = Inl e"
      "invite_member zeroTime (strip_group g) (strip_appt a) (strip_member m) (erase s) tx' = Inl e"
    | p q tx1 tx2 where "invite_member t g a m s tx = Inr (p, tx1)"
      "invite_member zeroTime (strip_group g) (strip_appt a) (strip_member m) (erase s) tx' = Inr (q, tx2)"
      "erase tx1 = erase tx2"
    by (cases "invite_member t g a m s tx";
      cases "invite_member zeroTime (strip_group g) (strip_appt a) (strip_member m) (erase s) tx'") auto
  then show ?case
  proof cases
    case 2
    have "map_sum id (\<lambda>(ps, tx). erase tx) (invite_members t g a ms s tx1)
   = map_sum id (\<lambda>(ps, tx). erase tx) (invite_members zeroTime (strip_group g) (strip_appt a) (map strip_member ms) (erase s) tx2)"
      by (rule Cons.IH) (rule 2(3))
    then show ?thesis
      using 2(1,2) by (cases "invite_members t g a ms s tx1";
        cases "invite_members zeroTime (strip_group g) (strip_appt a) (map strip_member ms) (erase s) tx2") auto
  qed simp
qed simp

lemma invite_members_cases:
  assumes "erase tx = erase tx'"
  obtains (failed) e where "invite_members t g a ms s tx = Inl e"
      "invite_members zeroTime (strip_group g) (strip_appt a) (map strip_member ms) (erase s) tx' = Inl e"
  | (succeeded) ps qs s1 s2 where "invite_members t g a ms s tx = Inr (ps, s1)"
      "invite_members zeroTime (strip_group g) (strip_appt a) (map strip_member ms) (erase s) tx' = Inr (qs, s2)"
      "erase s1 = erase s2"
  using invite_members_erase [OF assms, of t g a ms s] unfolding id_sum_eq by (auto split: prod.splits)

lemma group_create_payload_same:
  assumes "erase s1 = erase s2"
  shows "group_create_payload a gid s1 = group_create_payload a gid s2"
  using text_queries(3) [of a gid s1] text_queries(3) [of a gid s2] assms by simp

lemma timeless_CreateGroupAppointment: "timeless (\<lambda>t. CreateGroupAppointment t a)"
proof (rule timelessI)
  fix t s
  show "seen (CreateGroupAppointment t a s) = seen (CreateGroupAppointment zeroTime a (erase s))"
  proof (cases "a_group_id a")
    case (Some gid)
    let ?a = "\<lambda>t. a\<lparr>a_id := appointment_id a s, a_created_at := t, a_updated_at := t\<rparr>"
    show ?thesis
    proof (cases "taken a_id (appointment_id a s) (tb_appts s)")
      case free: False
      show ?thesis
      proof (cases "GetGroupByID gid s")
        case (Inr g)
        let ?tx = "\<lambda>t s. s\<lparr>tb_appts := tb_appts s @ [appt_row t (?a t)]\<rparr>"
        have tx: "erase (?tx t s) = erase (?tx zeroTime (erase s))"
          by (simp add: strip_appt_row [of t])
        have a: "strip_appt (?a t) = ?a zeroTime" by (simp add: strip_appt_def)
        have pay: "group_create_payload (?a t) = group_create_payload (?a zeroTime)"
          by (simp add: fun_eq_iff group_create_payload_def)
        show ?thesis
        proof (rule invite_members_cases [OF tx, of t g "?a t" "GetGroupMembers gid s" s], unfold a)
          fix e
          assume "invite_members t g (?a t) (GetGroupMembers gid s) s (?tx t s) = Inl e"
            "invite_members zeroTime (strip_group g) (?a zeroTime) (map strip_member (GetGroupMembers gid s))
              (erase s) (?tx zeroTime (erase s)) = Inl e"
          then show ?thesis using Some free Inr
            by (simp add: CreateGroupAppointment_def Let_def taken_map_same del: erase_sets)
        next
          fix ps qs s1 s2
          assume "invite_members t g (?a t) (GetGroupMembers gid s) s (?tx t s) = Inr (ps, s1)"
            "invite_members zeroTime (strip_group g) (?a zeroTime) (map strip_member (GetGroupMembers gid s))
              (erase s) (?tx zeroTime (erase s)) = Inr (qs, s2)" and e: "erase s1 = erase s2"
          then show ?thesis using Some free Inr group_create_payload_same [OF e]
            by (simp add: CreateGroupAppointment_def Let_def taken_map_same pay del: erase_sets)
        qed
      qed (use Some free in \<open>simp add: CreateGroupAppointment_def Let_def taken_map_same\<close>)
    qed (use Some in \<open>simp add: CreateGroupAppointment_def Let_def taken_map_same\<close>)
  qed (simp add: CreateGroupAppointment_def)
qed

section \<open>The cases of the applier\<close>

lemma seen_done_ok [simp]: "seen (done_ok s) = (Inr (), erase s)"
  by (simp add: done_ok_def)

lemma seen_tolerate: "seen x = seen y \<Longrightarrow> seen (tolerate P x) = seen (tolerate P y)"
  by (erule seen_cases) (simp_all add: tolerate_def)

lemma seen_drop_value: "seen (drop_value x) = seen x"
  by (cases x) (simp add: drop_value_def split: sum.split)

lemma timeless_tolerate: "timeless f \<Longrightarrow> timeless (\<lambda>t s. tolerate P (f t s))"
  unfolding timeless_def by (metis seen_tolerate)

lemma timeless_drop_value: "timeless f \<Longrightarrow> timeless (\<lambda>t s. drop_value (f t s))"
  by (simp add: timeless_def seen_drop_value)

lemma timeless_if: "timeless f \<Longrightarrow> timeless g \<Longrightarrow> (\<And>s. P (erase s) = P s) \<Longrightarrow> timeless (\<lambda>t s. if P s then f t s else g t s)"
  by (simp add: timeless_def)

lemma timeless_done [simp]: "timeless (\<lambda>t. done_ok)"
  by (simp add: timeless_def)

lemma timeless_fail [simp]: "timeless (\<lambda>t s. (Inl e, s))"
  by (simp add: timeless_def)

lemma timeless_join_owner: "timeless (\<lambda>t. join_owner t aid owner)"
  unfolding join_owner_def
  by (intro timeless_if timeless_tolerate timeless_AddParticipant timeless_done) simp

lemma timeless_small:
  "timeless (\<lambda>t. apply_appt_delete t p1)" "timeless (\<lambda>t. apply_clear_email t p2)"
  "timeless (\<lambda>t. apply_member_add t p3)" "timeless (\<lambda>t. apply_member_update t p3)"
  "timeless (\<lambda>t. apply_member_remove t p3)" "timeless (\<lambda>t. apply_ensure_member t p4)"
  "timeless (\<lambda>t. apply_ensure_participant t p5)" "timeless (\<lambda>t. apply_ensure_notification t p6)"
  "timeless (\<lambda>t. apply_group_delete t p7)" "timeless (\<lambda>t. apply_ensure_user t p8)"
  unfolding apply_appt_delete_def apply_clear_email_def apply_member_add_def apply_member_update_def
    apply_member_remove_def apply_ensure_member_def apply_ensure_participant_def apply_ensure_notification_def
    apply_group_delete_def apply_ensure_user_def EnsureGroupMember_def
  by (intro timeless_if timeless_tolerate timeless_drop_value timeless_appt_changes timeless_user_rest
      timeless_AddGroupMember timeless_groups timeless_EnsureParticipant timeless_EnsureNotification
      timeless_EnsureUser timeless_done timeless_fail; simp)+

lemma timeless_update_password: "timeless (\<lambda>t. apply_update_password t p)"
  unfolding apply_update_password_def
  by (intro timeless_if timeless_user_rest timeless_done) (simp cong: sum.case_cong)

lemma timeless_appt_update: "timeless (\<lambda>t. apply_appt_update t p)"
proof (rule timelessI)
  fix t s
  show "seen (apply_appt_update t p s) = seen (apply_appt_update zeroTime p (erase s))"
  proof (cases "GetAppointmentByID (au_appointment_id p) s")
    case (Inr a)
    let ?n = "\<lambda>a. a\<lparr>a_title := set_opt (au_title p) (a_title a),
             a_description := set_opt (au_description p) (a_description a),
             a_start := set_opt (au_start p) (a_start a), a_end := set_opt (au_end p) (a_end a),
             a_privacy := set_opt (au_privacy p) (a_privacy a)\<rparr>"
    have "UpdateAppointment zeroTime (?n (strip_appt a)) = UpdateAppointment zeroTime (?n a)"
      by (simp add: UpdateAppointment_def fun_eq_iff)
    then show ?thesis
      using Inr timelessD [OF timeless_appt_changes(1), of s "erase s" t "?n a" zeroTime]
      by (simp add: apply_appt_update_def)
  qed (simp add: apply_appt_update_def)
qed

lemma timeless_group_update: "timeless (\<lambda>t. apply_group_update t p)"
proof (rule timelessI)
  fix t s
  show "seen (apply_group_update t p s) = seen (apply_group_update zeroTime p (erase s))"
  proof (cases "GetGroupByID (gu_group_id p) s")
    case (Inr g)
    let ?n = "\<lambda>g. g\<lparr>g_name := set_opt (gu_name p) (g_name g), g_description := set_opt (gu_description p) (g_description g)\<rparr>"
    have "UpdateGroup zeroTime (?n (strip_group g)) = UpdateGroup zeroTime (?n g)"
      by (simp add: UpdateGroup_def fun_eq_iff)
    then show ?thesis
      using Inr timelessD [OF timeless_UpdateGroup, of s "erase s" t "?n g" zeroTime]
      by (simp add: apply_group_update_def)
  qed (simp add: apply_group_update_def)
qed

lemma email_owner_erase [simp]: "email_owner email (erase s) = map_option strip_user (email_owner email s)"
  by (simp add: email_owner_def)

lemma timeless_user_create: "timeless (\<lambda>t. apply_user_create t p)"
proof (rule timelessI)
  fix t s
  let ?u = "new_user (uc_id p) (uc_username p) (uc_email p) (uc_password_hash p) (uc_display_name p)"
  have "seen (CreateUser t ?u s) = seen (CreateUser zeroTime ?u (erase s))"
    by (rule timelessD [OF timeless_CreateUser]) simp
  then show "seen (apply_user_create t p s) = seen (apply_user_create zeroTime p (erase s))"
  proof (cases rule: seen_cases)
    case (failed e s1 s2)
    have name: "ok (GetUserByUsername (uc_username p) s1) = ok (GetUserByUsername (uc_username p) s2)"
      and mail: "map_option strip_user (email_owner (uc_email p) s1) = map_option strip_user (email_owner (uc_email p) s2)"
      using failed(3) user_queries(1) [of "uc_username p"] email_owner_erase map_sum_simps(1) by metis+
    have "(case email_owner (uc_email p) s1 of Some x \<Rightarrow> u_username x = uc_username p | None \<Rightarrow> False)
        = (case email_owner (uc_email p) s2 of Some x \<Rightarrow> u_username x = uc_username p | None \<Rightarrow> False)"
      using mail by (cases "email_owner (uc_email p) s1"; cases "email_owner (uc_email p) s2")
        (auto dest: arg_cong [of _ _ u_username])
    then show ?thesis
      using failed name by (cases "email_owner (uc_email p) s") (auto simp: apply_user_create_def)
  next
    case (succeeded v w s1 s2)
    then show ?thesis by (simp add: apply_user_create_def split: option.split)
  qed
qed

lemma profile_eq_strip [simp]:
  "profile_eq (strip_user u) v = profile_eq u v" "profile_eq u (strip_user v) = profile_eq u v"
  by (simp_all add: profile_eq_def)

lemma UpdateUser_strip: "UpdateUser t (strip_user u) = UpdateUser t u"
  by (simp add: UpdateUser_def user_conflict_def user_row_def fun_eq_iff)

lemma timeless_update_profile: "timeless (\<lambda>t. apply_update_profile t p)"
proof (rule timelessI)
  fix t s
  show "seen (apply_update_profile t p s) = seen (apply_update_profile zeroTime p (erase s))"
  proof (cases "GetUserByID (uup_user_id p) s")
    case (Inr u)
    let ?n = "\<lambda>u. u\<lparr>u_username := set_opt (uup_username p) (u_username u),
                           u_email := set_opt (uup_email p) (u_email u),
                           u_display_name := set_opt (uup_display_name p) (u_display_name u)\<rparr>"
    have n: "(strip_user u)\<lparr>u_username := a, u_email := b, u_display_name := c\<rparr>
        = strip_user (u\<lparr>u_username := a, u_email := b, u_display_name := c\<rparr>)" for a b c
      by (simp add: strip_user_def)
    have "seen (UpdateUser t (?n u) s) = seen (UpdateUser zeroTime (?n u) (erase s))"
      by (rule timelessD [OF timeless_UpdateUser]) simp
    then show ?thesis
    proof (cases rule: seen_cases)
      case (failed e s1 s2)
      let ?same = "\<lambda>s. case GetUserByID (uup_user_id p) s of Inr fresh \<Rightarrow> profile_eq fresh (?n u) | Inl _ \<Rightarrow> False"
      have "?same s1 = ?same (erase s1)" "?same s2 = ?same (erase s2)" by (simp_all cong: sum.case_cong)
      then have "?same s1 = ?same s2" using failed(3) by simp
      moreover have "apply_update_profile t p s = (if profile_eq (?n u) u then done_ok s
          else if is_unique_error e then (if ?same s1 then (Inr (), s1)
            else (Inl (ErrMsg ''user.update_profile apply conflict: unique constraint''), s1))
          else (Inl e, s1))"
        using failed(1) Inr by (simp add: apply_update_profile_def)
      moreover have "apply_update_profile zeroTime p (erase s) = (if profile_eq (?n u) u then done_ok (erase s)
          else if is_unique_error e then (if ?same s2 then (Inr (), s2)
            else (Inl (ErrMsg ''user.update_profile apply conflict: unique constraint''), s2))
          else (Inl e, s2))"
        using failed(2) Inr by (simp add: apply_update_profile_def Let_def n UpdateUser_strip cong: sum.case_cong)
      ultimately show ?thesis using failed(3) by simp
    next
      case (succeeded v w s1 s2)
      then show ?thesis using Inr by (simp add: apply_update_profile_def Let_def n UpdateUser_strip)
    qed
  qed (simp add: apply_update_profile_def)
qed

lemma timeless_group_create: "timeless (\<lambda>t. apply_group_create t p)"
proof (rule timelessI)
  fix t s
  let ?g = "\<lparr>g_id = [], g_name = gc_name p, g_description = gc_description p,
                  g_created_at = zeroTime, g_updated_at = zeroTime, g_creator_id = gc_creator_id p,
                  g_creator_username = gc_creator_username p, g_group_type = gc_group_type p\<rparr>"
  show "seen (apply_group_create t p s) = seen (apply_group_create zeroTime p (erase s))"
    using seen_CreateGroup [of t ?g s]
  proof (cases rule: seen_id_cases)
    case (failed e s1 s2)
    then show ?thesis by (simp add: apply_group_create_def)
  next
    case (succeeded g1 g2 s1 s2)
    then show ?thesis
      using timelessD [OF timeless_AddGroupMember, of s1 s2 t "g_id g1" "gc_creator_id p"
        "if gc_group_type p = GroupTypeNonHierarchical then 0 else 5" None zeroTime]
      by (simp add: apply_group_create_def)
  qed
qed

lemma answer_payload_erase [simp]:
  "answer_payload p a (erase s) = answer_payload p a s" "answer_payload p (strip_appt a) s = answer_payload p a s"
  by (simp_all add: answer_payload_def Let_def cong: sum.case_cong)

lemma timeless_invitation: "timeless (\<lambda>t. apply_invitation t p)"
proof (rule timelessI)
  fix t s
  let ?s = "\<lambda>t s. UpdateParticipantStatus t (is_appointment_id p) (is_user_id p) (is_status p) s"
  have s: "erase (?s t s) = erase (?s zeroTime (erase s))"
    using timelessD [OF timeless_status, of s "erase s" t "is_appointment_id p" "is_user_id p" "is_status p" zeroTime]
    by simp
  have same: "(case GetParticipantByAppointmentAndUser (is_appointment_id p) (is_user_id p) (erase s) of
            Inr part \<Rightarrow> p_status part = is_status p | Inl _ \<Rightarrow> False)
      = (case GetParticipantByAppointmentAndUser (is_appointment_id p) (is_user_id p) s of
            Inr part \<Rightarrow> p_status part = is_status p | Inl _ \<Rightarrow> False)"
    by (simp cong: sum.case_cong)
  have q: "map_sum id strip_appt (GetAppointmentByID (is_appointment_id p) (?s t s))
      = map_sum id strip_appt (GetAppointmentByID (is_appointment_id p) (?s zeroTime (erase s)))"
    using appt_queries(1) [of "is_appointment_id p"] s by metis
  show "seen (apply_invitation t p s) = seen (apply_invitation zeroTime p (erase s))"
    using q unfolding id_sum_eq
  proof
    assume "\<exists>e. GetAppointmentByID (is_appointment_id p) (?s t s) = Inl e
      \<and> GetAppointmentByID (is_appointment_id p) (?s zeroTime (erase s)) = Inl e"
    then show ?thesis using s same by (auto simp: apply_invitation_def Let_def)
  next
    assume "\<exists>v w. GetAppointmentByID (is_appointment_id p) (?s t s) = Inr v
      \<and> GetAppointmentByID (is_appointment_id p) (?s zeroTime (erase s)) = Inr w \<and> strip_appt v = strip_appt w"
    then obtain v w where vw: "GetAppointmentByID (is_appointment_id p) (?s t s) = Inr v"
      "GetAppointmentByID (is_appointment_id p) (?s zeroTime (erase s)) = Inr w" "strip_appt v = strip_appt w"
      by blast
    have "answer_payload p v (?s t s) = answer_payload p w (?s zeroTime (erase s))"
      using answer_payload_erase vw(3) s by metis
    moreover have "a_owner_id v = a_owner_id w" using arg_cong [OF vw(3), of a_owner_id] by simp
    ultimately show ?thesis
      using same vw timelessD [OF timeless_AddNotification s, of t _ zeroTime] by (simp add: apply_invitation_def Let_def)
  qed
qed

section \<open>Appointments found by their signature\<close>

text \<open>
  \<open>FindAppointmentBySignature\<close> takes the newest match. While the clock only goes forward the
  newest row is the last one, so that what it finds does not depend on the times.
\<close>

definition births :: "Store \<Rightarrow> int list" where
  "births s = map (\<lambda>a. t_ns (a_created_at a)) (tb_appts s)"

definition ordered :: "GoTime \<Rightarrow> Store \<Rightarrow> bool" where
  "ordered t s \<longleftrightarrow> sorted_wrt (<) (births s) \<and> (\<forall>n \<in> set (births s). n < t_ns t)"

lemma sort_descending:
  assumes "sorted_wrt (\<lambda>a b. f a < f b) xs"
  shows "sort_key (\<lambda>a. - f a :: int) xs = rev xs"
proof (rule sort_key_inj_key_eq)
  have "sorted_wrt (<) (map f xs)" using assms by (simp add: sorted_wrt_map)
  then have d: "distinct (map f xs)" by (simp add: strict_sorted_iff)
  then show "inj_on (\<lambda>a. - f a) (set xs)" by (auto simp: distinct_map inj_on_def)
  have "sorted_wrt (\<lambda>a b. - f a \<le> - f b) (rev xs)"
    unfolding sorted_wrt_rev by (rule sorted_wrt_mono_rel [OF _ assms]) simp
  then show "sorted (map (\<lambda>a. - f a) (rev xs))" by (simp add: sorted_wrt_map)
qed simp

lemma newest_is_last:
  assumes "ordered t s"
  shows "FindAppointmentBySignature owner gid start fin title s
    = (case rev (filter (\<lambda>a. a_owner_id a = owner \<and> a_group_id a = gid \<and> a_start a = Unix start
                        \<and> a_end a = Unix fin \<and> a_title a = title \<and> \<not> a_deleted a) (tb_appts s)) of
        [] \<Rightarrow> [] | a # _ \<Rightarrow> a_id a)"
proof -
  have "sorted_wrt (\<lambda>a b. t_ns (a_created_at a) < t_ns (a_created_at b)) (tb_appts s)"
    using assms by (simp add: ordered_def births_def sorted_wrt_map)
  then show ?thesis
    unfolding FindAppointmentBySignature_def by (subst sort_descending) (rule sorted_wrt_filter, simp_all)
qed

lemma find_alike:
  assumes "ordered t s" and "ordered t' s'" and "erase s = erase s'"
  shows "FindAppointmentBySignature owner gid start fin title s
    = FindAppointmentBySignature owner gid start fin title s'"
proof -
  let ?P = "\<lambda>a. a_owner_id a = owner \<and> a_group_id a = gid \<and> a_start a = Unix start
                        \<and> a_end a = Unix fin \<and> a_title a = title \<and> \<not> a_deleted a"
  have e: "map strip_appt (tb_appts s) = map strip_appt (tb_appts s')"
    using arg_cong [OF assms(3), of tb_appts] by simp
  have "map strip_appt (filter ?P (tb_appts s)) = map strip_appt (filter ?P (tb_appts s'))"
    using arg_cong [OF e, of "filter ?P"] by (simp add: filter_map_same)
  from arg_cong [OF this, of "map a_id"]
  have "map a_id (filter ?P (tb_appts s)) = map a_id (filter ?P (tb_appts s'))" by (simp add: comp_def)
  then have "map a_id (rev (filter ?P (tb_appts s))) = map a_id (rev (filter ?P (tb_appts s')))"
    by (simp add: rev_map [symmetric])
  then show ?thesis
    unfolding newest_is_last [OF assms(1)] newest_is_last [OF assms(2)]
    by (cases "rev (filter ?P (tb_appts s))"; cases "rev (filter ?P (tb_appts s'))") simp_all
qed

lemma alike_create_personal:
  assumes o: "ordered t s" "ordered t' s'" and e: "erase s = erase s'"
  shows "seen (apply_create_personal t p s) = seen (apply_create_personal t' p s')"
proof -
  let ?a = "new_appt (ac_title p) (ac_description p) (ac_owner_id p) None
                     (ac_start p) (ac_end p) (ac_privacy p) StatusAccepted"
  note f = find_alike [OF o e, of "ac_owner_id p" None "ac_start p" "ac_end p" "ac_title p"]
  have "seen_id a_id (CreateAppointment t ?a s) = seen_id a_id (CreateAppointment t' ?a s')"
    using seen_CreateAppointment [of t ?a s] seen_CreateAppointment [of t' ?a s'] e by simp
  then show ?thesis
  proof (cases rule: seen_id_cases)
    case (failed x s1 s2)
    then show ?thesis using f timelessD [OF timeless_join_owner e] by (simp add: apply_create_personal_def Let_def)
  next
    case (succeeded v w s1 s2)
    then show ?thesis
      using f timelessD [OF timeless_join_owner e] timelessD [OF timeless_join_owner succeeded(4)]
      by (simp add: apply_create_personal_def Let_def)
  qed
qed

lemma alike_create_group:
  assumes o: "ordered t s" "ordered t' s'" and e: "erase s = erase s'"
  shows "seen (apply_create_group t p s) = seen (apply_create_group t' p s')"
  using find_alike [OF o e] timelessD [OF timeless_CreateGroupAppointment e] e
  by (simp add: apply_create_group_def seen_drop_value)

text \<open>Every entry is applied alike.\<close>

lemma alike_decoded:
  "(\<And>x. seen (act x s) = seen (act' x s')) \<Longrightarrow> erase s = erase s' \<Longrightarrow> seen (decoded p act s) = seen (decoded p act' s')"
  by (simp add: decoded_def split: option.split)

lemma alike_if: "seen a = seen a' \<Longrightarrow> seen b = seen b' \<Longrightarrow> seen (if c then a else b) = seen (if c then a' else b')"
  by simp

lemma alike_applier:
  assumes o: "ordered t s" "ordered t' s'" and e: "erase s = erase s'"
  shows "seen (NewRaftApplier t en s) = seen (NewRaftApplier t' en s')"
  unfolding NewRaftApplier_def Let_def
  by (intro alike_if alike_decoded e alike_create_personal [OF o e] alike_create_group [OF o e]
      timelessD [OF timeless_small(1) e] timelessD [OF timeless_small(2) e] timelessD [OF timeless_small(3) e]
      timelessD [OF timeless_small(4) e] timelessD [OF timeless_small(5) e] timelessD [OF timeless_small(6) e]
      timelessD [OF timeless_small(7) e] timelessD [OF timeless_small(8) e] timelessD [OF timeless_small(9) e]
      timelessD [OF timeless_small(10) e] timelessD [OF timeless_update_password e] timelessD [OF timeless_appt_update e]
      timelessD [OF timeless_group_update e] timelessD [OF timeless_user_create e]
      timelessD [OF timeless_update_profile e] timelessD [OF timeless_group_create e]
      timelessD [OF timeless_invitation e])
    (simp add: e)

section \<open>The order of the rows\<close>

definition advances :: "GoTime \<Rightarrow> Store \<Rightarrow> Store \<Rightarrow> bool" where
  "advances t s s1 \<longleftrightarrow> births s1 = births s \<or> births s1 = births s @ [t_ns t] \<or> (\<exists>P. tb_appts s1 = filter P (tb_appts s))"

lemma advances_ordered:
  assumes "advances t s s1" and "ordered t s" and "t_ns t < t_ns t1"
  shows "ordered t1 s1"
  using assms unfolding advances_def ordered_def
  by (fastforce simp: births_def sorted_wrt_append sorted_wrt_map intro: sorted_wrt_filter)

lemma births_simps [simp]:
  "births (AppendEvent t e s) = births s" "births (s\<lparr>tb_users := us\<rparr>) = births s" "births (s\<lparr>tb_groups := gs\<rparr>) = births s"
  "births (s\<lparr>tb_members := ms\<rparr>) = births s" "births (s\<lparr>tb_parts := ps\<rparr>) = births s"
  "births (s\<lparr>tb_notes := ns\<rparr>) = births s"
  by (simp_all add: births_def AppendEvent_def)

lemma births_users [simp]:
  "births (snd (CreateUser t u s)) = births s" "births (snd (UpdateUser t u s)) = births s"
  "births (UpdatePassword t uid hash s) = births s" "births (ClearUserEmailIfMatches t uid email s) = births s"
  by (simp_all add: CreateUser_def UpdateUser_def UpdatePassword_def ClearUserEmailIfMatches_def Let_def split: option.split)

lemma births_EnsureUser [simp]: "births (snd (EnsureUser t u s)) = births s"
proof -
  let ?u = "u\<lparr>u_id := [], u_created_at := zeroTime, u_updated_at := zeroTime\<rparr>"
  have "births (snd (CreateUser t ?u s)) = births s" by simp
  then show ?thesis
    by (cases "CreateUser t ?u s") (auto simp: EnsureUser_def split: option.split sum.split)
qed

lemma births_groups [simp]:
  "births (snd (CreateGroup t g s)) = births s" "births (AddGroupMember t gid uid rank by s) = births s"
  "births (UpdateGroup t g s) = births s" "births (UpdateGroupMember gid uid rank s) = births s"
  "births (snd (RemoveGroupMember gid uid s)) = births s"
  by (simp_all add: CreateGroup_def AddGroupMember_def UpdateGroup_def UpdateGroupMember_def RemoveGroupMember_def Let_def)

lemma births_parts [simp]:
  "births (snd (AddParticipant t p s)) = births s" "births (UpdateParticipantStatus t aid uid status s) = births s"
  "births (snd (AddNotification t n s)) = births s" "births (snd (EnsureNotification t n s)) = births s"
  "births (snd (EnsureParticipant t aid uid status opt s)) = births s"
  by (auto simp: AddParticipant_def insert_participant_def UpdateParticipantStatus_def AddNotification_def
      EnsureNotification_def EnsureParticipant_def insert_notification_def Let_def split: sum.split)

lemma births_changes [simp]:
  "births (UpdateAppointment t a s) = births s" "births (DeleteAppointment t aid s) = births s"
  by (simp_all add: UpdateAppointment_def DeleteAppointment_def births_def map_update_where)

lemma births_flow [simp]:
  "births (snd (done_ok s)) = births s" "births (snd (tolerate P x)) = births (snd x)"
  "births (snd (drop_value y)) = births (snd y)"
  by (auto simp: done_ok_def tolerate_def drop_value_def split: prod.split sum.split)

lemma births_join_owner [simp]: "births (snd (join_owner t aid owner s)) = births s"
  by (simp add: join_owner_def)

lemma births_cases [simp]:
  "births (snd (apply_appt_update t p1 s)) = births s" "births (snd (apply_appt_delete t p2 s)) = births s"
  "births (snd (apply_ensure_user t p3 s)) = births s" "births (snd (apply_update_password t p4 s)) = births s"
  "births (snd (apply_clear_email t p5 s)) = births s" "births (snd (apply_group_update t p6 s)) = births s"
  "births (snd (apply_member_add t p7 s)) = births s" "births (snd (apply_member_update t p7 s)) = births s"
  "births (snd (apply_member_remove t p7 s)) = births s" "births (snd (apply_ensure_member t p8 s)) = births s"
  "births (snd (apply_ensure_participant t p9 s)) = births s" "births (snd (apply_ensure_notification t p10 s)) = births s"
  "births (snd (apply_invitation t p11 s)) = births s"
  by (auto simp: apply_appt_update_def apply_appt_delete_def apply_ensure_user_def apply_update_password_def
      apply_clear_email_def apply_group_update_def apply_member_add_def apply_member_update_def
      apply_member_remove_def apply_ensure_member_def apply_ensure_participant_def apply_ensure_notification_def
      apply_invitation_def EnsureGroupMember_def Let_def split: sum.split)

lemma births_user_create [simp]: "births (snd (apply_user_create t p s)) = births s"
proof -
  let ?u = "new_user (uc_id p) (uc_username p) (uc_email p) (uc_password_hash p) (uc_display_name p)"
  have "births (snd (CreateUser t ?u s)) = births s" by simp
  then show ?thesis
    by (cases "CreateUser t ?u s") (auto simp: apply_user_create_def split: option.split sum.split)
qed

lemma births_update_profile [simp]: "births (snd (apply_update_profile t p s)) = births s"
proof (cases "GetUserByID (uup_user_id p) s")
  case (Inr u)
  let ?d = "u\<lparr>u_username := set_opt (uup_username p) (u_username u), u_email := set_opt (uup_email p) (u_email u),
              u_display_name := set_opt (uup_display_name p) (u_display_name u)\<rparr>"
  have "births (snd (UpdateUser t ?d s)) = births s" by simp
  with Inr show ?thesis
    by (cases "UpdateUser t ?d s") (auto simp: apply_update_profile_def Let_def split: sum.split)
qed (simp add: apply_update_profile_def)

lemma births_group_create [simp]: "births (snd (apply_group_create t p s)) = births s"
proof -
  let ?g = "\<lparr>g_id = [], g_name = gc_name p, g_description = gc_description p,
                  g_created_at = zeroTime, g_updated_at = zeroTime, g_creator_id = gc_creator_id p,
                  g_creator_username = gc_creator_username p, g_group_type = gc_group_type p\<rparr>"
  have "births (snd (CreateGroup t ?g s)) = births s" by simp
  then show ?thesis by (cases "CreateGroup t ?g s") (auto simp: apply_group_create_def split: sum.split)
qed

lemma births_invited: "invite_members t g a ms s tx = Inr (ps, tx1) \<Longrightarrow> births tx1 = births tx"
proof (induction ms arbitrary: tx ps)
  case (Cons m ms)
  obtain p tx2 qs where "invite_member t g a m s tx = Inr (p, tx2)" "invite_members t g a ms s tx2 = Inr (qs, tx1)"
    using Cons.prems by (auto split: sum.splits prod.splits)
  moreover from this(1) have "births tx2 = births tx"
    by (auto simp: invite_member_def insert_participant_def insert_notification_def Let_def split: sum.splits if_splits)
  ultimately show ?case using Cons.IH by simp
qed simp

lemma births_row: "births (s\<lparr>tb_appts := tb_appts s @ [appt_row t a]\<rparr>) = births s @ [t_ns t]"
  by (simp add: births_def appt_row_def)

lemma advances_creations:
  "advances t s (snd (CreateAppointment t a s))" "advances t s (snd (CreateGroupAppointment t a s))"
  by (auto simp: advances_def CreateAppointment_def CreateGroupAppointment_def Let_def births_row
      split: option.split sum.split dest!: births_invited)

lemma advances_same: "births s1 = births s \<Longrightarrow> advances t s s1"
  by (simp add: advances_def)

lemma advances_create_personal: "advances t s (snd (apply_create_personal t p s))"
proof -
  let ?a = "new_appt (ac_title p) (ac_description p) (ac_owner_id p) None
                     (ac_start p) (ac_end p) (ac_privacy p) StatusAccepted"
  have a: "births (snd (CreateAppointment t ?a s)) = births s \<or> births (snd (CreateAppointment t ?a s)) = births s @ [t_ns t]"
    by (simp add: CreateAppointment_def Let_def births_row)
  obtain r s1 where "CreateAppointment t ?a s = (r, s1)" by fastforce
  with a show ?thesis
    by (cases r) (auto simp: apply_create_personal_def Let_def advances_def)
qed

lemma advances_create_group: "advances t s (snd (apply_create_group t p s))"
  using advances_creations(2) [of t s] by (simp add: apply_create_group_def advances_def)

lemma advances_group_delete: "advances t s (snd (apply_group_delete t p s))"
  by (auto simp: apply_group_delete_def advances_def DeleteGroup_def delete_where_def)

lemma advances_decoded: "(\<And>x. advances t s (snd (act x s))) \<Longrightarrow> advances t s (snd (decoded p act s))"
  by (simp add: decoded_def advances_same split: option.split)

lemma advances_if: "advances t s (snd a) \<Longrightarrow> advances t s (snd b) \<Longrightarrow> advances t s (snd (if c then a else b))"
  by simp

lemma advances_applier: "advances t s (snd (NewRaftApplier t e s))"
  unfolding NewRaftApplier_def Let_def
  by (intro advances_if advances_decoded advances_create_personal advances_create_group advances_group_delete
      advances_same births_cases births_user_create births_update_profile births_group_create) simp

end
