(* ===== verification/AgreeProps.thy ===== *)
theory AgreeProps
  imports Determinism
begin

text \<open>Replicas that apply the same log agree up to the timestamps of their rows.\<close>

section \<open>Replicas agree\<close>

text \<open>A replica applies the entries of the log one after the other, each at a time of its own.\<close>

fun replay :: "(GoTime \<times> LogEntry) list \<Rightarrow> Store \<Rightarrow> unit result list \<times> Store" where
  "replay [] s = ([], s)"
| "replay (te # ops) s =
     (let (r, s1) = NewRaftApplier (fst te) (snd te) s; (rs, s2) = replay ops s1 in (r # rs, s2))"

lemma replay_fold: "snd (replay ops s) = fold apply_op ops s"
  by (induction ops arbitrary: s) (simp_all add: apply_op_def case_prod_beta Let_def)

definition ticking :: "(GoTime \<times> LogEntry) list \<Rightarrow> bool" where
  "ticking ops \<longleftrightarrow> sorted_wrt (\<lambda>x y. t_ns (fst x) < t_ns (fst y)) ops"

definition starts_after :: "(GoTime \<times> LogEntry) list \<Rightarrow> Store \<Rightarrow> bool" where
  "starts_after ops s \<longleftrightarrow> (case ops of [] \<Rightarrow> True | te # _ \<Rightarrow> ordered (fst te) s)"

lemma starts_after_step:
  assumes "starts_after (te # ops) s" and "ticking (te # ops)"
  shows "starts_after ops (snd (NewRaftApplier (fst te) (snd te) s))" and "ticking ops"
proof -
  show "ticking ops" using assms(2) by (simp add: ticking_def)
  show "starts_after ops (snd (NewRaftApplier (fst te) (snd te) s))"
  proof (cases ops)
    case (Cons x xs)
    then have "t_ns (fst te) < t_ns (fst x)" using assms(2) by (simp add: ticking_def)
    then show ?thesis
      using advances_ordered [OF advances_applier] assms(1) Cons by (simp add: starts_after_def)
  qed (simp add: starts_after_def)
qed

lemma replay_alike:
  assumes "map snd ops = map snd ops'" and "ticking ops" and "ticking ops'"
    and "starts_after ops s" and "starts_after ops' s'" and "erase s = erase s'"
  shows "fst (replay ops s) = fst (replay ops' s') \<and> erase (snd (replay ops s)) = erase (snd (replay ops' s'))"
  using assms
proof (induction ops arbitrary: ops' s s')
  case (Cons x xs)
  then obtain y ys where ops': "ops' = y # ys" by (cases ops') auto
  let ?s = "snd (NewRaftApplier (fst x) (snd x) s)" and ?s' = "snd (NewRaftApplier (fst y) (snd y) s')"
  have "seen (NewRaftApplier (fst x) (snd x) s) = seen (NewRaftApplier (fst y) (snd x) s')"
    using alike_applier [of "fst x" s "fst y" s'] Cons.prems ops' by (simp add: starts_after_def)
  moreover have "snd y = snd x" using Cons.prems(1) ops' by simp
  ultimately have r: "fst (NewRaftApplier (fst x) (snd x) s) = fst (NewRaftApplier (fst y) (snd y) s')"
    and e: "erase ?s = erase ?s'" by (simp_all add: seen_def)
  have "fst (replay xs ?s) = fst (replay ys ?s') \<and> erase (snd (replay xs ?s)) = erase (snd (replay ys ?s'))"
  proof (rule Cons.IH)
    show "map snd xs = map snd ys" using Cons.prems(1) ops' by simp
    show "ticking xs" "starts_after xs ?s"
      using starts_after_step [of x xs s] Cons.prems(2,4) by simp_all
    show "ticking ys" "starts_after ys ?s'"
      using starts_after_step [of y ys s'] Cons.prems(3,5) ops' by simp_all
  qed (rule e)
  then show ?case using r ops' by (simp add: case_prod_beta Let_def)
qed simp

text \<open>
  C5. Two replicas that apply the same entries to new databases, each by its own clock as long as
  that clock goes forward, refuse the same entries with the same errors and end with the
  same users, groups, members, appointments, participations, notifications and events, row
  by row: only the timestamps of the rows may differ.
\<close>

theorem replicas_agree:
  assumes "map snd ops = map snd ops'" and "ticking ops" and "ticking ops'"
  shows "fst (replay ops migrate) = fst (replay ops' migrate)
    \<and> erase (fold apply_op ops migrate) = erase (fold apply_op ops' migrate)"
proof -
  have "starts_after x migrate" for x
    by (simp add: starts_after_def ordered_def births_def migrate_def split: list.split)
  then show ?thesis
    using replay_alike [OF assms, of migrate migrate] by (simp add: replay_fold)
qed

definition member_entry :: "string \<Rightarrow> LogEntry" where
  "member_entry uid = \<lparr>le_term = 1, le_index = 1, le_event_id = uid, le_aggregate = ''group'', le_aggregate_id = ''g1'',
     le_op = OpGroupMemberAdd, le_payload = jprint (JObj [(''group_id'', JStr ''g1''), (''user_id'', JStr uid),
       (''rank'', json_int 1)]), le_ts = zeroTime\<rparr>"

theorem replicas_agree_witness:
  "erase (fold apply_op [(unixTime 1, member_entry ''u1''), (unixTime 2, member_entry ''u2'')] migrate)
   = erase (fold apply_op [(unixTime 7, member_entry ''u1''), (unixTime 9, member_entry ''u2'')] migrate)"
  using replicas_agree [of "[(unixTime 1, member_entry ''u1''), (unixTime 2, member_entry ''u2'')]"
    "[(unixTime 7, member_entry ''u1''), (unixTime 9, member_entry ''u2'')]"]
  by (simp add: ticking_def unixTime_def second_def)

end
