(* ===== verification/Reign.thy ===== *)
theory Reign
  imports DenseLog AgreeProps ProposeInv
begin

text \<open>
  A leader and a follower of its, from empty databases on and for as long as no entry
  fails to apply and no other leader writes to the follower: whatever the network does
  with the leader's requests, the follower's log is a part of the leader's and both have
  applied a part of it, in order and each entry once.
\<close>

section \<open>The moves\<close>

text \<open>
  The applier of a node whose clock shows \<open>clk i\<close> when it applies the entry with index \<open>i\<close>,
  and a clock that goes on.
\<close>

definition clocked :: "(int \<Rightarrow> GoTime) \<Rightarrow> applier" where
  "clocked clk e s = NewRaftApplier (clk (le_index e)) e s"

definition goes_on :: "(int \<Rightarrow> GoTime) \<Rightarrow> bool" where
  "goes_on clk \<longleftrightarrow> (\<forall>i j. i < j \<longrightarrow> t_ns (clk i) < t_ns (clk j))"

text \<open>
  The network keeps every request the leader has sent; it may deliver a request late, out
  of order, more than once or never. Answers are arbitrary.
\<close>

type_synonym wire = "AppendEntriesRequest list"

definition records :: "wire ae_rpc \<Rightarrow> bool" where
  "records rpc \<longleftrightarrow> (\<forall>pid req w. snd (rpc pid req w) = w @ [req])"

lemma recordsD: "records rpc \<Longrightarrow> rpc pid req w = (a, w1) \<Longrightarrow> w1 = w @ [req]"
  unfolding records_def by (metis snd_conv)

record Reign =
  r_leader :: Node
  r_follower :: Node
  r_wire :: wire

text \<open>What a node writes beside the log: the nodes it has seen and its audit records.\<close>

definition beside :: "Store \<Rightarrow> Store \<Rightarrow> bool" where
  "beside s t \<longleftrightarrow> t = s\<lparr>tb_nodes := tb_nodes t, tb_audit := tb_audit t, seq_audit := seq_audit t\<rparr>"

text \<open>
  The leader proposes an entry with a new event id, has a heartbeat, or a goroutine of an earlier
  proposal goes on; the follower handles a request of the leader, applies what is committed, or
  votes; either writes beside the log.
\<close>

inductive reign_step :: "(int \<Rightarrow> GoTime) \<Rightarrow> (int \<Rightarrow> GoTime) \<Rightarrow> Reign \<Rightarrow> Reign \<Rightarrow> bool" for clkL clkF where
  proposes: "c_role l = Leader \<Longrightarrow> max_index (c_log l) < max64 \<Longrightarrow> \<not> taken le_event_id (le_event_id e) (c_log l) \<Longrightarrow> records rpc
    \<Longrightarrow> replicateAndCommit rpc (Some (clocked clkL)) orders
          (e\<lparr>le_term := c_term l, le_index := nextIndex (c_log l)\<rparr>) (l, w) = (l1, w1)
    \<Longrightarrow> reign_step clkL clkF \<lparr>r_leader = l, r_follower = f, r_wire = w\<rparr> \<lparr>r_leader = l1, r_follower = f, r_wire = w1\<rparr>"
| beats: "records rpc \<Longrightarrow> heartbeat_case rpc (Some (clocked clkL)) order (l, w) = (l1, w1)
    \<Longrightarrow> reign_step clkL clkF \<lparr>r_leader = l, r_follower = f, r_wire = w\<rparr> \<lparr>r_leader = l1, r_follower = f, r_wire = w1\<rparr>"
| lags: "records rpc \<Longrightarrow> replicate_peer n rpc term commit lastIdx pid (l, w) = (b, l1, w1)
    \<Longrightarrow> reign_step clkL clkF \<lparr>r_leader = l, r_follower = f, r_wire = w\<rparr> \<lparr>r_leader = l1, r_follower = f, r_wire = w1\<rparr>"
| delivers: "req \<in> set w
    \<Longrightarrow> reign_step clkL clkF \<lparr>r_leader = l, r_follower = f, r_wire = w\<rparr>
          \<lparr>r_leader = l, r_follower = snd (HandleAppendEntries req f), r_wire = w\<rparr>"
| applies: "reign_step clkL clkF \<lparr>r_leader = l, r_follower = f, r_wire = w\<rparr>
    \<lparr>r_leader = l, r_follower = snd (applyCommitted (Some (clocked clkF)) f), r_wire = w\<rparr>"
| votes: "reign_step clkL clkF \<lparr>r_leader = l, r_follower = f, r_wire = w\<rparr>
    \<lparr>r_leader = l, r_follower = snd (HandleRequestVote vreq f), r_wire = w\<rparr>"
| leader_writes: "beside (c_db l) s \<Longrightarrow> reign_step clkL clkF \<lparr>r_leader = l, r_follower = f, r_wire = w\<rparr>
    \<lparr>r_leader = l\<lparr>c_db := s\<rparr>, r_follower = f, r_wire = w\<rparr>"
| follower_writes: "beside (c_db f) s \<Longrightarrow> reign_step clkL clkF \<lparr>r_leader = l, r_follower = f, r_wire = w\<rparr>
    \<lparr>r_leader = l, r_follower = f\<lparr>c_db := s\<rparr>, r_wire = w\<rparr>"

definition unwritten :: "Node \<Rightarrow> bool" where
  "unwritten c \<longleftrightarrow> beside (migrate\<lparr>tb_meta := tb_meta (c_db c)\<rparr>) (c_db c) \<and> c_applied c = 0"

text \<open>The states of a reign: from empty databases, by moves after which no entry has failed to apply.\<close>

inductive reign :: "(int \<Rightarrow> GoTime) \<Rightarrow> (int \<Rightarrow> GoTime) \<Rightarrow> Reign \<Rightarrow> bool" for clkL clkF where
  starts: "unwritten l \<Longrightarrow> unwritten f \<Longrightarrow> c_role l = Leader \<Longrightarrow> 0 < c_term l
    \<Longrightarrow> reign clkL clkF \<lparr>r_leader = l, r_follower = f, r_wire = []\<rparr>"
| moves: "reign clkL clkF r \<Longrightarrow> reign_step clkL clkF r r1
    \<Longrightarrow> c_apply_err (r_leader r1) = None \<Longrightarrow> c_apply_err (r_follower r1) = None \<Longrightarrow> reign clkL clkF r1"

section \<open>Requests of the leader\<close>

definition part_of :: "LogEntry list \<Rightarrow> AppendEntriesRequest \<Rightarrow> bool" where
  "part_of log req \<longleftrightarrow> ae_entries req = []
     \<or> (nat (ae_prev_index req) \<le> length log
        \<and> ae_prev_term req = logTermAt (ae_prev_index req) log
        \<and> (\<exists>n. ae_entries req = take n (drop (nat (ae_prev_index req)) log)))"

lemma part_of_append: "dense (log @ es) \<Longrightarrow> dense log \<Longrightarrow> part_of log req \<Longrightarrow> part_of (log @ es) req"
proof -
  assume d: "dense (log @ es)" "dense log" and p: "part_of log req"
  show ?thesis
  proof (cases "ae_entries req = []")
    case False
    then obtain n where n: "nat (ae_prev_index req) \<le> length log"
      "ae_prev_term req = logTermAt (ae_prev_index req) log"
      "ae_entries req = take n (drop (nat (ae_prev_index req)) log)"
      using p by (auto simp: part_of_def)
    have "ae_entries req = take (min n (length log - nat (ae_prev_index req))) (drop (nat (ae_prev_index req)) (log @ es))"
      using n(1,3) by (simp add: min_def)
    moreover have "logTermAt (ae_prev_index req) (log @ es) = logTermAt (ae_prev_index req) log"
      using n(1) d by (auto simp: dense_termAt nth_append)
    ultimately show ?thesis using n unfolding part_of_def by (metis le_add1 length_append order_trans)
  qed (simp add: part_of_def)
qed

text \<open>What the leader does between two changes of its log or tables\<close>

definition kept :: "Store \<Rightarrow> Store \<Rightarrow> bool" where
  "kept s t \<longleftrightarrow> erase t = erase s \<and> tb_appts t = tb_appts s \<and> tb_applied t = tb_applied s"

lemma kept_simps [simp]:
  "kept s s" "kept s (t\<lparr>tb_log := l\<rparr>) = kept s t" "kept s (t\<lparr>tb_meta := m\<rparr>) = kept s t"
  "kept s (persistMeta k v t) = kept s t" "kept s (persistMetaString k x t) = kept s t"
  "kept s (with_audit as n t) = kept s t" "kept s (c_db (audit a msg fs c)) = kept s (c_db c)"
  by (simp_all add: kept_def erase_def persistMeta_def persistMetaString_def with_audit_def audit_def
      RecordAudit_def AppendAudit_def)

definition steady :: "Node \<Rightarrow> Node \<Rightarrow> bool" where
  "steady c d \<longleftrightarrow> c_log d = c_log c \<and> kept (c_db c) (c_db d) \<and> c_applied d = c_applied c
     \<and> c_term c \<le> c_term d \<and> (c_role d = Leader \<longrightarrow> c_role c = Leader) \<and> c_apply_err d = c_apply_err c"

lemma steady_refl [simp]: "steady c c"
  by (simp add: steady_def)

lemma steady_trans: "steady c d \<Longrightarrow> steady d e \<Longrightarrow> steady c e"
  by (auto simp: steady_def kept_def)

lemma steady_moves [simp]:
  "steady c (set_progress pid i c)" "steady c (back_off pid c)" "steady c (stepDown own t c)"
  "steady c (note_heartbeat b c)" "steady c (recalculateCommitIndex c)"
  by (simp_all add: steady_def set_progress_def back_off_def stepDown_def note_heartbeat_def recalculateCommitIndex_def
      advance_commit_def set_term_def set_commit_def follow_def Let_def)

lemma request_part: "dense (c_log c) \<Longrightarrow> part_of (c_log c) (append_request t commit (ni - 1) (loadLogEntriesFrom ni (c_log c)) c)"
proof -
  assume d: "dense (c_log c)"
  show ?thesis
  proof (cases "nat (ni - 1) \<le> length (c_log c)")
    case True
    moreover have "drop k log = take (length log) (drop k log)" for k and log :: "LogEntry list" by simp
    ultimately show ?thesis
      unfolding part_of_def append_request_def
      using d by (simp add: dense_from) (metis take_all_iff length_drop diff_le_self)
  next
    case False
    then show ?thesis using d by (simp add: part_of_def append_request_def dense_from)
  qed
qed

text \<open>The state of the leader with what it has sent\<close>

definition sends :: "Node \<Rightarrow> Node \<times> wire \<Rightarrow> bool" where
  "sends c cw \<longleftrightarrow> steady c (fst cw) \<and> (\<forall>req \<in> set (snd cw). part_of (c_log c) req)"

lemma sends_step: "sends c (d, w) \<Longrightarrow> steady d e \<Longrightarrow> part_of (c_log c) req \<Longrightarrow> sends c (e, w @ [req])"
  by (auto simp: sends_def intro: steady_trans)

lemma sends_same: "sends c (d, w) \<Longrightarrow> steady d e \<Longrightarrow> sends c (e, w)"
  by (auto simp: sends_def intro: steady_trans)

lemma sends_replicate_peer:
  assumes "dense (c_log c)" "records rpc"
  shows "sends c cw \<Longrightarrow> sends c (snd (replicate_peer n rpc t commit lastIdx pid cw))"
proof (induction n arbitrary: cw)
  case 0
  then show ?case by (cases cw) simp
next
  case (Suc n)
  obtain d w where cw: "cw = (d, w)" by fastforce
  let ?ni = "next_for lastIdx pid d"
  have log: "c_log d = c_log c" using Suc.prems by (simp add: cw sends_def steady_def)
  have part: "part_of (c_log c) (append_request t commit (?ni - 1) (loadLogEntriesFrom ?ni (c_log d)) d)"
    "part_of (c_log c) (append_request t commit lastIdx [] d)"
    using request_part [of d t commit ?ni] assms log by (simp_all add: part_of_def append_request_def)
  have sent: "sends c (e, w @ [req])" if "part_of (c_log c) req" "steady d e" for e req
    using sends_step [OF _ that(2,1)] Suc.prems by (simp add: cw)
  have "sends c (set_progress pid lastIdx d, w)"
    using sends_same Suc.prems by (simp add: cw)
  moreover have "sends c (snd (replicate_peer n rpc t commit lastIdx pid (back_off pid d, w @ [req])))"
    if "part_of (c_log c) req" for req
    using Suc.IH sent [OF that] by simp
  ultimately show ?case
    using part sent
    by (cases "?ni > lastIdx") (auto simp: cw Let_def split: option.split prod.split dest!: recordsD [OF assms(2)])
qed

lemma sends_broadcast:
  assumes "dense (c_log c)" "records rpc" "sends c cw"
  shows "sends c (snd (broadcast_heartbeat rpc order t commit cw))"
    and "sends c (snd (broadcast_entries rpc order t commit cw))"
proof -
  have beat: "sends c cw1 \<Longrightarrow> sends c (snd (heartbeat_peer rpc (heartbeat_request t commit d) pid cw1))"
    for pid cw1 d
    using sends_step [of c "fst cw1" "snd cw1" _ "heartbeat_request t commit d"]
    by (auto simp: heartbeat_peer_def part_of_def heartbeat_request_def split: option.split prod.split
        dest!: recordsD [OF assms(2)])
  have "sends c (snd (run_peers (heartbeat_peer rpc (heartbeat_request t commit (fst cw))) order cw))"
    by (rule run_peers_inv [where I = "sends c"]) (use assms beat in auto)
  then show "sends c (snd (broadcast_heartbeat rpc order t commit cw))"
    by (simp add: broadcast_heartbeat_def Let_def case_prod_beta)
  have "sends c (snd (run_peers (replicate_peer 5 rpc t commit lastIdx) order cw))" for lastIdx
    by (rule run_peers_inv [where I = "sends c"]) (use assms sends_replicate_peer in auto)
  then show "sends c (snd (broadcast_entries rpc order t commit cw))"
    by (simp add: broadcast_entries_def Let_def case_prod_beta)
qed

lemma sends_retry:
  assumes "dense (c_log c)" "records rpc"
  shows "sends c cw \<Longrightarrow> sends c (replicate_retry rpc orders t cw)"
proof (induction orders arbitrary: cw)
  case (Cons order orders)
  have "sends c (snd (broadcast_entries rpc order t (c_commit (fst cw)) cw))"
    using sends_broadcast(2) [OF assms Cons.prems] .
  with Cons show ?case by (auto simp: case_prod_beta split: bool.splits)
qed simp

end
