(* ===== verification/ReignInv.thy ===== *)
theory ReignInv
  imports Reign
begin

text \<open>The invariant of a reign: which part of the leader's log each of the two holds and has applied.\<close>

section \<open>Applied entries\<close>

definition played :: "(int \<Rightarrow> GoTime) \<Rightarrow> LogEntry list \<Rightarrow> Store" where
  "played clk es = fold apply_op (map (\<lambda>e. (clk (le_index e), e)) es) migrate"

lemma played_snoc: "played clk (es @ [e]) = snd (clocked clk e (played clk es))"
  by (simp add: played_def apply_op_def clocked_def)

interpretation clocked_applier: state_machine "clocked clk"
  by unfold_locales (simp_all add: clocked_def raft_applier.keeps_log raft_applier.keeps_meta raft_applier.keeps_applied)

lemma clocked_ordered:
  assumes "goes_on clk" "ordered (clk (le_index e)) s" "le_index e < i"
  shows "ordered (clk i) (snd (clocked clk e s))"
  unfolding clocked_def
  by (rule advances_ordered [OF advances_applier assms(2)]) (use assms(1,3) in \<open>simp add: goes_on_def\<close>)

lemma played_ordered:
  "goes_on clk \<Longrightarrow> dense log \<Longrightarrow> int (length log) < i \<Longrightarrow> ordered (clk i) (played clk log)"
proof (induction log arbitrary: i rule: rev_induct)
  case Nil
  then show ?case by (simp add: played_def ordered_def births_def migrate_def)
next
  case (snoc e log)
  then show ?case unfolding played_snoc by (intro clocked_ordered) simp_all
qed

lemma played_alike:
  assumes "goes_on clk" "goes_on clk'" "dense log"
  shows "erase (played clk log) = erase (played clk' log)"
proof -
  have ticks: "ticking (map (\<lambda>e. (c (le_index e), e)) log)" if "goes_on c" for c
    using that dense_index [OF assms(3)] by (simp add: ticking_def goes_on_def sorted_wrt_iff_nth_less)
  have new: "starts_after ops migrate" for ops
    by (simp add: starts_after_def ordered_def births_def migrate_def split: list.split)
  show ?thesis
    using replay_alike [of "map (\<lambda>e. (clk (le_index e), e)) log" "map (\<lambda>e. (clk' (le_index e), e)) log" migrate migrate]
      ticks assms(1,2) new
    by (simp add: played_def replay_fold comp_def)
qed

text \<open>Every entry of the log can be recorded, and none of them fails.\<close>

definition passes :: "(int \<Rightarrow> GoTime) \<Rightarrow> LogEntry list \<Rightarrow> bool" where
  "passes clk log \<longleftrightarrow> (\<forall>j < length log. \<not> blank (le_event_id (log ! j))
     \<and> passed (log ! j) (fst (clocked clk (log ! j) (played clk (take j log)))))"

lemma passes_Nil [simp]: "passes clk []"
  by (simp add: passes_def)

lemma passes_snoc [simp]:
  "passes clk (log @ [e]) \<longleftrightarrow> passes clk log \<and> \<not> blank (le_event_id e) \<and> passed e (fst (clocked clk e (played clk log)))"
  by (auto simp: passes_def nth_append less_Suc_eq)

text \<open>The node has applied the first \<open>a\<close> entries of the log, each once and in order.\<close>

definition tracks :: "(int \<Rightarrow> GoTime) \<Rightarrow> LogEntry list \<Rightarrow> nat \<Rightarrow> Node \<Rightarrow> bool" where
  "tracks clk log a c \<longleftrightarrow> a \<le> length log \<and> map fst (tb_applied (c_db c)) = map le_event_id (take a log)
     \<and> 0 \<le> c_applied c \<and> c_applied c \<le> int a \<and> erase (c_db c) = erase (played clk (take a log))
     \<and> (\<forall>i > int a. ordered (clk i) (c_db c)) \<and> passes clk (take a log)"

lemma tracks_append: "tracks clk log a c \<Longrightarrow> tracks clk (log @ es) a c"
  by (simp add: tracks_def)

lemma tracks_kept:
  assumes "tracks clk log a c" "kept (c_db c) (c_db d)" "0 \<le> c_applied d" "c_applied d \<le> int a"
  shows "tracks clk log a d"
  using assms by (simp add: tracks_def kept_def ordered_def births_def)

lemma tracks_steady: "tracks clk log a c \<Longrightarrow> steady c d \<Longrightarrow> tracks clk log a d"
  by (rule tracks_kept [of clk log a c]) (simp_all add: steady_def tracks_def)

lemma kept_mark [simp]: "kept s (c_db (mark_applied i c)) = kept s (c_db c)"
  by (simp add: mark_applied_def clear_apply_err_def set_applied_def)

text \<open>The next entry is recorded already, or it is the first that is not.\<close>

lemma next_unrecorded:
  assumes t: "tracks clk log a c" and d: "dense log" and k: "nat (c_applied c) < length log"
    and new: "HasAppliedEvent (le_event_id (log ! nat (c_applied c))) (c_db c) = Inr False"
  shows "c_applied c = int a"
proof -
  let ?e = "log ! nat (c_applied c)"
  have "le_event_id ?e \<notin> set (map fst (tb_applied (c_db c)))"
    using new by (auto simp: HasAppliedEvent_def taken_def split: if_splits)
  then have "?e \<notin> set (take a log)" using t unfolding tracks_def by (metis image_eqI list.set_map)
  moreover have "?e \<in> set (take a log)" if "nat (c_applied c) < a"
    using that k by (metis in_set_conv_nth length_take min_less_iff_conj nth_take)
  ultimately have "\<not> nat (c_applied c) < a" by blast
  then show ?thesis using t unfolding tracks_def by linarith
qed

text \<open>The next entry: nothing happens, it was applied before, or it is applied now.\<close>

lemma tracks_entry:
  assumes t: "tracks clk log a c" and go: "goes_on clk" and d: "dense log"
    and k: "nat (c_applied c) < length log"
    and ran: "fst (apply_entry (clocked clk) (log ! nat (c_applied c)) c) = None
      \<or> c_apply_err (snd (apply_entry (clocked clk) (log ! nat (c_applied c)) c)) = None"
  shows "\<exists>b. tracks clk log b (snd (apply_entry (clocked clk) (log ! nat (c_applied c)) c))"
    and "fst (apply_entry (clocked clk) (log ! nat (c_applied c)) c) = None
      \<Longrightarrow> c_applied (snd (apply_entry (clocked clk) (log ! nat (c_applied c)) c)) = c_applied c + 1"
proof -
  let ?e = "log ! nat (c_applied c)"
  have idx: "le_index ?e = c_applied c + 1" using dense_index [OF d k] t by (simp add: tracks_def)
  then show "fst (apply_entry (clocked clk) ?e c) = None \<Longrightarrow> c_applied (snd (apply_entry (clocked clk) ?e c)) = c_applied c + 1"
    using clocked_applier.apply_entry_applied [of clk ?e c] by simp
  have ids: "distinct (map le_event_id log)" using d by (simp add: dense_def)
  have before: "nat (c_applied c) < a" if "le_event_id ?e \<in> set (map fst (tb_applied (c_db c)))"
  proof -
    have "le_event_id ?e \<in> set (map le_event_id (take a log))" using that t unfolding tracks_def by metis
    then obtain j where "j < a" "j < length log" "le_event_id ?e = le_event_id (log ! j)"
      by (auto simp: in_set_conv_nth)
    then show ?thesis using ids k by (metis distinct_conv_nth length_map nth_map)
  qed
  show "\<exists>b. tracks clk log b (snd (apply_entry (clocked clk) ?e c))"
  proof (cases rule: clocked_applier.apply_entry_cases [of ?e c clk])
    case (blank err)
    then show ?thesis using t by auto
  next
    case known
    then have "nat (c_applied c) < a"
      by (intro before) (auto simp: recorded_def HasAppliedEvent_def taken_def split: if_splits)
    then have "tracks clk log a (mark_applied (le_index ?e) c)"
      using t by (intro tracks_kept [OF t]) (simp_all add: idx tracks_def)
    then show ?thesis using known by auto
  next
    case (ran s as n st)
    have fresh: "le_event_id ?e \<notin> set (map fst (tb_applied (c_db c)))" and nb: "\<not> blank (le_event_id ?e)"
      using ran(1) by (auto simp: HasAppliedEvent_def taken_def split: if_splits)
    have ca: "c_applied c = int a" using next_unrecorded [OF t d k ran(1)] .
    then have a: "nat (c_applied c) = a" by simp
    let ?p = "played clk (take a log)"
    have s: "erase s = erase (snd (NewRaftApplier (clk (le_index ?e)) ?e (c_db c)))" "births s = births (snd (clocked clk ?e (c_db c)))"
      using ran(2) by (simp_all add: clocked_def with_audit_def erase_def births_def)
    have now: "int a < le_index ?e" using idx ca by simp
    have "ordered (clk (le_index ?e)) ?p"
      using now a k by (intro played_ordered [OF go dense_take [OF d]]) simp
    then have alike: "seen (NewRaftApplier (clk (le_index ?e)) ?e (c_db c)) = seen (NewRaftApplier (clk (le_index ?e)) ?e ?p)"
      using t now by (intro alike_applier) (simp_all add: tracks_def)
    then have pass: "passes clk (take (Suc a) log)"
      using t k a nb ran(5) by (simp add: tracks_def take_Suc_conv_app_nth seen_def clocked_def)
    have same: "erase s = erase (played clk (take (Suc a) log))"
      using k a alike by (simp add: s seen_def take_Suc_conv_app_nth played_snoc clocked_def)
    have later: "ordered (clk i) s" if "int (Suc a) < i" for i
      using that t now clocked_ordered [OF go, of ?e "c_db c" i] idx ca s(2) by (simp add: tracks_def ordered_def)
    have keeps: "tb_applied s = tb_applied (c_db c)" using ran(2) clocked_applier.keeps_applied by simp
    then have new: "snd (RecordAppliedEvent (le_event_id ?e) (le_index ?e) s)
        = s\<lparr>tb_applied := tb_applied s @ [(le_event_id ?e, le_index ?e)]\<rparr>"
      using fresh nb now by (simp add: RecordAppliedEvent_def taken_def)
    have "tracks clk log (Suc a) (mark_applied (le_index ?e) (c\<lparr>c_stamps := st, c_db := s\<lparr>tb_applied := tb_applied s @ [(le_event_id ?e, le_index ?e)]\<rparr>\<rparr>))"
    proof (rule tracks_kept [of _ _ _ "c\<lparr>c_db := s\<lparr>tb_applied := tb_applied s @ [(le_event_id ?e, le_index ?e)]\<rparr>\<rparr>"])
      have "erase (s\<lparr>tb_applied := as\<rparr>) = erase s" "births (s\<lparr>tb_applied := as\<rparr>) = births s" for as
        by (simp_all add: erase_def births_def)
      then show "tracks clk log (Suc a) (c\<lparr>c_db := s\<lparr>tb_applied := tb_applied s @ [(le_event_id ?e, le_index ?e)]\<rparr>\<rparr>)"
        using t k a keeps same later pass by (simp add: tracks_def take_Suc_conv_app_nth ordered_def)
    qed (use t idx ca in \<open>simp_all add: tracks_def\<close>)
    then show ?thesis using new ran(3) by auto
  next
    case (stuck err s)
    then show ?thesis using ran by simp
  qed
qed

lemma tracks_entries:
  assumes "goes_on clk" "dense log"
  shows "tracks clk log a c \<Longrightarrow> es = take n (drop (nat (c_applied c)) log)
    \<Longrightarrow> c_apply_err (snd (apply_entries (clocked clk) es c)) = None
    \<Longrightarrow> \<exists>b. tracks clk log b (snd (apply_entries (clocked clk) es c))"
proof (induction es arbitrary: a c n)
  case (Cons e es)
  then have k: "nat (c_applied c) < length log" and e: "e = log ! nat (c_applied c)"
    and n: "es = take (n - 1) (drop (Suc (nat (c_applied c))) log)"
    by (cases n; cases "nat (c_applied c) < length log"; simp add: Cons_nth_drop_Suc [symmetric])+
  obtain r c1 where step: "apply_entry (clocked clk) e c = (r, c1)" by fastforce
  show ?case
  proof (cases r)
    case None
    then obtain b where "tracks clk log b c1" and "c_applied c1 = c_applied c + 1"
      using tracks_entry [OF Cons.prems(1) assms k] step e by auto
    moreover have "0 \<le> c_applied c" using Cons.prems(1) by (simp add: tracks_def)
    ultimately show ?thesis
      using Cons.IH [of b c1 "n - 1"] Cons.prems(3) step None n by (simp add: Suc_nat_eq_nat_zadd1 add.commute)
  next
    case (Some err)
    then show ?thesis
      using tracks_entry(1) [OF Cons.prems(1) assms k] step e Cons.prems(3) by simp
  qed
qed auto

lemma tracks_applyCommitted:
  assumes "goes_on clk" "dense log" "c_log c = take k log" "tracks clk log a c"
    and "c_apply_err (snd (applyCommitted (Some (clocked clk)) c)) = None"
  shows "\<exists>b. tracks clk log b (snd (applyCommitted (Some (clocked clk)) c))"
proof (cases "c_commit c \<le> c_applied c")
  case True
  then show ?thesis using assms(4) by (auto simp: applyCommitted_def)
next
  case False
  let ?m = "nat (c_commit c) - nat (c_applied c)"
  have "entries_between (c_applied c) (c_commit c) (c_log c) = take ?m (drop (nat (c_applied c)) (take k log))"
    using assms(3,4) dense_take [OF assms(2)] by (simp add: dense_between tracks_def)
  also have "\<dots> = take (min ?m (k - nat (c_applied c))) (drop (nat (c_applied c)) log)"
    by (simp add: drop_take)
  finally show ?thesis
    using False tracks_entries [OF assms(1,2,4)] assms(5) by (simp add: applyCommitted_def)
qed

lemma applyCommitted_keeps:
  "c_log (snd (applyCommitted (Some (clocked clk)) c)) = c_log c"
  "c_term (snd (applyCommitted (Some (clocked clk)) c)) = c_term c"
  using clocked_applier.applyCommitted_frames [of clk c] by simp_all

section \<open>Requests at the follower\<close>

lemma follower_db:
  "kept (c_db c) (c_db (snd (HandleAppendEntries req c)))"
  "0 \<le> c_applied c \<Longrightarrow> 0 \<le> c_applied (snd (HandleAppendEntries req c))
    \<and> c_applied (snd (HandleAppendEntries req c)) \<le> c_applied c"
proof -
  have install: "kept s (c_db (fold install_entry es c)) = kept s (c_db c)"
    "c_applied (fold install_entry es c) = c_applied c" for es s c
    by (induction es arbitrary: c) (simp_all add: install_entry_def set_log_def)
  show "kept (c_db c) (c_db (snd (HandleAppendEntries req c)))"
    by (cases req c rule: AppendEntries_cases)
      (simp_all add: AppendEntries_stale AppendEntries_mismatch AppendEntries_match install reset_timer_def
        adopt_leader_def rollback_def advance_commit_def follow_def set_term_def set_commit_def set_applied_def
        set_log_def Let_def)
  show "0 \<le> c_applied c \<Longrightarrow> 0 \<le> c_applied (snd (HandleAppendEntries req c))
      \<and> c_applied (snd (HandleAppendEntries req c)) \<le> c_applied c"
    by (cases req c rule: AppendEntries_cases)
      (simp_all add: AppendEntries_stale AppendEntries_mismatch AppendEntries_match install reset_timer_def
        adopt_leader_def rollback_def advance_commit_def follow_def set_term_def set_commit_def set_applied_def
        set_log_def Let_def)
qed

lemma follower_log:
  assumes "dense log" "c_log c = take k log" "part_of log req"
  shows "\<exists>k. c_log (snd (HandleAppendEntries req c)) = take k log"
proof -
  let ?p = "nat (ae_prev_index req)" and ?n = "min k (length log)"
  have c: "c_log c = take ?n log" using assms(2) by (simp add: min_def)
  have d: "dense (c_log c)" using dense_take [OF assms(1)] assms(2) by simp
  have cut: "\<exists>k. truncateLogFrom i (c_log c) = take k log" for i
    using d assms(2) by (simp add: dense_truncate) (metis min.commute)
  have "\<exists>k. raft_log.install (ae_entries req) (c_log c) = take k log" if "prev_matches req (c_log c)"
  proof (cases "ae_entries req = []")
    case True
    then show ?thesis using assms(2) by (auto simp: raft_log.install_def)
  next
    case False
    then obtain n where n: "?p \<le> length log" "ae_prev_term req = logTermAt (ae_prev_index req) log"
      "ae_entries req = take n (drop ?p log)" using assms(3) by (auto simp: part_of_def)
    have "?p \<le> ?n"
    proof (rule ccontr)
      assume far: "\<not> ?p \<le> ?n"
      then have pos: "0 < ae_prev_index req" and last: "?p - 1 < length log" using n(1) by auto
      then have "logTermAt (ae_prev_index req) log > 0"
        using n(1) dense_term [OF assms(1) last] by (simp add: dense_termAt [OF assms(1)])
      moreover have "logTermAt (ae_prev_index req) (c_log c) = 0"
        using far n(1) by (simp add: assms(2) dense_termAt dense_take [OF assms(1)])
      ultimately show False using that pos n(2) by (simp add: prev_matches_def)
    qed
    then have "raft_log.install (ae_entries req) (take ?n log) = take (?p + n) log"
      using install_part [OF assms(1), of ?p ?n n] False n(3) by simp
    then show ?thesis using c by auto
  qed
  then show ?thesis using assms(2) cut by (auto simp: AppendEntries_log)
qed

section \<open>Every move\<close>

definition reigns :: "(int \<Rightarrow> GoTime) \<Rightarrow> (int \<Rightarrow> GoTime) \<Rightarrow> Reign \<Rightarrow> bool" where
  "reigns clkL clkF r \<longleftrightarrow> dense (c_log (r_leader r)) \<and> 0 < c_term (r_leader r)
     \<and> (\<forall>req \<in> set (r_wire r). part_of (c_log (r_leader r)) req)
     \<and> (\<exists>k. c_log (r_follower r) = take k (c_log (r_leader r)))
     \<and> (\<exists>a. tracks clkL (c_log (r_leader r)) a (r_leader r)) \<and> (\<exists>a. tracks clkF (c_log (r_leader r)) a (r_follower r))"

lemma reigns_parts:
  "reigns clkL clkF \<lparr>r_leader = l, r_follower = f, r_wire = w\<rparr> \<longleftrightarrow> dense (c_log l) \<and> 0 < c_term l
     \<and> (\<forall>req \<in> set w. part_of (c_log l) req) \<and> (\<exists>k. c_log f = take k (c_log l))
     \<and> (\<exists>a. tracks clkL (c_log l) a l) \<and> (\<exists>a. tracks clkF (c_log l) a f)"
  by (simp add: reigns_def)

text \<open>The leader comes to an end of its sending, and applies what is committed.\<close>

lemma leader_applies:
  assumes r: "reigns clkL clkF \<lparr>r_leader = l, r_follower = f, r_wire = w\<rparr>" and go: "goes_on clkL"
    and s: "sends l (d, w1)" and l1: "l1 = snd (applyCommitted (Some (clocked clkL)) d)" and fine: "c_apply_err l1 = None"
  shows "reigns clkL clkF \<lparr>r_leader = l1, r_follower = f, r_wire = w1\<rparr>"
proof -
  have st: "steady l d" and w1: "\<forall>req \<in> set w1. part_of (c_log l) req" using s by (auto simp: sends_def)
  then have log: "c_log l1 = c_log l" and up: "c_term l \<le> c_term l1" by (simp_all add: l1 applyCommitted_keeps steady_def)
  obtain a where "tracks clkL (c_log l) a d" using r tracks_steady [OF _ st] by (auto simp: reigns_parts)
  then have "\<exists>b. tracks clkL (c_log l) b l1"
    unfolding l1 using r fine st
    by (intro tracks_applyCommitted [OF go, where k = "length (c_log l)"]) (simp_all add: reigns_parts steady_def l1)
  with r w1 log up show ?thesis by (auto simp: reigns_parts)
qed

lemma leader_appends:
  assumes r: "reigns clkL clkF \<lparr>r_leader = l, r_follower = f, r_wire = w\<rparr>"
    and e: "le_index e = int (length (c_log l)) + 1" "le_event_id e \<notin> set (map le_event_id (c_log l))" "0 < le_term e"
  shows "reigns clkL clkF \<lparr>r_leader = set_log (appendLog e (c_log l)) l, r_follower = f, r_wire = w\<rparr>"
proof -
  have app: "appendLog e (c_log l) = c_log l @ [e]" using r e by (intro dense_append) (simp_all add: reigns_parts)
  have d: "dense (c_log l @ [e])" "dense (c_log l)" using r e by (simp_all add: reigns_parts)
  obtain a b k where t: "tracks clkL (c_log l) a l" "tracks clkF (c_log l) b f" "c_log f = take k (c_log l)"
    using r by (auto simp: reigns_parts)
  have "tracks clkL (c_log l @ [e]) a (set_log (c_log l @ [e]) l)"
    using tracks_append [OF t(1), of "[e]"]
    by (rule tracks_kept) (use t(1) in \<open>simp_all add: set_log_def tracks_def\<close>)
  then have "\<exists>a. tracks clkL (c_log l @ [e]) a (set_log (c_log l @ [e]) l)" by blast
  moreover have "\<exists>k. c_log f = take k (c_log l @ [e])"
    using t(3) by (intro exI [of _ "min k (length (c_log l))"]) (simp add: min_def)
  moreover have "\<exists>a. tracks clkF (c_log l @ [e]) a f" using tracks_append [OF t(2), of "[e]"] by blast
  moreover have "c_log (set_log x l) = x" "c_term (set_log x l) = c_term l" for x by (simp_all add: set_log_def)
  ultimately show ?thesis
    using r part_of_append [OF d] d unfolding reigns_parts app by simp
qed

lemma beside_kept: "beside s t \<Longrightarrow> kept s t \<and> tb_log t = tb_log s"
proof -
  assume "beside s t"
  then obtain ns as n where "t = s\<lparr>tb_nodes := ns, tb_audit := as, seq_audit := n\<rparr>" unfolding beside_def by blast
  then show ?thesis by (simp add: kept_def erase_def)
qed

theorem reign_keeps:
  assumes "reign_step clkL clkF r r1" "reigns clkL clkF r" "goes_on clkL" "goes_on clkF"
    and "c_apply_err (r_leader r1) = None" "c_apply_err (r_follower r1) = None"
  shows "reigns clkL clkF r1"
  using assms(1)
proof cases
  case (proposes l e rpc orders w l1 w1 f)
  let ?e = "e\<lparr>le_term := c_term l, le_index := nextIndex (c_log l)\<rparr>" and ?d = "\<lambda>e. set_log (appendLog e (c_log l)) l"
  have d: "dense (c_log l)" using assms(2) proposes by (simp add: reigns_parts)
  have "nextIndex (c_log l) = int (length (c_log l)) + 1"
    using proposes(4) dense_max [OF d] inc64_below by (simp add: nextIndex_def)
  then have r: "reigns clkL clkF \<lparr>r_leader = ?d ?e, r_follower = f, r_wire = w\<rparr>"
    using assms(2) proposes by (intro leader_appends) (auto simp: reigns_parts taken_def)
  have "sends (?d ?e) (?d ?e, w)" using r by (simp add: sends_def reigns_parts)
  then have "sends (?d ?e) (replicate_retry rpc (take 5 orders) (c_term l) (?d ?e, w))"
    using r proposes(6) by (intro sends_retry) (simp_all add: reigns_parts)
  then obtain d1 where "sends (?d ?e) (d1, w1)" "l1 = snd (applyCommitted (Some (clocked clkL)) (recalculateCommitIndex d1))"
    using proposes(7) by (auto simp: replicateAndCommit_def Let_def split: prod.splits)
  then show ?thesis
    using leader_applies [OF r assms(3) sends_same, of d1 w1 "recalculateCommitIndex d1" l1] assms(5) proposes by simp
next
  case (beats rpc order l w l1 w1 f)
  have s: "sends l (l, w)" "dense (c_log l)" using assms(2) beats by (simp_all add: sends_def reigns_parts)
  obtain d where "heartbeat_case rpc (Some (clocked clkL)) order (l, w)
      = (snd (applyCommitted (Some (clocked clkL)) d), w1)" "sends l (d, w1)"
    using beats(4) s sends_broadcast(1) [OF s(2) beats(3) s(1), of order "c_term l" "c_commit l"]
      sends_same [OF _ steady_moves(4)]
    by (auto simp: heartbeat_case_def Let_def split: prod.splits if_splits)
  then show ?thesis
    using leader_applies [OF assms(2) [unfolded beats(1)] assms(3)] assms(5) beats by auto
next
  case (lags rpc n tm commit lastIdx pid l w b l1 w1 f)
  have "sends l (l, w)" "dense (c_log l)" using assms(2) lags by (simp_all add: sends_def reigns_parts)
  then have s: "sends l (l1, w1)"
    using sends_replicate_peer [of l rpc "(l, w)" n tm commit lastIdx pid] lags(3,4) by simp
  then have st: "steady l l1" by (simp add: sends_def)
  show ?thesis
    using assms(2) s lags tracks_steady [OF _ st] st by (auto simp: reigns_parts sends_def steady_def)
next
  case (delivers req w l f)
  obtain a k where t: "tracks clkF (c_log l) a f" "c_log f = take k (c_log l)"
    using assms(2) delivers by (auto simp: reigns_parts)
  then have "tracks clkF (c_log l) a (snd (HandleAppendEntries req f))"
    using follower_db [of f req] by (intro tracks_kept [OF t(1)]) (auto simp: tracks_def)
  then show ?thesis
    using assms(2) delivers follower_log [OF _ t(2), of req] by (auto simp: reigns_parts)
next
  case (applies l f w)
  obtain a k where t: "tracks clkF (c_log l) a f" "c_log f = take k (c_log l)"
    using assms(2) applies by (auto simp: reigns_parts)
  then have "\<exists>b. tracks clkF (c_log l) b (snd (applyCommitted (Some (clocked clkF)) f))"
    using assms(2,6) applies by (intro tracks_applyCommitted [OF assms(4)]) (auto simp: reigns_parts)
  then show ?thesis
    using assms(2) applies t(2) by (auto simp: reigns_parts applyCommitted_keeps)
next
  case (votes l f w vreq)
  have "kept (c_db f) (c_db (snd (HandleRequestVote vreq f)))"
    by (simp add: HandleRequestVote_def Let_def set_term_def set_voted_def)
  then have "tracks clkF (c_log l) a (snd (HandleRequestVote vreq f))" if "tracks clkF (c_log l) a f" for a
    using that by (intro tracks_kept [OF that]) (simp_all add: tracks_def)
  then show ?thesis using assms(2) votes by (auto simp: reigns_parts)
next
  case (leader_writes l s f w)
  have k: "kept (c_db l) s" "tb_log s = c_log l" using beside_kept [OF leader_writes(3)] by simp_all
  then have "tracks clkL (c_log l) a (l\<lparr>c_db := s\<rparr>)" if "tracks clkL (c_log l) a l" for a
    using that by (intro tracks_kept [OF that]) (simp_all add: tracks_def)
  then show ?thesis using assms(2) leader_writes k by (auto simp: reigns_parts)
next
  case (follower_writes f s l w)
  have k: "kept (c_db f) s" "tb_log s = c_log f" using beside_kept [OF follower_writes(3)] by simp_all
  then have "tracks clkF (c_log l) a (f\<lparr>c_db := s\<rparr>)" if "tracks clkF (c_log l) a f" for a
    using that by (intro tracks_kept [OF that]) (simp_all add: tracks_def)
  then show ?thesis using assms(2) follower_writes k by (auto simp: reigns_parts)
qed

end
