(* ===== verification/ReignProps.thy ===== *)
theory ReignProps
  imports ReignInv
begin

text \<open>A leader and its follower agree for as long as the leader reigns.\<close>

lemma reign_reigns:
  assumes "goes_on clkL" "goes_on clkF"
  shows "reign clkL clkF r \<Longrightarrow> reigns clkL clkF r"
proof (induction rule: reign.induct)
  case (starts l f)
  have track: "tracks clk [] 0 c \<and> c_log c = []" if "unwritten c" "goes_on clk" for clk c
  proof -
    have k: "kept migrate (c_db c)" "c_log c = []" and zero: "c_applied c = 0"
      using that(1) beside_kept [of "migrate\<lparr>tb_meta := tb_meta (c_db c)\<rparr>" "c_db c"]
      by (auto simp: unwritten_def kept_def erase_def) (auto simp: migrate_def)
    have "tb_applied migrate = []" "tb_appts migrate = []" by (simp_all add: migrate_def)
    with k zero show ?thesis by (simp add: tracks_def kept_def played_def ordered_def births_def)
  qed
  then show ?case using starts assms by (auto simp: reigns_parts)
next
  case (moves r r1)
  then show ?case using reign_keeps [OF _ _ assms] by blast
qed

text \<open>
  C2. For as long as one leader reigns and no entry fails to apply, whatever requests are lost,
  delayed, repeated or delivered out of order: the follower's log is the beginning of the
  leader's, leader and follower have each applied a beginning of that log, every entry
  once and in order, and when they have applied equally many entries their tables are the
  same up to timestamps and the tables a replica fills on its own.
\<close>

theorem stable_leader_agreement:
  assumes "reign clkL clkF \<lparr>r_leader = l, r_follower = f, r_wire = w\<rparr>" and "goes_on clkL" and "goes_on clkF"
  shows "(\<exists>k. c_log f = take k (c_log l))
    \<and> map fst (tb_applied (c_db l)) = map le_event_id (take (length (tb_applied (c_db l))) (c_log l))
    \<and> map fst (tb_applied (c_db f)) = map le_event_id (take (length (tb_applied (c_db f))) (c_log l))
    \<and> (length (tb_applied (c_db f)) = length (tb_applied (c_db l)) \<longrightarrow> erase (c_db f) = erase (c_db l))"
proof -
  have r: "reigns clkL clkF \<lparr>r_leader = l, r_follower = f, r_wire = w\<rparr>"
    using reign_reigns [OF assms(2,3,1)] .
  then obtain a b where t: "tracks clkL (c_log l) a l" "tracks clkF (c_log l) b f" by (auto simp: reigns_parts)
  have count: "length (tb_applied (c_db c)) = n" if "tracks clk (c_log l) n c" for clk n c
    using that by (metis length_map length_take min_absorb2 tracks_def)
  have "erase (c_db f) = erase (c_db l)" if "a = b"
    using that t played_alike [OF assms(2,3) dense_take, of "c_log l" a] r by (simp add: tracks_def reigns_parts)
  then show ?thesis using r t count [OF t(1)] count [OF t(2)] by (auto simp: reigns_parts tracks_def)
qed

section \<open>An example\<close>

text \<open>A member is proposed by the leader, installed by the follower, committed, announced by a heartbeat and applied.\<close>

definition yes :: "wire ae_rpc" where
  "yes pid req w = (Some \<lparr>aer_term = 1, aer_success = True, aer_match = 1\<rparr>, w @ [req])"

definition proposed :: "Node \<times> wire" where
  "proposed = replicateAndCommit yes (Some (clocked unixTime)) [[''b'']]
     ((member_entry ''u1'')\<lparr>le_term := c_term elected, le_index := nextIndex (c_log elected)\<rparr>) (elected, [])"

definition beaten :: "Node \<times> wire" where
  "beaten = heartbeat_case yes (Some (clocked unixTime)) [''b''] proposed"

definition late_clock :: "int \<Rightarrow> GoTime" where
  "late_clock i = unixTime (i + 7)"

definition follows :: "wire \<Rightarrow> Node" where
  "follows w = snd (applyCommitted (Some (clocked late_clock))
     (snd (HandleAppendEntries (w ! 1) (snd (HandleAppendEntries (w ! 0) (boot ''b'' [''a'']))))))"

definition followed :: Node where
  "followed = follows (snd beaten)"

lemma example_runs:
  "case beaten of (l, w) \<Rightarrow> let f = follows w in
     c_apply_err l = None \<and> c_apply_err f = None \<and> length w = 2
     \<and> length (tb_applied (c_db f)) = length (tb_applied (c_db l)) \<and> length (tb_members (c_db f)) = 1"
  by code_simp

lemma follower_apply_err [simp]: "c_apply_err (snd (HandleAppendEntries req c)) = c_apply_err c"
proof -
  have "c_apply_err (fold install_entry es c) = c_apply_err c" for es c
    by (induction es arbitrary: c) (simp_all add: install_entry_def set_log_def)
  then show ?thesis
    by (cases req c rule: AppendEntries_cases)
      (simp_all add: AppendEntries_stale AppendEntries_mismatch AppendEntries_match reset_timer_def
        adopt_leader_def rollback_def advance_commit_def follow_def set_term_def set_commit_def set_applied_def
        set_log_def Let_def clear_apply_err_def)
qed

theorem stable_leader_agreement_witness:
  "length (tb_members (c_db followed)) = 1 \<and> erase (c_db followed) = erase (c_db (fst beaten))"
proof -
  have p: "records yes" by (simp add: records_def yes_def)
  have go: "goes_on unixTime" "goes_on late_clock" by (simp_all add: goes_on_def late_clock_def unixTime_def second_def)
  let ?f = "boot ''b'' [''a'']" and ?r = "\<lambda>l f w. reign unixTime late_clock \<lparr>r_leader = l, r_follower = f, r_wire = w\<rparr>"
  have start: "unwritten elected" "unwritten ?f" "c_role elected = Leader" "0 < c_term elected"
    "max_index (c_log elected) < max64" "\<not> taken le_event_id (le_event_id (member_entry ''u1'')) (c_log elected)"
    "c_apply_err ?f = None" by code_simp+
  have "c_apply_err (fst proposed) = None" by code_simp
  then have fin: "c_apply_err (fst proposed) = None" "c_apply_err (fst beaten) = None" "c_apply_err followed = None"
    "length (snd beaten) = 2" "length (tb_applied (c_db followed)) = length (tb_applied (c_db (fst beaten)))"
    "length (tb_members (c_db followed)) = 1"
    using example_runs by (simp_all add: followed_def case_prod_beta Let_def)
  have "?r (fst proposed) ?f (snd proposed)"
    by (rule reign.moves [OF reign.starts [OF start(1-4)] reign_step.proposes [OF start(3,5,6) p]])
      (use fin start in \<open>simp_all add: proposed_def\<close>)
  then have "?r (fst beaten) ?f (snd beaten)"
    by (rule reign.moves [OF _ reign_step.beats [OF p]]) (use fin start in \<open>simp_all add: beaten_def\<close>)
  then have "?r (fst beaten) (snd (HandleAppendEntries (snd beaten ! 0) ?f)) (snd beaten)"
    by (rule reign.moves [OF _ reign_step.delivers]) (use fin start in simp_all)
  then have "?r (fst beaten) (snd (HandleAppendEntries (snd beaten ! 1) (snd (HandleAppendEntries (snd beaten ! 0) ?f)))) (snd beaten)"
    by (rule reign.moves [OF _ reign_step.delivers]) (use fin start in simp_all)
  then have "?r (fst beaten) followed (snd beaten)"
    unfolding followed_def follows_def
    by (rule reign.moves [OF _ reign_step.applies]) (use fin in \<open>simp_all add: followed_def follows_def\<close>)
  then show ?thesis using stable_leader_agreement [OF _ go] fin by simp
qed

end
