(* ===== verification/CatchUp.thy ===== *)
theory CatchUp
  imports ReignInv
begin

text \<open>
  A follower that has fallen behind: the rounds of replication by which its leader
  finds the place where the logs part and sends the rest, and the application of what arrived.
\<close>

section \<open>A network that delivers\<close>

definition direct :: "Node ae_rpc" where
  "direct pid req f = (let (resp, f1) = HandleAppendEntries req f in (Some resp, f1))"

text \<open>What a follower keeps while it handles requests of its leader\<close>

definition behind :: "(int \<Rightarrow> GoTime) \<Rightarrow> LogEntry list \<Rightarrow> nat \<Rightarrow> nat \<Rightarrow> int \<Rightarrow> Node \<Rightarrow> bool" where
  "behind clk log b k t f \<longleftrightarrow> dense log \<and> k \<le> length log \<and> c_log f = take k log \<and> tracks clk log b f \<and> c_term f \<le> t"

lemma behind_request:
  assumes "behind clk log b k t f" "c_log f1 = take k1 log" "k1 \<le> length log" "c_term f1 = t"
    "f1 = snd (HandleAppendEntries req f)"
  shows "behind clk log b k1 t f1"
proof -
  have tr: "tracks clk log b f" using assms(1) by (simp add: behind_def)
  then have "tracks clk log b f1"
    using follower_db [of f req] assms(5) by (intro tracks_kept [OF tr]) (auto simp: tracks_def)
  then show ?thesis using assms by (simp add: behind_def)
qed

lemma follower_term:
  "c_term f \<le> ae_term req \<Longrightarrow> c_term (snd (HandleAppendEntries req f)) = ae_term req"
  by (cases req f rule: AppendEntries_cases) (simp_all add: AppendEntries_mismatch AppendEntries_match adopt_term)

text \<open>A request from beyond the end of the follower's log is refused and changes nothing of it.\<close>

lemma request_too_far:
  assumes "behind clk log b k t f" "int k < p" "p \<le> int (length log)"
    and "req = \<lparr>ae_term = t, ae_leader = lid, ae_prev_index = p, ae_prev_term = logTermAt p log, ae_entries = es, ae_commit = i\<rparr>"
  shows "\<exists>resp f1. HandleAppendEntries req f = (resp, f1) \<and> \<not> aer_success resp \<and> aer_term resp = t \<and> behind clk log b k t f1"
proof -
  have d: "dense log" "dense (c_log f)" and f: "c_log f = take k log" "c_term f \<le> t" "k \<le> length log"
    using assms(1) dense_take by (auto simp: behind_def)
  have "0 < logTermAt p log" using assms(2,3) d dense_term [of log "nat p - 1"] by (simp add: dense_termAt)
  moreover have "\<not> nat p \<le> k" using assms(2) by simp
  then have "logTermAt p (c_log f) = 0" using d f by (simp add: dense_termAt)
  ultimately have no: "\<not> prev_matches req (c_log f)" using assms(2) by (simp add: prev_matches_def assms(4))
  let ?f1 = "snd (HandleAppendEntries req f)"
  have "c_log ?f1 = take k log"
    using no f assms(2) d by (simp add: AppendEntries_mismatch assms(4) dense_truncate nat_le_iff)
  moreover have "c_term ?f1 = t" using follower_term [of f req] f by (simp add: assms(4))
  ultimately have "behind clk log b k t ?f1" using assms(1) f by (intro behind_request [OF assms(1)]) simp_all
  moreover have "\<not> aer_success (fst (HandleAppendEntries req f))" using AppendEntries_mismatch(2) [OF _ no] f assms(4) by simp
  moreover have "aer_term (fst (HandleAppendEntries req f)) = t"
    using no f by (simp add: HandleAppendEntries_def prev_matches_def Let_def adopt_term assms(4))
  ultimately show ?thesis by (metis prod.collapse)
qed

text \<open>A request from a place within it completes it.\<close>

lemma request_within:
  assumes "behind clk log b k t f" "0 \<le> p" "p \<le> int k"
    and "req = \<lparr>ae_term = t, ae_leader = lid, ae_prev_index = p, ae_prev_term = logTermAt p log,
      ae_entries = drop (nat p) log, ae_commit = i\<rparr>"
  shows "\<exists>resp f1. HandleAppendEntries req f = (resp, f1) \<and> aer_success resp \<and> aer_term resp = t
    \<and> aer_match resp = int (length log) \<and> behind clk log b (length log) t f1 \<and> i \<le> c_commit f1"
proof -
  have d: "dense log" and f: "c_log f = take k log" "c_term f \<le> t" "k \<le> length log"
    using assms(1) by (auto simp: behind_def)
  have "nat p \<le> k" using assms(2,3) by simp
  then have yes: "prev_matches req (c_log f)"
    using f d dense_take [OF d] by (simp add: prev_matches_def assms(4) dense_termAt min_def)
  let ?f1 = "snd (HandleAppendEntries req f)"
  have "raft_log.install (take (length log) (drop (nat p) log)) (take k log) = (if drop (nat p) log = [] then take k log else log)"
    using install_part [OF d, of "nat p" k "length log"] assms(2,3) f by simp
  then have "raft_log.install (drop (nat p) log) (take k log) = log"
    using assms(3) f(3) by (simp split: if_splits)
  then have "c_log ?f1 = log" using yes f by (simp add: AppendEntries_match assms(4))
  moreover have "c_term ?f1 = t" using follower_term [of f req] f by (simp add: assms(4))
  ultimately have "behind clk log b (length log) t ?f1" by (intro behind_request [OF assms(1)]) simp_all
  moreover have "fst (HandleAppendEntries req f) = \<lparr>aer_term = t, aer_success = True, aer_match = last_installed req\<rparr>"
    using AppendEntries_match(2) [OF _ yes] f by (simp add: assms(4))
  moreover have "last_installed req = int (length log)"
  proof (cases "nat p < length log")
    case True
    then have "last (drop (nat p) log) = log ! (length log - 1)" by (simp add: last_conv_nth)
    then show ?thesis using True dense_index [OF d, of "length log - 1"] by (simp add: last_installed_def assms(4))
  next
    case False
    then show ?thesis using assms(2,3) f by (simp add: last_installed_def assms(4))
  qed
  moreover have "i \<le> c_commit ?f1" using yes f by (simp add: AppendEntries_match assms(4))
  ultimately show ?thesis by (metis prod.collapse AppendEntriesResponse.simps(1-3))
qed

section \<open>A round\<close>

lemma attempt:
  assumes "behind clk log b k t f" "c_log l = log" "c_next l pid = Some ni" "1 \<le> ni" "ni \<le> int (length log) + 1"
  shows "ni - 1 \<le> int k \<Longrightarrow> \<exists>f1. replicate_peer (Suc n) direct t i (int (length log)) pid (l, f)
      = (True, set_progress pid (int (length log)) l, f1) \<and> behind clk log b (length log) t f1 \<and> i \<le> c_commit f1"
    and "int k < ni - 1 \<Longrightarrow> \<exists>f1. replicate_peer (Suc n) direct t i (int (length log)) pid (l, f)
      = replicate_peer n direct t i (int (length log)) pid (back_off pid l, f1) \<and> behind clk log b k t f1"
proof -
  have d: "dense log" using assms(1) by (simp add: behind_def)
  have ni: "next_for (int (length log)) pid l = ni" using assms(3,4) by (simp add: next_for_def)
  let ?req = "append_request t i (ni - 1) (drop (nat (ni - 1)) log) l"
  have step: "replicate_peer (Suc n) direct t i (int (length log)) pid (l, f) =
      (case HandleAppendEntries ?req f of (resp, f1) \<Rightarrow>
         if aer_term resp > t then (False, stepDown t (aer_term resp) l, f1)
         else if aer_success resp
         then (True, set_progress pid (if aer_match resp > 0 then aer_match resp else int (length log)) l, f1)
         else replicate_peer n direct t i (int (length log)) pid (back_off pid l, f1))"
  proof (cases "ni > int (length log)")
    case True
    then have "ni - 1 = int (length log)" using assms(5) by simp
    then show ?thesis using True ni by (simp add: direct_def Let_def case_prod_beta)
  next
    case False
    then have "loadLogEntriesFrom ni log = drop (nat (ni - 1)) log" "drop (nat (ni - 1)) log \<noteq> []"
      using assms(4) d by (simp_all add: dense_from)
    then show ?thesis using False ni assms(2) by (simp add: direct_def Let_def case_prod_beta)
  qed
  have req: "?req = \<lparr>ae_term = t, ae_leader = c_id l, ae_prev_index = ni - 1, ae_prev_term = logTermAt (ni - 1) log,
      ae_entries = drop (nat (ni - 1)) log, ae_commit = i\<rparr>" by (simp add: append_request_def assms(2))
  show "ni - 1 \<le> int k \<Longrightarrow> \<exists>f1. replicate_peer (Suc n) direct t i (int (length log)) pid (l, f)
      = (True, set_progress pid (int (length log)) l, f1) \<and> behind clk log b (length log) t f1 \<and> i \<le> c_commit f1"
    using request_within [OF assms(1) _ _ req] assms(4) unfolding step by force
  show "int k < ni - 1 \<Longrightarrow> \<exists>f1. replicate_peer (Suc n) direct t i (int (length log)) pid (l, f)
      = replicate_peer n direct t i (int (length log)) pid (back_off pid l, f1) \<and> behind clk log b k t f1"
    using request_too_far [OF assms(1) _ _ req] assms(5) unfolding step by force
qed

lemma back_off_next: "c_next l pid = Some ni \<Longrightarrow> 1 < ni \<Longrightarrow> c_next (back_off pid l) pid = Some (ni - 1)"
  by (simp add: back_off_def Let_def)

lemma back_off_frames [simp]:
  "c_db (back_off pid l) = c_db l" "c_state (back_off pid l) = c_state l"
  "c_db (set_progress pid i l) = c_db l" "c_state (set_progress pid i l) = c_state l"
  by (simp_all add: back_off_def set_progress_def Let_def)

text \<open>The attempts of a round reach back as far as there are attempts.\<close>

lemma attempts:
  assumes "c_log l = log" "1 \<le> ni" "ni \<le> int (length log) + 1" "behind clk log b k t f" "c_next l pid = Some ni"
  shows "\<exists>won l1 f1. replicate_peer n direct t i (int (length log)) pid (l, f) = (won, l1, f1)
    \<and> c_db l1 = c_db l \<and> c_state l1 = c_state l
    \<and> (if 0 < n \<and> ni - 1 < int k + int n
       then won \<and> behind clk log b (length log) t f1 \<and> i \<le> c_commit f1
         \<and> c_next l1 pid = Some (inc64 (int (length log))) \<and> c_match l1 pid = Some (int (length log))
       else behind clk log b k t f1 \<and> c_next l1 pid = Some (ni - int n))"
  using assms
proof (induction n arbitrary: l ni f)
  case (Suc n)
  show ?case
  proof (cases "ni - 1 \<le> int k")
    case True
    then obtain f1 where "replicate_peer (Suc n) direct t i (int (length log)) pid (l, f)
        = (True, set_progress pid (int (length log)) l, f1)" "behind clk log b (length log) t f1" "i \<le> c_commit f1"
      using attempt(1) [OF Suc.prems(4,1,5,2,3)] by blast
    then show ?thesis
      using True by (intro exI [of _ True] exI [of _ "set_progress pid (int (length log)) l"] exI [of _ f1])
        (simp add: set_progress_def del: replicate_peer.simps)
  next
    case False
    then obtain f1 where f1: "replicate_peer (Suc n) direct t i (int (length log)) pid (l, f)
        = replicate_peer n direct t i (int (length log)) pid (back_off pid l, f1)" "behind clk log b k t f1"
      using attempt(2) [OF Suc.prems(4,1,5,2,3)] by force
    have nexts: "c_next (back_off pid l) pid = Some (ni - 1)" using False Suc.prems(5) by (simp add: back_off_next)
    have "0 < n \<and> ni - 1 - 1 < int k + int n \<longleftrightarrow> 0 < Suc n \<and> ni - 1 < int k + int (Suc n)" "ni - 1 - int n = ni - int (Suc n)"
      using False by auto
    note shift = this
    have "c_log (back_off pid l) = log" "1 \<le> ni - 1" "ni - 1 \<le> int (length log) + 1" using Suc.prems(1,3) False by simp_all
    from Suc.IH [OF this f1(2) nexts] show ?thesis unfolding f1(1) shift back_off_frames .
  qed
next
  case 0
  then show ?case by (intro exI [of _ False] exI [of _ l] exI [of _ f]) simp
qed

definition replication_round :: "string \<Rightarrow> Node \<times> Node \<Rightarrow> Node \<times> Node" where
  "replication_round pid lf =
     snd (replicate_peer 5 direct (c_term (fst lf)) (c_commit (fst lf)) (fst (lastIndexTerm (c_log (fst lf)))) pid lf)"

lemma rounds_catch_up:
  assumes "c_log l = log" "c_term l = t" "c_commit l = i" "int (length log) < max64"
    and "behind clk log b k t f" "c_next l pid = Some ni" "1 \<le> ni" "ni \<le> int (length log) + 1"
    and "ni \<le> int k + 5 * int m" "0 < m"
  shows "\<exists>l1 f1. (replication_round pid ^^ m) (l, f) = (l1, f1) \<and> c_db l1 = c_db l \<and> c_state l1 = c_state l
    \<and> behind clk log b (length log) t f1 \<and> i \<le> c_commit f1 \<and> c_match l1 pid = Some (int (length log))"
  using assms
proof (induction m arbitrary: l f k ni)
  case (Suc m)
  have d: "dense log" using Suc.prems(5) by (simp add: behind_def)
  obtain won l1 f1 where r: "replicate_peer 5 direct t i (int (length log)) pid (l, f) = (won, l1, f1)"
    and keep: "c_db l1 = c_db l" "c_state l1 = c_state l"
    and how: "if ni - 1 < int k + 5
       then won \<and> behind clk log b (length log) t f1 \<and> i \<le> c_commit f1
         \<and> c_next l1 pid = Some (inc64 (int (length log))) \<and> c_match l1 pid = Some (int (length log))
       else behind clk log b k t f1 \<and> c_next l1 pid = Some (ni - 5)"
    using attempts [OF Suc.prems(1,7,8,5,6), of 5 i] by auto
  have go: "(replication_round pid ^^ Suc m) (l, f) = (replication_round pid ^^ m) (l1, f1)"
    using r Suc.prems(1-3) d by (simp add: funpow_swap1 replication_round_def dense_last)
  have nexts: "c_next l1 pid = Some (int (length log) + 1)" if "ni - 1 < int k + 5"
    using how that Suc.prems(4) inc64_below by simp
  note again = Suc.IH [of l1 _ f1, unfolded keep, OF Suc.prems(1-4)]
  show ?case
  proof (cases "ni - 1 < int k + 5")
    case True
    show ?thesis
    proof (cases m)
      case 0
      then show ?thesis using True how keep go by simp
    next
      case (Suc m1)
      then show ?thesis using again [of "length log" "int (length log) + 1"] nexts True how unfolding go by simp
    qed
  next
    case False
    then show ?thesis using again [of k "ni - 5"] how Suc.prems(8,9) unfolding go by simp
  qed
qed simp

section \<open>Applying what arrived\<close>

text \<open>No entry that passed at the leader is an error here, so the loop runs to the end of the log.\<close>

lemma entries_apply:
  assumes go: "goes_on clk" "goes_on clk'" and d: "dense log" and p: "passes clk' log"
  shows "tracks clk log b c \<Longrightarrow> es = drop (nat (c_applied c)) log
    \<Longrightarrow> fst (apply_entries (clocked clk) es c) = None \<and> tracks clk log (length log) (snd (apply_entries (clocked clk) es c))"
proof (induction es arbitrary: b c)
  case Nil
  then have "b = length log" by (auto simp: tracks_def)
  with Nil show ?case by simp
next
  case (Cons e es)
  let ?k = "nat (c_applied c)"
  have k: "?k < length log" "e = log ! ?k" "es = drop (Suc ?k) log"
    using Cons.prems(2) by (cases "?k < length log"; simp add: Cons_nth_drop_Suc [symmetric])+
  have pass: "\<not> blank (le_event_id e)" "passed e (fst (clocked clk' e (played clk' (take ?k log))))"
    using p k by (auto simp: passes_def)
  have none: "fst (apply_entry (clocked clk) e c) = None"
  proof (cases rule: clocked_applier.apply_entry_cases [of e c clk])
    case (blank err)
    then show ?thesis using pass by (auto simp: HasAppliedEvent_def split: if_splits)
  next
    case (stuck err s)
    have b: "c_applied c = int b" using next_unrecorded [OF Cons.prems(1) d k(1)] stuck(1) k(2) by simp
    have same: "erase (played clk (take b log)) = erase (played clk' (take b log))"
      using played_alike [OF go dense_take [OF d]] .
    have now: "le_index e = int b + 1" using dense_index [OF d k(1)] b k(2) by simp
    have "b \<le> length log" using k(1) b by simp
    then have "ordered (clk' (le_index e)) (played clk' (take b log))"
      using now by (intro played_ordered [OF go(2) dense_take [OF d]]) simp
    moreover have "ordered (clk (le_index e)) (c_db c)" "erase (c_db c) = erase (played clk (take b log))"
      using Cons.prems(1) now by (simp_all add: tracks_def)
    ultimately have "seen (NewRaftApplier (clk (le_index e)) e (c_db c))
        = seen (NewRaftApplier (clk' (le_index e)) e (played clk' (take b log)))"
      using same by (intro alike_applier) simp_all
    then have "fst (clocked clk e (c_db c)) = fst (clocked clk' e (played clk' (take b log)))"
      by (simp add: seen_def clocked_def)
    then have "passed e (Inl err)" using stuck(2) pass(2) b by simp
    then show ?thesis using stuck(3) by (simp add: passed_def)
  qed simp_all
  obtain c1 where c1: "apply_entry (clocked clk) e c = (None, c1)" using none by (metis prod.collapse)
  then obtain b1 where "tracks clk log b1 c1" and "c_applied c1 = c_applied c + 1"
    using tracks_entry [OF Cons.prems(1) go(1) d k(1)] k(2) by auto
  moreover have "0 \<le> c_applied c" using Cons.prems(1) by (simp add: tracks_def)
  ultimately show ?case using Cons.IH [of b1 c1] k(3) c1 by (simp add: Suc_nat_eq_nat_zadd1 add.commute)
qed

lemma follower_applies:
  assumes "goes_on clk" "goes_on clk'" "passes clk' log" "behind clk log b (length log) t f" "int (length log) \<le> c_commit f"
  shows "fst (applyCommitted (Some (clocked clk)) f) = None
    \<and> tracks clk log (length log) (snd (applyCommitted (Some (clocked clk)) f))"
proof -
  have t: "tracks clk log b f" and d: "dense log" and l: "c_log f = log" using assms(4) by (simp_all add: behind_def)
  show ?thesis
  proof (cases "c_commit f \<le> c_applied f")
    case True
    then have "b = length log" using t assms(5) by (simp add: tracks_def)
    then show ?thesis using True t by (simp add: applyCommitted_def)
  next
    case False
    have "entries_between (c_applied f) (c_commit f) (c_log f) = drop (nat (c_applied f)) log"
      using t d assms(5) by (simp add: l dense_between tracks_def)
    then show ?thesis
      using False entries_apply [OF assms(1,2) d assms(3) t refl] by (simp add: applyCommitted_def)
  qed
qed

end
