(* ===== verification/CatchUpProps.thy ===== *)
theory CatchUpProps
  imports CatchUp ReignProps
begin

text \<open>Every follower a leader can reach comes to have the tables of the leader.\<close>

text \<open>
  C1. While one leader reigns and has applied its log: a follower of no later term that the
  leader can reach catches up, however far it is behind and whatever was lost before. Each
  round of replication goes back five indices at most, so \<open>m\<close> rounds are enough when the
  next index the leader keeps for it is at most \<open>5 m\<close> beyond the end of its log. Then
  its log is the leader's and the leader knows; and when it applies what is committed no entry
  fails, and its tables are the leader's up to timestamps and what a replica fills on its own.
\<close>

theorem follower_catches_up:
  assumes "reign clkL clkF \<lparr>r_leader = l, r_follower = f, r_wire = w\<rparr>" and "goes_on clkL" and "goes_on clkF"
    and "c_term f \<le> c_term l" and "c_applied l = int (length (c_log l))" and "c_commit l = c_applied l"
    and "c_applied l < max64" and "c_next l pid = Some ni" and "1 \<le> ni" and "ni \<le> int (length (c_log l)) + 1"
    and "ni \<le> int (length (c_log f)) + 5 * int m" and "0 < m"
    and "(replication_round pid ^^ m) (l, f) = (l1, f1)"
    and "applyCommitted (Some (clocked clkF)) f1 = (err, f2)"
  shows "c_log f1 = c_log l \<and> c_match l1 pid = Some (int (length (c_log l))) \<and> c_db l1 = c_db l
    \<and> err = None \<and> c_log f2 = c_log l \<and> map fst (tb_applied (c_db f2)) = map le_event_id (c_log l)
    \<and> erase (c_db f2) = erase (c_db l)"
proof -
  let ?log = "c_log l"
  have r: "reigns clkL clkF \<lparr>r_leader = l, r_follower = f, r_wire = w\<rparr>"
    using reign_reigns [OF assms(2,3,1)] .
  then obtain a b k where d: "dense ?log" and t: "tracks clkL ?log a l" "tracks clkF ?log b f" and k: "c_log f = take k ?log"
    by (auto simp: reigns_parts)
  have a: "a = length ?log" using t(1) assms(5) by (simp add: tracks_def)
  have p: "passes clkL ?log" and e: "erase (c_db l) = erase (played clkL ?log)" using t(1) by (simp_all add: tracks_def a)
  have bh: "behind clkF ?log b (length (c_log f)) (c_term l) f"
    using d t(2) k assms(4) by (simp add: behind_def min_def)
  have "int (length ?log) < max64" using assms(5,7) by simp
  then obtain l2 f3 where "(replication_round pid ^^ m) (l, f) = (l2, f3)" and l2: "c_db l2 = c_db l"
    "c_match l2 pid = Some (int (length ?log))"
    and f3: "behind clkF ?log b (length ?log) (c_term l) f3" "c_commit l \<le> c_commit f3"
    using rounds_catch_up [OF refl refl refl _ bh assms(8-12)] by blast
  then have same: "l2 = l1" "f3 = f1" using assms(13) by simp_all
  have "err = None \<and> tracks clkF ?log (length ?log) f2"
    using follower_applies [OF assms(3,2) p f3(1)] f3(2) assms(5,6,14) by (simp add: same)
  moreover have "c_log f2 = c_log f1"
    using clocked_applier.applyCommitted_frames(4) [of clkF f1] assms(14) by simp
  moreover have "erase (played clkF ?log) = erase (played clkL ?log)" by (rule played_alike [OF assms(3,2) d])
  ultimately show ?thesis using l2 f3 e by (simp add: same behind_def tracks_def)
qed

text \<open>The follower never got the entry of \<open>proposed\<close>; one round brings it.\<close>

definition caught_up :: "Node \<times> Node" where
  "caught_up = replication_round ''b'' (fst proposed, boot ''b'' [''a''])"

lemma caught_up_runs:
  "case proposed of (l, w) \<Rightarrow> let lf = replication_round ''b'' (l, boot ''b'' [''a'']) in
     c_term l = 1 \<and> c_applied l = 1 \<and> length (c_log l) = 1 \<and> c_commit l = 1 \<and> c_next l ''b'' = Some 2
     \<and> c_apply_err l = None
     \<and> length (tb_members (c_db (snd (applyCommitted (Some (clocked late_clock)) (snd lf))))) = 1"
  by code_simp

theorem follower_catches_up_witness:
  "length (tb_members (c_db (snd (applyCommitted (Some (clocked late_clock)) (snd caught_up))))) = 1
   \<and> erase (c_db (snd (applyCommitted (Some (clocked late_clock)) (snd caught_up)))) = erase (c_db (fst proposed))"
proof -
  have p: "records yes" by (simp add: records_def yes_def)
  have go: "goes_on unixTime" "goes_on late_clock" by (simp_all add: goes_on_def late_clock_def unixTime_def second_def)
  let ?f = "boot ''b'' [''a'']"
  have start: "unwritten elected" "unwritten ?f" "c_role elected = Leader" "0 < c_term elected"
    "max_index (c_log elected) < max64" "\<not> taken le_event_id (le_event_id (member_entry ''u1'')) (c_log elected)"
    "c_apply_err ?f = None" "c_term ?f = 0" "c_log ?f = []" by code_simp+
  obtain l w where lw: "proposed = (l, w)" by fastforce
  then have l: "c_term l = 1" "c_applied l = 1" "length (c_log l) = 1" "c_commit l = 1" "c_next l ''b'' = Some 2"
    "c_apply_err l = None"
    "length (tb_members (c_db (snd (applyCommitted (Some (clocked late_clock)) (snd caught_up))))) = 1"
    using caught_up_runs by (simp_all add: caught_up_def Let_def lw)
  have "reign unixTime late_clock \<lparr>r_leader = l, r_follower = ?f, r_wire = w\<rparr>"
    by (rule reign.moves [OF reign.starts [OF start(1-4)] reign_step.proposes [OF start(3,5,6) p]])
      (use l start lw in \<open>simp_all add: proposed_def\<close>)
  from follower_catches_up [OF this go, of "''b''" 2 1 "fst caught_up" "snd caught_up"
      "fst (applyCommitted (Some (clocked late_clock)) (snd caught_up))"
      "snd (applyCommitted (Some (clocked late_clock)) (snd caught_up))"]
  show ?thesis using l start(8,9) by (simp add: caught_up_def lw max64_def)
qed

end
