(* ===== verification/AccountProps.thy ===== *)
theory AccountProps
  imports LivenessProps ReplayProps AgreeProps
begin

text \<open>
  The way of an account through the whole program: a registration at the leader, its entry in
  the log, the replicas, and a login at any of them.
\<close>

section \<open>Users of replicas\<close>

lemma query_strip:
  assumes "\<And>r. P (strip_user r) = P r" and "erase s = erase t" and "query_user P s = Inr u"
  shows "\<exists>v. query_user P t = Inr v \<and> strip_user v = strip_user u"
  using query_erase [of P s] query_erase [of P t] assms by (cases "query_user P t") auto

section \<open>Creating a user\<close>

text \<open>An account that no row stands in the way of\<close>

definition vacant :: "User \<Rightarrow> Store \<Rightarrow> bool" where
  "vacant u s \<longleftrightarrow> user_conflict (user_row (u\<lparr>u_id := UserIDFromUsername (u_username u)\<rparr>)) (tb_users s) = None"

lemma find_vacant: "\<not> taken f (f r) rows \<Longrightarrow> find (\<lambda>q. f q = f r) rows = None"
  by (auto simp: find_None_iff taken_def) (metis image_eqI)

lemma vacant_unknown:
  assumes "vacant u s"
  shows "GetUserByUsername (u_username u) s = Inl ErrNoRows" and "email_owner (u_email u) s = None"
proof -
  let ?r = "user_row (u\<lparr>u_id := UserIDFromUsername (u_username u)\<rparr>)"
  have t: "\<not> taken u_username (u_username ?r) (tb_users s)" "\<not> taken u_email (u_email ?r) (tb_users s)"
    using assms by (auto simp: vacant_def user_conflict_def user_row_def split: if_splits)
  show "GetUserByUsername (u_username u) s = Inl ErrNoRows"
    using find_vacant [OF t(1)] by (simp add: GetUserByUsername_def query_user_def user_row_def)
  show "email_owner (u_email u) s = None"
    using find_vacant [OF t(2)] by (simp add: email_owner_def GetUserByEmail_def query_user_def user_row_def value_of_def)
qed

definition account :: "GoTime \<Rightarrow> User \<Rightarrow> User" where
  "account now u = u\<lparr>u_id := UserIDFromUsername (u_username u), u_created_at := now, u_updated_at := now\<rparr>"

lemma vacant_created:
  assumes "vacant u s"
  shows "apply_user_create t \<lparr>uc_username = u_username u, uc_email = u_email u, uc_password_hash = u_password_hash u,
      uc_id = [], uc_display_name = u_display_name u\<rparr> s = (Inr (), s\<lparr>tb_users := tb_users s @ [user_row (account t u)]\<rparr>)"
proof -
  have "user_conflict (user_row (account t u)) (tb_users s) = None"
    using assms by (auto simp: vacant_def account_def user_conflict_def user_row_def split: if_splits)
  moreover have "(new_user [] (u_username u) (u_email u) (u_password_hash u) (u_display_name u))
      \<lparr>u_id := UserIDFromUsername (u_username u), u_created_at := t, u_updated_at := t\<rparr> = account t u"
    by (cases u) (simp add: new_user_def account_def)
  moreover have "u_id (new_user [] a b c d) = []" "u_username (new_user [] a b c d) = a" for a b c d
    by (simp_all add: new_user_def)
  ultimately show ?thesis
    using vacant_unknown [OF assms] by (simp add: apply_user_create_def CreateUser_def Let_def)
qed

lemma created_found:
  assumes "vacant u s" and "tb_users s1 = tb_users s @ [user_row (account t u)]"
  shows "GetUserByUsername (u_username u) s1 = Inr (account t u)"
proof -
  have "find (\<lambda>r. u_username r = u_username u) (tb_users s) = None"
    using vacant_unknown(1) [OF assms(1)]
    by (auto simp: GetUserByUsername_def query_user_def scan_user_def split: option.splits)
  then show ?thesis
    by (simp add: GetUserByUsername_def query_user_def assms(2) find_append account_def user_row_def scan_user_def)
qed

section \<open>Registering at the leader\<close>

lemma applier_placed [simp]: "NewRaftApplier t (e\<lparr>le_term := a, le_index := b\<rparr>) s = NewRaftApplier t e s"
  by (simp add: NewRaftApplier_def Let_def)

lemma users_frames [simp]:
  "tb_users (c_db (audit a m fs c)) = tb_users (c_db c)" "tb_users (persistMeta k v s) = tb_users s"
  "tb_users (snd (RecordAppliedEvent x j s)) = tb_users s" "tb_users (committed_store e c) = tb_users (c_db c)"
  by (simp_all add: audit_def RecordAudit_def AppendAudit_def persistMeta_def RecordAppliedEvent_def committed_store_def)

text \<open>A leader that has applied its log, none of whose peers is ahead of it, and that reaches a majority by \<open>rpc\<close>\<close>

definition prevails :: "'w ae_rpc \<Rightarrow> string list \<Rightarrow> Node \<Rightarrow> bool" where
  "prevails rpc order c \<longleftrightarrow> c_role c = Leader \<and> c_apply_err c = None \<and> max_index (c_log c) < max64
     \<and> 0 \<le> max_index (c_log c) \<and> c_commit c = max_index (c_log c) \<and> c_applied c = max_index (c_log c)
     \<and> (\<forall>pid v. c_match c pid = Some v \<longrightarrow> v \<le> max_index (c_log c))
     \<and> distinct order \<and> set order \<subseteq> set (activePeers c) \<and> majority (length (activePeers c) + 1) \<le> length order + 1
     \<and> (\<forall>pid \<in> set order. accepting rpc pid)"

lemma prevailsD:
  assumes "prevails rpc order c"
  shows "c_role c = Leader" "c_apply_err c = None" "max_index (c_log c) < max64" "0 \<le> max_index (c_log c)"
    "c_commit c = max_index (c_log c)" "c_applied c = max_index (c_log c)"
    "\<forall>pid v. c_match c pid = Some v \<longrightarrow> v \<le> max_index (c_log c)" "distinct order" "set order \<subseteq> set (activePeers c)"
    "majority (length (activePeers c) + 1) \<le> length order + 1" "\<forall>pid \<in> set order. accepting rpc pid"
  using assms by (simp_all add: prevails_def)

lemma entry_takes_effect:
  assumes "prevails rpc order c" and "HasAppliedEvent (le_event_id e) (c_db c) = Inr False"
    and "e1 = e\<lparr>le_term := c_term c, le_index := nextIndex (c_log c)\<rparr>"
    and "passed e1 (fst (NewRaftApplier t e1 (committed_store e1 c)))"
  shows "\<exists>c1 w1. Propose rpc (Some (NewRaftApplier t)) (order # orders) background e (c, w) = (Inr (), c1, w1)
    \<and> tb_users (c_db c1) = tb_users (snd (NewRaftApplier t e1 (committed_store e1 c)))"
proof -
  from majority_commits [OF prevailsD [OF assms(1)] assms(3), of t orders background w]
  obtain c3 w1 where c3: "c_db c3 = committed_store e1 c"
    and go: "fst (apply_entry (NewRaftApplier t) e1 c3) = None \<longrightarrow>
      Propose rpc (Some (NewRaftApplier t)) (order # orders) background e (c, w)
        = (Inr (), audit_proposed e1 (snd (apply_entry (NewRaftApplier t) e1 c3)), w1)"
    by (elim exE conjE) (rule that)
  have fresh: "HasAppliedEvent (le_event_id e1) (c_db c3) = Inr False"
    using assms(2) HasApplied_cong [of "c_db c3" "c_db c"] by (simp add: c3 committed_store_applied assms(3))
  show ?thesis
  proof (cases rule: raft_applier.apply_entry_cases [of e1 c3 t])
    case (ran s as n st)
    have "tb_users (c_db (snd (apply_entry (NewRaftApplier t) e1 c3))) = tb_users s"
      by (simp add: ran(3) mark_applied_def clear_apply_err_def set_applied_def)
    also have "\<dots> = tb_users (snd (NewRaftApplier t e1 (committed_store e1 c)))"
      by (simp add: ran(2) c3 with_audit_def)
    finally show ?thesis
      using go ran(3) by (intro exI [of _ "audit_proposed e1 (snd (apply_entry (NewRaftApplier t) e1 c3))"] exI [of _ w1]) simp
  qed (use fresh assms(4) in \<open>simp_all add: recorded_def passed_def c3\<close>)
qed

lemma user_entry_takes_effect:
  assumes "prevails rpc order c" and "vacant u (c_db c)" and "BuildEntryUserCreate now u = Inr e"
    and "HasAppliedEvent (le_event_id e) (c_db c) = Inr False"
  shows "\<exists>c1 w1. Propose rpc (Some (NewRaftApplier t)) (order # orders) background e (c, w) = (Inr (), c1, w1)
    \<and> tb_users (c_db c1) = tb_users (c_db c) @ [user_row (account t u)]"
proof -
  let ?e = "e\<lparr>le_term := c_term c, le_index := nextIndex (c_log c)\<rparr>"
  have "vacant u (committed_store ?e c)" using assms(2) by (simp add: vacant_def)
  note run = built_user [OF assms(3), of t "committed_store ?e c", unfolded vacant_created [OF this]]
  then have "passed ?e (fst (NewRaftApplier t ?e (committed_store ?e c)))" by (simp add: passed_def)
  from entry_takes_effect [OF assms(1,4) refl this, of orders background w] show ?thesis using run by simp
qed

section \<open>Logging in at a replica\<close>

lemma token_made: "(\<And>cl. ok (jwt_sign lib cl)) \<Longrightarrow> \<exists>token. GenerateToken lib now u = Inr token"
proof -
  assume "\<And>cl. ok (jwt_sign lib cl)"
  then have "ok (GenerateToken lib now u)" by (simp add: GenerateToken_def)
  then show ?thesis by (cases "GenerateToken lib now u") simp_all
qed

lemma login_with_password:
  assumes "decode_body (rq_body r) = Some ms" and "str_field ''username'' ms = Some name"
    and "str_field ''password'' ms = Some password" and "GetUserByUsername name (c_db f) = Inr u"
    and "pw_check (api_pw api) password (u_password_hash u)" and "GenerateToken (api_lib api) now u = Inr token"
  shows "fst (handleLogin api now r (f, w)) = reply_json 200 (json_map [(''user'', json_user u), (''token'', JStr token)])"
  using assms by (simp add: handleLogin_def with_body_def Authenticate_def)

lemma register_via_log:
  assumes "Option.bind (decode_body (rq_body r)) read_register = Some i" and "register_refusal api i (c_db c) = None"
    and "api_prop api = Some prop" and "c_role c = Leader"
    and "BuildEntryUserCreate now (register_user api i) = Inr e" and "prop e (c, w) = (Inr (), cw1)"
    and "GetUserByUsername (ri_username i) (db_of cw1) = Inr u" and "GenerateToken (api_lib api) now u = Inr token"
  shows "rp_status (fst (handleRegister api now r (c, w))) = 201
    \<and> tb_users (db_of (snd (handleRegister api now r (c, w)))) = tb_users (db_of cw1)"
  using assms
  by (simp add: handleRegister_def with_body_def leading_def via_log_def propose_built_def registered_def reply_json_def
      audited_def RecordAudit_def AppendAudit_def register_user_def Let_def)

text \<open>
  C3. Who registers at the leader can log in at every node. When a leader that reaches a
  majority takes a registration that no row stands in the way of, the answer is 201; and at
  every node whose tables are then the leader's up to timestamps, the name and the password that were
  sent log in and yield a token for the user, whose id is the same at all of them.
\<close>

theorem registered_user_logs_in_everywhere:
  assumes "prevails rpc order c"
    and "api_prop api = Some (Propose rpc (Some (NewRaftApplier t)) (order # orders) background)"
    and "Option.bind (decode_body (rq_body r)) read_register = Some i" and "register_refusal api i (c_db c) = None"
    and "vacant (register_user api i) (c_db c)" and "BuildEntryUserCreate now (register_user api i) = Inr e"
    and "HasAppliedEvent (le_event_id e) (c_db c) = Inr False"
    and "\<And>h. pw_hash (api_pw api) (ri_password i) = Inr h \<Longrightarrow> pw_check (api_pw api) (ri_password i) h"
    and "\<And>cl. ok (jwt_sign (api_lib api) cl)" and "\<And>cl. ok (jwt_sign (api_lib api2) cl)"
    and "handleRegister api now r (c, w) = (resp, cw1)"
    and "erase (c_db f) = erase (db_of cw1)" and "api_pw api2 = api_pw api"
    and "decode_body (rq_body r2) = Some ms" and "str_field ''username'' ms = Some (ri_username i)"
    and "str_field ''password'' ms = Some (ri_password i)"
  shows "rp_status resp = 201
    \<and> (\<exists>u token. fst (handleLogin api2 later r2 (f, world)) = reply_json 200 (json_map [(''user'', json_user u), (''token'', JStr token)])
        \<and> u_id u = UserIDFromUsername (ri_username i) \<and> u_username u = ri_username i
        \<and> GenerateToken (api_lib api2) later u = Inr token)"
proof -
  let ?u = "register_user api i"
  obtain h where h: "pw_hash (api_pw api) (ri_password i) = Inr h"
    using assms(4) by (auto simp: register_refusal_def split: sum.splits if_splits)
  then have check: "pw_check (api_pw api2) (ri_password i) (u_password_hash ?u)"
    using assms(8,13) by (simp add: register_user_def)
  have name: "u_username ?u = ri_username i" by (simp add: register_user_def)
  obtain c1 w1 where run: "Propose rpc (Some (NewRaftApplier t)) (order # orders) background e (c, w) = (Inr (), c1, w1)"
    and users: "tb_users (c_db c1) = tb_users (c_db c) @ [user_row (account t ?u)]"
    using user_entry_takes_effect [OF assms(1,5-7), of t orders background w] by blast
  have found: "GetUserByUsername (ri_username i) s = Inr (account t ?u)" if "tb_users s = tb_users (c_db c1)" for s
    using created_found [OF assms(5), of s t] that users name by simp
  obtain token where "GenerateToken (api_lib api) now (account t ?u) = Inr token"
    using token_made [of "api_lib api"] assms(9) by blast
  then have reg: "rp_status resp = 201" "tb_users (db_of cw1) = tb_users (c_db c1)"
    using register_via_log [OF assms(3,4,2) prevailsD(1) [OF assms(1)] assms(6) run] found assms(11) by simp_all
  obtain v where v: "GetUserByUsername (ri_username i) (c_db f) = Inr v" "strip_user v = strip_user (account t ?u)"
    using query_strip [of "\<lambda>r. u_username r = ri_username i" "db_of cw1" "c_db f"] assms(12) found [OF reg(2)]
    by (auto simp: GetUserByUsername_def)
  have same: "u_id v = UserIDFromUsername (ri_username i)" "u_username v = ri_username i" "u_password_hash v = u_password_hash ?u"
    using name arg_cong [OF v(2), of u_id] arg_cong [OF v(2), of u_username] arg_cong [OF v(2), of u_password_hash]
    by (simp_all add: account_def)
  obtain token2 where "GenerateToken (api_lib api2) later v = Inr token2"
    using token_made [of "api_lib api2"] assms(10) by blast
  then show ?thesis
    using reg(1) same login_with_password [OF assms(14-16) v(1), of api2 later token2 world] check by auto
qed

section \<open>Names that differ in letter case\<close>

lemma twin_refused:
  assumes "u_id row = UserIDFromUsername (u_username u)" and "row \<in> set (tb_users s)"
    and "\<forall>row \<in> set (tb_users s). u_username row \<noteq> u_username u \<and> u_email row \<noteq> Some (u_email u)"
  shows "GetUserByUsername (u_username u) s = Inl ErrNoRows"
    and "apply_user_create t \<lparr>uc_username = u_username u, uc_email = u_email u, uc_password_hash = u_password_hash u,
      uc_id = [], uc_display_name = u_display_name u\<rparr> s = (Inl (ErrUnique ''users.id''), s)"
proof -
  have "find (\<lambda>r. u_username r = u_username u) (tb_users s) = None" "find (\<lambda>r. u_email r = Some (u_email u)) (tb_users s) = None"
    using assms(3) by (auto simp: find_None_iff)
  then have none: "GetUserByUsername (u_username u) s = Inl ErrNoRows" "email_owner (u_email u) s = None"
    by (simp_all add: GetUserByUsername_def email_owner_def GetUserByEmail_def query_user_def)
  have "taken u_id (UserIDFromUsername (u_username u)) (tb_users s)"
    using assms(1,2) by (metis taken_def image_eqI)
  moreover have "u_id (new_user [] a b c d) = []" "u_username (new_user [] a b c d) = a" for a b c d
    by (simp_all add: new_user_def)
  ultimately show "apply_user_create t \<lparr>uc_username = u_username u, uc_email = u_email u, uc_password_hash = u_password_hash u,
      uc_id = [], uc_display_name = u_display_name u\<rparr> s = (Inl (ErrUnique ''users.id''), s)"
    using none by (simp add: apply_user_create_def CreateUser_def Let_def user_conflict_def user_row_def)
  show "GetUserByUsername (u_username u) s = Inl ErrNoRows" by (rule none)
qed

text \<open>
  C40. The id of a user comes from the name in lower case, the test for a name that is taken
  looks at the letters as they are. So a registration whose name differs from that of a
  user in letter case only is proposed, its insertion fails for the id, the failure counts as one to
  ignore, and the answer is 201 with a token for a user without an id, while no user was
  added.
\<close>

theorem name_twin_registers_nobody:
  assumes "prevails rpc order c"
    and "api_prop api = Some (Propose rpc (Some (NewRaftApplier t)) (order # orders) background)"
    and "Option.bind (decode_body (rq_body r)) read_register = Some i" and "register_refusal api i (c_db c) = None"
    and "row \<in> set (tb_users (c_db c))" and "u_id row = UserIDFromUsername (ri_username i)"
    and "\<forall>row \<in> set (tb_users (c_db c)). u_username row \<noteq> ri_username i \<and> u_email row \<noteq> Some (ri_email i)"
    and "BuildEntryUserCreate now (register_user api i) = Inr e"
    and "HasAppliedEvent (le_event_id e) (c_db c) = Inr False" and "\<And>cl. ok (jwt_sign (api_lib api) cl)"
  shows "\<exists>u token cw1. handleRegister api now r (c, w)
      = (reply_json 201 (json_map [(''user'', json_user u), (''token'', JStr token)]), cw1)
    \<and> u_id u = [] \<and> GenerateToken (api_lib api) now u = Inr token \<and> tb_users (db_of cw1) = tb_users (c_db c)"
proof -
  let ?u = "register_user api i" and ?e = "e\<lparr>le_term := c_term c, le_index := nextIndex (c_log c)\<rparr>"
  have u: "u_username ?u = ri_username i" "u_email ?u = ri_email i" "u_id ?u = []" by (simp_all add: register_user_def)
  have rows: "u_id row = UserIDFromUsername (u_username ?u)" "row \<in> set (tb_users s)"
    "\<forall>row \<in> set (tb_users s). u_username row \<noteq> u_username ?u \<and> u_email row \<noteq> Some (u_email ?u)"
    if "tb_users s = tb_users (c_db c)" for s
    using assms(5-7) that by (simp_all add: u)
  note run = built_user [OF assms(8), of t "committed_store ?e c", unfolded twin_refused(2) [OF rows, OF users_frames(4) users_frames(4) users_frames(4)]]
  have "le_op e = OpUserCreate" using assms(8) built_D unfolding BuildEntryUserCreate_def by blast
  then have "passed ?e (fst (NewRaftApplier t ?e (committed_store ?e c)))"
    using run by (simp add: passed_def isIgnorableApplyError_def ignorable_ops_def is_unique_error_def)
  from entry_takes_effect [OF assms(1,9) refl this, of orders background w]
  have "\<exists>c1 w1. Propose rpc (Some (NewRaftApplier t)) (order # orders) background e (c, w) = (Inr (), c1, w1)
      \<and> tb_users (c_db c1) = tb_users (c_db c)" using run by simp
  then obtain c1 w1 where run1: "Propose rpc (Some (NewRaftApplier t)) (order # orders) background e (c, w) = (Inr (), c1, w1)"
    and users: "tb_users (c_db c1) = tb_users (c_db c)" by blast
  have none: "GetUserByUsername (ri_username i) (c_db c1) = Inl ErrNoRows"
    using twin_refused(1) [OF rows, OF users users users] by (simp add: u)
  obtain token where tok: "GenerateToken (api_lib api) now ?u = Inr token" using token_made [of "api_lib api"] assms(10) by blast
  have "\<exists>cw1. handleRegister api now r (c, w) = (reply_json 201 (json_map [(''user'', json_user ?u), (''token'', JStr token)]), cw1)
      \<and> tb_users (db_of cw1) = tb_users (c_db c1)"
    using assms(2-4,8) prevailsD(1) [OF assms(1)] run1 none tok u(1)
    by (simp add: handleRegister_def with_body_def leading_def via_log_def propose_built_def registered_def
        audited_def RecordAudit_def AppendAudit_def Let_def)
  then show ?thesis using u(3) tok users by auto
qed

section \<open>An example\<close>

definition journey_api :: "unit Api" where
  "journey_api = \<lparr>api_pw = sample_passwords, api_lib = \<lparr>jwt_sign = (\<lambda>cl. Inr (cl_username cl)), jwt_parse = (\<lambda>now t. None)\<rparr>,
     api_email = (\<lambda>e. e \<noteq> []),
     api_prop = Some (Propose only_b (Some (NewRaftApplier (unixTime 5))) [[''b'']] []), api_audit_token = []\<rparr>"

definition journey_user :: RegisterIn where
  "journey_user = \<lparr>ri_username = ''eva'', ri_password = ''pw'', ri_email = ''e@x'', ri_display = ''Eva'', ri_name = []\<rparr>"

definition journey_members :: members where
  "journey_members = [(''username'', JStr ''eva''), (''password'', JStr ''pw''), (''email'', JStr ''e@x''),
     (''display_name'', JStr ''Eva'')]"

abbreviation journey_request :: "string \<Rightarrow> Request" where
  "journey_request path \<equiv> sample_request path (JObj journey_members)"

definition journey_entry :: LogEntry where
  "journey_entry = (case BuildEntryUserCreate (unixTime 4) (register_user journey_api journey_user) of
     Inr e \<Rightarrow> e | Inl _ \<Rightarrow> delete_entry)"

text \<open>A follower with the tables of the leader after the registration\<close>

definition journey_follower :: Node where
  "journey_follower = (boot ''b'' [''a''])\<lparr>c_db :=
     db_of (snd (handleRegister journey_api (unixTime 4) (journey_request ''/register'') (three_leader, ())))\<rparr>"

lemma three_prevails: "prevails only_b [''b''] three_leader"
proof -
  have "c_role three_leader = Leader" "c_apply_err three_leader = None" "max_index (c_log three_leader) < max64"
    "0 \<le> max_index (c_log three_leader)" "c_commit three_leader = max_index (c_log three_leader)"
    "c_applied three_leader = max_index (c_log three_leader)"
    "distinct [''b'']" "set [''b''] \<subseteq> set (activePeers three_leader)"
    "majority (length (activePeers three_leader) + 1) \<le> length [''b''] + 1" by code_simp+
  moreover have "c_match three_leader pid = Some v \<Longrightarrow> v \<le> 0" for pid v
    by (auto simp: three_leader_def becomeLeader_def Let_def follow_def split: if_splits)
  moreover have "accepting only_b ''b''" by (simp add: accepting_def only_b_def)
  ultimately show ?thesis unfolding prevails_def by (auto intro: order_trans)
qed

theorem registered_user_logs_in_everywhere_witness:
  "rp_status (fst (handleRegister journey_api (unixTime 4) (journey_request ''/register'') (three_leader, ()))) = 201
   \<and> rp_status (fst (handleLogin journey_api (unixTime 9) (journey_request ''/login'') (journey_follower, ()))) = 200"
proof -
  note p = three_prevails
  have d: "decode_body (rq_body (journey_request path)) = Some journey_members" for path
    unfolding journey_members_def by (rule decode_sample) code_simp
  have reads: "read_register journey_members = Some journey_user" "str_field ''username'' journey_members = Some ''eva''"
    "str_field ''password'' journey_members = Some ''pw''" by code_simp+
  have free: "register_refusal journey_api journey_user (c_db three_leader) = None" "tb_users (c_db three_leader) = []"
    "BuildEntryUserCreate (unixTime 4) (register_user journey_api journey_user) = Inr journey_entry"
    "HasAppliedEvent (le_event_id journey_entry) (c_db three_leader) = Inr False" by code_simp+
  have v: "vacant (register_user journey_api journey_user) (c_db three_leader)"
    by (simp add: vacant_def free(2) user_conflict_def taken_def)
  have libs: "api_prop journey_api = Some (Propose only_b (Some (NewRaftApplier (unixTime 5))) [[''b'']] [])"
    "pw_hash (api_pw journey_api) x = Inr h \<Longrightarrow> pw_check (api_pw journey_api) x h" "ok (jwt_sign (api_lib journey_api) cl)" for x h cl
    by (auto simp: journey_api_def sample_passwords_def)
  have u: "ri_username journey_user = ''eva''" "ri_password journey_user = ''pw''" by (simp_all add: journey_user_def)
  obtain resp cw1 where reg: "handleRegister journey_api (unixTime 4) (journey_request ''/register'') (three_leader, ()) = (resp, cw1)"
    by (rule prod.exhaust)
  then have "erase (c_db journey_follower) = erase (db_of cw1)" by (simp add: journey_follower_def)
  from registered_user_logs_in_everywhere [OF p libs(1) _ free(1) v free(3,4) libs(2) libs(3) libs(3) reg this refl d [of "''/login''"]
      reads(2) [folded u(1)] reads(3) [folded u(2)], where later = "unixTime 9" and world = "()"]
  show ?thesis using d reads(1) reg by (auto simp: reply_json_def)
qed

text \<open>A leader that knows \<open>eva\<close>, and a registration of \<open>EVA\<close>\<close>

definition eva_row :: UserRow where
  "eva_row = user_row (account zeroTime (register_user journey_api journey_user))"

definition eva_leader :: Node where
  "eva_leader = three_leader\<lparr>c_db := (c_db three_leader)\<lparr>tb_users := [eva_row]\<rparr>\<rparr>"

definition twin_user :: RegisterIn where
  "twin_user = \<lparr>ri_username = ''EVA'', ri_password = ''pw'', ri_email = ''f@x'', ri_display = ''Eva'', ri_name = []\<rparr>"

definition twin_request :: Request where
  "twin_request = sample_request ''/register'' (JObj [(''username'', JStr ''EVA''), (''password'', JStr ''pw''),
     (''email'', JStr ''f@x''), (''display_name'', JStr ''Eva'')])"

definition twin_entry :: LogEntry where
  "twin_entry = (case BuildEntryUserCreate (unixTime 4) (register_user journey_api twin_user) of
     Inr e \<Rightarrow> e | Inl _ \<Rightarrow> delete_entry)"

theorem name_twin_registers_nobody_witness:
  "rp_status (fst (handleRegister journey_api (unixTime 4) twin_request (eva_leader, ()))) = 201
   \<and> tb_users (db_of (snd (handleRegister journey_api (unixTime 4) twin_request (eva_leader, ())))) = [eva_row]"
proof -
  have p: "prevails only_b [''b''] eva_leader"
    using three_prevails by (simp add: prevails_def eva_leader_def activePeers_def)
  have row: "u_username eva_row = ''eva''" "u_email eva_row = Some ''e@x''" "u_id eva_row = UserIDFromUsername ''eva''"
    by (simp_all add: eva_row_def user_row_def account_def register_user_def journey_user_def)
  have "ToLower (TrimSpace ''EVA'') = ToLower (TrimSpace ''eva'')" by code_simp
  then have id: "UserIDFromUsername ''EVA'' = UserIDFromUsername ''eva''" by (simp add: UserIDFromUsername_def stableID_def)
  let ?ms = "[(''username'', JStr ''EVA''), (''password'', JStr ''pw''), (''email'', JStr ''f@x''), (''display_name'', JStr ''Eva'')]"
  have "decode_body (rq_body twin_request) = Some ?ms" unfolding twin_request_def by (rule decode_sample) code_simp
  moreover have "read_register ?ms = Some twin_user" by code_simp
  ultimately have d: "Option.bind (decode_body (rq_body twin_request)) read_register = Some twin_user" by simp
  have db: "tb_users (c_db eva_leader) = [eva_row]" by (simp add: eva_leader_def)
  have built: "BuildEntryUserCreate (unixTime 4) (register_user journey_api twin_user) = Inr twin_entry"
    "HasAppliedEvent (le_event_id twin_entry) (c_db three_leader) = Inr False" by code_simp+
  then have fresh: "HasAppliedEvent (le_event_id twin_entry) (c_db eva_leader) = Inr False"
    using HasApplied_cong [of "c_db eva_leader" "c_db three_leader"] by (simp add: eva_leader_def)
  have "\<not> ok (GetUserByUsername ''EVA'' (c_db eva_leader))" "\<not> ok (GetUserByEmail ''f@x'' (c_db eva_leader))"
    using row by (simp_all add: GetUserByUsername_def GetUserByEmail_def query_user_def db)
  then have ref: "register_refusal journey_api twin_user (c_db eva_leader) = None"
    by (simp add: register_refusal_def twin_user_def journey_api_def sample_passwords_def)
  have libs: "api_prop journey_api = Some (Propose only_b (Some (NewRaftApplier (unixTime 5))) [[''b'']] [])"
    "ok (jwt_sign (api_lib journey_api) cl)" for cl
    by (simp_all add: journey_api_def)
  have rows: "eva_row \<in> set (tb_users (c_db eva_leader))" "u_id eva_row = UserIDFromUsername (ri_username twin_user)"
    "\<forall>row \<in> set (tb_users (c_db eva_leader)). u_username row \<noteq> ri_username twin_user \<and> u_email row \<noteq> Some (ri_email twin_user)"
    using row id by (simp_all add: db twin_user_def)
  from name_twin_registers_nobody [OF p libs(1) d ref rows built(1) fresh libs(2)]
  show ?thesis by (auto simp: reply_json_def db)
qed

end
