(* ===== verification/Spec2Isabelle.thy ===== *)
theory Spec2Isabelle
  imports ReplicaProps Server ApiProps AccessProps NetProps ReplayProps FaultProps RouterProps ServerProps
    ReignProps CatchUpProps AccountProps
begin

text \<open>
  A model of the distributed agenda, a server in Go with which users keep
  appointments, groups and invitations. Several nodes run the same program. Each has
  its own SQLite database; a log in the style of Raft carries the writes from the
  leader to the others, reconcilers pull the events that got lost, and browsers talk to
  any node over HTTP and a web socket.

  \<^bold>\<open>The parts and how they interact.\<close> A request enters through the routes of \<open>NewAPI\<close>
  (\<open>http_handlers_scaffold.go\<close>). A node that follows sends a write on to its leader
  (\<open>raft_http.go\<close>). The leader checks permissions with the services (\<open>services.go\<close>),
  builds an entry (\<open>domain_propose.go\<close>) and hands it to \<open>Propose\<close> (\<open>consensus.go\<close>), which
  appends it to the log in the database (\<open>storage.go\<close>), sends it to the peers as signed
  JSON, moves the commit index and runs the applier (\<open>raft_apply.go\<close>) on what is
  committed. The other nodes receive the entry in \<open>HandleAppendEntries\<close> and apply it when
  they learn the commit index. What happens is recorded for audit (\<open>audit.go\<close>). Discovery and heartbeats (\<open>discovery.go\<close>,
  \<open>heartbeat.go\<close>) keep the list of peers (\<open>peers.go\<close>). Four reconcilers
  (\<open>reconciler_*.go\<close>) compare their tables with the events the peers list.
  \<open>main\<close> (\<open>cmd/server/main.go\<close>) wires all of it and starts the goroutines.

  \<^bold>\<open>The language and its library.\<close>
  \<^item> \<open>Prelude\<close>: the collections of simplification rules and the lemmas on lists, options and
    sums that the theories share.
  \<^item> \<open>GoText\<close>, \<open>GoTime\<close>, \<open>Json\<close>: strings, integers and their text, times and their
    layouts, JSON values with the round trip \<open>jparse_jprint\<close>.
  \<^item> \<open>Ids\<close>, \<open>Hmac\<close>: the identifiers and signatures of \<open>utils.go\<close>, with SHA-1, SHA-256
    and HMAC on 32-bit words.

  \<^bold>\<open>Data and database.\<close>
  \<^item> \<open>Models\<close>: the structs and errors of \<open>models.go\<close> and \<open>errors.go\<close>, and the database as
    the record \<open>Store\<close> of tables.
  \<^item> \<open>Store\<close>, \<open>StoreAppts\<close>, \<open>StoreEvents\<close>: one definition per method of \<open>Storage\<close>
    (\<open>storage.go\<close>), constraints and transactions included.
  \<^item> \<open>StoreInv\<close>, \<open>StoreProps\<close>: every method keeps the unique constraints of the tables
    (locale \<open>preserved\<close>, interpreted on the applier);
    what creating, deleting, listing and testing for conflicts amount to.

  \<^bold>\<open>The log and what it means.\<close>
  \<^item> \<open>Payloads\<close>, \<open>Applier\<close>: the payload structs with both directions of their JSON
    (locale \<open>codec\<close>, interpreted for every payload), and \<open>NewRaftApplier\<close>.
  \<^item> \<open>Entries\<close>: the builders of \<open>domain_propose.go\<close>.
  \<^item> \<open>RaftLog\<close>: the log table; locale \<open>replicated_log\<close> is what the consensus relies on.
  \<^item> \<open>Consensus\<close>, \<open>Leader\<close>, \<open>ApplyLoop\<close>: \<open>consensus.go\<close>. A node is the record \<open>Node\<close>;
    the two RPC handlers and the commit index are in the first, heartbeats, replication,
    elections, proposals and the loop in the second, both with the audit records they write, and the locales \<open>applied_record\<close> and
    \<open>state_machine\<close>, which say what the application of entries needs, in the third.
  \<^item> \<open>ConsensusInv\<close>, \<open>ConsensusRun\<close>: the invariant \<open>node_ok\<close> and the step relation of one
    node. \<open>ConsensusProps\<close>, \<open>ReplicaProps\<close>, \<open>LivenessProps\<close>, \<open>FaultProps\<close>: votes, elections,
    replication, restart, progress with a majority, and where the code falls short of Raft.
  \<^item> \<open>Determinism\<close>, \<open>AgreeProps\<close>: a clock changes timestamps only, so replicas that apply the
    same log agree; \<open>erase\<close> forgets the timestamps and the tables a node fills on its own.
  \<^item> \<open>DenseLog\<close>, \<open>Reign\<close>, \<open>ReignInv\<close>, \<open>ReignProps\<close>: several nodes together under one leader.
    A \<open>reign_step\<close> is an operation of one of them; the abstract state is the leader's log,
    and every node's log and database refine a part of it.
  \<^item> \<open>CatchUp\<close>, \<open>CatchUpProps\<close>: a follower that is behind. A \<open>replication_round\<close> is
    what one message of the leader and its answer do to the next index of the leader and to
    the log of the follower; the follower holds the whole log of the leader after finitely many.
  \<^item> \<open>AccountProps\<close>: an account from the request that creates it, through the log and the
    application on another node, to a login there; and a name that is given twice.

  \<^bold>\<open>The nodes among each other.\<close>
  \<^item> \<open>Peers\<close>: \<open>peers.go\<close>, \<open>discovery.go\<close> and \<open>heartbeat.go\<close>; locale \<open>peer_store\<close>.
  \<^item> \<open>Wire\<close>, \<open>Http\<close>, \<open>ClusterHttp\<close>: requests and responses,
    tokens (\<open>auth.go\<close>), the middleware and the endpoints of \<open>raft_http.go\<close> and
    \<open>cluster_http.go\<close>, and the client side of the RPCs.
  \<^item> \<open>Reconcilers\<close>: one tick of each reconciler. \<open>NetProps\<close>, \<open>ReplayProps\<close>: the two ends of a
    message fit each other; entries do what was asked; repair repairs.

  \<^bold>\<open>The users.\<close>
  \<^item> \<open>Services\<close>, \<open>ApiAccounts\<close>, \<open>ApiGroups\<close>, \<open>ApiAppts\<close>: \<open>services.go\<close> and every handler of
    \<open>http_handlers_scaffold.go\<close>. \<open>Server\<close>: the routes, with the middleware of each.
  \<^item> \<open>WebSocket\<close>, \<open>SocketInv\<close>, \<open>SocketProps\<close>: \<open>websocket.go\<close> as moves of the goroutines of the
    connection manager, the two pumps of every connection and the handlers, in any order.
  \<^item> \<open>Router\<close>, \<open>RouterProps\<close>: the first router, \<open>handlers.go\<close>, and the rest of \<open>auth.go\<close>.
  \<^item> \<open>Writes\<close>, \<open>ProposeInv\<close>, \<open>ApiInv\<close>, \<open>ApiProps\<close>, \<open>AccessProps\<close>: the locale \<open>consensus\<close> is
    what handlers and reconcilers need of the interface \<open>Consensus\<close> of \<open>interfaces.go\<close>; every
    request keeps the node good; forwarding, tokens, privacy, permissions.
  \<^item> \<open>Startup\<close>, \<open>ServerInv\<close>, \<open>ServerProps\<close>: \<open>cmd/server/main.go\<close> and \<open>logging.go\<close>. A
    \<open>server_step\<close> is one move of any goroutine the server starts, on the state of the whole
    process; \<open>process_ok\<close> is its invariant. \<open>Samples\<close>: the concrete nodes of the witnesses.

  \<^bold>\<open>Modelling decisions.\<close>
  \<^item> Every operation reads the clock once, the parameter \<open>now\<close>; a reconciler reads it for each
    event, a node under a leader for each entry, and the field \<open>c_stamps\<close> of a node holds
    the time and the request id of each audit record its consensus module will write. The zone of the process is UTC, and a
    DATETIME column holds an instant.
  \<^item> Errors are values of \<open>error\<close>. Those of the database are violated constraints, missing
    rows and a NULL scanned into a string; the driver fails in no other way. A
    SELECT without ORDER BY yields the rows in the order of the table.
  \<^item> The goroutine that calls a peer is one atomic step. The list \<open>order\<close> gives the peers in
    the order in which their results arrive, and its end is the timeout; the calls still
    under way then are steps of their own (\<open>background\<close>). \<open>Propose\<close> and \<open>applyCommitted\<close> are
    atomic otherwise. The network is a function from peer, request and the state of the rest
    of the world, so it may lose, delay or forge whatever the statement does not exclude.
  \<^item> A string is its list of bytes; letter case and white space are those of ASCII. The text of
    a JSON decoding error is not modelled, nor is the content type of a response. The times
    put in a response are taken to lie in the years 0 to 9999.
  \<^item> bcrypt, the token library, the router library, \<open>net/mail\<close>, DNS, the HTTP client, the SQLite
    driver's way of opening a file and the results of a web socket's connection are parameters.
  \<^item> A handler that panics yields the response \<open>aborted\<close>; a panic in the connection manager,
    which ends the process, is \<open>None\<close>. A web socket is named by its place in the list of all
    connections. A pump drains its queue in the step that follows the receive. The
    messages a handler of the first router broadcasts are carried out in order after it.

  \<^bold>\<open>Bounds.\<close> \<open>replicate_peer\<close> and \<open>replicate_retry\<close> count down the five attempts and five rounds
  of the code, so no other fuel is needed; every other loop is structural. Indices and terms
  are integers kept within 64 bits by the invariants. A step of \<open>server_step\<close> therefore asks that the next
  index and term still fit, and that messages which carry a valid signature hold positive
  indices (\<open>honest\<close>). \<open>reign\<close> covers the time in which one node leads, its entries have new
  event ids and none of them fails to apply; the theories on faults show why
  these limits are needed.

  \<^bold>\<open>Not modelled.\<close> The lines written to the log files, which nothing reads back; the tickers that start a
  round; deadlines, read limits and pongs of web sockets; listening on a port and the static
  files under \<open>/ui/\<close>; the browser client and the scripts for deployment and tests, which
  are not Go.
\<close>

end
